(* ===== verification/Prelude.thy ===== *)
theory Prelude
  imports Complex_Main "HOL-Library.AList"
begin

section \<open>Prelude: exceptions, outcomes, dictionaries and runs\<close>

text \<open>
  What every component of the development shares.

  \<^item> \<open>exn\<close>: the exceptions the Python sources raise, one constructor per exception class with
    the message as its argument.
  \<^item> \<open>outcome\<close>: a call that may raise while it mutates \<open>self\<close>. The state is returned on
    both branches, because a Python method that raises keeps the mutations it made before.
  \<^item> dictionaries: a Python \<open>dict\<close> keeps its keys in insertion order, and several sources
    iterate over one, so a dict is an association list with distinct keys;
    \<open>d[k] = v\<close> is \<open>AList.update\<close>, \<open>del d[k]\<close> is \<open>AList.delete\<close>,
    \<open>d.get(k)\<close> is \<open>map_of\<close> and \<open>d.get(k, x)\<close> is \<open>get_default\<close>.
  \<^item> the locale \<open>step_machine\<close>: a component is a step function over its operations, and an
    invariant of one step is an invariant of every run. The components interpret it.
\<close>

named_theorems dict_simps \<open>lookups in and sums over updated dictionaries\<close>
named_theorems fl_simps \<open>double-precision operations on small integers\<close>
named_theorems codec_simps \<open>packing and unpacking of binary fields\<close>

datatype exn =
    ValueError string
  | RuntimeError string
  | KeyError string
  | TypeError string
  | StructError string
  | UnicodeError string
  | PortfolioError string
  | StoreError string
  | SimulationError string
  | HSMError string
  | FrozenInstanceError string
  | OverflowError string
  | ProgrammingError string
  | AttributeError string
  | ExporterError string
  | BackupError string
  | DeploymentError string
  | HealthError string
  | BindingError string
  | RotationError string
  | OSError string
  | JSONDecodeError string
  | IndexError string
  | EvidenceError string
  | ProvenanceError string
  | SystemExit string
  | TOMLDecodeError string

type_synonym ('s, 'a) outcome = "(exn + 'a) \<times> 's"

definition raised :: "exn + 'a \<Rightarrow> bool" where
  "raised r \<longleftrightarrow> (\<exists>e. r = Inl e)"

lemma raised_simps [simp]: "raised (Inl e)" "\<not> raised (Inr a)"
  by (simp_all add: raised_def)

lemma raised_code [code]: "raised r = isl r"
  by (cases r) simp_all

lemma not_raisedE:
  assumes "\<not> raised r"
  obtains a where "r = Inr a"
  using assms by (cases r) auto

subsection \<open>Insertion-ordered dictionaries\<close>

type_synonym ('k, 'v) dict = "('k \<times> 'v) list"

definition get_default :: "('k, 'v) dict \<Rightarrow> 'k \<Rightarrow> 'v \<Rightarrow> 'v" where
  "get_default d k x = (case map_of d k of None \<Rightarrow> x | Some v \<Rightarrow> v)"

abbreviation has_key :: "('k, 'v) dict \<Rightarrow> 'k \<Rightarrow> bool" where
  "has_key d k \<equiv> map_of d k \<noteq> None"

abbreviation wf_dict :: "('k, 'v) dict \<Rightarrow> bool" where
  "wf_dict d \<equiv> distinct (map fst d)"

lemma map_of_update [dict_simps]:
  "map_of (AList.update k v d) k' = (if k' = k then Some v else map_of d k')"
  by (simp add: update_conv')

lemma map_of_delete [dict_simps]:
  "map_of (AList.delete k d) k' = (if k' = k then None else map_of d k')"
  by (simp add: delete_conv')

lemma get_default_update [dict_simps]:
  "get_default (AList.update k v d) k' x = (if k' = k then v else get_default d k' x)"
  by (simp add: get_default_def dict_simps)

lemma get_default_delete [dict_simps]:
  "get_default (AList.delete k d) k' x = (if k' = k then x else get_default d k' x)"
  by (simp add: get_default_def dict_simps)

lemma get_default_Nil [simp]: "get_default [] k x = x"
  by (simp add: get_default_def)

lemma wf_dict_update [simp]: "wf_dict d \<Longrightarrow> wf_dict (AList.update k v d)"
  by (rule distinct_update)

lemma wf_dict_delete [simp]: "wf_dict d \<Longrightarrow> wf_dict (AList.delete k d)"
  by (rule distinct_delete)

lemma wf_dict_mem_iff: "wf_dict d \<Longrightarrow> (k, v) \<in> set d \<longleftrightarrow> map_of d k = Some v"
  by simp

text \<open>A dictionary is what the components use it for: a finite map with these laws.\<close>

locale dictionary =
  fixes empty_d :: "'d"
    and set_d :: "'k \<Rightarrow> 'v \<Rightarrow> 'd \<Rightarrow> 'd"
    and del_d :: "'k \<Rightarrow> 'd \<Rightarrow> 'd"
    and get_d :: "'d \<Rightarrow> 'k \<Rightarrow> 'v option"
    and ok_d :: "'d \<Rightarrow> bool"
  assumes get_empty: "get_d empty_d k = None"
    and get_set: "ok_d d \<Longrightarrow> get_d (set_d k v d) k' = (if k' = k then Some v else get_d d k')"
    and get_del: "ok_d d \<Longrightarrow> get_d (del_d k d) k' = (if k' = k then None else get_d d k')"
    and ok_empty: "ok_d empty_d"
    and ok_set: "ok_d d \<Longrightarrow> ok_d (set_d k v d)"
    and ok_del: "ok_d d \<Longrightarrow> ok_d (del_d k d)"
begin

lemma set_set: "ok_d d \<Longrightarrow> get_d (set_d k w (set_d k v d)) = get_d (set_d k w d)"
  by (auto simp: get_set ok_set fun_eq_iff)

lemma set_commute:
  "ok_d d \<Longrightarrow> k \<noteq> l \<Longrightarrow> get_d (set_d k v (set_d l w d)) = get_d (set_d l w (set_d k v d))"
  by (auto simp: get_set ok_set fun_eq_iff)

lemma del_set: "ok_d d \<Longrightarrow> get_d (del_d k (set_d k v d)) = get_d (del_d k d)"
  by (auto simp: get_set get_del ok_set fun_eq_iff)

end

interpretation alist: dictionary "[]" AList.update AList.delete map_of wf_dict
  by unfold_locales (simp_all add: dict_simps)

subsection \<open>Sums over the values of a dictionary\<close>

definition dict_sum :: "('v \<Rightarrow> 'a::comm_monoid_add) \<Rightarrow> ('k, 'v) dict \<Rightarrow> 'a" where
  "dict_sum f d = sum_list (map (\<lambda>kv. f (snd kv)) d)"

lemma dict_sum_Nil [simp]: "dict_sum f [] = 0"
  by (simp add: dict_sum_def)

lemma dict_sum_Cons [simp]: "dict_sum f ((k, v) # d) = f v + dict_sum f d"
  by (simp add: dict_sum_def)

lemma update_new_key: "k \<notin> fst ` set d \<Longrightarrow> AList.update k v d = d @ [(k, v)]"
  by (induction d) auto

lemma dict_sum_update_new:
  "map_of d k = None \<Longrightarrow> dict_sum f (AList.update k v d) = dict_sum f d + f v"
  by (induction d) (auto simp: add_ac split: if_splits)

lemma dict_sum_update:
  fixes f :: "'v \<Rightarrow> 'a::ab_group_add"
  assumes "map_of d k = Some u"
  shows "dict_sum f (AList.update k v d) = dict_sum f d - f u + f v"
  using assms by (induction d) (auto simp: algebra_simps split: if_splits)

lemma dict_sum_delete:
  fixes f :: "'v \<Rightarrow> 'a::ab_group_add"
  assumes "wf_dict d" and "map_of d k = Some u"
  shows "dict_sum f (AList.delete k d) = dict_sum f d - f u"
  using assms
proof (induction d)
  case (Cons kv d)
  obtain a b where kv: "kv = (a, b)" by fastforce
  show ?case
  proof (cases "a = k")
    case True
    then have "k \<notin> fst ` set d" using Cons.prems(1) by (simp add: kv)
    then have "AList.delete k d = d" by (rule delete_id)
    then show ?thesis using True Cons.prems(2) by (simp add: kv)
  next
    case False
    then show ?thesis using Cons by (simp add: kv algebra_simps)
  qed
qed simp

lemma dict_sum_nonneg:
  fixes f :: "'v \<Rightarrow> 'a::ordered_comm_monoid_add"
  shows "(\<And>v. v \<in> snd ` set d \<Longrightarrow> 0 \<le> f v) \<Longrightarrow> 0 \<le> dict_sum f d"
  unfolding dict_sum_def by (rule sum_list_nonneg) auto

lemma dict_sum_member_le:
  fixes f :: "'v \<Rightarrow> 'a::ordered_comm_monoid_add"
  assumes "\<And>v. 0 \<le> f v" and "map_of d k = Some u"
  shows "f u \<le> dict_sum f d"
  using assms(2)
proof (induction d)
  case (Cons kv d)
  have "0 \<le> dict_sum f d" using assms(1) by (simp add: dict_sum_nonneg)
  with Cons assms(1) show ?case
    by (cases kv) (auto intro: add_increasing add_increasing2 split: if_splits)
qed simp

subsection \<open>Runs of a component\<close>

text \<open>
  A component is a step function; a caller issues any sequence of operations. An invariant of one
  step holds after every run, and a measure that no step lowers is not lowered by a run.
\<close>

locale history_machine =
  fixes step :: "'s \<Rightarrow> 'o \<Rightarrow> 's"
    and hist :: "'o list \<Rightarrow> 's \<Rightarrow> bool"
  assumes step_hist: "hist h s \<Longrightarrow> hist (h @ [x]) (step s x)"
begin

lemma run_from: "hist h s \<Longrightarrow> hist (h @ xs) (foldl step s xs)"
  by (induction xs rule: rev_induct) (auto simp: step_hist simp flip: append_assoc)

lemma run_hist: "hist [] s \<Longrightarrow> hist xs (foldl step s xs)"
  using run_from [of "[]"] by simp

end

locale step_machine =
  fixes step :: "'s \<Rightarrow> 'o \<Rightarrow> 's"
    and inv :: "'s \<Rightarrow> bool"
  assumes step_inv: "inv s \<Longrightarrow> inv (step s x)"
begin

lemma run_inv: "inv s \<Longrightarrow> inv (foldl step s xs)"
  by (induction xs arbitrary: s) (simp_all add: step_inv)

lemma run_measure:
  fixes m :: "'s \<Rightarrow> 'm::preorder"
  assumes "\<And>s x. inv s \<Longrightarrow> m s \<le> m (step s x)" and "inv s"
  shows "m s \<le> m (foldl step s xs)"
  using assms(2)
proof (induction xs arbitrary: s)
  case (Cons x xs)
  from assms(1) [OF Cons.prems] Cons.IH [OF step_inv [OF Cons.prems]]
  show ?case by (simp, rule order_trans)
qed simp

lemma run_eq:
  assumes "\<And>s x. inv s \<Longrightarrow> g (step s x) = g s" and "inv s"
  shows "g (foldl step s xs) = g s"
  using assms(2) by (induction xs arbitrary: s) (simp_all add: assms(1) step_inv)

end

sublocale step_machine \<subseteq> history: history_machine step "\<lambda>_. inv"
  by unfold_locales (rule step_inv)

end
