(* ===== verification/Py_Float.thy ===== *)
theory Py_Float
  imports Prelude
begin

section \<open>Python floats: IEEE 754 double precision as rounded rationals\<close>

text \<open>
  A finite Python float is a rational, and CPython computes every float operation as the exact
  result rounded to the nearest double, ties to even. \<open>fl\<close> is that rounding (53 bits of
  significand, least exponent -1074, so subnormals included), and \<open>fadd\<close>, \<open>fsub\<close>,
  \<open>fmul\<close>, \<open>fdiv\<close>, \<open>fsqrt\<close> are the operations. \<open>fint\<close> is the conversion of an
  \<open>int\<close> operand, \<open>py_trunc\<close> is \<open>int(x)\<close>, \<open>py_round\<close> is \<open>round(x)\<close> and
  \<open>is_integer\<close> is \<open>x.is_integer()\<close>. Infinities, NaN and the sign of zero are not
  represented: the model is that of runs whose values stay below 2^1024.

  The components reason through the locale \<open>rounding\<close> (monotone, odd, idempotent, exact on
  integers up to 2^53), which \<open>fl\<close> interprets; none of them unfolds \<open>fl\<close>.
\<close>

subsection \<open>Definitions\<close>

function bit_length :: "int \<Rightarrow> int" where
  "bit_length n = (if n \<le> 0 then 0 else 1 + bit_length (n div 2))"
  by pat_completeness auto
termination
  by (relation "measure nat") auto

declare bit_length.simps [simp del]

text \<open>The binary exponent of a positive rational: \<open>2 powi e \<le> x < 2 powi (e + 1)\<close>.\<close>

definition ilog2 :: "rat \<Rightarrow> int" where
  "ilog2 x =
     (let (p, q) = quotient_of x;
          k = bit_length p - bit_length q
      in if 2 powi k \<le> x then k else k - 1)"

text \<open>Round to the nearest integer, ties to even: Python's \<open>round(x)\<close>.\<close>

definition py_round :: "rat \<Rightarrow> int" where
  "py_round x =
     (let f = \<lfloor>x\<rfloor>; d = x - of_int f
      in if d < 1 / 2 then f else if 1 / 2 < d then f + 1 else if even f then f else f + 1)"

definition fexp :: "rat \<Rightarrow> int" where
  "fexp x = max (ilog2 \<bar>x\<bar> - 52) (- 1074)"

definition fl :: "rat \<Rightarrow> rat" where
  "fl x = (if x = 0 then 0
           else of_int (py_round (x * 2 powi (- fexp x))) * 2 powi (fexp x))"

definition fint :: "int \<Rightarrow> rat" where
  "fint n = fl (of_int n)"

definition fadd :: "rat \<Rightarrow> rat \<Rightarrow> rat" where
  "fadd x y = fl (x + y)"

definition fsub :: "rat \<Rightarrow> rat \<Rightarrow> rat" where
  "fsub x y = fl (x - y)"

definition fmul :: "rat \<Rightarrow> rat \<Rightarrow> rat" where
  "fmul x y = fl (x * y)"

definition fdiv :: "rat \<Rightarrow> rat \<Rightarrow> rat" where
  "fdiv x y = fl (x / y)"

definition py_trunc :: "rat \<Rightarrow> int" where
  "py_trunc x = (if 0 \<le> x then \<lfloor>x\<rfloor> else \<lceil>x\<rceil>)"

text \<open>\<open>round(x, n)\<close> for \<open>n \<ge> 0\<close>: the nearest double to the decimal that \<open>x\<close> rounds to, ties to even.\<close>

definition round_digits :: "rat \<Rightarrow> nat \<Rightarrow> rat" where
  "round_digits x n = fl (of_int (py_round (x * 10 ^ n)) / 10 ^ n)"

definition is_integer :: "rat \<Rightarrow> bool" where
  "is_integer x \<longleftrightarrow> of_int \<lfloor>x\<rfloor> = x"

subsection \<open>Binary exponents\<close>

lemma bit_length_nonneg: "0 \<le> bit_length n"
  by (induction n rule: bit_length.induct) (subst bit_length.simps, simp)

lemma bit_length_rat:
  assumes "0 < p"
  shows "(2::rat) powi (bit_length p - 1) \<le> of_int p" and "(of_int p :: rat) < 2 powi bit_length p"
proof -
  have "(2::rat) powi (bit_length p - 1) \<le> of_int p \<and> (of_int p :: rat) < 2 powi bit_length p"
    using assms
  proof (induction p rule: bit_length.induct)
    case (1 p)
    have eq: "bit_length p = 1 + bit_length (p div 2)"
      using "1.prems" by (subst bit_length.simps) simp
    show ?case
    proof (cases "p div 2 \<le> 0")
      case True
      with "1.prems" have "p = 1" by auto
      then show ?thesis by (simp add: bit_length.simps)
    next
      case False
      with 1 have IH: "(2::rat) powi (bit_length (p div 2) - 1) \<le> of_int (p div 2)"
        "(of_int (p div 2) :: rat) < 2 powi bit_length (p div 2)" by auto
      have "(of_int (p div 2 * 2) :: rat) \<le> of_int p" "(of_int p :: rat) \<le> of_int (p div 2 * 2 + 1)"
        by (simp_all only: of_int_le_iff)
      then have p2: "(of_int (p div 2) :: rat) * 2 \<le> of_int p"
        "(of_int p :: rat) \<le> of_int (p div 2) * 2 + 1" by simp_all
      have "0 \<le> bit_length (p div 2)" by (rule bit_length_nonneg)
      then obtain k where k: "bit_length (p div 2) = int k" using zero_le_imp_eq_int by blast
      have "(of_int (p div 2) :: rat) < of_int (2 ^ k)" using IH(2) by (simp add: k)
      then have "p div 2 + 1 \<le> 2 ^ k" by (simp only: of_int_less_iff)
      then have "(of_int (p div 2 + 1) :: rat) \<le> of_int (2 ^ k)" by (simp only: of_int_le_iff)
      with IH(1) p2 show ?thesis
        by (simp add: eq k power_int_diff power_int_add del: numeral_power_le_of_int_cancel_iff)
    qed
  qed
  then show "(2::rat) powi (bit_length p - 1) \<le> of_int p" "(of_int p :: rat) < 2 powi bit_length p"
    by auto
qed

lemma ilog2_bounds:
  assumes "0 < x"
  shows "2 powi ilog2 x \<le> x" and "x < 2 powi (ilog2 x + 1)"
proof -
  obtain p q where pq: "quotient_of x = (p, q)" by fastforce
  have q: "0 < q" using pq by (rule quotient_of_denom_pos)
  have x: "x = of_int p / of_int q" using pq by (rule quotient_of_div)
  with assms q have p: "0 < p" by (simp add: zero_less_divide_iff)
  define a b where "a = bit_length p" and "b = bit_length q"
  have lo: "(2::rat) powi (a - 1) / 2 powi b \<le> x"
    unfolding x using bit_length_rat [OF p] bit_length_rat [OF q] p q
    by (intro frac_le) (auto simp: a_def b_def)
  have hi: "x < (2::rat) powi a / 2 powi (b - 1)"
    unfolding x using bit_length_rat [OF p] bit_length_rat [OF q] p q
    by (intro frac_less) (auto simp: a_def b_def)
  have "(2::rat) powi (a - 1) / 2 powi b = 2 powi (a - b - 1)"
    by (simp flip: power_int_diff add: algebra_simps)
  moreover have "(2::rat) powi a / 2 powi (b - 1) = 2 powi (a - b + 1)"
    by (simp flip: power_int_diff add: algebra_simps)
  ultimately have lh: "2 powi (a - b - 1) \<le> x" "x < 2 powi (a - b + 1)" using lo hi by auto
  have "ilog2 x = (if 2 powi (a - b) \<le> x then a - b else a - b - 1)"
    by (simp add: ilog2_def pq a_def b_def Let_def)
  with lh show "2 powi ilog2 x \<le> x" "x < 2 powi (ilog2 x + 1)"
    by (auto split: if_splits)
qed

lemma ilog2_mono: "0 < x \<Longrightarrow> x \<le> y \<Longrightarrow> ilog2 x \<le> ilog2 y"
proof (rule ccontr)
  assume xy: "0 < x" "x \<le> y" and "\<not> ilog2 x \<le> ilog2 y"
  then have "ilog2 y + 1 \<le> ilog2 x" by simp
  then have "(2::rat) powi (ilog2 y + 1) \<le> 2 powi ilog2 x" by (intro power_int_increasing) auto
  also have "\<dots> \<le> x" using xy ilog2_bounds by blast
  finally show False using ilog2_bounds(2) [of y] xy by auto
qed

subsection \<open>Rounding to an integer\<close>

lemma py_round_of_int [simp]: "py_round (of_int n) = n"
  by (simp add: py_round_def)

lemma py_round_bounds: "of_int (py_round x) - 1 / 2 \<le> x" "x \<le> of_int (py_round x) + 1 / 2"
  unfolding py_round_def Let_def by (auto split: if_splits) linarith+

lemma py_round_mono:
  assumes "x \<le> y"
  shows "py_round x \<le> py_round y"
proof (cases "\<lfloor>x\<rfloor> = \<lfloor>y\<rfloor>")
  case True
  with assms show ?thesis by (auto simp: py_round_def Let_def)
next
  case False
  then have "\<lfloor>x\<rfloor> + 1 \<le> \<lfloor>y\<rfloor>" using floor_mono [OF assms] by simp
  moreover have "py_round x \<le> \<lfloor>x\<rfloor> + 1" "\<lfloor>y\<rfloor> \<le> py_round y"
    by (auto simp: py_round_def Let_def)
  ultimately show ?thesis by simp
qed

lemma py_round_minus: "py_round (- x) = - py_round x"
proof (cases "x = of_int \<lfloor>x\<rfloor>")
  case True
  then obtain n where n: "x = of_int n" by blast
  have "py_round (of_int (- n)) = - py_round (of_int n)" by (simp only: py_round_of_int)
  then show ?thesis by (simp add: n)
next
  case False
  then have "\<lfloor>- x\<rfloor> = - \<lfloor>x\<rfloor> - 1" by (simp add: floor_minus ceiling_altdef)
  then show ?thesis unfolding py_round_def Let_def by (auto simp: field_simps) presburger+
qed

subsection \<open>Rounding to a double\<close>

lemma fl_0 [simp]: "fl 0 = 0"
  by (simp add: fl_def)

lemma fexp_minus [simp]: "fexp (- x) = fexp x"
  by (simp add: fexp_def)

lemma fl_minus: "fl (- x) = - fl x"
  by (simp add: fl_def py_round_minus)

lemma scaled_le_iff: "x * 2 powi (- e) \<le> y \<longleftrightarrow> x \<le> y * (2::rat) powi e"
  by (simp add: power_int_minus divide_simps)

lemma scaled_ge_iff: "y \<le> x * 2 powi (- e) \<longleftrightarrow> y * (2::rat) powi e \<le> x"
  by (simp add: power_int_minus divide_simps)

text \<open>The significand of a rounded positive value never exceeds 2^53, and reaches 2^52 in a normal binade.\<close>

lemma significand_upper:
  assumes "0 < x" and "ilog2 x - 52 \<le> e"
  shows "py_round (x * 2 powi (- e)) \<le> 2 ^ 53"
proof -
  have "x \<le> 2 powi (ilog2 x + 1)" using ilog2_bounds [OF assms(1)] by simp
  also have "\<dots> \<le> (2::rat) powi (53 + e)" using assms(2) by (intro power_int_increasing) auto
  also have "\<dots> = of_int (2 ^ 53) * 2 powi e" by (simp add: power_int_add)
  finally have "x * 2 powi (- e) \<le> of_int (2 ^ 53)" by (simp only: scaled_le_iff)
  from py_round_mono [OF this] show ?thesis by (simp only: py_round_of_int)
qed

lemma significand_lower:
  assumes "0 < x"
  shows "2 ^ 52 \<le> py_round (x * 2 powi (- (ilog2 x - 52)))"
proof -
  have "of_int (2 ^ 52) * (2::rat) powi (ilog2 x - 52) = 2 powi ilog2 x"
    by (simp flip: power_int_add add: power_int_diff)
  also have "\<dots> \<le> x" using ilog2_bounds [OF assms] by simp
  finally have "of_int (2 ^ 52) \<le> x * 2 powi (- (ilog2 x - 52))"
    by (simp only: scaled_ge_iff)
  from py_round_mono [OF this] show ?thesis by (simp only: py_round_of_int)
qed

lemma fl_pos_mono:
  assumes "0 < x" and "x \<le> y"
  shows "fl x \<le> fl y"
proof -
  have y: "0 < y" using assms by simp
  have ilog: "ilog2 x \<le> ilog2 y" using assms by (rule ilog2_mono)
  have flx: "fl x = of_int (py_round (x * 2 powi (- fexp x))) * 2 powi (fexp x)"
    and fly: "fl y = of_int (py_round (y * 2 powi (- fexp y))) * 2 powi (fexp y)"
    using assms y by (simp_all add: fl_def)
  show ?thesis
  proof (cases "fexp x = fexp y")
    case True
    have "py_round (x * 2 powi (- fexp y)) \<le> py_round (y * 2 powi (- fexp y))"
      using assms by (intro py_round_mono mult_right_mono) auto
    then show ?thesis unfolding flx fly True by (intro mult_right_mono) auto
  next
    case False
    with ilog assms y have less: "fexp x + 1 \<le> fexp y" and fy: "fexp y = ilog2 y - 52"
      by (auto simp: fexp_def max_def split: if_splits)
    have "py_round (x * 2 powi (- fexp x)) \<le> 2 ^ 53"
      using assms by (intro significand_upper) (auto simp: fexp_def)
    then have "of_int (py_round (x * 2 powi (- fexp x))) \<le> (of_int (2 ^ 53) :: rat)"
      by (simp only: of_int_le_iff)
    then have "fl x \<le> of_int (2 ^ 53) * 2 powi (fexp x)"
      unfolding flx by (intro mult_right_mono) auto
    also have "\<dots> = of_int (2 ^ 52) * (2::rat) powi (fexp x + 1)" by (simp add: power_int_add)
    also have "\<dots> \<le> of_int (2 ^ 52) * (2::rat) powi (fexp y)"
      using less by (intro mult_left_mono power_int_increasing) auto
    also have "\<dots> \<le> fl y"
    proof -
      have "2 ^ 52 \<le> py_round (y * 2 powi (- fexp y))"
        using significand_lower [OF y] by (simp only: fy)
      then have "(of_int (2 ^ 52) :: rat) \<le> of_int (py_round (y * 2 powi (- fexp y)))"
        by (simp only: of_int_le_iff)
      then show ?thesis unfolding fly by (intro mult_right_mono) auto
    qed
    finally show ?thesis .
  qed
qed

lemma fl_nonneg: "0 \<le> x \<Longrightarrow> 0 \<le> fl x"
proof (cases "x = 0")
  case False
  assume "0 \<le> x"
  with False have "py_round (of_int 0) \<le> py_round (x * 2 powi (- fexp x))"
    by (intro py_round_mono) auto
  then show ?thesis using False by (simp add: fl_def py_round_of_int [of 0, simplified])
qed simp

lemma fl_mono:
  assumes "x \<le> y"
  shows "fl x \<le> fl y"
proof -
  consider "0 < x" | "x \<le> 0" "0 \<le> y" | "y < 0" using assms by fastforce
  then show ?thesis
  proof cases
    case 1 then show ?thesis using assms by (rule fl_pos_mono)
  next
    case 2 then show ?thesis using fl_nonneg [of y] fl_nonneg [of "- x"] by (simp add: fl_minus)
  next
    case 3 then show ?thesis using assms fl_pos_mono [of "- y" "- x"] by (simp add: fl_minus)
  qed
qed

text \<open>A multiple of \<open>2 powi e\<close> with a 53-bit significand is a double.\<close>

lemma fl_exact_scaled:
  assumes "\<bar>m\<bar> \<le> 2 ^ 53" and "- 1074 \<le> e"
  shows "fl (of_int m * 2 powi e) = of_int m * 2 powi e"
proof (cases "m = 0")
  case False
  let ?x = "of_int m * (2::rat) powi e"
  have ax: "\<bar>?x\<bar> = of_int \<bar>m\<bar> * 2 powi e" by (simp add: abs_mult)
  show ?thesis
  proof (cases "fexp ?x \<le> e")
    case True
    define f where "f = fexp ?x"
    then obtain k where k: "e = f + int k" using True by (metis zle_iff_zadd)
    have p: "(2::rat) powi e = 2 ^ k * 2 powi f" by (simp add: k power_int_add)
    have "?x * 2 powi (- f) = of_int (m * 2 ^ k)" by (simp add: p power_int_minus)
    then have "py_round (?x * 2 powi (- f)) = m * 2 ^ k" by (simp only: py_round_of_int)
    then show ?thesis using False by (simp add: fl_def flip: f_def) (simp add: p)
  next
    case False2: False
    have pos: "0 < \<bar>?x\<bar>" using False by simp
    have "e + 1 \<le> fexp ?x" using False2 by simp
    then have "e + 53 \<le> ilog2 \<bar>?x\<bar>" using assms(2) by (auto simp: fexp_def max_def split: if_splits)
    then have "(2::rat) powi (e + 53) \<le> 2 powi ilog2 \<bar>?x\<bar>" by (intro power_int_increasing) auto
    also have "\<dots> \<le> \<bar>?x\<bar>" using ilog2_bounds [OF pos] by simp
    finally have "2 ^ 53 \<le> \<bar>m\<bar>"
      unfolding ax by (simp add: power_int_add mult.commute)
    with assms(1) have m53: "\<bar>m\<bar> = 2 ^ 53" by simp
    have "ilog2 \<bar>?x\<bar> \<le> e + 53"
    proof (rule ccontr)
      assume "\<not> ?thesis"
      then have "(2::rat) powi (e + 54) \<le> 2 powi ilog2 \<bar>?x\<bar>" by (intro power_int_increasing) auto
      also have "\<dots> \<le> \<bar>?x\<bar>" using ilog2_bounds [OF pos] by simp
      finally show False unfolding ax m53 by (simp add: power_int_add)
    qed
    with \<open>e + 1 \<le> fexp ?x\<close> assms(2) have fe: "fexp ?x = e + 1" by (auto simp: fexp_def max_def)
    obtain s :: int where s: "m = s * 2 ^ 53" "\<bar>s\<bar> = 1"
      using m53 by (metis abs_minus_cancel abs_one abs_if minus_mult_left mult_1 minus_equation_iff)
    define f where "f = fexp ?x"
    have p: "2 * (2::rat) powi e = 2 powi f" by (simp add: f_def fe power_int_add)
    have x: "?x = of_int (s * 2 ^ 52) * 2 powi f" by (simp add: s flip: p)
    then have "?x * 2 powi (- f) = of_int (s * 2 ^ 52)" by (simp add: power_int_minus)
    then have r: "py_round (?x * 2 powi (- f)) = s * 2 ^ 52" by (simp only: py_round_of_int)
    have "fl ?x = of_int (py_round (?x * 2 powi (- f))) * 2 powi f"
      using False by (simp add: fl_def flip: f_def)
    also have "\<dots> = ?x" unfolding r by (rule x [symmetric])
    finally show ?thesis .
  qed
qed simp

lemma fl_idem: "fl (fl x) = fl x"
proof -
  have pos: "fl (fl x) = fl x" if "0 < x" for x
  proof -
    have "py_round (of_int 0) \<le> py_round (x * 2 powi (- fexp x))"
      using that by (intro py_round_mono) simp
    moreover have "py_round (x * 2 powi (- fexp x)) \<le> 2 ^ 53"
      using that by (intro significand_upper) (auto simp: fexp_def)
    ultimately have "fl (of_int (py_round (x * 2 powi (- fexp x))) * 2 powi (fexp x)) =
        of_int (py_round (x * 2 powi (- fexp x))) * 2 powi (fexp x)"
      using py_round_of_int [of 0] by (intro fl_exact_scaled) (auto simp: fexp_def)
    then show ?thesis using that by (simp add: fl_def [of x])
  qed
  consider "0 < x" | "x = 0" | "0 < - x" by linarith
  then show ?thesis
  proof cases
    case 3
    from pos [OF this] show ?thesis by (simp add: fl_minus)
  qed (simp_all add: pos)
qed

lemma fl_of_int: "\<bar>n\<bar> \<le> 2 ^ 53 \<Longrightarrow> fl (of_int n) = of_int n"
  using fl_exact_scaled [of n 0] by simp

subsection \<open>What the components use of rounding\<close>

locale rounding =
  fixes rnd :: "rat \<Rightarrow> rat"
  assumes rnd_mono: "x \<le> y \<Longrightarrow> rnd x \<le> rnd y"
    and rnd_minus: "rnd (- x) = - rnd x"
    and rnd_idem: "rnd (rnd x) = rnd x"
    and rnd_int: "\<bar>n\<bar> \<le> 2 ^ 53 \<Longrightarrow> rnd (of_int n) = of_int n"
begin

lemma rnd_0 [simp]: "rnd 0 = 0"
  using rnd_int [of 0] by simp

lemma rnd_nonneg: "0 \<le> x \<Longrightarrow> 0 \<le> rnd x"
  using rnd_mono [of 0 x] by simp

lemma rnd_nonpos: "x \<le> 0 \<Longrightarrow> rnd x \<le> 0"
  using rnd_mono [of x 0] by simp

lemma rnd_ge_int: "\<bar>n\<bar> \<le> 2 ^ 53 \<Longrightarrow> of_int n \<le> x \<Longrightarrow> of_int n \<le> rnd x"
  using rnd_mono [of "of_int n" x] by (simp add: rnd_int)

lemma rnd_le_int: "\<bar>n\<bar> \<le> 2 ^ 53 \<Longrightarrow> x \<le> of_int n \<Longrightarrow> rnd x \<le> of_int n"
  using rnd_mono [of x "of_int n"] by (simp add: rnd_int)

text \<open>
  The weighted average of a running price and a new price, computed with one rounding per
  operation, stays between integer bounds of the two prices.
\<close>

lemma rnd_weighted_average:
  fixes n q p lo hi :: int and avg :: rat
  assumes "0 \<le> n" "0 < q" "0 \<le> lo" "lo \<le> p" "p \<le> hi" "of_int lo \<le> avg" "avg \<le> of_int hi"
    and small: "(n + q) * hi \<le> 2 ^ 53" "n + q \<le> 2 ^ 53" "hi \<le> 2 ^ 53"
  shows "of_int lo \<le> rnd (rnd (rnd (of_int n * avg) + of_int (q * p)) / of_int (n + q))"
    and "rnd (rnd (rnd (of_int n * avg) + of_int (q * p)) / of_int (n + q)) \<le> of_int hi"
proof -
  have hi0: "0 \<le> hi" and lohi: "lo \<le> hi" using assms by auto
  have nhi: "n * hi \<le> 2 ^ 53" 
    using small(1) mult_nonneg_nonneg [of q hi] assms(2) hi0 unfolding distrib_right by linarith
  have nlo: "n * lo \<le> n * hi" and nqlo: "(n + q) * lo \<le> (n + q) * hi"
    using assms lohi by (auto intro: mult_left_mono)
  have "0 \<le> n * lo" "0 \<le> (n + q) * lo" "0 \<le> n * hi" "0 \<le> (n + q) * hi"
    using assms hi0 by auto
  note bounds = this nhi nlo nqlo small
  have pos: "(0::rat) < of_int (n + q)" using assms by simp
  have "of_int (n * lo) \<le> rnd (of_int n * avg)"
    using assms bounds by (intro rnd_ge_int) (auto intro: mult_left_mono)
  moreover have "of_int (q * lo) \<le> (of_int (q * p) :: rat)"
    using assms by (simp only: of_int_le_iff) (simp add: mult_left_mono)
  ultimately have "of_int ((n + q) * lo) \<le> rnd (of_int n * avg) + of_int (q * p)"
    by (simp add: distrib_right)
  then have "of_int ((n + q) * lo) \<le> rnd (rnd (of_int n * avg) + of_int (q * p))"
    using bounds by (intro rnd_ge_int) auto
  then have "of_int lo \<le> rnd (rnd (of_int n * avg) + of_int (q * p)) / of_int (n + q)"
    using pos by (simp add: pos_le_divide_eq mult.commute)
  then show "of_int lo \<le> rnd (rnd (rnd (of_int n * avg) + of_int (q * p)) / of_int (n + q))"
    using assms lohi by (intro rnd_ge_int) auto
  have "rnd (of_int n * avg) \<le> of_int (n * hi)"
    using assms bounds by (intro rnd_le_int) (auto intro: mult_left_mono)
  moreover have "(of_int (q * p) :: rat) \<le> of_int (q * hi)"
    using assms by (simp only: of_int_le_iff) (simp add: mult_left_mono)
  ultimately have "rnd (of_int n * avg) + of_int (q * p) \<le> of_int ((n + q) * hi)"
    by (simp add: distrib_right)
  then have "rnd (rnd (of_int n * avg) + of_int (q * p)) \<le> of_int ((n + q) * hi)"
    using bounds by (intro rnd_le_int) auto
  then have "rnd (rnd (of_int n * avg) + of_int (q * p)) / of_int (n + q) \<le> of_int hi"
    using pos by (simp add: pos_divide_le_eq mult.commute)
  then show "rnd (rnd (rnd (of_int n * avg) + of_int (q * p)) / of_int (n + q)) \<le> of_int hi"
    using assms hi0 by (intro rnd_le_int) auto
qed

end

interpretation dbl: rounding fl
  by unfold_locales (simp_all add: fl_mono fl_minus fl_idem fl_of_int)

lemmas fl_mono_intros = dbl.rnd_mono dbl.rnd_nonneg dbl.rnd_ge_int dbl.rnd_le_int

lemma fint_small [fl_simps]: "\<bar>n\<bar> \<le> 2 ^ 53 \<Longrightarrow> fint n = of_int n"
  by (simp add: fint_def dbl.rnd_int)

lemma fadd_int [fl_simps]: "\<bar>a + b\<bar> \<le> 2 ^ 53 \<Longrightarrow> fadd (of_int a) (of_int b) = of_int (a + b)"
  by (simp add: fadd_def dbl.rnd_int flip: of_int_add)

lemma fsub_int [fl_simps]: "\<bar>a - b\<bar> \<le> 2 ^ 53 \<Longrightarrow> fsub (of_int a) (of_int b) = of_int (a - b)"
  by (simp add: fsub_def dbl.rnd_int flip: of_int_diff)

lemma fmul_int [fl_simps]: "\<bar>a * b\<bar> \<le> 2 ^ 53 \<Longrightarrow> fmul (of_int a) (of_int b) = of_int (a * b)"
  by (simp add: fmul_def dbl.rnd_int flip: of_int_mult)

lemma fmul_0 [simp]: "fmul 0 x = 0" "fmul x 0 = 0"
  by (simp_all add: fmul_def)

lemma fmul_mono: "0 \<le> x \<Longrightarrow> a \<le> b \<Longrightarrow> fmul a x \<le> fmul b x"
  by (simp add: fmul_def fl_mono mult_right_mono)

lemma fmul_nonneg: "0 \<le> a \<Longrightarrow> 0 \<le> x \<Longrightarrow> 0 \<le> fmul a x"
  by (simp add: fmul_def dbl.rnd_nonneg)

lemma fadd_nonneg: "0 \<le> a \<Longrightarrow> 0 \<le> b \<Longrightarrow> 0 \<le> fadd a b"
  by (simp add: fadd_def dbl.rnd_nonneg)

lemma py_trunc_of_int [simp]: "py_trunc (of_int n) = n"
  by (simp add: py_trunc_def)

lemma is_integer_of_int [simp]: "is_integer (of_int n)"
  by (simp add: is_integer_def)

lemma is_integer_round: "is_integer x \<Longrightarrow> of_int (py_round x) = x"
  by (metis is_integer_def py_round_of_int)

lemma py_trunc_bounds: "0 \<le> x \<Longrightarrow> 0 \<le> py_trunc x \<and> of_int (py_trunc x) \<le> x"
  by (simp add: py_trunc_def)

subsection \<open>Correctly rounded square root\<close>

text \<open>
  \<open>math.sqrt\<close> of a non-negative float. The significand is the integer square root of the scaled
  argument, rounded to nearest by comparing with the square of the midpoint.
\<close>

function isqrt :: "int \<Rightarrow> int" where
  "isqrt n = (if n \<le> 0 then 0
     else let r = 2 * isqrt (n div 4) in if (r + 1) * (r + 1) \<le> n then r + 1 else r)"
  by pat_completeness auto
termination
  by (relation "measure nat") auto

declare isqrt.simps [simp del]

definition sqrt_significand :: "rat \<Rightarrow> int" where
  "sqrt_significand y =
     (let s = isqrt \<lfloor>y\<rfloor>; h = (of_int s + 1 / 2) ^ 2
      in if y < h then s else if h < y then s + 1 else if even s then s else s + 1)"

definition fsqrt :: "rat \<Rightarrow> rat" where
  "fsqrt x = (if x \<le> 0 then 0
     else let e = max (ilog2 x div 2 - 52) (- 1074)
          in of_int (sqrt_significand (x * 2 powi (- 2 * e))) * 2 powi e)"

lemma isqrt_bounds:
  "0 \<le> n \<Longrightarrow> 0 \<le> isqrt n \<and> isqrt n * isqrt n \<le> n \<and> n < (isqrt n + 1) * (isqrt n + 1)"
proof (induction n rule: isqrt.induct)
  case (1 n)
  show ?case
  proof (cases "n \<le> 0")
    case False
    define r where "r = isqrt (n div 4)"
    have IH: "0 \<le> r" "r * r \<le> n div 4" "n div 4 < (r + 1) * (r + 1)"
      using 1 False by (auto simp: r_def)
    have n: "n = 4 * (n div 4) + n mod 4" "n mod 4 < 4" "0 \<le> n mod 4" by auto
    have eq: "isqrt n = (if (2 * r + 1) * (2 * r + 1) \<le> n then 2 * r + 1 else 2 * r)"
      using False by (subst isqrt.simps) (simp add: r_def Let_def)
    have lo: "2 * r * (2 * r) \<le> n" using IH(2) n by (simp add: algebra_simps)
    have hi: "n < (2 * r + 2) * (2 * r + 2)"
      using IH(3) n by (simp add: algebra_simps)
    show ?thesis using IH(1) lo hi by (auto simp: eq algebra_simps)
  qed (use "1.prems" in \<open>simp add: isqrt.simps\<close>)
qed

lemma sqrt_significand_nearest:
  assumes "0 \<le> y"
  shows "0 \<le> sqrt_significand y"
    and "y \<le> (of_int (sqrt_significand y) + 1 / 2) ^ 2"
    and "0 < sqrt_significand y \<Longrightarrow> (of_int (sqrt_significand y) - 1 / 2) ^ 2 \<le> y"
proof -
  define s where "s = isqrt \<lfloor>y\<rfloor>"
  have b: "0 \<le> s" "s * s \<le> \<lfloor>y\<rfloor>" "\<lfloor>y\<rfloor> < (s + 1) * (s + 1)"
    using isqrt_bounds [of "\<lfloor>y\<rfloor>"] assms by (auto simp: s_def)
  have lo: "(of_int s)\<^sup>2 \<le> y"
    using b(2) by (simp add: le_floor_iff power2_eq_square)
  have hi: "y < (of_int s + 1)\<^sup>2"
    using b(3) by (simp add: floor_less_iff power2_eq_square)
  note s0 = b(1)
  have e: "sqrt_significand y = (if y < (of_int s + 1 / 2)\<^sup>2 then s
      else if (of_int s + 1 / 2)\<^sup>2 < y then s + 1 else if even s then s else s + 1)"
    by (simp add: sqrt_significand_def Let_def flip: s_def)
  show "0 \<le> sqrt_significand y" using s0 by (simp add: e)
  have sq: "(of_int s + 1 :: rat)\<^sup>2 \<le> (of_int s + 3 / 2)\<^sup>2" using s0 by (intro power_mono) auto
  show "y \<le> (of_int (sqrt_significand y) + 1 / 2) ^ 2"
    using hi sq by (auto simp: e add.assoc)
  assume pos: "0 < sqrt_significand y"
  have sm: "(of_int s - 1 / 2 :: rat)\<^sup>2 \<le> y" if "0 < s"
  proof -
    have "1 \<le> s" using that by simp
    then have "(1::rat) \<le> of_int s" by simp
    then have "(of_int s - 1 / 2 :: rat)\<^sup>2 \<le> (of_int s)\<^sup>2" by (intro power_mono) auto
    with lo show ?thesis by simp
  qed
  show "(of_int (sqrt_significand y) - 1 / 2) ^ 2 \<le> y"
    using lo pos sm s0 by (auto simp: e add.commute split: if_splits)
qed

lemma fsqrt_nonneg: "0 \<le> fsqrt x"
  using sqrt_significand_nearest(1) by (auto simp: fsqrt_def Let_def)

lemma fsqrt_0 [simp]: "fsqrt 0 = 0"
  by (simp add: fsqrt_def)

end
