(* ===== verification/Factor_Model.thy ===== *)
theory Factor_Model
  imports Py_Float
begin

section \<open>Factor risk model (python/portfolio/portfolio.py, class FactorModel)\<close>

text \<open>
  \<open>calculate_variance\<close> accumulates factor exposures, the factor term and the specific term with
  one float rounding per operation, in the order of the loops of the source. A float literal
  \<open>2.3263\<close> of the source is \<open>fl (23263 / 10000)\<close>. Reading \<open>factor_exposures[f]\<close> cannot raise:
  the dictionary is created with every factor as a key.
\<close>

record factor_model =
  fm_factors :: "string list"
  fm_loadings :: "(int, (string, rat) dict) dict"
  fm_covariance_matrix :: "(string, (string, rat) dict) dict"
  fm_specific_variance :: "(int, rat) dict"

definition zero_exposures :: "factor_model \<Rightarrow> (string, rat) dict" where
  "zero_exposures m = foldl (\<lambda>d f. AList.update f 0 d) [] (fm_factors m)"

definition add_exposure :: "rat \<Rightarrow> (string, rat) dict \<Rightarrow> (string, rat) dict \<Rightarrow> string
    \<Rightarrow> (string, rat) dict" where
  "add_exposure notional inst_loadings d f =
     AList.update f (fadd (get_default d f 0) (fmul notional (get_default inst_loadings f 0))) d"

definition factor_exposures :: "factor_model \<Rightarrow> (int, rat) dict \<Rightarrow> (string, rat) dict" where
  "factor_exposures m notionals =
     foldl (\<lambda>d (iid, notional).
        foldl (add_exposure notional (get_default (fm_loadings m) iid [])) d (fm_factors m))
      (zero_exposures m) notionals"

definition variance_row :: "factor_model \<Rightarrow> (string, rat) dict \<Rightarrow> rat \<Rightarrow> string \<Rightarrow> rat" where
  "variance_row m exposures acc f1 =
     (let exp1 = get_default exposures f1 0
      in if exp1 = 0 then acc
         else let row = get_default (fm_covariance_matrix m) f1 []
              in foldl (\<lambda>acc f2.
                   let exp2 = get_default exposures f2 0
                   in if exp2 = 0 then acc
                      else fadd acc (fmul (fmul exp1 exp2) (get_default row f2 0)))
                 acc (fm_factors m))"

definition factor_variance :: "factor_model \<Rightarrow> (string, rat) dict \<Rightarrow> rat" where
  "factor_variance m exposures = foldl (variance_row m exposures) 0 (fm_factors m)"

definition add_specific :: "factor_model \<Rightarrow> rat \<Rightarrow> int \<times> rat \<Rightarrow> rat" where
  "add_specific m acc entry =
     (let (iid, notional) = entry; var_eps = get_default (fm_specific_variance m) iid 0
      in if 0 < var_eps \<and> notional \<noteq> 0
         then fadd acc (fmul (fmul notional notional) var_eps) else acc)"

definition specific_term :: "factor_model \<Rightarrow> (int, rat) dict \<Rightarrow> rat" where
  "specific_term m notionals = foldl (add_specific m) 0 notionals"

definition calculate_variance :: "factor_model \<Rightarrow> (int, rat) dict \<Rightarrow> rat" where
  "calculate_variance m notionals =
     max 0 (fadd (factor_variance m (factor_exposures m notionals)) (specific_term m notionals))"

definition default_confidence :: rat where
  "default_confidence = fl (99 / 100)"

definition parametric_var :: "factor_model \<Rightarrow> (int, rat) dict \<Rightarrow> rat \<Rightarrow> rat" where
  "parametric_var m notionals confidence =
     (let z = (if fl (99 / 100) \<le> confidence then fl (23263 / 10000)
               else if fl (95 / 100) \<le> confidence then fl (16449 / 10000)
               else fl (12816 / 10000))
      in fmul z (fsqrt (calculate_variance m notionals)))"

definition expected_shortfall :: "factor_model \<Rightarrow> (int, rat) dict \<Rightarrow> rat \<Rightarrow> rat" where
  "expected_shortfall m notionals confidence =
     (let es_factor = (if fl (99 / 100) \<le> confidence then fl (2665 / 1000)
                       else if fl (95 / 100) \<le> confidence then fl (2063 / 1000)
                       else fl (1755 / 1000))
      in fmul es_factor (fsqrt (calculate_variance m notionals)))"

subsection \<open>Lemmas\<close>

lemma calculate_variance_nonneg: "0 \<le> calculate_variance m notionals"
  by (simp add: calculate_variance_def)

lemma add_specific_nonneg: "0 \<le> acc \<Longrightarrow> 0 \<le> add_specific m acc entry"
  by (simp add: add_specific_def Let_def split_beta fadd_def fmul_def dbl.rnd_nonneg)

interpretation specific_loop: step_machine "add_specific m" "\<lambda>acc. 0 \<le> acc" for m
  by unfold_locales (rule add_specific_nonneg)

lemma specific_term_nonneg: "0 \<le> specific_term m notionals"
  by (simp add: specific_term_def specific_loop.run_inv)

text \<open>A portfolio with no exposure carries no factor risk, whatever the covariances are.\<close>

definition no_exposure :: "(string, rat) dict \<Rightarrow> bool" where
  "no_exposure d \<longleftrightarrow> (\<forall>f. get_default d f 0 = 0)"

interpretation zero_loop: step_machine "\<lambda>d f. AList.update f 0 d" no_exposure
  by unfold_locales (simp add: no_exposure_def dict_simps)

interpretation flat_loop: step_machine "add_exposure 0 l" no_exposure for l
  by unfold_locales (simp add: no_exposure_def add_exposure_def dict_simps fadd_def)

lemma flat_exposures:
  assumes "\<forall>e \<in> set notionals. snd e = 0"
  shows "no_exposure (factor_exposures m notionals)"
proof -
  have "no_exposure (foldl (\<lambda>d (iid, notional).
      foldl (add_exposure notional (get_default (fm_loadings m) iid [])) d (fm_factors m)) d notionals)"
    if "no_exposure d" for d
    using assms that by (induction notionals arbitrary: d) (auto simp: flat_loop.run_inv)
  moreover have "no_exposure (zero_exposures m)"
    unfolding zero_exposures_def by (rule zero_loop.run_inv) (simp add: no_exposure_def)
  ultimately show ?thesis by (simp add: factor_exposures_def)
qed

lemma factor_variance_flat: "no_exposure d \<Longrightarrow> factor_variance m d = 0"
proof -
  assume "no_exposure d"
  then have "foldl (variance_row m d) a fs = a" for a fs
    by (induction fs) (simp_all add: variance_row_def no_exposure_def)
  then show ?thesis by (simp add: factor_variance_def)
qed

lemma specific_term_flat: "\<forall>e \<in> set notionals. snd e = 0 \<Longrightarrow> specific_term m notionals = 0"
  unfolding specific_term_def by (induction notionals) (auto simp: add_specific_def)

lemma flat_variance:
  assumes "\<forall>e \<in> set notionals. snd e = 0"
  shows "calculate_variance m notionals = 0"
  using factor_variance_flat [OF flat_exposures [OF assms]] specific_term_flat [OF assms]
  by (simp add: calculate_variance_def fadd_def)

lemma var_nonneg: "0 \<le> parametric_var m notionals c"
  unfolding parametric_var_def Let_def
  by (auto intro!: fmul_nonneg fsqrt_nonneg dbl.rnd_nonneg)

lemma var_le_es: "parametric_var m notionals c \<le> expected_shortfall m notionals c"
  unfolding parametric_var_def expected_shortfall_def Let_def
  by (auto intro!: fmul_mono fsqrt_nonneg fl_mono)

end
