(* ===== verification/Py_Str.thy ===== *)
theory Py_Str
  imports Prelude
begin

section \<open>Python strings: decimal conversion, strip, split, justify\<close>

text \<open>
  A Python \<open>str\<close> whose code points are below 256 is a \<^typ>\<open>string\<close>. \<open>str_of_int\<close> is
  \<open>str(n)\<close> (and an \<open>int\<close> in an f-string), \<open>int_of_str\<close> is \<open>int(s)\<close> with \<open>None\<close> for its
  \<open>ValueError\<close>: surrounding white space, a sign, and single underscores between digits are
  accepted, as CPython accepts them. \<open>strip_by\<close>, \<open>split_on\<close> and \<open>ljust\<close> are the methods of
  the same names. The round trip \<open>int(str(n)) = n\<close> and the injectivity of \<open>str\<close> on integers are
  what the message formats and the string-keyed dictionaries of the sources rely on.
\<close>

subsection \<open>Characters\<close>

definition is_space :: "char \<Rightarrow> bool" where
  "is_space c \<longleftrightarrow> of_char c \<in> {9, 10, 11, 12, 13, 28, 29, 30, 31, 32, 133, 160 :: int}"

definition digit_char :: "int \<Rightarrow> char" where
  "digit_char d = char_of (48 + d)"

definition digit_value :: "char \<Rightarrow> int option" where
  "digit_value c = (let v = of_char c - 48 in if 0 \<le> v \<and> v < 10 then Some v else None)"

definition to_lower :: "char \<Rightarrow> char" where
  "to_lower c = (let v = (of_char c :: int) in
     if 65 \<le> v \<and> v \<le> 90 \<or> 192 \<le> v \<and> v \<le> 222 \<and> v \<noteq> 215 then char_of (v + 32) else c)"

definition py_lower :: "string \<Rightarrow> string" where
  "py_lower s = map to_lower s"

subsection \<open>Strip, split and justify\<close>

definition strip_by :: "('a \<Rightarrow> bool) \<Rightarrow> 'a list \<Rightarrow> 'a list" where
  "strip_by p s = rev (dropWhile p (rev (dropWhile p s)))"

abbreviation py_strip :: "string \<Rightarrow> string" where
  "py_strip \<equiv> strip_by is_space"

definition ljust :: "nat \<Rightarrow> 'a \<Rightarrow> 'a list \<Rightarrow> 'a list" where
  "ljust n pad s = s @ replicate (n - length s) pad"

fun split_on :: "'a \<Rightarrow> 'a list \<Rightarrow> 'a list list" where
  "split_on sep [] = [[]]"
| "split_on sep (c # s) =
     (if c = sep then [] # split_on sep s
      else (case split_on sep s of [] \<Rightarrow> [[c]] | w # ws \<Rightarrow> (c # w) # ws))"

lemma split_on_nonempty [simp]: "split_on sep s \<noteq> []"
  by (cases s) (auto split: list.splits)

lemma split_on_no_sep: "sep \<notin> set s \<Longrightarrow> split_on sep s = [s]"
  by (induction s) auto

lemma split_on_append:
  "sep \<notin> set s \<Longrightarrow> split_on sep (s @ sep # t) = s # split_on sep t"
  by (induction s) auto

lemma dropWhile_hd: "s = [] \<or> \<not> p (hd s) \<Longrightarrow> dropWhile p s = s"
  by (cases s) auto

lemma strip_by_pad:
  assumes "p pad" and "s = [] \<or> (\<not> p (hd s) \<and> \<not> p (last s))"
  shows "strip_by p (s @ replicate n pad) = s"
proof (cases "s = []")
  case True
  with assms(1) show ?thesis by (simp add: strip_by_def dropWhile_eq_Nil_conv)
next
  case False
  then have 1: "dropWhile p (s @ replicate n pad) = s @ replicate n pad"
    using assms by (intro dropWhile_hd) simp
  have "dropWhile p (rev s) = rev s"
    using assms False by (intro dropWhile_hd) (simp add: hd_rev)
  then have "dropWhile p (replicate n pad @ rev s) = rev s"
    using assms(1) by (subst dropWhile_append2) auto
  then show ?thesis by (simp add: strip_by_def 1)
qed

lemma strip_by_id:
  assumes "s = [] \<or> (\<not> p (hd s) \<and> \<not> p (last s))"
  shows "strip_by p s = s"
  using assms by (auto simp: strip_by_def dropWhile_hd hd_rev)

subsection \<open>Decimal integers\<close>

function str_of_nonneg :: "int \<Rightarrow> string" where
  "str_of_nonneg n =
     (if n < 10 then [digit_char n] else str_of_nonneg (n div 10) @ [digit_char (n mod 10)])"
  by pat_completeness auto
termination
  by (relation "measure nat") auto

declare str_of_nonneg.simps [simp del]

definition str_of_int :: "int \<Rightarrow> string" where
  "str_of_int n = (if n < 0 then CHR ''-'' # str_of_nonneg (- n) else str_of_nonneg n)"

fun scan_digits :: "int \<Rightarrow> bool \<Rightarrow> string \<Rightarrow> int option" where
  "scan_digits acc prev [] = (if prev then Some acc else None)"
| "scan_digits acc prev (c # s) =
     (case digit_value c of
        Some d \<Rightarrow> scan_digits (acc * 10 + d) True s
      | None \<Rightarrow> if c = CHR ''_'' \<and> prev then scan_digits acc False s else None)"

definition int_of_str :: "string \<Rightarrow> int option" where
  "int_of_str s =
     (case py_strip s of
        [] \<Rightarrow> None
      | c # t \<Rightarrow> if c = CHR ''-'' then map_option uminus (scan_digits 0 False t)
                 else if c = CHR ''+'' then scan_digits 0 False t
                 else scan_digits 0 False (c # t))"

lemma of_char_digit: "0 \<le> d \<Longrightarrow> d < 10 \<Longrightarrow> of_char (digit_char d) = 48 + d"
  by (simp add: digit_char_def)

lemma digit_value_char: "0 \<le> d \<Longrightarrow> d < 10 \<Longrightarrow> digit_value (digit_char d) = Some d"
  by (simp add: digit_value_def of_char_digit)

definition digit_chars :: "string \<Rightarrow> bool" where
  "digit_chars s \<longleftrightarrow> (\<forall>c \<in> set s. \<exists>d. 0 \<le> d \<and> d < 10 \<and> c = digit_char d)"

lemma str_of_nonneg_digits: "0 \<le> n \<Longrightarrow> digit_chars (str_of_nonneg n) \<and> str_of_nonneg n \<noteq> []"
proof (induction n rule: str_of_nonneg.induct)
  case (1 n)
  show ?case
  proof (cases "n < 10")
    case True
    with "1.prems" show ?thesis by (subst (1 2) str_of_nonneg.simps) (auto simp: digit_chars_def)
  next
    case False
    then have "digit_chars (str_of_nonneg (n div 10))" using 1 by simp
    moreover have "0 \<le> n mod 10" "n mod 10 < 10" by auto
    ultimately have "digit_chars (str_of_nonneg (n div 10) @ [digit_char (n mod 10)])"
      unfolding digit_chars_def by (metis Un_iff empty_iff empty_set set_ConsD set_append)
    with False show ?thesis by (subst (1 2) str_of_nonneg.simps) simp
  qed
qed

lemma scan_digits_append:
  "scan_digits acc prev s = Some v \<Longrightarrow> s \<noteq> [] \<Longrightarrow> digit_chars s \<Longrightarrow>
   scan_digits acc prev (s @ t) = scan_digits v True t"
proof (induction s arbitrary: acc prev)
  case (Cons c s)
  obtain d where "digit_value c = Some d"
    using Cons.prems(3) by (auto simp: digit_chars_def digit_value_char)
  moreover have "digit_chars s" using Cons.prems(3) by (simp add: digit_chars_def)
  ultimately show ?case using Cons by (cases "s = []") auto
qed simp

lemma scan_str_of_nonneg: "0 \<le> n \<Longrightarrow> scan_digits 0 b (str_of_nonneg n) = Some n"
proof (induction n rule: str_of_nonneg.induct)
  case (1 n)
  show ?case
  proof (cases "n < 10")
    case True
    with "1.prems" show ?thesis by (subst str_of_nonneg.simps) (simp add: digit_value_char)
  next
    case False
    with 1 have "scan_digits 0 b (str_of_nonneg (n div 10)) = Some (n div 10)" by simp
    moreover have "digit_chars (str_of_nonneg (n div 10)) \<and> str_of_nonneg (n div 10) \<noteq> []"
      using "1.prems" by (simp add: str_of_nonneg_digits)
    ultimately show ?thesis using False
      by (subst str_of_nonneg.simps) (simp add: scan_digits_append digit_value_char)
  qed
qed

lemma digit_charsD:
  assumes "digit_chars s" and "c \<in> set s"
  shows "\<not> is_space c \<and> c \<noteq> CHR ''-'' \<and> c \<noteq> CHR ''+'' \<and> c \<noteq> CHR ''|''"
proof -
  obtain d where d: "0 \<le> d" "d < 10" and c: "c = digit_char d"
    using assms by (auto simp: digit_chars_def)
  then have "of_char c = 48 + d" by (simp add: of_char_digit)
  with d show ?thesis by (auto simp: is_space_def)
qed

lemma digit_chars_hd_last:
  assumes "digit_chars s" and "s \<noteq> []"
  shows "\<not> is_space (hd s)" "\<not> is_space (last s)" "hd s \<noteq> CHR ''-''" "hd s \<noteq> CHR ''+''"
  using digit_charsD [OF assms(1)] assms(2) by simp_all

lemma str_of_int_no_bar: "CHR ''|'' \<notin> set (str_of_int n)"
proof -
  have "digit_chars (str_of_nonneg \<bar>n\<bar>)" using str_of_nonneg_digits [of "\<bar>n\<bar>"] by simp
  from digit_charsD [OF this, of "CHR ''|''"] have "CHR ''|'' \<notin> set (str_of_nonneg \<bar>n\<bar>)" by blast
  then show ?thesis by (cases "n < 0") (simp_all add: str_of_int_def)
qed

lemma str_of_int_no_newline: "CHR 0x0A \<notin> set (str_of_int n)"
proof -
  have "digit_chars (str_of_nonneg \<bar>n\<bar>)" using str_of_nonneg_digits [of "\<bar>n\<bar>"] by simp
  moreover have "is_space (CHR 0x0A)" by (simp add: is_space_def)
  ultimately have "CHR 0x0A \<notin> set (str_of_nonneg \<bar>n\<bar>)" using digit_charsD [of _ "CHR 0x0A"] by blast
  then show ?thesis by (cases "n < 0") (simp_all add: str_of_int_def)
qed

lemma int_of_str_of_int [simp]: "int_of_str (str_of_int n) = Some n"
proof -
  have *: "digit_chars (str_of_nonneg \<bar>n\<bar>)" "str_of_nonneg \<bar>n\<bar> \<noteq> []"
    using str_of_nonneg_digits [of "\<bar>n\<bar>"] by auto
  then obtain c t where ct: "str_of_nonneg \<bar>n\<bar> = c # t" by (meson neq_Nil_conv)
  show ?thesis
  proof (cases "n < 0")
    case True
    then have e: "str_of_int n = CHR ''-'' # str_of_nonneg \<bar>n\<bar>" by (simp add: str_of_int_def)
    have "py_strip (str_of_int n) = str_of_int n"
      using digit_chars_hd_last [OF *] * by (intro strip_by_id) (simp add: e is_space_def)
    with True show ?thesis by (simp add: int_of_str_def e scan_str_of_nonneg)
  next
    case False
    then have e: "str_of_int n = str_of_nonneg \<bar>n\<bar>" by (simp add: str_of_int_def)
    have "py_strip (str_of_int n) = str_of_int n"
      using digit_chars_hd_last [OF *] by (intro strip_by_id) (simp add: e)
    moreover have "scan_digits 0 False (c # t) = Some n"
      using scan_str_of_nonneg [of "\<bar>n\<bar>" False] False by (simp only: ct) simp
    moreover have "c \<noteq> CHR ''-''" "c \<noteq> CHR ''+''" using digit_chars_hd_last [OF *] by (simp_all add: ct)
    ultimately show ?thesis by (simp add: int_of_str_def e ct)
  qed
qed

lemma str_of_int_inject [simp]: "str_of_int m = str_of_int n \<longleftrightarrow> m = n"
  by (metis int_of_str_of_int option.inject)

end
