(* ===== verification/Portfolio.thy ===== *)
theory Portfolio
  imports Factor_Model Py_Str
begin

section \<open>Portfolio accounting and pre-trade limits (python/portfolio/portfolio.py)\<close>

text \<open>
  The class \<open>Portfolio\<close> is the record \<open>portfolio\<close>; its dictionaries keep insertion order,
  because \<open>snapshot\<close> and \<open>validate_order\<close> add floats in that order. Every method returns an
  \<open>outcome\<close>: \<open>apply_fill\<close> and \<open>validate_order\<close> leave the \<open>Position()\<close> that
  \<open>setdefault\<close> created behind even when they refuse the order. The \<open>Position\<close> object a fill
  mutates is the one stored in \<open>self.positions\<close>; the model computes the new position and stores
  it. Built-in \<open>sum\<close> over floats is the compensated summation of CPython 3.12, the version the
  repository's CI runs.
\<close>

subsection \<open>Data\<close>

record instrument_spec =
  sp_instrument_id :: int
  sp_symbol :: string
  sp_tick_size :: rat
  sp_multiplier :: rat
  sp_base_currency :: string
  sp_maker_fee_bps :: rat
  sp_taker_fee_bps :: rat
  sp_clearing_fee_per_unit :: rat
  sp_borrow_fee_annual_bps :: rat
  sp_locate_required :: bool

definition default_spec :: "int \<Rightarrow> string \<Rightarrow> instrument_spec" where
  "default_spec iid symbol =
     \<lparr>sp_instrument_id = iid, sp_symbol = symbol, sp_tick_size = 1, sp_multiplier = 1,
      sp_base_currency = ''USD'', sp_maker_fee_bps = 0, sp_taker_fee_bps = 0,
      sp_clearing_fee_per_unit = 0, sp_borrow_fee_annual_bps = 0, sp_locate_required = False\<rparr>"

record quote_mark =
  qm_bid_ticks :: int
  qm_ask_ticks :: int
  qm_timestamp_ns :: int

definition mid_ticks :: "quote_mark \<Rightarrow> rat" where
  "mid_ticks q = fdiv (fint (qm_bid_ticks q + qm_ask_ticks q)) 2"

record position =
  pos_quantity :: int
  pos_average_price_ticks :: rat
  pos_realized_pnl_ticks :: rat
  pos_last_price_ticks :: int
  pos_fees_paid_ticks :: rat
  pos_fees_paid_cash :: rat
  pos_realized_pnl_cash :: rat
  pos_borrowed_quantity :: int

definition empty_position :: position where
  "empty_position =
     \<lparr>pos_quantity = 0, pos_average_price_ticks = 0, pos_realized_pnl_ticks = 0,
      pos_last_price_ticks = 0, pos_fees_paid_ticks = 0, pos_fees_paid_cash = 0,
      pos_realized_pnl_cash = 0, pos_borrowed_quantity = 0\<rparr>"

definition gross_quantity :: "position \<Rightarrow> int" where
  "gross_quantity p = \<bar>pos_quantity p\<bar>"

record portfolio_limits =
  max_net_position :: int
  max_gross_position :: int
  max_gross_notional_ticks :: int
  max_concentration_ticks :: int
  max_loss_ticks :: int
  allow_short :: bool
  max_gross_notional_cash :: "rat option"
  max_net_notional_cash :: "rat option"
  max_concentration_cash :: "rat option"
  max_loss_cash :: "rat option"
  require_locates :: bool
  max_expected_shortfall_cash :: "rat option"
  max_parametric_var_cash :: "rat option"

record portfolio =
  pf_limits :: portfolio_limits
  pf_specs :: "(int, instrument_spec) dict"
  pf_locates :: "(int, int) dict"
  pf_factor_model :: "factor_model option"
  pf_positions :: "(int, position) dict"

subsection \<open>Construction and lookups\<close>

definition portfolio_init :: "portfolio_limits \<Rightarrow> (int, instrument_spec) dict \<Rightarrow> (int, int) dict
    \<Rightarrow> factor_model option \<Rightarrow> exn + portfolio" where
  "portfolio_init limits specs locates model =
     (if min (min (max_net_position limits) (max_gross_position limits))
             (min (max_gross_notional_ticks limits) (max_concentration_ticks limits)) \<le> 0
         \<or> max_loss_ticks limits < 0
      then Inl (PortfolioError ''limits_invalid'')
      else Inr \<lparr>pf_limits = limits, pf_specs = specs, pf_locates = locates,
                pf_factor_model = model, pf_positions = []\<rparr>)"

definition get_spec :: "portfolio \<Rightarrow> int \<Rightarrow> instrument_spec" where
  "get_spec s iid = get_default (pf_specs s) iid (default_spec iid (str_of_int iid))"

definition register_locate :: "int \<Rightarrow> int \<Rightarrow> portfolio \<Rightarrow> (portfolio, unit) outcome" where
  "register_locate iid quantity s =
     (if iid \<le> 0 \<or> quantity \<le> 0 then (Inl (PortfolioError ''locate_invalid''), s)
      else (Inr (), s\<lparr>pf_locates :=
              AList.update iid (get_default (pf_locates s) iid 0 + quantity) (pf_locates s)\<rparr>))"

definition get_position :: "int \<Rightarrow> portfolio \<Rightarrow> (portfolio, position) outcome" where
  "get_position iid s =
     (if iid \<le> 0 then (Inl (PortfolioError ''instrument_invalid''), s)
      else case map_of (pf_positions s) iid of
             Some p \<Rightarrow> (Inr p, s)
           | None \<Rightarrow> (Inr empty_position,
                      s\<lparr>pf_positions := AList.update iid empty_position (pf_positions s)\<rparr>))"

subsection \<open>Fills\<close>

definition short_increase :: "int \<Rightarrow> int \<Rightarrow> int" where
  "short_increase held quantity =
     (let current_short = max 0 (- held); new_short = \<bar>min 0 (held - quantity)\<bar>
      in new_short - current_short)"

text \<open>The short-sale guard of \<open>apply_fill\<close>: the locates left, or the reason of the refusal.\<close>

definition check_short :: "portfolio \<Rightarrow> int \<Rightarrow> int \<Rightarrow> int \<Rightarrow> int \<Rightarrow> exn + (int, int) dict" where
  "check_short s iid held side quantity =
     (if side < 0 \<and> held - quantity < 0 then
        if \<not> allow_short (pf_limits s) then Inl (PortfolioError ''short_sale_disabled'')
        else if require_locates (pf_limits s) \<or> sp_locate_required (get_spec s iid) then
          let inc = short_increase held quantity;
              available = get_default (pf_locates s) iid 0
          in if available < inc then Inl (PortfolioError ''short_locate_insufficient'')
             else Inr (AList.update iid (available - inc) (pf_locates s))
        else Inr (pf_locates s)
      else Inr (pf_locates s))"

text \<open>Quantity, average price and realized profit of the position after the fill.\<close>

definition fill_quantity :: "instrument_spec \<Rightarrow> position \<Rightarrow> int \<Rightarrow> int \<Rightarrow> int \<Rightarrow> position" where
  "fill_quantity spec p side quantity price =
     (let signed_quantity = side * quantity;
          old_quantity = pos_quantity p;
          old_average = pos_average_price_ticks p
      in if old_quantity = 0 \<or> 0 < old_quantity \<and> 0 < signed_quantity
            \<or> old_quantity < 0 \<and> signed_quantity < 0
         then p\<lparr>pos_average_price_ticks :=
                   fdiv (fadd (fmul (fint \<bar>old_quantity\<bar>) old_average) (fint (quantity * price)))
                        (fint (\<bar>old_quantity\<bar> + quantity)),
                pos_quantity := old_quantity + signed_quantity\<rparr>
         else
           let closing_quantity = min \<bar>old_quantity\<bar> quantity;
               pnl_ticks = (if 0 < old_quantity
                            then fmul (fint closing_quantity) (fsub (fint price) old_average)
                            else fmul (fint closing_quantity) (fsub old_average (fint price)));
               new_quantity = old_quantity + signed_quantity
           in p\<lparr>pos_realized_pnl_ticks := fadd (pos_realized_pnl_ticks p) pnl_ticks,
                pos_realized_pnl_cash := fadd (pos_realized_pnl_cash p)
                   (fmul (fmul pnl_ticks (sp_tick_size spec)) (sp_multiplier spec)),
                pos_quantity := new_quantity,
                pos_average_price_ticks :=
                   (if new_quantity = 0 then 0
                    else if \<bar>old_quantity\<bar> < \<bar>signed_quantity\<bar> then fint price
                    else old_average)\<rparr>)"

definition fee_cash :: "instrument_spec \<Rightarrow> int \<Rightarrow> int \<Rightarrow> bool \<Rightarrow> rat" where
  "fee_cash spec quantity price is_taker =
     (let fee_bps = (if is_taker then sp_taker_fee_bps spec else sp_maker_fee_bps spec)
      in fadd (fmul (fmul (fmul (fint (quantity * price)) (sp_tick_size spec)) (sp_multiplier spec))
                    (fdiv fee_bps 10000))
              (fmul (fint quantity) (sp_clearing_fee_per_unit spec)))"

definition charge_fees :: "instrument_spec \<Rightarrow> int \<Rightarrow> int \<Rightarrow> bool \<Rightarrow> position \<Rightarrow> position" where
  "charge_fees spec quantity price is_taker p =
     (let cash = fee_cash spec quantity price is_taker;
          unit = fmul (sp_tick_size spec) (sp_multiplier spec);
          ticks = (if 0 < unit then fdiv cash unit else 0)
      in p\<lparr>pos_fees_paid_ticks := fadd (pos_fees_paid_ticks p) ticks,
           pos_fees_paid_cash := fadd (pos_fees_paid_cash p) cash\<rparr>)"

text \<open>\<open>int(round(x)) if float(x).is_integer() else x\<close>: a change of type, not of value.\<close>

definition as_int_if_integer :: "rat \<Rightarrow> rat" where
  "as_int_if_integer x = (if is_integer x then of_int (py_round x) else x)"

definition returned_position :: "position \<Rightarrow> position" where
  "returned_position p =
     p\<lparr>pos_average_price_ticks := as_int_if_integer (pos_average_price_ticks p),
       pos_realized_pnl_ticks := as_int_if_integer (pos_realized_pnl_ticks p)\<rparr>"

definition filled_position :: "instrument_spec \<Rightarrow> position \<Rightarrow> int \<Rightarrow> int \<Rightarrow> int \<Rightarrow> bool \<Rightarrow> position" where
  "filled_position spec p side quantity price is_taker =
     charge_fees spec quantity price is_taker
       ((fill_quantity spec p side quantity price)\<lparr>pos_last_price_ticks := price\<rparr>)"

definition apply_fill :: "int \<Rightarrow> int \<Rightarrow> int \<Rightarrow> int \<Rightarrow> bool \<Rightarrow> portfolio
    \<Rightarrow> (portfolio, position) outcome" where
  "apply_fill iid side quantity price is_taker s =
     (if side \<notin> {- 1, 1} \<or> quantity \<le> 0 \<or> price \<le> 0
      then (Inl (PortfolioError ''fill_invalid''), s)
      else case get_position iid s of
        (Inl e, s) \<Rightarrow> (Inl e, s)
      | (Inr p, s) \<Rightarrow>
          (case check_short s iid (pos_quantity p) side quantity of
             Inl e \<Rightarrow> (Inl e, s)
           | Inr locates \<Rightarrow>
               let p' = filled_position (get_spec s iid) p side quantity price is_taker
               in (Inr (returned_position p'),
                   s\<lparr>pf_locates := locates,
                     pf_positions := AList.update iid p' (pf_positions s)\<rparr>)))"

subsection \<open>Pre-trade validation\<close>

text \<open>CPython 3.12's \<open>sum\<close> of floats: Neumaier's compensated summation.\<close>

fun fsum_loop :: "rat \<Rightarrow> rat \<Rightarrow> rat list \<Rightarrow> rat" where
  "fsum_loop acc c [] = (if c = 0 then acc else fadd acc c)"
| "fsum_loop acc c (x # xs) =
     (let t = fadd acc x
      in fsum_loop t (fadd c (if \<bar>x\<bar> \<le> \<bar>acc\<bar> then fadd (fsub acc t) x else fadd (fsub x t) acc)) xs)"

definition py_fsum :: "rat list \<Rightarrow> rat" where
  "py_fsum xs = (case xs of [] \<Rightarrow> 0 | x # xs \<Rightarrow> fsum_loop (fadd 0 x) 0 xs)"

definition cash_notional :: "instrument_spec \<Rightarrow> int \<Rightarrow> int \<Rightarrow> rat" where
  "cash_notional spec quantity price =
     fmul (fmul (fint (quantity * price)) (sp_tick_size spec)) (sp_multiplier spec)"

definition projected_notionals_cash :: "portfolio \<Rightarrow> int \<Rightarrow> int \<Rightarrow> int \<Rightarrow> int \<Rightarrow> (int, rat) dict" where
  "projected_notionals_cash s iid side quantity price =
     map (\<lambda>(i, p). (i, cash_notional (get_spec s i)
                         (if i = iid then pos_quantity p + side * quantity else pos_quantity p)
                         (if i = iid then price else pos_last_price_ticks p)))
       (pf_positions s)"

definition exceeds :: "rat \<Rightarrow> rat option \<Rightarrow> bool" where
  "exceeds x limit = (case limit of None \<Rightarrow> False | Some l \<Rightarrow> l < x)"

definition cash_limit_reason :: "portfolio \<Rightarrow> (int, rat) dict \<Rightarrow> string option" where
  "cash_limit_reason s notionals =
     (if exceeds (py_fsum (map (\<lambda>e. \<bar>snd e\<bar>) notionals)) (max_gross_notional_cash (pf_limits s))
      then Some ''gross_notional_cash_limit''
      else case pf_factor_model s of
        None \<Rightarrow> None
      | Some m \<Rightarrow>
          if exceeds (expected_shortfall m notionals default_confidence)
               (max_expected_shortfall_cash (pf_limits s))
          then Some ''expected_shortfall_limit''
          else if exceeds (parametric_var m notionals default_confidence)
               (max_parametric_var_cash (pf_limits s))
          then Some ''parametric_var_limit''
          else None)"

definition current_net :: "portfolio \<Rightarrow> int" where
  "current_net s = dict_sum pos_quantity (pf_positions s)"

definition current_gross :: "portfolio \<Rightarrow> int" where
  "current_gross s = dict_sum gross_quantity (pf_positions s)"

definition current_notional :: "portfolio \<Rightarrow> int" where
  "current_notional s = dict_sum (\<lambda>p. gross_quantity p * pos_last_price_ticks p) (pf_positions s)"

definition limit_reason :: "portfolio \<Rightarrow> position \<Rightarrow> int \<Rightarrow> int \<Rightarrow> int \<Rightarrow> int \<Rightarrow> string option" where
  "limit_reason s current iid side quantity price =
     (let limits = pf_limits s;
          projected_net = current_net s + side * quantity;
          projected_quantity = \<bar>pos_quantity current + side * quantity\<bar>;
          projected_gross = current_gross s - gross_quantity current + projected_quantity;
          projected_notional = current_notional s
            - gross_quantity current * pos_last_price_ticks current + projected_quantity * price
      in if max_net_position limits < \<bar>projected_net\<bar> then Some ''net_position_limit''
         else if max_gross_position limits < projected_gross then Some ''gross_position_limit''
         else if max_gross_notional_ticks limits < projected_notional then Some ''gross_notional_limit''
         else if max_concentration_ticks limits < projected_quantity * price
         then Some ''concentration_limit''
         else if side < 0 \<and> pos_quantity current - quantity < 0 \<and> \<not> allow_short limits
         then Some ''short_sale_disabled''
         else if side < 0 \<and> pos_quantity current - quantity < 0
              \<and> (require_locates limits \<or> sp_locate_required (get_spec s iid))
              \<and> get_default (pf_locates s) iid 0 < short_increase (pos_quantity current) quantity
         then Some ''short_locate_insufficient''
         else cash_limit_reason s (projected_notionals_cash s iid side quantity price))"

definition validate_order :: "int \<Rightarrow> int \<Rightarrow> int \<Rightarrow> int \<Rightarrow> portfolio
    \<Rightarrow> (portfolio, bool \<times> string) outcome" where
  "validate_order iid side quantity price s =
     (if side \<notin> {- 1, 1} \<or> quantity \<le> 0 \<or> price \<le> 0 then (Inr (False, ''order_invalid''), s)
      else case get_position iid s of
        (Inl e, s) \<Rightarrow> (Inl e, s)
      | (Inr current, s) \<Rightarrow>
          (case limit_reason s current iid side quantity price of
             Some reason \<Rightarrow> (Inr (False, reason), s)
           | None \<Rightarrow> (Inr (True, ''approved''), s)))"

subsection \<open>Snapshots\<close>

datatype price_input = PriceTicks int | PriceQuote quote_mark

record snapshot_acc =
  sa_gross_notional :: int
  sa_realized_pnl :: rat
  sa_unrealized_pnl :: rat
  sa_concentration :: "(string, int) dict"
  sa_gross_notional_cash :: rat
  sa_net_notional_cash :: rat
  sa_realized_pnl_cash :: rat
  sa_unrealized_pnl_cash :: rat
  sa_total_fees_paid_cash :: rat
  sa_stale_positions :: "int list"
  sa_current_notionals_cash :: "(int, rat) dict"

record factor_metrics =
  portfolio_variance :: rat
  parametric_var_cash :: rat
  expected_shortfall_cash :: rat

record limits_breached =
  net_position_breached :: bool
  gross_position_breached :: bool
  gross_notional_breached :: bool
  concentration_breached :: bool
  loss_breached :: bool
  expected_shortfall_breached :: "bool option"
  parametric_var_breached :: "bool option"

record snapshot =
  sn_net_position :: int
  sn_gross_position :: int
  sn_gross_notional_ticks :: int
  sn_realized_pnl_ticks :: int
  sn_unrealized_pnl_ticks :: int
  sn_loss_ticks :: int
  sn_gross_notional_cash :: rat
  sn_net_notional_cash :: rat
  sn_realized_pnl_cash :: rat
  sn_unrealized_pnl_cash :: rat
  sn_total_fees_paid_cash :: rat
  sn_net_pnl_cash :: rat
  sn_stale_positions :: "int list"
  sn_limits_breached :: limits_breached
  sn_positions :: "(string, position) dict"
  sn_factor_metrics :: "factor_metrics option"

definition empty_acc :: snapshot_acc where
  "empty_acc =
     \<lparr>sa_gross_notional = 0, sa_realized_pnl = 0, sa_unrealized_pnl = 0, sa_concentration = [],
      sa_gross_notional_cash = 0, sa_net_notional_cash = 0, sa_realized_pnl_cash = 0,
      sa_unrealized_pnl_cash = 0, sa_total_fees_paid_cash = 0, sa_stale_positions = [],
      sa_current_notionals_cash = []\<rparr>"

definition is_stale :: "int option \<Rightarrow> int option \<Rightarrow> price_input \<Rightarrow> bool" where
  "is_stale now max_stale input =
     (case (now, max_stale, input) of
        (Some t, Some m, PriceQuote q) \<Rightarrow> m < t - qm_timestamp_ns q
      | _ \<Rightarrow> False)"

definition mark_value :: "string \<Rightarrow> int \<Rightarrow> price_input \<Rightarrow> rat" where
  "mark_value mark_method quantity input =
     (case input of
        PriceTicks t \<Rightarrow> fint t
      | PriceQuote q \<Rightarrow>
          if mark_method = ''mid'' then mid_ticks q
          else if mark_method = ''liquidation''
          then fint (if 0 \<le> quantity then qm_bid_ticks q else qm_ask_ticks q)
          else fint (if 0 < quantity then qm_ask_ticks q else qm_bid_ticks q))"

definition unrealized_ticks :: "position \<Rightarrow> rat \<Rightarrow> rat" where
  "unrealized_ticks p mark =
     (if 0 < pos_quantity p
      then fmul (fint (pos_quantity p)) (fsub mark (pos_average_price_ticks p))
      else if pos_quantity p < 0
      then fmul (fint \<bar>pos_quantity p\<bar>) (fsub (pos_average_price_ticks p) mark)
      else 0)"

definition snapshot_entry :: "portfolio \<Rightarrow> (int, price_input) dict \<Rightarrow> string \<Rightarrow> int option
    \<Rightarrow> int option \<Rightarrow> int \<Rightarrow> position \<Rightarrow> snapshot_acc \<Rightarrow> exn + snapshot_acc" where
  "snapshot_entry s marks mark_method now max_stale iid p a =
     (let spec = get_spec s iid;
          input = get_default marks iid (PriceTicks (pos_last_price_ticks p));
          mark = mark_value mark_method (pos_quantity p) input;
          notional = py_trunc (fmul (fint (gross_quantity p)) mark);
          unrealized = unrealized_ticks p mark;
          unit_value = fmul (sp_tick_size spec) (sp_multiplier spec);
          cash = fmul (fmul (fint (pos_quantity p)) mark) unit_value
      in if mark \<le> 0 \<and> pos_quantity p \<noteq> 0 then Inl (PortfolioError ''mark_invalid'')
         else Inr
           \<lparr>sa_gross_notional = sa_gross_notional a + notional,
            sa_realized_pnl = fadd (sa_realized_pnl a) (pos_realized_pnl_ticks p),
            sa_unrealized_pnl = fadd (sa_unrealized_pnl a) unrealized,
            sa_concentration = AList.update (str_of_int iid) notional (sa_concentration a),
            sa_gross_notional_cash = fadd (sa_gross_notional_cash a)
              (fmul (fmul (fint (gross_quantity p)) mark) unit_value),
            sa_net_notional_cash = fadd (sa_net_notional_cash a) cash,
            sa_realized_pnl_cash = fadd (sa_realized_pnl_cash a) (pos_realized_pnl_cash p),
            sa_unrealized_pnl_cash = fadd (sa_unrealized_pnl_cash a) (fmul unrealized unit_value),
            sa_total_fees_paid_cash = fadd (sa_total_fees_paid_cash a) (pos_fees_paid_cash p),
            sa_stale_positions = sa_stale_positions a
              @ (if is_stale now max_stale input then [iid] else []),
            sa_current_notionals_cash = AList.update iid cash (sa_current_notionals_cash a)\<rparr>)"

fun snapshot_loop :: "portfolio \<Rightarrow> (int, price_input) dict \<Rightarrow> string \<Rightarrow> int option
    \<Rightarrow> int option \<Rightarrow> (int, position) dict \<Rightarrow> snapshot_acc \<Rightarrow> exn + snapshot_acc" where
  "snapshot_loop s marks mark_method now max_stale [] a = Inr a"
| "snapshot_loop s marks mark_method now max_stale ((iid, p) # ps) a =
     (case snapshot_entry s marks mark_method now max_stale iid p a of
        Inl e \<Rightarrow> Inl e
      | Inr a \<Rightarrow> snapshot_loop s marks mark_method now max_stale ps a)"

definition max_default :: "int list \<Rightarrow> int \<Rightarrow> int" where
  "max_default xs x = (case xs of [] \<Rightarrow> x | y # ys \<Rightarrow> foldl max y ys)"

definition snapshot_metrics :: "portfolio \<Rightarrow> (int, rat) dict \<Rightarrow> factor_metrics option" where
  "snapshot_metrics s notionals =
     map_option (\<lambda>m. \<lparr>portfolio_variance = calculate_variance m notionals,
                      parametric_var_cash = parametric_var m notionals default_confidence,
                      expected_shortfall_cash = expected_shortfall m notionals default_confidence\<rparr>)
       (pf_factor_model s)"

definition breach_flags :: "portfolio \<Rightarrow> snapshot_acc \<Rightarrow> int \<Rightarrow> limits_breached" where
  "breach_flags s a loss_ticks =
     (let limits = pf_limits s; metrics = snapshot_metrics s (sa_current_notionals_cash a)
      in \<lparr>net_position_breached = max_net_position limits < \<bar>current_net s\<bar>,
          gross_position_breached = max_gross_position limits < current_gross s,
          gross_notional_breached = max_gross_notional_ticks limits < sa_gross_notional a,
          concentration_breached =
            max_concentration_ticks limits < max_default (map snd (sa_concentration a)) 0,
          loss_breached = max_loss_ticks limits < loss_ticks,
          expected_shortfall_breached =
            (case (metrics, max_expected_shortfall_cash limits) of
               (Some f, Some l) \<Rightarrow> Some (l < expected_shortfall_cash f) | _ \<Rightarrow> None),
          parametric_var_breached =
            (case (metrics, max_parametric_var_cash limits) of
               (Some f, Some l) \<Rightarrow> Some (l < parametric_var_cash f) | _ \<Rightarrow> None)\<rparr>)"

definition snapshot :: "portfolio \<Rightarrow> (int, price_input) dict \<Rightarrow> string \<Rightarrow> int option
    \<Rightarrow> int option \<Rightarrow> exn + snapshot" where
  "snapshot s marks mark_method now max_stale =
     (case snapshot_loop s marks mark_method now max_stale (pf_positions s) empty_acc of
        Inl e \<Rightarrow> Inl e
      | Inr a \<Rightarrow>
          let realized = py_round (sa_realized_pnl a);
              unrealized = py_round (sa_unrealized_pnl a);
              loss = - (realized + unrealized)
          in Inr
            \<lparr>sn_net_position = current_net s, sn_gross_position = current_gross s,
             sn_gross_notional_ticks = sa_gross_notional a,
             sn_realized_pnl_ticks = realized, sn_unrealized_pnl_ticks = unrealized,
             sn_loss_ticks = loss,
             sn_gross_notional_cash = sa_gross_notional_cash a,
             sn_net_notional_cash = sa_net_notional_cash a,
             sn_realized_pnl_cash = sa_realized_pnl_cash a,
             sn_unrealized_pnl_cash = sa_unrealized_pnl_cash a,
             sn_total_fees_paid_cash = sa_total_fees_paid_cash a,
             sn_net_pnl_cash = fsub (fadd (sa_realized_pnl_cash a) (sa_unrealized_pnl_cash a))
               (sa_total_fees_paid_cash a),
             sn_stale_positions = sa_stale_positions a,
             sn_limits_breached = breach_flags s a loss,
             sn_positions = foldl (\<lambda>d (iid, p). AList.update (str_of_int iid) (returned_position p) d)
               [] (pf_positions s),
             sn_factor_metrics = snapshot_metrics s (sa_current_notionals_cash a)\<rparr>)"

subsection \<open>Operations of a caller\<close>

datatype portfolio_op =
    RegisterLocate int int
  | ApplyFill int int int int bool
  | ValidateOrder int int int int

fun portfolio_step :: "portfolio \<Rightarrow> portfolio_op \<Rightarrow> portfolio" where
  "portfolio_step s (RegisterLocate iid quantity) = snd (register_locate iid quantity s)"
| "portfolio_step s (ApplyFill iid side quantity price taker) = snd (apply_fill iid side quantity price taker s)"
| "portfolio_step s (ValidateOrder iid side quantity price) = snd (validate_order iid side quantity price s)"

end
