(* ===== verification/Portfolio_Props.thy ===== *)
theory Portfolio_Props
  imports Portfolio
begin

section \<open>Correctness of the portfolio\<close>

text \<open>
  Lemmas on the operations of \<open>Portfolio\<close> and the properties they add up to: orders that
  \<open>validate_order\<close> approves can be filled and leave every limit respected, short positions exist
  only with permission and only up to the registered locates, and the average price stays inside
  the range of the traded prices although it is computed in floats.
\<close>

subsection \<open>Positions\<close>

definition position_of :: "portfolio \<Rightarrow> int \<Rightarrow> position" where
  "position_of s iid = get_default (pf_positions s) iid empty_position"

definition ensure_position :: "int \<Rightarrow> portfolio \<Rightarrow> portfolio" where
  "ensure_position iid s =
     (if has_key (pf_positions s) iid then s
      else s\<lparr>pf_positions := AList.update iid empty_position (pf_positions s)\<rparr>)"

lemma get_position_eq:
  "get_position iid s =
     (if iid \<le> 0 then (Inl (PortfolioError ''instrument_invalid''), s)
      else (Inr (position_of s iid), ensure_position iid s))"
  by (auto simp: get_position_def position_of_def ensure_position_def get_default_def
      split: option.splits)

lemma ensure_frame [simp]:
  "pf_limits (ensure_position iid s) = pf_limits s"
  "pf_specs (ensure_position iid s) = pf_specs s"
  "pf_locates (ensure_position iid s) = pf_locates s"
  "pf_factor_model (ensure_position iid s) = pf_factor_model s"
  "get_spec (ensure_position iid s) = get_spec s"
  by (auto simp: ensure_position_def get_spec_def fun_eq_iff)

lemma check_short_ensure [simp]: "check_short (ensure_position iid s) = check_short s"
  by (simp add: check_short_def fun_eq_iff Let_def)

lemma position_of_ensure [simp]: "position_of (ensure_position iid s) j = position_of s j"
  by (auto simp: position_of_def ensure_position_def dict_simps get_default_def)

lemma ensure_has_key: "map_of (pf_positions (ensure_position iid s)) iid = Some (position_of s iid)"
  by (auto simp: position_of_def ensure_position_def dict_simps get_default_def)

lemma ensure_idem [simp]: "ensure_position iid (ensure_position iid s) = ensure_position iid s"
  using ensure_has_key [of iid s] by (simp add: ensure_position_def)

lemma ensure_map_of:
  "map_of (pf_positions (ensure_position iid s)) j =
     (if j = iid then Some (position_of s iid) else map_of (pf_positions s) j)"
  by (auto simp: ensure_has_key) (auto simp: ensure_position_def dict_simps)

lemma ensure_wf [simp]: "wf_dict (pf_positions s) \<Longrightarrow> wf_dict (pf_positions (ensure_position iid s))"
  by (simp add: ensure_position_def)

lemma empty_position_simps [simp]:
  "pos_quantity empty_position = 0" "pos_last_price_ticks empty_position = 0"
  "pos_average_price_ticks empty_position = 0" "gross_quantity empty_position = 0"
  by (simp_all add: empty_position_def gross_quantity_def)

lemma ensure_sums [simp]:
  "current_net (ensure_position iid s) = current_net s"
  "current_gross (ensure_position iid s) = current_gross s"
  "current_notional (ensure_position iid s) = current_notional s"
  by (auto simp: ensure_position_def current_net_def current_gross_def current_notional_def
      dict_sum_update_new)

subsection \<open>The filled position\<close>

lemma filled_quantity [simp]:
  "pos_quantity (filled_position spec p side q price t) = pos_quantity p + side * q"
  by (simp add: filled_position_def charge_fees_def fill_quantity_def Let_def)

lemma filled_last_price [simp]:
  "pos_last_price_ticks (filled_position spec p side q price t) = price"
  by (simp add: filled_position_def charge_fees_def Let_def)

lemma filled_average:
  "pos_average_price_ticks (filled_position spec p side q price t) =
   pos_average_price_ticks (fill_quantity spec p side q price)"
  by (simp add: filled_position_def charge_fees_def Let_def)

lemma filled_realized:
  "pos_realized_pnl_ticks (filled_position spec p side q price t) =
   pos_realized_pnl_ticks (fill_quantity spec p side q price)"
  by (simp add: filled_position_def charge_fees_def Let_def)

lemma as_int_if_integer_id [simp]: "as_int_if_integer x = x"
  by (simp add: as_int_if_integer_def is_integer_round)

lemma returned_position_id [simp]: "returned_position p = p"
  by (simp add: returned_position_def)

definition stored_fill :: "int \<Rightarrow> int \<Rightarrow> int \<Rightarrow> int \<Rightarrow> bool \<Rightarrow> (int, int) dict \<Rightarrow> portfolio \<Rightarrow> portfolio"
  where
  "stored_fill iid side q price t locates s =
     (ensure_position iid s)\<lparr>pf_locates := locates, pf_positions := AList.update iid
        (filled_position (get_spec s iid) (position_of s iid) side q price t)
        (pf_positions (ensure_position iid s))\<rparr>"

lemma stored_fill_ensure [simp]:
  "stored_fill iid side q price t l (ensure_position iid s) = stored_fill iid side q price t l s"
  by (simp add: stored_fill_def)

lemma apply_fill_eq:
  "apply_fill iid side q price t s =
     (if side \<notin> {- 1, 1} \<or> q \<le> 0 \<or> price \<le> 0 then (Inl (PortfolioError ''fill_invalid''), s)
      else if iid \<le> 0 then (Inl (PortfolioError ''instrument_invalid''), s)
      else case check_short s iid (pos_quantity (position_of s iid)) side q of
             Inl e \<Rightarrow> (Inl e, ensure_position iid s)
           | Inr locates \<Rightarrow>
               (Inr (filled_position (get_spec s iid) (position_of s iid) side q price t),
                stored_fill iid side q price t locates s))"
  by (auto simp: apply_fill_def get_position_eq check_short_def stored_fill_def Let_def
      split: sum.splits)

lemma validate_order_eq:
  "validate_order iid side q price s =
     (if side \<notin> {- 1, 1} \<or> q \<le> 0 \<or> price \<le> 0 then (Inr (False, ''order_invalid''), s)
      else if iid \<le> 0 then (Inl (PortfolioError ''instrument_invalid''), s)
      else (case limit_reason (ensure_position iid s) (position_of s iid) iid side q price of
              Some r \<Rightarrow> Inr (False, r) | None \<Rightarrow> Inr (True, ''approved''), ensure_position iid s))"
  by (auto simp: validate_order_def get_position_eq split: option.splits)

lemma stored_fill_frame [simp]:
  "pf_limits (stored_fill iid side q price t l s) = pf_limits s"
  "pf_specs (stored_fill iid side q price t l s) = pf_specs s"
  "pf_factor_model (stored_fill iid side q price t l s) = pf_factor_model s"
  "pf_locates (stored_fill iid side q price t l s) = l"
  "get_spec (stored_fill iid side q price t l s) = get_spec s"
  by (simp_all add: stored_fill_def get_spec_def fun_eq_iff)

lemma position_of_stored:
  "position_of (stored_fill iid side q price t l s) j =
     (if j = iid then filled_position (get_spec s iid) (position_of s iid) side q price t
      else position_of s j)"
  by (simp add: stored_fill_def position_of_def dict_simps)
    (metis position_of_def position_of_ensure)

lemma stored_map_of:
  "map_of (pf_positions (stored_fill iid side q price t l s)) j =
     (if j = iid then Some (filled_position (get_spec s iid) (position_of s iid) side q price t)
      else map_of (pf_positions s) j)"
  by (simp add: stored_fill_def dict_simps ensure_map_of)

lemma stored_wf [simp]:
  "wf_dict (pf_positions s) \<Longrightarrow> wf_dict (pf_positions (stored_fill iid side q price t l s))"
  by (simp add: stored_fill_def)

lemma stored_sums:
  assumes "side \<in> {- 1, 1}" "0 < q"
  shows "current_net (stored_fill iid side q price t l s) = current_net s + side * q"
    and "current_gross (stored_fill iid side q price t l s) =
           current_gross s - gross_quantity (position_of s iid)
           + \<bar>pos_quantity (position_of s iid) + side * q\<bar>"
    and "current_notional (stored_fill iid side q price t l s) =
           current_notional s
           - gross_quantity (position_of s iid) * pos_last_price_ticks (position_of s iid)
           + \<bar>pos_quantity (position_of s iid) + side * q\<bar> * price"
  using ensure_sums [of iid s]
  by (simp_all add: stored_fill_def current_net_def current_gross_def current_notional_def
      dict_sum_update [OF ensure_has_key] gross_quantity_def)

subsection \<open>Approved orders\<close>

definition held_notionals_cash :: "portfolio \<Rightarrow> (int, rat) dict" where
  "held_notionals_cash s =
     map (\<lambda>(i, p). (i, cash_notional (get_spec s i) (pos_quantity p) (pos_last_price_ticks p)))
       (pf_positions s)"

text \<open>What \<open>validate_order\<close> projects is what the portfolio holds after the fill.\<close>

lemma map_update_entry:
  assumes "wf_dict d" and "map_of d k = Some u"
  shows "map (\<lambda>(i, p). (i, f i p)) (AList.update k v d) =
         map (\<lambda>(i, p). (i, f i (if i = k then v else p))) d"
  using assms by (induction d) (auto simp: rev_image_eqI split: if_splits)

lemma projected_is_held:
  assumes "wf_dict (pf_positions s)"
  shows "projected_notionals_cash (ensure_position iid s) iid side q price =
         held_notionals_cash (stored_fill iid side q price t l s)"
proof -
  let ?f = "\<lambda>i p. cash_notional (get_spec s i) (pos_quantity p) (pos_last_price_ticks p)"
  let ?v = "filled_position (get_spec s iid) (position_of s iid) side q price t"
  let ?d = "pf_positions (ensure_position iid s)"
  have wf: "wf_dict ?d" using assms by simp
  have "held_notionals_cash (stored_fill iid side q price t l s) =
        map (\<lambda>(i, p). (i, ?f i p)) (AList.update iid ?v ?d)"
    by (simp add: held_notionals_cash_def) (simp add: stored_fill_def)
  also have "\<dots> = map (\<lambda>(i, p). (i, ?f i (if i = iid then ?v else p))) ?d"
    by (rule map_update_entry [OF wf ensure_has_key])
  also have "\<dots> = projected_notionals_cash (ensure_position iid s) iid side q price"
    unfolding projected_notionals_cash_def
  proof (rule map_cong [OF refl])
    fix e assume e: "e \<in> set ?d"
    obtain i p where ip: "e = (i, p)" by fastforce
    have "p = position_of s iid" if "i = iid"
      using e ensure_has_key [of iid s] wf that by (auto simp: ip)
    then show "(case e of (i, p) \<Rightarrow> (i, ?f i (if i = iid then ?v else p))) =
      (case e of (i, p) \<Rightarrow> (i, cash_notional (get_spec (ensure_position iid s) i)
         (if i = iid then pos_quantity p + side * q else pos_quantity p)
         (if i = iid then price else pos_last_price_ticks p)))"
      by (auto simp: ip)
  qed
  finally show ?thesis by simp
qed

lemma limit_reason_None:
  assumes "limit_reason (ensure_position iid s) (position_of s iid) iid side q price = None"
    and "side \<in> {- 1, 1}" "0 < q"
  shows "\<bar>current_net (stored_fill iid side q price t l s)\<bar> \<le> max_net_position (pf_limits s)"
    and "current_gross (stored_fill iid side q price t l s) \<le> max_gross_position (pf_limits s)"
    and "current_notional (stored_fill iid side q price t l s) \<le> max_gross_notional_ticks (pf_limits s)"
    and "\<bar>pos_quantity (position_of s iid) + side * q\<bar> * price \<le> max_concentration_ticks (pf_limits s)"
    and "cash_limit_reason (ensure_position iid s)
           (projected_notionals_cash (ensure_position iid s) iid side q price) = None"
  using assms by (simp_all add: limit_reason_def Let_def stored_sums split: if_splits)

lemma limit_reason_short:
  assumes "limit_reason (ensure_position iid s) (position_of s iid) iid side q price = None"
  obtains locates where "check_short s iid (pos_quantity (position_of s iid)) side q = Inr locates"
proof (cases "check_short s iid (pos_quantity (position_of s iid)) side q")
  case (Inl e)
  with assms have False
    unfolding limit_reason_def check_short_def Let_def by (auto split: if_splits)
  then show ?thesis ..
qed

lemma cash_limit_reason_cong:
  "pf_limits s = pf_limits s' \<Longrightarrow> pf_factor_model s = pf_factor_model s' \<Longrightarrow>
   cash_limit_reason s = cash_limit_reason s'"
  by (simp add: cash_limit_reason_def fun_eq_iff split: option.splits)


subsection \<open>Snapshots of a portfolio inside its limits\<close>

lemma max_default_le: "x \<le> c \<Longrightarrow> \<forall>v \<in> set xs. v \<le> c \<Longrightarrow> max_default xs x \<le> c"
proof -
  have "foldl max y ys \<le> c" if "y \<le> c" "\<forall>v \<in> set ys. v \<le> c" for y ys
    using that by (induction ys arbitrary: y) auto
  then show "x \<le> c \<Longrightarrow> \<forall>v \<in> set xs. v \<le> c \<Longrightarrow> max_default xs x \<le> c"
    by (auto simp: max_default_def split: list.splits)
qed

lemma update_values: "v \<in> snd ` set (AList.update k x d) \<Longrightarrow> v = x \<or> v \<in> snd ` set d"
  by (induction d) (auto split: if_splits)

definition priced :: "position \<Rightarrow> bool" where
  "priced p \<longleftrightarrow> 0 \<le> pos_last_price_ticks p \<and> (pos_quantity p \<noteq> 0 \<longrightarrow> 0 < pos_last_price_ticks p)"

abbreviation notional_ticks :: "position \<Rightarrow> int" where
  "notional_ticks p \<equiv> gross_quantity p * pos_last_price_ticks p"

lemma notional_ticks_nonneg: "priced p \<Longrightarrow> 0 \<le> notional_ticks p"
  by (simp add: priced_def gross_quantity_def)

text \<open>Below 2^53 the float notional of \<open>snapshot\<close> is the integer notional.\<close>

lemma exact_notional:
  assumes "priced p" and "notional_ticks p \<le> 2 ^ 53"
  shows "py_trunc (fmul (fint (gross_quantity p)) (fint (pos_last_price_ticks p))) = notional_ticks p"
    and "pos_quantity p \<noteq> 0 \<Longrightarrow> 0 < fint (pos_last_price_ticks p)"
proof -
  have *: "gross_quantity p \<le> 2 ^ 53 \<and> pos_last_price_ticks p \<le> 2 ^ 53" if "pos_quantity p \<noteq> 0"
  proof -
    have g: "1 \<le> gross_quantity p" "1 \<le> pos_last_price_ticks p"
      using that assms(1) by (auto simp: priced_def gross_quantity_def)
    then have "gross_quantity p * 1 \<le> notional_ticks p" "1 * pos_last_price_ticks p \<le> notional_ticks p"
      by (intro mult_mono; simp)+
    with assms(2) show ?thesis by simp
  qed
  show "0 < fint (pos_last_price_ticks p)" if "pos_quantity p \<noteq> 0"
    using * [OF that] that assms(1) by (simp add: priced_def fl_simps)
  show "py_trunc (fmul (fint (gross_quantity p)) (fint (pos_last_price_ticks p))) = notional_ticks p"
  proof (cases "pos_quantity p = 0")
    case True
    then show ?thesis by (simp add: gross_quantity_def fint_def py_trunc_def)
  next
    case False
    have g: "0 \<le> gross_quantity p" "0 \<le> pos_last_price_ticks p"
      using assms(1) by (auto simp: gross_quantity_def priced_def)
    then have "fint (gross_quantity p) = of_int (gross_quantity p)"
      "fint (pos_last_price_ticks p) = of_int (pos_last_price_ticks p)"
      using * [OF False] by (intro fint_small; simp)+
    moreover have "fmul (of_int (gross_quantity p)) (of_int (pos_last_price_ticks p)) =
        of_int (notional_ticks p)"
      using assms(2) notional_ticks_nonneg [OF assms(1)] by (intro fmul_int) simp
    ultimately have "fmul (fint (gross_quantity p)) (fint (pos_last_price_ticks p)) =
        of_int (notional_ticks p)" by (simp only:)
    then show ?thesis by (simp only: py_trunc_of_int)
  qed
qed

lemma snapshot_entry_last:
  assumes "priced p" and "notional_ticks p \<le> 2 ^ 53"
  shows "\<exists>a'. snapshot_entry s [] m now mx iid p a = Inr a'
     \<and> sa_gross_notional a' = sa_gross_notional a + notional_ticks p
     \<and> sa_concentration a' = AList.update (str_of_int iid) (notional_ticks p) (sa_concentration a)"
proof -
  have "\<not> (fint (pos_last_price_ticks p) \<le> 0 \<and> pos_quantity p \<noteq> 0)"
    using exact_notional(2) [OF assms] linorder_not_le by blast
  then show ?thesis
    unfolding snapshot_entry_def Let_def mark_value_def
    by (simp only: get_default_Nil price_input.case if_False exact_notional(1) [OF assms]) simp
qed

lemma snapshot_loop_last:
  assumes "\<forall>(iid, p) \<in> set ps. priced p \<and> notional_ticks p \<le> c" and "c \<le> 2 ^ 53"
    and "\<forall>v \<in> snd ` set (sa_concentration a). v \<le> c"
  shows "\<exists>a'. snapshot_loop s [] m now mx ps a = Inr a'
     \<and> sa_gross_notional a' = sa_gross_notional a + dict_sum notional_ticks ps
     \<and> (\<forall>v \<in> snd ` set (sa_concentration a'). v \<le> c)"
  using assms
proof (induction ps arbitrary: a)
  case (Cons x ps)
  obtain iid p where x: "x = (iid, p)" by fastforce
  with Cons.prems have p: "priced p" "notional_ticks p \<le> c" by auto
  then have p53: "notional_ticks p \<le> 2 ^ 53" using Cons.prems(2) by linarith
  obtain b where b: "snapshot_entry s [] m now mx iid p a = Inr b"
    "sa_gross_notional b = sa_gross_notional a + notional_ticks p"
    "sa_concentration b = AList.update (str_of_int iid) (notional_ticks p) (sa_concentration a)"
    using snapshot_entry_last [OF p(1) p53, of s m now mx iid a] by blast
  have "\<forall>v \<in> snd ` set (sa_concentration b). v \<le> c"
    using Cons.prems(3) p(2) update_values unfolding b(3) by metis
  moreover have "\<forall>(iid, p) \<in> set ps. priced p \<and> notional_ticks p \<le> c"
    using Cons.prems(1) by simp
  ultimately obtain a' where a': "snapshot_loop s [] m now mx ps b = Inr a'"
    "sa_gross_notional a' = sa_gross_notional b + dict_sum notional_ticks ps"
    "\<forall>v \<in> snd ` set (sa_concentration a'). v \<le> c"
    using Cons.IH [of b] Cons.prems(2) by blast
  have "snapshot_loop s [] m now mx (x # ps) a = Inr a'"
    by (simp only: x snapshot_loop.simps b(1) sum.case a'(1))
  moreover have "sa_gross_notional a' = sa_gross_notional a + dict_sum notional_ticks (x # ps)"
    by (simp add: x a'(2) b(2) dict_sum_def)
  ultimately show ?case using a'(3) by blast
qed simp

subsection \<open>Trading only on approval\<close>

text \<open>A caller that fills an order only when \<open>validate_order\<close> approved it.\<close>

fun gated_fill :: "portfolio \<Rightarrow> int \<times> int \<times> int \<times> int \<times> bool \<Rightarrow> portfolio" where
  "gated_fill s (iid, side, q, price, taker) =
     (case validate_order iid side q price s of
        (Inr (True, _), s1) \<Rightarrow> snd (apply_fill iid side q price taker s1)
      | (_, s1) \<Rightarrow> s1)"

definition within_limits :: "portfolio_limits \<Rightarrow> portfolio \<Rightarrow> bool" where
  "within_limits lims s \<longleftrightarrow> pf_limits s = lims \<and> wf_dict (pf_positions s)
     \<and> \<bar>current_net s\<bar> \<le> max_net_position lims \<and> current_gross s \<le> max_gross_position lims
     \<and> current_notional s \<le> max_gross_notional_ticks lims
     \<and> (\<forall>iid. priced (position_of s iid)
              \<and> notional_ticks (position_of s iid) \<le> max_concentration_ticks lims)"

lemma within_limits_ensure: "within_limits lims s \<Longrightarrow> within_limits lims (ensure_position iid s)"
  by (simp add: within_limits_def)

lemma gated_fill_within:
  assumes "within_limits lims s"
  shows "within_limits lims (gated_fill s ord)"
proof -
  obtain iid side q price taker where ord: "ord = (iid, side, q, price, taker)" by (cases ord) auto
  obtain r s1 where v: "validate_order iid side q price s = (r, s1)" by fastforce
  have s1: "s1 = s \<or> s1 = ensure_position iid s"
    using v by (auto simp: validate_order_eq split: if_splits)
  show ?thesis
  proof (cases "\<exists>reason. r = Inr (True, reason)")
    case False
    then have "gated_fill s ord = s1"
      by (auto simp: ord v split: sum.splits bool.splits)
    with s1 assms within_limits_ensure show ?thesis by auto
  next
    case True
    then obtain reason where v': "validate_order iid side q price s = (Inr (True, reason), s1)"
      using v by blast
    from v' have ok: "side \<in> {- 1, 1}" "0 < q" "0 < price" "0 < iid"
      and e: "s1 = ensure_position iid s"
      and none: "limit_reason (ensure_position iid s) (position_of s iid) iid side q price = None"
      by (auto simp: validate_order_eq split: if_splits option.splits)
    obtain l where l: "check_short s iid (pos_quantity (position_of s iid)) side q = Inr l"
      using limit_reason_short [OF none] by blast
    have "gated_fill s ord = stored_fill iid side q price taker l s"
      using ok l by (auto simp: ord v' apply_fill_eq e)
    with assms limit_reason_None [OF none ok(1,2)] ok show ?thesis
      by (simp add: within_limits_def position_of_stored priced_def gross_quantity_def)
  qed
qed

interpretation gated: step_machine gated_fill "within_limits lims" for lims
  by unfold_locales (rule gated_fill_within)

lemma portfolio_init_within:
  "portfolio_init lims specs locates model = Inr s \<Longrightarrow> within_limits lims s"
  by (auto simp: portfolio_init_def within_limits_def current_net_def current_gross_def
      current_notional_def position_of_def priced_def split: if_splits)


subsection \<open>All operations\<close>

lemma portfolio_step_cases:
  obtains (same) "portfolio_step s c = s"
  | (touch) iid where "portfolio_step s c = ensure_position iid s"
  | (locate) iid q where "c = RegisterLocate iid q" "0 < iid" "0 < q"
      "portfolio_step s c = s\<lparr>pf_locates :=
         AList.update iid (get_default (pf_locates s) iid 0 + q) (pf_locates s)\<rparr>"
  | (fill) iid side q price t l where "c = ApplyFill iid side q price t"
      "side \<in> {- 1, 1}" "0 < q" "0 < price" "0 < iid"
      "check_short s iid (pos_quantity (position_of s iid)) side q = Inr l"
      "portfolio_step s c = stored_fill iid side q price t l s"
proof (cases c)
  case (RegisterLocate iid q)
  then show ?thesis using locate same by (cases "iid \<le> 0 \<or> q \<le> 0") (auto simp: register_locate_def)
next
  case (ValidateOrder iid side q price)
  then show ?thesis using same touch [of iid]
    by (cases "side \<notin> {- 1, 1} \<or> q \<le> 0 \<or> price \<le> 0 \<or> iid \<le> 0") (auto simp: validate_order_eq)
next
  case (ApplyFill iid side q price t)
  show ?thesis
  proof (cases "side \<notin> {- 1, 1} \<or> q \<le> 0 \<or> price \<le> 0 \<or> iid \<le> 0")
    case True
    then show ?thesis using same ApplyFill by (auto simp: apply_fill_eq)
  next
    case False
    then show ?thesis
      using ApplyFill touch [of iid] fill [of iid side q price t]
      by (cases "check_short s iid (pos_quantity (position_of s iid)) side q")
        (auto simp: apply_fill_eq not_le)
  qed
qed

lemma position_of_locates [simp]: "position_of (s\<lparr>pf_locates := l\<rparr>) = position_of s"
  by (simp add: position_of_def fun_eq_iff)

lemma step_limits [simp]: "pf_limits (portfolio_step s c) = pf_limits s"
  by (rule portfolio_step_cases [of s c]) simp_all

lemma step_specs [simp]: "pf_specs (portfolio_step s c) = pf_specs s"
  by (rule portfolio_step_cases [of s c]) simp_all

lemma portfolio_init_state:
  "portfolio_init lims specs locates model = Inr s \<Longrightarrow>
     pf_limits s = lims \<and> pf_specs s = specs \<and> pf_locates s = locates \<and> pf_positions s = []"
  by (auto simp: portfolio_init_def split: if_splits)

lemma init_position_of:
  "portfolio_init lims specs locates model = Inr s \<Longrightarrow> position_of s iid = empty_position"
  by (simp add: portfolio_init_state position_of_def)

subsection \<open>Short sales\<close>

definition long_only :: "portfolio \<Rightarrow> bool" where
  "long_only s \<longleftrightarrow> \<not> allow_short (pf_limits s) \<and> (\<forall>iid. 0 \<le> pos_quantity (position_of s iid))"

lemma long_only_step: "long_only s \<Longrightarrow> long_only (portfolio_step s c)"
proof (rule portfolio_step_cases [of s c])
  fix iid side q price t l
  assume s: "long_only s" and c: "side \<in> {- 1, 1}" "0 < q"
    and l: "check_short s iid (pos_quantity (position_of s iid)) side q = Inr l"
    and st: "portfolio_step s c = stored_fill iid side q price t l s"
  have "0 \<le> pos_quantity (position_of s iid) + side * q"
    using s c l by (auto simp: long_only_def check_short_def split: if_splits)
  with s show "long_only (portfolio_step s c)"
    by (simp add: st long_only_def position_of_stored)
qed (simp_all add: long_only_def)

interpretation long_only: step_machine portfolio_step long_only
  by unfold_locales (rule long_only_step)

text \<open>
  C6. With \<open>allow_short\<close> off, no sequence of operations, refused ones included, ever leaves a
  short position.
\<close>

theorem no_short_without_permission:
  assumes "portfolio_init lims specs locates model = Inr s0" and "\<not> allow_short lims"
  shows "0 \<le> pos_quantity (position_of (foldl portfolio_step s0 ops) iid)"
proof -
  have "long_only s0"
    using assms portfolio_init_state [OF assms(1)] init_position_of [OF assms(1)]
    by (simp add: long_only_def)
  then have "long_only (foldl portfolio_step s0 ops)" by (rule long_only.run_inv)
  then show ?thesis by (simp add: long_only_def)
qed

definition short_quantity :: "position \<Rightarrow> int" where
  "short_quantity p = max 0 (- pos_quantity p)"

fun located :: "int \<Rightarrow> portfolio_op list \<Rightarrow> int" where
  "located iid [] = 0"
| "located iid (c # ops) =
     (case c of RegisterLocate i q \<Rightarrow> if i = iid \<and> 0 < i \<and> 0 < q then q else 0 | _ \<Rightarrow> 0)
     + located iid ops"

lemma located_snoc: "located iid (h @ [c]) = located iid h + located iid [c]"
  by (induction h) simp_all

lemma located_nonneg: "0 \<le> located iid h"
  by (induction h) (auto split: portfolio_op.splits)

definition locate_budget :: "(int, int) dict \<Rightarrow> int \<Rightarrow> portfolio_op list \<Rightarrow> portfolio \<Rightarrow> bool" where
  "locate_budget locates iid h s \<longleftrightarrow>
     (require_locates (pf_limits s) \<or> sp_locate_required (get_spec s iid))
     \<and> 0 \<le> get_default (pf_locates s) iid 0
     \<and> short_quantity (position_of s iid) + get_default (pf_locates s) iid 0
         \<le> get_default locates iid 0 + located iid h"

lemma get_spec_step [simp]: "get_spec (portfolio_step s c) = get_spec s"
  by (simp add: get_spec_def fun_eq_iff)

lemma check_short_locates:
  assumes "check_short s iid (pos_quantity p) side q = Inr l" and "side \<in> {- 1, 1}" "0 < q"
    and "pos_quantity p' = pos_quantity p + side * q"
    and "0 \<le> get_default (pf_locates s) iid 0"
    and "require_locates (pf_limits s) \<or> sp_locate_required (get_spec s iid)"
  shows "short_quantity p' + get_default l iid 0
           \<le> short_quantity p + get_default (pf_locates s) iid 0"
    and "0 \<le> get_default l iid 0"
  using assms
  by (auto simp: check_short_def short_increase_def short_quantity_def Let_def dict_simps
      split: if_splits)

lemma check_short_other:
  "check_short s iid h side q = Inr l \<Longrightarrow> j \<noteq> iid \<Longrightarrow> get_default l j 0 = get_default (pf_locates s) j 0"
  by (auto simp: check_short_def Let_def dict_simps split: if_splits)

lemma locate_budget_step:
  assumes "locate_budget locates iid h s"
  shows "locate_budget locates iid (h @ [c]) (portfolio_step s c)"
proof (cases rule: portfolio_step_cases [of s c])
  case (locate i q)
  then show ?thesis
    using assms by (auto simp: locate_budget_def located_snoc dict_simps get_spec_def)
next
  case (fill i side q price t l)
  have b: "0 \<le> get_default (pf_locates s) iid 0"
    "require_locates (pf_limits s) \<or> sp_locate_required (get_spec s iid)"
    using assms by (auto simp: locate_budget_def)
  let ?p' = "position_of (stored_fill i side q price t l s) iid"
  have "short_quantity ?p' + get_default l iid 0
      \<le> short_quantity (position_of s iid) + get_default (pf_locates s) iid 0"
    and "0 \<le> get_default l iid 0"
  proof (atomize (full), cases "i = iid")
    case True
    then show "short_quantity ?p' + get_default l iid 0
        \<le> short_quantity (position_of s iid) + get_default (pf_locates s) iid 0 \<and> 0 \<le> get_default l iid 0"
      using check_short_locates [OF _ fill(2,3) _ b, of "position_of s iid" l ?p'] fill(6)
      by (simp add: position_of_stored)
  next
    case False
    then show "short_quantity ?p' + get_default l iid 0
        \<le> short_quantity (position_of s iid) + get_default (pf_locates s) iid 0 \<and> 0 \<le> get_default l iid 0"
      using check_short_other [OF fill(6)] b(1) by (simp add: position_of_stored)
  qed
  with assms show ?thesis
    unfolding fill(7) by (simp add: locate_budget_def fill(1) located_snoc)
qed (use assms located_nonneg [of iid "[c]"] in \<open>auto simp: locate_budget_def located_snoc get_spec_def\<close>)

interpretation locates: history_machine portfolio_step "locate_budget l iid" for l iid
  by unfold_locales (rule locate_budget_step)

text \<open>
  C7. Where locates are required, the short quantity of an instrument never exceeds the locates
  registered for it: over any sequence of operations the short quantity and the locates still
  available together stay within the initial locates plus those registered on the way.
\<close>

theorem shorts_covered_by_locates:
  assumes "portfolio_init lims specs locates model = Inr s0"
    and "require_locates lims \<or> (\<exists>spec. map_of specs iid = Some spec \<and> sp_locate_required spec)"
    and "0 \<le> get_default locates iid 0"
    and "s = foldl portfolio_step s0 ops"
  shows "0 \<le> get_default (pf_locates s) iid 0
     \<and> short_quantity (position_of s iid) + get_default (pf_locates s) iid 0
           \<le> get_default locates iid 0 + located iid ops"
proof -
  have "locate_budget locates iid [] s0"
    using assms portfolio_init_state [OF assms(1)] init_position_of [OF assms(1)]
    by (auto simp: locate_budget_def short_quantity_def get_spec_def get_default_def)
  then have "locate_budget locates iid ops s" unfolding assms(4) by (rule locates.run_hist)
  then show ?thesis by (simp add: locate_budget_def)
qed

subsection \<open>The effect of one fill\<close>

text \<open>
  A fill that succeeds changes the quantity of its own position by the signed fill quantity,
  records the price, keeps every other position as it is, and returns the stored position. A fill
  that raises changes no position and no locates.
\<close>

theorem apply_fill_effect:
  "case apply_fill iid side q price taker s of
     (Inr p, s') \<Rightarrow>
       side \<in> {- 1, 1} \<and> 0 < q \<and> 0 < price \<and> 0 < iid
       \<and> map_of (pf_positions s') iid = Some p
       \<and> pos_quantity p = pos_quantity (position_of s iid) + side * q
       \<and> pos_last_price_ticks p = price
       \<and> (\<forall>j. j \<noteq> iid \<longrightarrow> map_of (pf_positions s') j = map_of (pf_positions s) j)
   | (Inl e, s') \<Rightarrow>
       (\<forall>j. position_of s' j = position_of s j) \<and> pf_locates s' = pf_locates s
       \<and> e \<in> PortfolioError ` {''fill_invalid'', ''instrument_invalid'', ''short_sale_disabled'',
                                ''short_locate_insufficient''}"
  by (auto simp: apply_fill_eq stored_map_of check_short_def Let_def split: sum.splits if_splits)

subsection \<open>Refusals of validation and of execution agree\<close>

lemma check_short_raise:
  "check_short s iid h side q = Inl e \<longleftrightarrow>
     side < 0 \<and> h - q < 0
     \<and> (\<not> allow_short (pf_limits s) \<and> e = PortfolioError ''short_sale_disabled''
        \<or> allow_short (pf_limits s) \<and> e = PortfolioError ''short_locate_insufficient''
           \<and> (require_locates (pf_limits s) \<or> sp_locate_required (get_spec s iid))
           \<and> get_default (pf_locates s) iid 0 < short_increase h q)"
  by (auto simp: check_short_def Let_def)

lemma cash_limit_reasons:
  "cash_limit_reason s n = Some r \<Longrightarrow>
     r \<in> {''gross_notional_cash_limit'', ''expected_shortfall_limit'', ''parametric_var_limit''}"
  by (auto simp: cash_limit_reason_def split: if_splits option.splits)

lemma limit_reason_short_iff:
  assumes "limit_reason s p iid side q price = Some r"
    and r: "r \<in> {''short_sale_disabled'', ''short_locate_insufficient''}"
  shows "check_short s iid (pos_quantity p) side q = Inl (PortfolioError r)"
proof -
  have "cash_limit_reason s n \<noteq> Some r" for n
    using r cash_limit_reasons [of s n r] by auto
  with assms(1) r show ?thesis
    unfolding check_short_raise limit_reason_def Let_def by (simp split: if_split_asm) auto
qed

text \<open>
  Validation and execution agree on short sales: when \<open>validate_order\<close> refuses an order for a
  missing short permission or missing locates, \<open>apply_fill\<close> of that order raises a
  \<open>PortfolioError\<close> with the same reason.
\<close>

theorem short_refusals_agree:
  assumes "validate_order iid side q price s = (Inr (False, reason), s1)"
    and "reason \<in> {''short_sale_disabled'', ''short_locate_insufficient''}"
  shows "apply_fill iid side q price taker s = (Inl (PortfolioError reason), s1)"
proof -
  have ok: "side \<in> {- 1, 1}" "0 < q" "0 < price" "0 < iid" and s1: "s1 = ensure_position iid s"
    and r: "limit_reason (ensure_position iid s) (position_of s iid) iid side q price = Some reason"
    using assms by (auto simp: validate_order_eq split: if_splits option.splits)
  show ?thesis
    using limit_reason_short_iff [OF r assms(2)] ok by (auto simp: apply_fill_eq s1)
qed

subsection \<open>The average price\<close>

text \<open>Fills at prices between \<open>lo\<close> and \<open>hi\<close>; \<open>volume\<close> is the quantity they trade.\<close>

fun fills_between :: "int \<Rightarrow> int \<Rightarrow> portfolio_op list \<Rightarrow> bool" where
  "fills_between lo hi [] = True"
| "fills_between lo hi (c # ops) =
     ((case c of ApplyFill _ _ _ price _ \<Rightarrow> lo \<le> price \<and> price \<le> hi | _ \<Rightarrow> True)
      \<and> fills_between lo hi ops)"

fun volume :: "portfolio_op list \<Rightarrow> int" where
  "volume [] = 0"
| "volume (c # ops) = (case c of ApplyFill _ _ q _ _ \<Rightarrow> max 0 q | _ \<Rightarrow> 0) + volume ops"

lemma fills_between_snoc:
  "fills_between lo hi (h @ [c]) \<longleftrightarrow> fills_between lo hi h \<and> fills_between lo hi [c]"
  by (induction h) auto

lemma volume_snoc: "volume (h @ [c]) = volume h + volume [c]"
  by (induction h) simp_all

lemma volume_nonneg: "0 \<le> volume h"
  by (induction h) (auto split: portfolio_op.splits)

definition average_between :: "int \<Rightarrow> int \<Rightarrow> position \<Rightarrow> bool" where
  "average_between lo hi p \<longleftrightarrow>
     (if pos_quantity p = 0 then pos_average_price_ticks p = 0
      else of_int lo \<le> pos_average_price_ticks p \<and> pos_average_price_ticks p \<le> of_int hi)"

lemma fill_average_between:
  assumes "average_between lo hi p" and ok: "side \<in> {- 1, 1}" "0 < q" "0 < lo" "lo \<le> price" "price \<le> hi"
    and small: "(\<bar>pos_quantity p\<bar> + q) * hi \<le> 2 ^ 53"
  shows "average_between lo hi (filled_position spec p side q price t)"
proof -
  let ?n = "\<bar>pos_quantity p\<bar>" and ?avg = "pos_average_price_ticks p"
  have hi: "1 \<le> hi" using ok by linarith
  have "(?n + q) * 1 \<le> (?n + q) * hi" "1 * hi \<le> (?n + q) * hi"
    using hi ok by (intro mult_mono; simp)+
  then have s: "?n + q \<le> 2 ^ 53" "hi \<le> 2 ^ 53" using small by simp_all
  have "q * price \<le> (?n + q) * hi" using ok hi by (intro mult_mono) auto
  then have qp: "fint (q * price) = of_int (q * price)" "fint ?n = of_int ?n"
    "fint (?n + q) = of_int (?n + q)" "fint price = of_int price"
    using small ok s by (intro fint_small; simp)+
  let ?w = "\<lambda>a. fl (fl (fl (of_int ?n * a) + of_int (q * price)) / of_int (?n + q))"
  have avg: "of_int lo \<le> ?w ?avg \<and> ?w ?avg \<le> of_int hi"
  proof (cases "?n = 0")
    case True
    then have "?w ?avg = ?w (of_int lo)" by simp
    moreover have "of_int lo \<le> ?w (of_int lo) \<and> ?w (of_int lo) \<le> of_int hi"
      using dbl.rnd_weighted_average [of ?n q lo price hi "of_int lo"] ok small s by simp
    ultimately show ?thesis by simp
  next
    case False
    then show ?thesis
      using assms(1) dbl.rnd_weighted_average [of ?n q lo price hi ?avg] ok small s
      by (simp add: average_between_def)
  qed
  have "pos_quantity p \<noteq> 0 \<Longrightarrow> of_int lo \<le> ?avg \<and> ?avg \<le> of_int hi"
    using assms(1) by (simp add: average_between_def)
  then show ?thesis
    unfolding average_between_def filled_average filled_quantity
    using avg ok by (auto simp: fill_quantity_def Let_def qp fdiv_def fadd_def fmul_def)
qed

definition average_bound :: "int \<Rightarrow> int \<Rightarrow> portfolio_op list \<Rightarrow> portfolio \<Rightarrow> bool" where
  "average_bound lo hi h s \<longleftrightarrow>
     fills_between lo hi h \<and> volume h * hi \<le> 2 ^ 53 \<longrightarrow>
     (\<forall>iid. average_between lo hi (position_of s iid) \<and> \<bar>pos_quantity (position_of s iid)\<bar> \<le> volume h)"

lemma average_bound_step:
  assumes h: "average_bound lo hi h s" and lo: "0 < lo"
  shows "average_bound lo hi (h @ [c]) (portfolio_step s c)"
  unfolding average_bound_def
proof (intro impI allI)
  fix iid
  assume g: "fills_between lo hi (h @ [c]) \<and> volume (h @ [c]) * hi \<le> 2 ^ 53"
  have v: "volume h \<le> volume (h @ [c])" using volume_nonneg [of "[c]"] by (simp add: volume_snoc)
  have fb: "fills_between lo hi h" "fills_between lo hi [c]" using g by (simp_all add: fills_between_snoc)
  have "volume h * hi \<le> 2 ^ 53"
  proof (cases "0 \<le> hi")
    case True
    then have "volume h * hi \<le> volume (h @ [c]) * hi" using v by (rule mult_right_mono [rotated])
    with g show ?thesis by simp
  next
    case False
    then have "volume h * hi \<le> 0" using volume_nonneg [of h] by (simp add: mult_nonneg_nonpos)
    then show ?thesis by simp
  qed
  with fb h have b: "average_between lo hi (position_of s j)" "\<bar>pos_quantity (position_of s j)\<bar> \<le> volume h"
    for j by (auto simp: average_bound_def)
  show "average_between lo hi (position_of (portfolio_step s c) iid)
      \<and> \<bar>pos_quantity (position_of (portfolio_step s c) iid)\<bar> \<le> volume (h @ [c])"
  proof (cases rule: portfolio_step_cases [of s c])
    case (fill i side q price t l)
    have vq: "volume (h @ [c]) = volume h + q" using fill by (simp add: volume_snoc)
    have lh: "lo \<le> price" "price \<le> hi" using fb(2) fill(1) by simp_all
    have "(\<bar>pos_quantity (position_of s i)\<bar> + q) * hi \<le> volume (h @ [c]) * hi"
      using b(2) [of i] lh lo by (intro mult_right_mono) (simp_all add: vq)
    then have "average_between lo hi (filled_position (get_spec s i) (position_of s i) side q price t)"
      using fill_average_between [OF b(1) fill(2,3) lo lh] g by simp
    moreover have "\<bar>pos_quantity (position_of s i) + side * q\<bar> \<le> volume h + q"
      using b(2) [of i] fill(2,3) by auto
    ultimately show ?thesis
      unfolding fill(7) using b [of iid] fill(3) by (simp add: position_of_stored vq)
  qed (use b [of iid] v in \<open>auto simp del: portfolio_step.simps\<close>)
qed

interpretation averages: history_machine portfolio_step
    "\<lambda>h s. 0 < lo \<and> average_bound lo hi h s" for lo hi
  by unfold_locales (simp add: average_bound_step)

text \<open>
  C11. The average price is an average in floats too: when all fills of a run trade at prices
  between \<open>lo\<close> and \<open>hi\<close> and their volume times \<open>hi\<close> stays below 2^53, every open position has
  an average price between \<open>lo\<close> and \<open>hi\<close> and every flat one has average 0, whatever the order of
  opening, adding, reducing and flipping fills.
\<close>

theorem average_price_between_traded_prices:
  assumes "portfolio_init lims specs locates model = Inr s0"
    and "0 < lo" "fills_between lo hi ops" "volume ops * hi \<le> 2 ^ 53"
  shows "average_between lo hi (position_of (foldl portfolio_step s0 ops) iid)"
proof -
  have "0 < lo \<and> average_bound lo hi [] s0"
    using assms(2) init_position_of [OF assms(1)] by (simp add: average_bound_def average_between_def)
  then have "0 < lo \<and> average_bound lo hi ops (foldl portfolio_step s0 ops)"
    by (rule averages.run_hist)
  then show ?thesis using assms(3,4) by (simp add: average_bound_def)
qed

end
