(* ===== verification/Portfolio_Pnl.thy ===== *)
theory Portfolio_Pnl
  imports Portfolio_Props
begin

section \<open>Profit and loss, risk figures and snapshots\<close>

text \<open>
  The accounting side of \<open>Portfolio\<close>: fills move profit between the unrealized and the realized
  account without creating any, the factor-model figures are ordered, and \<open>snapshot\<close> raises
  exactly for an open position without a positive mark.
\<close>

subsection \<open>Profit and loss\<close>

definition equity_ticks :: "position \<Rightarrow> int \<Rightarrow> rat" where
  "equity_ticks p price = fadd (pos_realized_pnl_ticks p) (unrealized_ticks p (fint price))"

lemma unrealized_exact:
  assumes "pos_average_price_ticks p = of_int a" "0 < price" "price \<le> 2 ^ 53"
    and "\<bar>pos_quantity p\<bar> \<le> 2 ^ 53"
    and "\<bar>price - a\<bar> \<le> 2 ^ 53" "\<bar>pos_quantity p * (price - a)\<bar> \<le> 2 ^ 53"
  shows "unrealized_ticks p (fint price) = of_int (pos_quantity p * (price - a))"
proof -
  have m: "fint price = of_int price" "fint \<bar>pos_quantity p\<bar> = of_int \<bar>pos_quantity p\<bar>"
    using assms by (intro fint_small; simp)+
  have d: "fsub (of_int price) (of_int a) = of_int (price - a)"
    "fsub (of_int a) (of_int price) = of_int (a - price)"
    using assms(5) by (intro fsub_int; simp)+
  have "\<bar>\<bar>pos_quantity p\<bar> * (price - a)\<bar> \<le> 2 ^ 53" "\<bar>\<bar>pos_quantity p\<bar> * (a - price)\<bar> \<le> 2 ^ 53"
    using assms(6) by (simp_all add: abs_mult abs_minus_commute)
  note e = this [THEN fmul_int]
  consider "0 < pos_quantity p" | "pos_quantity p < 0" | "pos_quantity p = 0" by linarith
  then show ?thesis
  proof cases
    case 1
    then show ?thesis using m d e by (simp add: unrealized_ticks_def assms(1))
  next
    case 2
    then have "unrealized_ticks p (fint price) = of_int (\<bar>pos_quantity p\<bar> * (a - price))"
      using m d e by (simp only: unrealized_ticks_def assms(1)) simp
    with 2 show ?thesis by (simp add: algebra_simps)
  qed (simp add: unrealized_ticks_def)
qed

text \<open>The fill that opens, reduces, closes or flips a position with a whole average price.\<close>

lemma tick_bounds:
  fixes x d n a r q price m :: int
  assumes "\<bar>r\<bar> + (\<bar>n\<bar> + q) * (\<bar>a\<bar> + price) \<le> m" "0 < q" "0 < price"
    and x: "\<bar>x\<bar> \<le> \<bar>n\<bar> + q" and d: "\<bar>d\<bar> \<le> \<bar>a\<bar> + price"
  shows "\<bar>x * d\<bar> \<le> m" "\<bar>x\<bar> \<le> m" "\<bar>d\<bar> \<le> m" "\<bar>r + x * d\<bar> \<le> m"
proof -
  have "\<bar>y * e\<bar> \<le> (\<bar>n\<bar> + q) * (\<bar>a\<bar> + price)"
    if "\<bar>y\<bar> \<le> \<bar>n\<bar> + q" "\<bar>e\<bar> \<le> \<bar>a\<bar> + price" for y e
    unfolding abs_mult using that assms(2) by (intro mult_mono) auto
  note b = this
  have "\<bar>1\<bar> \<le> \<bar>a\<bar> + price" "\<bar>1\<bar> \<le> \<bar>n\<bar> + q" using assms(2,3) by simp_all
  from b [OF x d] b [OF x this(1)] b [OF this(2) d] show "\<bar>x * d\<bar> \<le> m" "\<bar>x\<bar> \<le> m" "\<bar>d\<bar> \<le> m" "\<bar>r + x * d\<bar> \<le> m"
    using assms(1) by linarith+
qed

lemma reducing_fill_exact:
  assumes avg: "pos_average_price_ticks p = of_int a" and rp: "pos_realized_pnl_ticks p = of_int r"
    and ok: "side \<in> {- 1, 1}" "0 < q" "0 < price"
    and opp: "pos_quantity p * side \<le> 0"
    and small: "\<bar>r\<bar> + (\<bar>pos_quantity p\<bar> + q) * (\<bar>a\<bar> + price) \<le> 2 ^ 53"
  shows "\<exists>a' r'. pos_average_price_ticks (fill_quantity spec p side q price) = of_int a'
      \<and> pos_realized_pnl_ticks (fill_quantity spec p side q price) = of_int r'
      \<and> \<bar>price - a'\<bar> \<le> \<bar>a\<bar> + price
      \<and> r' + (pos_quantity p + side * q) * (price - a') = r + pos_quantity p * (price - a)"
proof -
  define n where "n = pos_quantity p"
  note tb = tick_bounds [OF small [folded n_def] ok(2,3)]
  have le: "price \<le> 2 ^ 53" "q * price \<le> 2 ^ 53" "q \<le> 2 ^ 53" "\<bar>n\<bar> \<le> 2 ^ 53" "\<bar>price - a\<bar> \<le> 2 ^ 53"
    using tb [of q price] tb(2) [of n price] tb(3) [of q "price - a"] ok by auto
  have f: "fint price = of_int price" "fint (q * price) = of_int (q * price)" "fint q = of_int q"
    using le ok by (intro fint_small; simp)+
  show ?thesis
  proof (cases "n = 0")
    case True
    have "fdiv (of_int (q * price)) (of_int q) = of_int price"
      using ok le by (simp add: fdiv_def fl_of_int)
    moreover have "fadd 0 (of_int (q * price)) = of_int (q * price)"
      using le ok fadd_int [of 0 "q * price"] by simp
    ultimately show ?thesis
      using True f avg rp ok by (simp add: fill_quantity_def n_def [symmetric] Let_def fint_def)
  next
    case False
    define c where "c = min \<bar>n\<bar> q"
    define d where "d = (if 0 < n then price - a else a - price)"
    have c: "0 < c" "c \<le> \<bar>n\<bar>" "c \<le> q" using False ok by (auto simp: c_def)
    have sgn: "(0 < n \<longrightarrow> side = - 1) \<and> (n < 0 \<longrightarrow> side = 1)"
      using ok opp False by (auto simp: n_def)
    have cd: "\<bar>c * d\<bar> \<le> 2 ^ 53" "\<bar>r + c * d\<bar> \<le> 2 ^ 53"
      using tb [of c d] c ok by (auto simp: d_def)
    have "fint c = of_int c" using c le by (intro fint_small) simp
    then have "fmul (fint c) (of_int d) = of_int (c * d)"
      using cd(1) by (simp only: fmul_int)
    moreover have "fsub (of_int price) (of_int a) = of_int (price - a)"
      "fsub (of_int a) (of_int price) = of_int (a - price)"
      using le by (intro fsub_int; simp)+
    ultimately have pnl: "(if 0 < n then fmul (fint c) (fsub (fint price) (of_int a))
        else fmul (fint c) (fsub (of_int a) (fint price))) = of_int (c * d)"
      unfolding f d_def by (simp split: if_splits)
    have r': "fadd (of_int r) (of_int (c * d)) = of_int (r + c * d)"
      using cd(2) by (rule fadd_int)
    define n' where "n' = n + side * q"
    define a' where "a' = (if n' = 0 then 0 else if \<bar>n\<bar> < q then price else a)"
    have add: "(n = 0 \<or> 0 < n \<and> 0 < side * q \<or> n < 0 \<and> side * q < 0) = False"
      using False sgn ok by auto
    have q: "\<bar>side * q\<bar> = q" using ok by auto
    have "pos_average_price_ticks (fill_quantity spec p side q price) = of_int a'"
      and "pos_realized_pnl_ticks (fill_quantity spec p side q price) = of_int (r + c * d)"
      unfolding fill_quantity_def Let_def n_def [symmetric] avg rp c_def [symmetric] n'_def [symmetric]
        add if_False q
      by (simp_all add: a'_def f pnl r' del: of_int_add of_int_mult)
    moreover have "\<bar>price - a'\<bar> \<le> \<bar>a\<bar> + price" using ok by (auto simp: a'_def)
    moreover have "r + c * d + n' * (price - a') = r + n * (price - a)"
    proof (cases "n' = 0")
      case True
      then have "c = \<bar>n\<bar>" using ok by (auto simp: n'_def c_def)
      with True False show ?thesis by (auto simp: d_def algebra_simps)
    next
      case not_flat: False
      with sgn False ok show ?thesis
        by (auto simp: a'_def n'_def c_def d_def algebra_simps min_def split: if_splits)
    qed
    ultimately show ?thesis unfolding n_def [symmetric] n'_def [symmetric] by blast
  qed
qed


subsection \<open>Risk figures\<close>

text \<open>
  The risk figures of a factor model are ordered and sound at the boundary: value at risk is
  non-negative, expected shortfall is at least value at risk at every confidence, and a portfolio
  without notionals has neither, whatever loadings, covariances (even an indefinite matrix) and
  specific variances are configured.
\<close>

theorem risk_figures_ordered:
  "0 \<le> parametric_var m notionals c
   \<and> parametric_var m notionals c \<le> expected_shortfall m notionals c
   \<and> ((\<forall>e \<in> set notionals. snd e = 0) \<longrightarrow>
        parametric_var m notionals c = 0 \<and> expected_shortfall m notionals c = 0)"
  using var_nonneg [of m notionals c] var_le_es [of m notionals c] flat_variance [of notionals m]
  by (auto simp: parametric_var_def expected_shortfall_def)

subsection \<open>When a snapshot raises\<close>

definition mark_of :: "(int, price_input) dict \<Rightarrow> string \<Rightarrow> int \<Rightarrow> position \<Rightarrow> rat" where
  "mark_of marks mark_method iid p =
     mark_value mark_method (pos_quantity p) (get_default marks iid (PriceTicks (pos_last_price_ticks p)))"

lemma snapshot_entry_cases:
  "(pos_quantity p \<noteq> 0 \<and> mark_of marks mm iid p \<le> 0
      \<and> snapshot_entry s marks mm now mx iid p a = Inl (PortfolioError ''mark_invalid''))
   \<or> (\<not> (pos_quantity p \<noteq> 0 \<and> mark_of marks mm iid p \<le> 0)
      \<and> (\<exists>a'. snapshot_entry s marks mm now mx iid p a = Inr a'
             \<and> sa_stale_positions a' = sa_stale_positions a
                 @ (if is_stale now mx (get_default marks iid (PriceTicks (pos_last_price_ticks p)))
                    then [iid] else [])))"
  by (auto simp: snapshot_entry_def mark_of_def Let_def)

lemma snapshot_loop_raise:
  "(\<exists>(iid, p) \<in> set ps. pos_quantity p \<noteq> 0 \<and> mark_of marks mm iid p \<le> 0)
     \<and> snapshot_loop s marks mm now mx ps a = Inl (PortfolioError ''mark_invalid'')
   \<or> \<not> (\<exists>(iid, p) \<in> set ps. pos_quantity p \<noteq> 0 \<and> mark_of marks mm iid p \<le> 0)
     \<and> (\<exists>a'. snapshot_loop s marks mm now mx ps a = Inr a'
          \<and> sa_stale_positions a' = sa_stale_positions a @ map fst (filter (\<lambda>(iid, p).
               is_stale now mx (get_default marks iid (PriceTicks (pos_last_price_ticks p)))) ps))"
proof (induction ps arbitrary: a)
  case (Cons x ps)
  obtain iid p where x: "x = (iid, p)" by fastforce
  show ?case
    using snapshot_entry_cases [of p marks mm iid s now mx a]
  proof (elim disjE conjE exE)
    fix a' assume "snapshot_entry s marks mm now mx iid p a = Inr a'"
      "\<not> (pos_quantity p \<noteq> 0 \<and> mark_of marks mm iid p \<le> 0)"
      "sa_stale_positions a' = sa_stale_positions a
         @ (if is_stale now mx (get_default marks iid (PriceTicks (pos_last_price_ticks p))) then [iid] else [])"
    then show ?thesis using Cons.IH [of a'] by (auto simp: x)
  qed (auto simp: x)
qed simp

text \<open>
  A snapshot raises \<open>mark_invalid\<close> exactly when some open position has no positive mark;
  otherwise it returns, with the net quantity, the profit and loss balance and the list of exactly
  the positions whose quote is older than the staleness bound.
\<close>

theorem snapshot_raises_iff_mark_invalid:
  "case snapshot s marks mm now mx of
     Inl e \<Rightarrow> e = PortfolioError ''mark_invalid''
       \<and> (\<exists>(iid, p) \<in> set (pf_positions s). pos_quantity p \<noteq> 0 \<and> mark_of marks mm iid p \<le> 0)
   | Inr sn \<Rightarrow>
       \<not> (\<exists>(iid, p) \<in> set (pf_positions s). pos_quantity p \<noteq> 0 \<and> mark_of marks mm iid p \<le> 0)
       \<and> sn_net_position sn = dict_sum pos_quantity (pf_positions s)
       \<and> sn_loss_ticks sn = - (sn_realized_pnl_ticks sn + sn_unrealized_pnl_ticks sn)
       \<and> sn_stale_positions sn = map fst (filter (\<lambda>(iid, p).
            is_stale now mx (get_default marks iid (PriceTicks (pos_last_price_ticks p)))) (pf_positions s))"
proof (cases "snapshot_loop s marks mm now mx (pf_positions s) empty_acc")
  case (Inl e)
  then show ?thesis
    using snapshot_loop_raise [of "pf_positions s" marks mm s now mx empty_acc]
    by (simp add: snapshot_def)
next
  case (Inr a)
  moreover have "sa_stale_positions empty_acc = []" by (simp add: empty_acc_def)
  ultimately show ?thesis
    using snapshot_loop_raise [of "pf_positions s" marks mm s now mx empty_acc]
    by (simp add: snapshot_def Let_def current_net_def)
qed

end
