(* ===== verification/Portfolio_Witnesses.thy ===== *)
theory Portfolio_Witnesses
  imports Portfolio_Pnl
begin

section \<open>The portfolio properties at work\<close>

text \<open>Concrete accounts and orders on which the hypotheses of the portfolio properties hold.\<close>

definition desk_limits :: portfolio_limits where
  "desk_limits =
     \<lparr>max_net_position = 100, max_gross_position = 200, max_gross_notional_ticks = 100000,
      max_concentration_ticks = 50000, max_loss_ticks = 1000, allow_short = True,
      max_gross_notional_cash = Some 90000, max_net_notional_cash = None,
      max_concentration_cash = None, max_loss_cash = None, require_locates = True,
      max_expected_shortfall_cash = None, max_parametric_var_cash = None\<rparr>"

definition desk :: portfolio where
  "desk = \<lparr>pf_limits = desk_limits, pf_specs = [], pf_locates = [(7, 5)],
           pf_factor_model = None, pf_positions = []\<rparr>"

lemma desk_init: "portfolio_init desk_limits [] [(7, 5)] None = Inr desk"
  by code_simp

definition cash_account :: portfolio where
  "cash_account = \<lparr>pf_limits = desk_limits\<lparr>allow_short := False\<rparr>, pf_specs = [], pf_locates = [],
           pf_factor_model = None, pf_positions = []\<rparr>"

lemma cash_account_init:
  "portfolio_init (desk_limits\<lparr>allow_short := False\<rparr>) [] [] None = Inr cash_account"
  by code_simp



theorem no_short_without_permission_witness:
  "0 \<le> pos_quantity (position_of
     (foldl portfolio_step cash_account [ApplyFill 7 1 3 100 True, ApplyFill 7 (- 1) 5 100 True]) 7)"
  by (rule no_short_without_permission [OF cash_account_init]) simp

theorem shorts_covered_by_locates_witness:
  "short_quantity (position_of
     (foldl portfolio_step desk [ApplyFill 7 (- 1) 4 100 True, RegisterLocate 7 2, ApplyFill 7 (- 1) 3 90 True]) 7)
   \<le> 5 + 2"
proof -
  let ?ops = "[ApplyFill 7 (- 1) 4 100 True, RegisterLocate 7 2, ApplyFill 7 (- 1) 3 90 True]"
  have "0 \<le> get_default (pf_locates (foldl portfolio_step desk ?ops)) 7 0
     \<and> short_quantity (position_of (foldl portfolio_step desk ?ops) 7)
       + get_default (pf_locates (foldl portfolio_step desk ?ops)) 7 0
       \<le> get_default [(7 :: int, 5)] 7 0 + located 7 ?ops"
    by (rule shorts_covered_by_locates [OF desk_init _ _ refl])
      (simp_all add: desk_limits_def get_default_def)
  moreover have "get_default [(7 :: int, 5)] 7 0 + located 7 ?ops = 7" by code_simp
  ultimately show ?thesis by linarith
qed

theorem short_refusals_agree_witness:
  "apply_fill 7 (- 1) 6 100 True desk = (Inl (PortfolioError ''short_locate_insufficient''),
     snd (validate_order 7 (- 1) 6 100 desk))"
proof -
  have v: "validate_order 7 (- 1) 6 100 desk = (Inr (False, ''short_locate_insufficient''),
     snd (validate_order 7 (- 1) 6 100 desk))"
    by code_simp
  show ?thesis by (rule short_refusals_agree [OF v]) simp
qed

theorem average_price_between_traded_prices_witness:
  "average_between 97 103 (position_of (foldl portfolio_step desk
     [ApplyFill 7 1 3 97 True, ApplyFill 7 1 7 103 False, ApplyFill 7 (- 1) 12 101 True]) 7)"
  by (rule average_price_between_traded_prices [OF desk_init]) simp_all


theorem risk_figures_ordered_witness:
  "parametric_var \<lparr>fm_factors = [''mkt''], fm_loadings = [(7, [(''mkt'', 1)])],
      fm_covariance_matrix = [(''mkt'', [(''mkt'', 1 / 4)])], fm_specific_variance = [(7, 1 / 8)]\<rparr>
     [(7, 0)] default_confidence = 0"
  using risk_figures_ordered [of "\<lparr>fm_factors = [''mkt''], fm_loadings = [(7, [(''mkt'', 1)])],
      fm_covariance_matrix = [(''mkt'', [(''mkt'', 1 / 4)])], fm_specific_variance = [(7, 1 / 8)]\<rparr>"
      "[(7, 0)]" default_confidence] by simp

theorem apply_fill_effect_witness:
  "pos_quantity (position_of (snd (apply_fill 7 1 3 100 True desk)) 7) = 3"
proof -
  obtain r s' where f: "apply_fill 7 1 3 100 True desk = (r, s')" by fastforce
  have "\<not> isl (fst (apply_fill 7 1 3 100 True desk))" by code_simp
  then obtain p where r: "r = Inr p" by (cases r) (auto simp: f)
  have d: "pf_positions desk = []" by (simp add: desk_def)
  show ?thesis
    using apply_fill_effect [where iid = 7 and side = 1 and q = 3 and price = 100 and taker = True and s = desk]
    by (simp add: f r position_of_def get_default_def d)
qed

end
