(* ===== verification/Backtest.thy ===== *)
theory Backtest
  imports Py_Float Py_Str "HOL-Library.Product_Lexorder" "HOL-Library.Multiset"
begin

section \<open>Backtest engines (python/backtest/engine.py)\<close>

text \<open>
  \<open>ReplayBacktest\<close> pairs signals with the quote of the same timestamp; \<open>MicrostructureEngine\<close>
  keeps a level-2 book and resting orders with a queue position. The engine objects are records
  passed explicitly; the in-place loops over levels and orders are recursive functions that
  return the changed list, the new position and the fills in the order the code appends them.
\<close>

subsection \<open>Events and fills\<close>

record quote =
  q_timestamp_ns :: int
  q_bid_ticks :: int
  q_ask_ticks :: int
  q_bid_size :: int
  q_ask_size :: int
  q_bids :: "(int \<times> int) list option"
  q_asks :: "(int \<times> int) list option"

record signal =
  s_timestamp_ns :: int
  s_side :: int
  s_quantity :: int
  s_order_type :: string
  s_limit_price_ticks :: "int option"
  s_latency_ns :: int

record fill =
  f_timestamp_ns :: int
  f_price_ticks :: int
  f_quantity :: int
  f_side :: int
  f_is_maker :: bool
  f_fee_ticks :: rat
  f_slippage_ticks :: int
  f_latency_ns :: int
  f_adverse_selection_cost_ticks :: rat

record market_trade =
  t_timestamp_ns :: int
  t_price_ticks :: int
  t_quantity :: int
  t_aggressor_side :: int

definition signed :: "int \<Rightarrow> int \<Rightarrow> int" where
  "signed side quantity = (if 0 < side then quantity else - quantity)"

subsection \<open>ReplayBacktest\<close>

record replay_backtest =
  rb_max_position :: int
  rb_strict_unique_timestamps :: bool
  rb_position :: int
  rb_fills :: "fill list"

definition replay_init :: "int \<Rightarrow> bool \<Rightarrow> exn + replay_backtest" where
  "replay_init max_position strict =
     (if max_position \<le> 0 then Inl (ValueError ''max_position_invalid'')
      else Inr \<lparr>rb_max_position = max_position, rb_strict_unique_timestamps = strict,
                rb_position = 0, rb_fills = []\<rparr>)"

definition replay_apply :: "quote \<Rightarrow> signal \<Rightarrow> replay_backtest \<Rightarrow> fill option \<times> replay_backtest" where
  "replay_apply quote signal r =
     (if q_timestamp_ns quote \<le> 0 \<or> q_bid_ticks quote \<le> 0
         \<or> q_ask_ticks quote < q_bid_ticks quote \<or> s_side signal \<notin> {- 1, 1}
      then (None, r)
      else
        let price = (if 0 < s_side signal then q_ask_ticks quote else q_bid_ticks quote);
            next_position = rb_position r + signed (s_side signal) (s_quantity signal)
        in if s_quantity signal \<le> 0 \<or> rb_max_position r < \<bar>next_position\<bar> then (None, r)
           else
             let f = \<lparr>f_timestamp_ns = s_timestamp_ns signal, f_price_ticks = price,
                      f_quantity = s_quantity signal, f_side = s_side signal, f_is_maker = False,
                      f_fee_ticks = 0, f_slippage_ticks = 0, f_latency_ns = 0,
                      f_adverse_selection_cost_ticks = 0\<rparr>
             in (Some f, r\<lparr>rb_position := next_position, rb_fills := rb_fills r @ [f]\<rparr>))"

fun index_quotes :: "bool \<Rightarrow> quote list \<Rightarrow> (int, quote) dict \<Rightarrow> exn + (int, quote) dict" where
  "index_quotes strict [] d = Inr d"
| "index_quotes strict (quote # quotes) d =
     (if strict \<and> has_key d (q_timestamp_ns quote) then Inl (ValueError ''duplicate_quote_timestamp'')
      else index_quotes strict quotes (AList.update (q_timestamp_ns quote) quote d))"

definition replay_signal :: "(int, quote) dict \<Rightarrow> replay_backtest \<Rightarrow> signal \<Rightarrow> replay_backtest" where
  "replay_signal quotes r signal =
     (case map_of quotes (s_timestamp_ns signal) of
        None \<Rightarrow> r
      | Some quote \<Rightarrow> snd (replay_apply quote signal r))"

definition replay_run :: "quote list \<Rightarrow> signal list \<Rightarrow> replay_backtest
    \<Rightarrow> (replay_backtest, fill list) outcome" where
  "replay_run quotes signals r =
     (case index_quotes (rb_strict_unique_timestamps r) quotes [] of
        Inl e \<Rightarrow> (Inl e, r)
      | Inr d \<Rightarrow> let r' = foldl (replay_signal d) r signals in (Inr (rb_fills r'), r'))"

subsection \<open>L2OrderBook\<close>

record book_level =
  l_price_ticks :: int
  l_size :: int

record order_book =
  ob_bids :: "book_level list"
  ob_asks :: "book_level list"

definition level_of :: "int \<times> int \<Rightarrow> book_level" where
  "level_of e = \<lparr>l_price_ticks = fst e, l_size = snd e\<rparr>"

definition update_from_quote :: "quote \<Rightarrow> order_book \<Rightarrow> order_book" where
  "update_from_quote quote b =
     \<lparr>ob_bids = (case q_bids quote of
          Some (e # es) \<Rightarrow> map level_of (sort_key (\<lambda>x. - fst x) (e # es))
        | _ \<Rightarrow> [level_of (q_bid_ticks quote, q_bid_size quote)]),
      ob_asks = (case q_asks quote of
          Some (e # es) \<Rightarrow> map level_of (sort_key fst (e # es))
        | _ \<Rightarrow> [level_of (q_ask_ticks quote, q_ask_size quote)])\<rparr>"

definition best_bid :: "order_book \<Rightarrow> int" where
  "best_bid b = (case ob_bids b of [] \<Rightarrow> 0 | l # _ \<Rightarrow> l_price_ticks l)"

definition best_ask :: "order_book \<Rightarrow> int" where
  "best_ask b = (case ob_asks b of [] \<Rightarrow> 0 | l # _ \<Rightarrow> l_price_ticks l)"

definition mid_price :: "order_book \<Rightarrow> rat" where
  "mid_price b =
     (if 0 < best_bid b \<and> 0 < best_ask b then fdiv (fint (best_bid b + best_ask b)) 2
      else fint (if best_bid b \<noteq> 0 then best_bid b else best_ask b))"

definition spread :: "order_book \<Rightarrow> int" where
  "spread b = max 0 (best_ask b - best_bid b)"

subsection \<open>MicrostructureEngine: state\<close>

record resting_order =
  r_order_id :: int
  r_placed_time_ns :: int
  r_arrival_time_ns :: int
  r_side :: int
  r_price_ticks :: int
  r_remaining_quantity :: int
  r_queue_ahead :: int
  r_is_post_only :: bool

record micro_config =
  wire_latency_ns :: int
  engine_latency_ns :: int
  maker_fee_bps :: rat
  taker_fee_bps :: rat
  queue_cancellation_rate :: rat
  adverse_selection_alpha :: rat

definition default_config :: micro_config where
  "default_config =
     \<lparr>wire_latency_ns = 500, engine_latency_ns = 250, maker_fee_bps = fl (- 1 / 10),
      taker_fee_bps = fl (3 / 10), queue_cancellation_rate = fl (1 / 5),
      adverse_selection_alpha = fl (2 / 5)\<rparr>"

record engine =
  e_max_position :: int
  e_config :: micro_config
  e_book :: order_book
  e_position :: int
  e_fills :: "fill list"
  e_resting_orders :: "resting_order list"
  e_next_order_id :: int
  e_current_time_ns :: int

definition engine_init :: "int \<Rightarrow> micro_config option \<Rightarrow> exn + engine" where
  "engine_init max_position config =
     (if max_position \<le> 0 then Inl (ValueError ''max_position_invalid'')
      else Inr \<lparr>e_max_position = max_position,
                e_config = (case config of None \<Rightarrow> default_config | Some c \<Rightarrow> c),
                e_book = \<lparr>ob_bids = [], ob_asks = []\<rparr>, e_position = 0, e_fills = [],
                e_resting_orders = [], e_next_order_id = 1, e_current_time_ns = 0\<rparr>)"

subsection \<open>Resting orders against a quote\<close>

definition fill_fee :: "int \<Rightarrow> int \<Rightarrow> rat \<Rightarrow> rat" where
  "fill_fee quantity price bps = fmul (fint (quantity * price)) (fdiv bps 10000)"

text \<open>The price at which a quote executes the order, if it does.\<close>

definition quote_fill_price :: "quote \<Rightarrow> resting_order \<Rightarrow> int option" where
  "quote_fill_price quote order =
     (if 0 < r_side order \<and> q_ask_ticks quote \<le> r_price_ticks order then Some (q_ask_ticks quote)
      else if r_side order < 0 \<and> r_price_ticks order \<le> q_bid_ticks quote then Some (q_bid_ticks quote)
      else None)"

definition quote_fill :: "micro_config \<Rightarrow> quote \<Rightarrow> resting_order \<Rightarrow> int \<Rightarrow> fill" where
  "quote_fill config quote order price =
     \<lparr>f_timestamp_ns = q_timestamp_ns quote, f_price_ticks = price,
      f_quantity = r_remaining_quantity order, f_side = r_side order, f_is_maker = True,
      f_fee_ticks = fill_fee (r_remaining_quantity order) price (maker_fee_bps config),
      f_slippage_ticks = 0, f_latency_ns = q_timestamp_ns quote - r_placed_time_ns order,
      f_adverse_selection_cost_ticks =
        fmul (adverse_selection_alpha config) (fint (max 1 (q_ask_ticks quote - q_bid_ticks quote)))\<rparr>"

fun evaluate_loop :: "micro_config \<Rightarrow> int \<Rightarrow> quote \<Rightarrow> int \<Rightarrow> resting_order list
    \<Rightarrow> resting_order list \<times> int \<times> fill list" where
  "evaluate_loop config max_position quote position [] = ([], position, [])"
| "evaluate_loop config max_position quote position (order # orders) =
     (let keep = (let (surviving, p, fs) = evaluate_loop config max_position quote position orders
                  in (order # surviving, p, fs))
      in if q_timestamp_ns quote < r_arrival_time_ns order then keep
         else case quote_fill_price quote order of
           None \<Rightarrow> keep
         | Some price \<Rightarrow>
             let s = signed (r_side order) (r_remaining_quantity order)
             in if \<bar>position + s\<bar> \<le> max_position then
                  let (surviving, p, fs) = evaluate_loop config max_position quote (position + s) orders
                  in (surviving, p, quote_fill config quote order price # fs)
                else keep)"

definition evaluate_resting_orders :: "quote \<Rightarrow> engine \<Rightarrow> fill list \<times> engine" where
  "evaluate_resting_orders quote e =
     (let (surviving, p, fs) =
        evaluate_loop (e_config e) (e_max_position e) quote (e_position e) (e_resting_orders e)
      in (fs, e\<lparr>e_position := p, e_fills := e_fills e @ fs, e_resting_orders := surviving\<rparr>))"

definition on_quote :: "quote \<Rightarrow> engine \<Rightarrow> fill list \<times> engine" where
  "on_quote quote e =
     (if q_timestamp_ns quote \<le> 0 \<or> q_bid_ticks quote \<le> 0 \<or> q_ask_ticks quote < q_bid_ticks quote
      then ([], e)
      else evaluate_resting_orders quote
        (e\<lparr>e_current_time_ns := max (e_current_time_ns e) (q_timestamp_ns quote),
           e_book := update_from_quote quote (e_book e)\<rparr>))"

subsection \<open>Resting orders against a trade\<close>

definition trade_matches :: "market_trade \<Rightarrow> resting_order \<Rightarrow> bool" where
  "trade_matches trade order \<longleftrightarrow>
     0 < r_side order \<and> t_aggressor_side trade < 0 \<and> t_price_ticks trade \<le> r_price_ticks order
     \<or> r_side order < 0 \<and> 0 < t_aggressor_side trade \<and> r_price_ticks order \<le> t_price_ticks trade"

definition decayed_queue :: "micro_config \<Rightarrow> resting_order \<Rightarrow> int" where
  "decayed_queue config order =
     py_trunc (fmul (fint (r_queue_ahead order)) (fsub 1 (queue_cancellation_rate config)))"

definition trade_fill :: "micro_config \<Rightarrow> int \<Rightarrow> market_trade \<Rightarrow> resting_order \<Rightarrow> int \<Rightarrow> fill" where
  "trade_fill config spr trade order quantity =
     \<lparr>f_timestamp_ns = t_timestamp_ns trade, f_price_ticks = r_price_ticks order,
      f_quantity = quantity, f_side = r_side order, f_is_maker = True,
      f_fee_ticks = fill_fee quantity (r_price_ticks order) (maker_fee_bps config),
      f_slippage_ticks = 0, f_latency_ns = t_timestamp_ns trade - r_placed_time_ns order,
      f_adverse_selection_cost_ticks = fmul (adverse_selection_alpha config) (fint spr)\<rparr>"

text \<open>One order against one trade: the order afterwards, the position and the fill, if any.\<close>

definition trade_order :: "micro_config \<Rightarrow> int \<Rightarrow> int \<Rightarrow> market_trade \<Rightarrow> int \<Rightarrow> resting_order
    \<Rightarrow> resting_order \<times> int \<times> fill list" where
  "trade_order config max_position spr trade position order =
     (if \<not> trade_matches trade order then (order, position, [])
      else
        let decayed = decayed_queue config order
        in if decayed < t_quantity trade then
             let fill_qty = min (r_remaining_quantity order) (t_quantity trade - decayed);
                 s = signed (r_side order) fill_qty
             in if \<bar>position + s\<bar> \<le> max_position \<and> 0 < fill_qty
                then (order\<lparr>r_remaining_quantity := r_remaining_quantity order - fill_qty\<rparr>,
                      position + s, [trade_fill config spr trade order fill_qty])
                else (order, position, [])
           else (order\<lparr>r_queue_ahead := max 0 (decayed - t_quantity trade)\<rparr>, position, []))"

fun trade_loop :: "micro_config \<Rightarrow> int \<Rightarrow> int \<Rightarrow> market_trade \<Rightarrow> int \<Rightarrow> resting_order list
    \<Rightarrow> resting_order list \<times> int \<times> fill list" where
  "trade_loop config max_position spr trade position [] = ([], position, [])"
| "trade_loop config max_position spr trade position (order # orders) =
     (if t_timestamp_ns trade < r_arrival_time_ns order then
        let (surviving, p, fs) = trade_loop config max_position spr trade position orders
        in (order # surviving, p, fs)
      else
        let (order', p1, f) = trade_order config max_position spr trade position order;
            (surviving, p, fs) = trade_loop config max_position spr trade p1 orders
        in (if 0 < r_remaining_quantity order' then order' # surviving else surviving, p, f @ fs))"

definition on_market_trade :: "market_trade \<Rightarrow> engine \<Rightarrow> fill list \<times> engine" where
  "on_market_trade trade e =
     (let (surviving, p, fs) = trade_loop (e_config e) (e_max_position e) (spread (e_book e)) trade
            (e_position e) (e_resting_orders e)
      in (fs, e\<lparr>e_current_time_ns := max (e_current_time_ns e) (t_timestamp_ns trade),
                e_position := p, e_fills := e_fills e @ fs, e_resting_orders := surviving\<rparr>))"

subsection \<open>Incoming orders\<close>

definition taker_fill :: "micro_config \<Rightarrow> signal \<Rightarrow> int \<Rightarrow> int \<Rightarrow> rat \<Rightarrow> book_level \<Rightarrow> int \<Rightarrow> fill" where
  "taker_fill config signal arrival latency mid level quantity =
     \<lparr>f_timestamp_ns = arrival, f_price_ticks = l_price_ticks level, f_quantity = quantity,
      f_side = s_side signal, f_is_maker = False,
      f_fee_ticks = fill_fee quantity (l_price_ticks level) (taker_fee_bps config),
      f_slippage_ticks = \<bar>l_price_ticks level - py_trunc mid\<bar>, f_latency_ns = latency,
      f_adverse_selection_cost_ticks = 0\<rparr>"

fun take_ladder :: "micro_config \<Rightarrow> int \<Rightarrow> signal \<Rightarrow> int \<Rightarrow> int \<Rightarrow> rat \<Rightarrow> int \<Rightarrow> int
    \<Rightarrow> book_level list \<Rightarrow> book_level list \<times> int \<times> fill list" where
  "take_ladder config max_position signal arrival latency mid remaining position [] = ([], position, [])"
| "take_ladder config max_position signal arrival latency mid remaining position (level # levels) =
     (if remaining \<le> 0 then (level # levels, position, [])
      else if l_size level \<le> 0 then
        let (ls, p, fs) =
          take_ladder config max_position signal arrival latency mid remaining position levels
        in (level # ls, p, fs)
      else
        let match_qty = min remaining (l_size level);
            s = signed (s_side signal) match_qty
        in if max_position < \<bar>position + s\<bar> then (level # levels, position, [])
           else
             let (ls, p, fs) = take_ladder config max_position signal arrival latency mid
                   (remaining - match_qty) (position + s) levels
             in (level\<lparr>l_size := l_size level - match_qty\<rparr> # ls, p,
                 taker_fill config signal arrival latency mid level match_qty # fs))"

definition execute_aggressive :: "signal \<Rightarrow> int \<Rightarrow> int \<Rightarrow> engine \<Rightarrow> fill list \<times> engine" where
  "execute_aggressive signal arrival latency e =
     (let b = e_book e;
          (ls, p, fs) = take_ladder (e_config e) (e_max_position e) signal arrival latency
            (mid_price b) (s_quantity signal) (e_position e)
            (if 0 < s_side signal then ob_asks b else ob_bids b)
      in (fs, e\<lparr>e_book := (if 0 < s_side signal then b\<lparr>ob_asks := ls\<rparr> else b\<lparr>ob_bids := ls\<rparr>),
                e_position := p, e_fills := e_fills e @ fs\<rparr>))"

fun queue_at :: "int \<Rightarrow> book_level list \<Rightarrow> int" where
  "queue_at price [] = 0"
| "queue_at price (level # levels) =
     (if l_price_ticks level = price then l_size level else queue_at price levels)"

definition limit_price_of :: "signal \<Rightarrow> order_book \<Rightarrow> int" where
  "limit_price_of signal b =
     (case s_limit_price_ticks signal of
        Some p \<Rightarrow> p
      | None \<Rightarrow> if 0 < s_side signal then best_bid b else best_ask b)"

definition crosses :: "signal \<Rightarrow> order_book \<Rightarrow> bool" where
  "crosses signal b \<longleftrightarrow>
     0 < s_side signal \<and> best_ask b \<le> limit_price_of signal b \<and> 0 < best_ask b
     \<or> s_side signal < 0 \<and> limit_price_of signal b \<le> best_bid b \<and> 0 < best_bid b"

definition place_limit :: "signal \<Rightarrow> int \<Rightarrow> int \<Rightarrow> bool \<Rightarrow> engine \<Rightarrow> fill list \<times> engine" where
  "place_limit signal arrival latency post_only e =
     (let b = e_book e; price = limit_price_of signal b
      in if crosses signal b then
           if post_only then ([], e) else execute_aggressive signal arrival latency e
         else
           let order = \<lparr>r_order_id = e_next_order_id e, r_placed_time_ns = s_timestamp_ns signal,
                        r_arrival_time_ns = arrival, r_side = s_side signal, r_price_ticks = price,
                        r_remaining_quantity = s_quantity signal,
                        r_queue_ahead =
                          queue_at price (if 0 < s_side signal then ob_bids b else ob_asks b),
                        r_is_post_only = post_only\<rparr>
           in ([], e\<lparr>e_next_order_id := e_next_order_id e + 1,
                     e_resting_orders := e_resting_orders e @ [order]\<rparr>))"

definition submit_order :: "signal \<Rightarrow> engine \<Rightarrow> fill list \<times> engine" where
  "submit_order signal e =
     (if s_side signal \<notin> {- 1, 1} \<or> s_quantity signal \<le> 0 then ([], e)
      else
        let latency = (if s_latency_ns signal \<noteq> 0 then s_latency_ns signal
                       else wire_latency_ns (e_config e) + engine_latency_ns (e_config e));
            arrival = s_timestamp_ns signal + latency;
            e = e\<lparr>e_current_time_ns := max (e_current_time_ns e) arrival\<rparr>;
            order_type = py_lower (s_order_type signal)
        in if order_type = ''market'' then execute_aggressive signal arrival latency e
           else if order_type = ''limit'' \<or> order_type = ''post_only''
           then place_limit signal arrival latency (order_type = ''post_only'') e
           else ([], e))"

subsection \<open>Simulation\<close>

datatype event = EQuote quote | ETrade market_trade | ESignal signal

fun event_key :: "event \<Rightarrow> int \<times> int" where
  "event_key (EQuote q) = (q_timestamp_ns q, 0)"
| "event_key (ETrade t) = (t_timestamp_ns t, 1)"
| "event_key (ESignal s) = (s_timestamp_ns s, 2)"

fun engine_step :: "engine \<Rightarrow> event \<Rightarrow> engine" where
  "engine_step e (EQuote q) = snd (on_quote q e)"
| "engine_step e (ETrade t) = snd (on_market_trade t e)"
| "engine_step e (ESignal s) = snd (submit_order s e)"

definition run_simulation :: "event list \<Rightarrow> engine \<Rightarrow> fill list \<times> engine" where
  "run_simulation events e =
     (let e' = foldl engine_step e (sort_key event_key events) in (e_fills e', e'))"

end
