(* ===== verification/Microstructure_Props.thy ===== *)
theory Microstructure_Props
  imports Backtest_Props
begin

section \<open>Correctness of the microstructure engine\<close>

text \<open>
  One block of lemmas per loop of \<open>MicrostructureEngine\<close>, the state invariant \<open>engine_ok\<close> that
  every event keeps, and the properties of runs: bounded position, a ledger that balances, price
  priority and conservation of size for aggressive orders, limit prices and conservation of
  quantity for resting orders, and results that do not depend on the order of the input.
\<close>

subsection \<open>Resting orders\<close>

definition remaining_sum :: "resting_order list \<Rightarrow> int" where
  "remaining_sum os = sum_list (map r_remaining_quantity os)"

lemma remaining_sum_simps [simp]:
  "remaining_sum [] = 0" "remaining_sum (x # os) = r_remaining_quantity x + remaining_sum os"
  "remaining_sum (os @ os') = remaining_sum os + remaining_sum os'"
  by (simp_all add: remaining_sum_def)

text \<open>A fill of a resting order: on time, on its side, at its price or better, at most its size.\<close>

definition maker_fill :: "resting_order \<Rightarrow> fill \<Rightarrow> bool" where
  "maker_fill ord f \<longleftrightarrow> f_side f = r_side ord \<and> f_is_maker f
     \<and> f_quantity f \<le> r_remaining_quantity ord \<and> r_arrival_time_ns ord \<le> f_timestamp_ns f
     \<and> (if 0 < r_side ord then f_price_ticks f \<le> r_price_ticks ord
        else r_price_ticks ord \<le> f_price_ticks f)"

lemma quote_fill_maker:
  "quote_fill_price q ord = Some price \<Longrightarrow> r_arrival_time_ns ord \<le> q_timestamp_ns q \<Longrightarrow>
   maker_fill ord (quote_fill c q ord price)"
  by (auto simp: quote_fill_price_def quote_fill_def maker_fill_def split: if_splits)

lemma quote_fill_fields [simp]:
  "f_quantity (quote_fill c q ord price) = r_remaining_quantity ord"
  "f_side (quote_fill c q ord price) = r_side ord"
  by (simp_all add: quote_fill_def)

lemma evaluate_loop_facts:
  assumes "evaluate_loop c m q pos os = (sv, p, fs)"
  shows "p = pos + signed_sum fs"
    and "\<bar>pos\<bar> \<le> m \<Longrightarrow> \<bar>p\<bar> \<le> m"
    and "remaining_sum os = remaining_sum sv + filled fs"
    and "set sv \<subseteq> set os"
    and "\<forall>f \<in> set fs. \<exists>ord \<in> set os. maker_fill ord f \<and> f_quantity f = r_remaining_quantity ord"
    and "sorted_wrt (\<lambda>x y. r_order_id x < r_order_id y) os
           \<Longrightarrow> sorted_wrt (\<lambda>x y. r_order_id x < r_order_id y) sv"
  using assms
proof (atomize (full), induction os arbitrary: pos sv p fs)
  case (Cons ord os)
  obtain sv1 p1 fs1 where k: "evaluate_loop c m q pos os = (sv1, p1, fs1)" using prod_cases3 by blast
  consider (keep) "sv = ord # sv1" "p = p1" "fs = fs1"
    | (fill) price fs2 where "quote_fill_price q ord = Some price"
        "r_arrival_time_ns ord \<le> q_timestamp_ns q"
        "\<bar>pos + signed (r_side ord) (r_remaining_quantity ord)\<bar> \<le> m"
        "evaluate_loop c m q (pos + signed (r_side ord) (r_remaining_quantity ord)) os = (sv, p, fs2)"
        "fs = quote_fill c q ord price # fs2"
    using Cons.prems by (auto simp: k Let_def not_less split: if_splits option.splits prod.splits)
  then show ?case
  proof cases
    case keep
    then show ?thesis using Cons.IH [OF k] by fastforce
  next
    case fill
    then show ?thesis using Cons.IH [OF fill(4)] quote_fill_maker [OF fill(1,2), of c] by fastforce
  qed
qed simp

lemma trade_order_facts:
  assumes "trade_order c m spr t pos ord = (ord', p, fs)" and "0 < r_remaining_quantity ord"
  shows "p = pos + signed_sum fs"
    and "\<bar>pos\<bar> \<le> m \<Longrightarrow> \<bar>p\<bar> \<le> m"
    and "r_remaining_quantity ord = r_remaining_quantity ord' + filled fs"
    and "0 \<le> r_remaining_quantity ord'"
    and "r_order_id ord' = r_order_id ord" "r_side ord' = r_side ord"
    and "\<forall>f \<in> set fs. 0 < f_quantity f
           \<and> (r_arrival_time_ns ord \<le> t_timestamp_ns t \<longrightarrow> maker_fill ord f)
           \<and> f_quantity f \<le> t_quantity t - decayed_queue c ord"
  using assms
  by (auto simp: trade_order_def Let_def trade_fill_def maker_fill_def split: if_splits)

lemma trade_loop_facts:
  assumes "trade_loop c m spr t pos os = (sv, p, fs)" and "\<forall>ord \<in> set os. 0 < r_remaining_quantity ord"
  shows "p = pos + signed_sum fs"
    and "\<bar>pos\<bar> \<le> m \<Longrightarrow> \<bar>p\<bar> \<le> m"
    and "remaining_sum os = remaining_sum sv + filled fs"
    and "\<forall>ord \<in> set sv. 0 < r_remaining_quantity ord
           \<and> (\<exists>ord0 \<in> set os. r_order_id ord = r_order_id ord0 \<and> r_side ord = r_side ord0)"
    and "\<forall>f \<in> set fs. 0 < f_quantity f \<and> (\<exists>ord \<in> set os. maker_fill ord f)"
    and "sorted_wrt (\<lambda>x y. r_order_id x < r_order_id y) os
           \<Longrightarrow> sorted_wrt (\<lambda>x y. r_order_id x < r_order_id y) sv"
  using assms
proof (atomize (full), induction os arbitrary: pos sv p fs)
  case (Cons ord os)
  show ?case
  proof (cases "t_timestamp_ns t < r_arrival_time_ns ord")
    case True
    then obtain sv1 where k: "trade_loop c m spr t pos os = (sv1, p, fs)" "sv = ord # sv1"
      using Cons.prems(1) by (auto split: prod.splits)
    show ?thesis using Cons.IH [OF k(1)] Cons.prems(2) k(2) by fastforce
  next
    case False
    obtain ord' p1 f where o: "trade_order c m spr t pos ord = (ord', p1, f)" using prod_cases3 by blast
    obtain sv1 p2 fs1 where k: "trade_loop c m spr t p1 os = (sv1, p2, fs1)" using prod_cases3 by blast
    have r: "p = p2" "fs = f @ fs1"
      "sv = (if 0 < r_remaining_quantity ord' then ord' # sv1 else sv1)"
      using Cons.prems(1) False by (auto simp: o k)
    have pos: "0 < r_remaining_quantity ord" using Cons.prems(2) by simp
    note tf = trade_order_facts [OF o pos]
    have IH: "p2 = p1 + signed_sum fs1" "\<bar>p1\<bar> \<le> m \<Longrightarrow> \<bar>p2\<bar> \<le> m"
      "remaining_sum os = remaining_sum sv1 + filled fs1"
      "\<forall>x \<in> set sv1. 0 < r_remaining_quantity x
         \<and> (\<exists>y \<in> set os. r_order_id x = r_order_id y \<and> r_side x = r_side y)"
      "\<forall>g \<in> set fs1. 0 < f_quantity g \<and> (\<exists>x \<in> set os. maker_fill x g)"
      "sorted_wrt (\<lambda>x y. r_order_id x < r_order_id y) os
         \<Longrightarrow> sorted_wrt (\<lambda>x y. r_order_id x < r_order_id y) sv1"
      using Cons.IH [OF k] Cons.prems(2) by auto
    have mk: "\<forall>g \<in> set f. 0 < f_quantity g \<and> maker_fill ord g" using tf(7) False by auto
    show ?thesis
    proof (intro conjI)
      show "\<forall>x \<in> set sv. 0 < r_remaining_quantity x
          \<and> (\<exists>y \<in> set (ord # os). r_order_id x = r_order_id y \<and> r_side x = r_side y)"
        using IH(4) tf(5,6) by (auto simp: r)
      show "sorted_wrt (\<lambda>x y. r_order_id x < r_order_id y) (ord # os) \<longrightarrow>
          sorted_wrt (\<lambda>x y. r_order_id x < r_order_id y) sv"
        using IH(4,6) tf(5) by (auto simp: r)
      show "\<bar>pos\<bar> \<le> m \<longrightarrow> \<bar>p\<bar> \<le> m" using IH(2) tf(2) by (simp add: r)
      show "remaining_sum (ord # os) = remaining_sum sv + filled fs" using IH(3) tf(3,4) by (simp add: r)
    qed (use IH(1,5) tf(1) mk in \<open>auto simp: r\<close>)
  qed
qed simp

subsection \<open>Aggressive orders\<close>

definition size_sum :: "book_level list \<Rightarrow> int" where
  "size_sum ls = sum_list (map l_size ls)"

definition liquidity :: "book_level list \<Rightarrow> int" where
  "liquidity ls = sum_list (map (\<lambda>l. max 0 (l_size l)) ls)"

lemma level_sums [simp]:
  "size_sum [] = 0" "size_sum (l # ls) = l_size l + size_sum ls"
  "liquidity [] = 0" "liquidity (l # ls) = max 0 (l_size l) + liquidity ls"
  by (simp_all add: size_sum_def liquidity_def)

lemma liquidity_nonneg: "0 \<le> liquidity ls"
  by (induction ls) auto

lemma taker_fill_fields [simp]:
  "f_quantity (taker_fill c s a l mid lev q) = q" "f_side (taker_fill c s a l mid lev q) = s_side s"
  "f_price_ticks (taker_fill c s a l mid lev q) = l_price_ticks lev"
  by (simp_all add: taker_fill_def)

lemma take_ladder_cases:
  assumes "take_ladder c m s a l mid rm pos (lev # levs) = (ls, p, fs)"
  obtains (stop) "ls = lev # levs" "p = pos" "fs = []"
      "rm \<le> 0 \<or> 0 < l_size lev \<and> m < \<bar>pos + signed (s_side s) (min rm (l_size lev))\<bar>"
  | (skip) ls1 where "0 < rm" "l_size lev \<le> 0" "ls = lev # ls1"
      "take_ladder c m s a l mid rm pos levs = (ls1, p, fs)"
  | (hit) ls1 fs1 k where "0 < rm" "0 < l_size lev" "k = min rm (l_size lev)"
      "\<bar>pos + signed (s_side s) k\<bar> \<le> m"
      "take_ladder c m s a l mid (rm - k) (pos + signed (s_side s) k) levs = (ls1, p, fs1)"
      "ls = lev\<lparr>l_size := l_size lev - k\<rparr> # ls1" "fs = taker_fill c s a l mid lev k # fs1"
  using assms by (auto simp: Let_def not_le not_less split: if_splits prod.splits)

lemma take_ladder_facts:
  assumes "take_ladder c m s a l mid rm pos levs = (ls, p, fs)"
  shows "p = pos + signed_sum fs"
    and "\<bar>pos\<bar> \<le> m \<Longrightarrow> \<bar>p\<bar> \<le> m"
    and "size_sum levs = size_sum ls + filled fs"
    and "0 \<le> filled fs" "filled fs \<le> max 0 rm"
    and "map l_price_ticks ls = map l_price_ticks levs"
    and "\<forall>f \<in> set fs. 0 < f_quantity f \<and> f_side f = s_side s \<and> f_price_ticks f \<in> l_price_ticks ` set levs"
    and "sorted_wrt R (map l_price_ticks levs) \<Longrightarrow> sorted_wrt R (map f_price_ticks fs)"
  using assms
proof (atomize (full), induction levs arbitrary: rm pos ls p fs)
  case (Cons lev levs)
  from Cons.prems show ?case
  proof (cases rule: take_ladder_cases)
    case skip
    then show ?thesis using Cons.IH [OF skip(4)] by auto
  next
    case (hit ls1 fs1 k)
    note IH = Cons.IH [OF hit(5)]
    have k: "0 < k" "k \<le> rm" "k \<le> l_size lev" using hit(1-3) by auto
    show ?thesis using IH hit(4) k by (auto simp: hit(6,7))
  qed auto
qed simp

text \<open>Unless the position limit interferes, an order takes all it asks for or all there is.\<close>

lemma take_ladder_complete:
  assumes "take_ladder c m s a l mid rm pos levs = (ls, p, fs)" and "0 \<le> rm" "\<bar>pos\<bar> + rm \<le> m"
  shows "filled fs = min rm (liquidity levs)"
  using assms
proof (induction levs arbitrary: rm pos ls p fs)
  case (Cons lev levs)
  from Cons.prems(1) show ?case
  proof (cases rule: take_ladder_cases)
    case stop
    have "\<not> m < \<bar>pos + signed (s_side s) (min rm (l_size lev))\<bar>" if "0 < l_size lev"
      using Cons.prems(2,3) that by (auto simp: signed_def)
    then show ?thesis
      using stop(4) Cons.prems(2) liquidity_nonneg [of levs] by (auto simp: stop(3))
  next
    case skip
    then show ?thesis using Cons.IH [OF skip(4)] Cons.prems by simp
  next
    case (hit ls1 fs1 k)
    have k: "0 < k" "k \<le> rm" using hit(1-3) by auto
    have "filled fs1 = min (rm - k) (liquidity levs)"
      by (rule Cons.IH [OF hit(5)]) (use k Cons.prems in \<open>auto simp: signed_def\<close>)
    then show ?thesis using hit(2,3) k liquidity_nonneg [of levs] by (auto simp: hit(7))
  qed
qed simp

subsection \<open>The engine invariant\<close>

definition book_sorted :: "order_book \<Rightarrow> bool" where
  "book_sorted b \<longleftrightarrow> sorted_wrt (\<le>) (map l_price_ticks (ob_asks b))
     \<and> sorted_wrt (\<ge>) (map l_price_ticks (ob_bids b))"

definition orders_ok :: "int \<Rightarrow> resting_order list \<Rightarrow> bool" where
  "orders_ok next os \<longleftrightarrow> sorted_wrt (\<lambda>x y. r_order_id x < r_order_id y) os
     \<and> (\<forall>ord \<in> set os. 0 < r_remaining_quantity ord \<and> r_side ord \<in> {- 1, 1} \<and> r_order_id ord < next)"

definition engine_ok :: "engine \<Rightarrow> bool" where
  "engine_ok e \<longleftrightarrow> book_sorted (e_book e) \<and> orders_ok (e_next_order_id e) (e_resting_orders e)"

lemma sorted_wrt_levels:
  "sorted_wrt R (map l_price_ticks (map level_of es)) = sorted_wrt (\<lambda>x y. R (fst x) (fst y)) es"
  by (simp add: sorted_wrt_map level_of_def)

lemma update_from_quote_sorted: "book_sorted (update_from_quote q b)"
proof -
  have "sorted_wrt (\<lambda>x y. fst x \<le> fst y) (sort_key fst es)"
    and "sorted_wrt (\<lambda>x y. fst y \<le> fst x) (sort_key (\<lambda>x. - fst x) es)" for es :: "(int \<times> int) list"
    using sorted_sort_key [of fst es] sorted_sort_key [of "\<lambda>x. - fst x" es]
    by (simp_all add: sorted_wrt_map)
  then show ?thesis
    by (auto simp: book_sorted_def update_from_quote_def sorted_wrt_levels
        simp del: sort_key_simps map_map list.map(2) split: option.splits list.splits) simp_all
qed

lemma execute_aggressive_facts:
  assumes "execute_aggressive s a l e = (fs, e')" and "book_sorted (e_book e)"
  shows "book_sorted (e_book e')" "e_resting_orders e' = e_resting_orders e"
    "e_next_order_id e' = e_next_order_id e" "e_max_position e' = e_max_position e"
    "e_config e' = e_config e" "e_fills e' = e_fills e @ fs"
    "e_position e' = e_position e + signed_sum fs" "\<forall>f \<in> set fs. 0 < f_quantity f"
    "\<bar>e_position e\<bar> \<le> e_max_position e \<Longrightarrow> \<bar>e_position e'\<bar> \<le> e_max_position e"
  using assms take_ladder_facts
  by (auto simp: execute_aggressive_def Let_def book_sorted_def split: prod.splits if_splits)

lemma on_quote_cases:
  obtains (reject) "on_quote q e = ([], e)"
  | (eval) sv p fs where "on_quote q e = (fs, e\<lparr>e_current_time_ns := max (e_current_time_ns e) (q_timestamp_ns q),
        e_book := update_from_quote q (e_book e), e_position := p, e_fills := e_fills e @ fs,
        e_resting_orders := sv\<rparr>)"
      "evaluate_loop (e_config e) (e_max_position e) q (e_position e) (e_resting_orders e) = (sv, p, fs)"
proof (cases "q_timestamp_ns q \<le> 0 \<or> q_bid_ticks q \<le> 0 \<or> q_ask_ticks q < q_bid_ticks q")
  case False
  obtain sv p fs where
    "evaluate_loop (e_config e) (e_max_position e) q (e_position e) (e_resting_orders e) = (sv, p, fs)"
    using prod_cases3 by blast
  with False eval show thesis by (simp add: on_quote_def evaluate_resting_orders_def)
qed (use reject in \<open>auto simp: on_quote_def\<close>)

lemma on_market_trade_cases:
  obtains sv p fs where "on_market_trade t e =
        (fs, e\<lparr>e_current_time_ns := max (e_current_time_ns e) (t_timestamp_ns t), e_position := p,
               e_fills := e_fills e @ fs, e_resting_orders := sv\<rparr>)"
      "trade_loop (e_config e) (e_max_position e) (spread (e_book e)) t (e_position e) (e_resting_orders e)
        = (sv, p, fs)"
proof -
  obtain sv p fs where
    "trade_loop (e_config e) (e_max_position e) (spread (e_book e)) t (e_position e) (e_resting_orders e)
      = (sv, p, fs)" using prod_cases3 by blast
  with that show thesis by (simp add: on_market_trade_def)
qed

lemma submit_order_cases:
  obtains (none) e1 where "submit_order s e = ([], e1)" "e1 = e \<or> (\<exists>t. e1 = e\<lparr>e_current_time_ns := t\<rparr>)"
  | (take) t a l where "s_side s \<in> {- 1, 1}" "0 < s_quantity s" "py_lower (s_order_type s) \<noteq> ''post_only''"
      "submit_order s e = execute_aggressive s a l (e\<lparr>e_current_time_ns := t\<rparr>)"
  | (rest) t ord where "s_side s \<in> {- 1, 1}" "0 < s_quantity s" "\<not> crosses s (e_book e)"
      "r_order_id ord = e_next_order_id e" "r_side ord = s_side s"
      "r_remaining_quantity ord = s_quantity s" "r_price_ticks ord = limit_price_of s (e_book e)"
      "submit_order s e = ([], e\<lparr>e_current_time_ns := t, e_next_order_id := e_next_order_id e + 1,
          e_resting_orders := e_resting_orders e @ [ord]\<rparr>)"
proof (cases "s_side s \<notin> {- 1, 1} \<or> s_quantity s \<le> 0")
  case True
  then show thesis using none [of e] by (auto simp: submit_order_def)
next
  case False
  then have ok: "s_side s \<in> {- 1, 1}" "0 < s_quantity s" by auto
  define l where "l = (if s_latency_ns s \<noteq> 0 then s_latency_ns s
    else wire_latency_ns (e_config e) + engine_latency_ns (e_config e))"
  define a where "a = s_timestamp_ns s + l"
  define t where "t = max (e_current_time_ns e) a"
  define ty where "ty = py_lower (s_order_type s)"
  have eq: "submit_order s e = (if ty = ''market'' then execute_aggressive s a l (e\<lparr>e_current_time_ns := t\<rparr>)
      else if ty = ''limit'' \<or> ty = ''post_only''
      then place_limit s a l (ty = ''post_only'') (e\<lparr>e_current_time_ns := t\<rparr>)
      else ([], e\<lparr>e_current_time_ns := t\<rparr>))"
    using False unfolding submit_order_def Let_def l_def a_def t_def ty_def by simp
  consider "ty = ''market''" | "ty = ''limit'' \<or> ty = ''post_only''"
    | "ty \<noteq> ''market''" "\<not> (ty = ''limit'' \<or> ty = ''post_only'')" by blast
  then show thesis
  proof cases
    case 1
    then show thesis using take [OF ok] eq by (simp add: ty_def)
  next
    case 2
    then have e: "submit_order s e = place_limit s a l (ty = ''post_only'') (e\<lparr>e_current_time_ns := t\<rparr>)"
      unfolding eq by auto
    show thesis
    proof (cases "crosses s (e_book e)")
      case True
      with none take [OF ok] e show thesis
        by (cases "ty = ''post_only''") (auto simp: place_limit_def ty_def)
    next
      case no: False
      define ord where "ord = \<lparr>r_order_id = e_next_order_id e, r_placed_time_ns = s_timestamp_ns s,
        r_arrival_time_ns = a, r_side = s_side s, r_price_ticks = limit_price_of s (e_book e),
        r_remaining_quantity = s_quantity s, r_queue_ahead = queue_at (limit_price_of s (e_book e))
          (if 0 < s_side s then ob_bids (e_book e) else ob_asks (e_book e)),
        r_is_post_only = (ty = ''post_only'')\<rparr>"
      have "submit_order s e = ([], e\<lparr>e_current_time_ns := t, e_next_order_id := e_next_order_id e + 1,
          e_resting_orders := e_resting_orders e @ [ord]\<rparr>)"
        unfolding e place_limit_def Let_def ord_def by (simp add: no)
      then show thesis by (intro rest [OF ok no, of ord t]) (simp_all add: ord_def)
    qed
  next
    case 3
    then show thesis using none [of "e\<lparr>e_current_time_ns := t\<rparr>"] unfolding eq by auto
  qed
qed

lemma evaluate_loop_ok:
  assumes "evaluate_loop c m q pos os = (sv, p, fs)" and "orders_ok n os"
  shows "orders_ok n sv"
  using evaluate_loop_facts(4,6) [OF assms(1)] assms(2) by (auto simp: orders_ok_def)

lemma trade_loop_ok:
  assumes "trade_loop c m spr t pos os = (sv, p, fs)" and "orders_ok n os"
  shows "orders_ok n sv"
proof -
  have "\<forall>ord \<in> set os. 0 < r_remaining_quantity ord" using assms(2) by (simp add: orders_ok_def)
  from trade_loop_facts(4,6) [OF assms(1) this] assms(2) show ?thesis
    unfolding orders_ok_def by (metis (no_types, lifting))
qed

lemma orders_ok_snoc:
  "orders_ok n os \<Longrightarrow> r_order_id ord = n \<Longrightarrow> 0 < r_remaining_quantity ord \<Longrightarrow> r_side ord \<in> {- 1, 1}
   \<Longrightarrow> orders_ok (n + 1) (os @ [ord])"
  by (auto simp: orders_ok_def sorted_wrt_append)

lemma engine_ok_step: "engine_ok e \<Longrightarrow> engine_ok (engine_step e ev)"
proof (cases ev)
  case (EQuote q)
  assume "engine_ok e"
  then show ?thesis
    using evaluate_loop_ok update_from_quote_sorted
    by (cases rule: on_quote_cases [of q e]) (simp_all add: EQuote engine_ok_def)
next
  case (ETrade t)
  assume "engine_ok e"
  then show ?thesis
    using trade_loop_ok by (cases rule: on_market_trade_cases [of t e]) (simp add: ETrade engine_ok_def)
next
  case (ESignal s)
  assume e: "engine_ok e"
  show ?thesis
  proof (cases rule: submit_order_cases [of s e])
    case (none e1)
    then show ?thesis using e by (auto simp: ESignal engine_ok_def)
  next
    case (take t a l)
    obtain fs e' where x: "execute_aggressive s a l (e\<lparr>e_current_time_ns := t\<rparr>) = (fs, e')" by fastforce
    show ?thesis
      using execute_aggressive_facts(1-3) [OF x] e by (simp add: ESignal take(4) x engine_ok_def)
  next
    case (rest t ord)
    then show ?thesis using e orders_ok_snoc by (simp add: ESignal engine_ok_def)
  qed
qed

lemma engine_ledger_step:
  assumes "engine_ok e"
  shows "\<exists>new. e_fills (engine_step e ev) = e_fills e @ new \<and> (\<forall>f \<in> set new. 0 < f_quantity f)
     \<and> e_position (engine_step e ev) = e_position e + signed_sum new"
proof (cases ev)
  case (EQuote q)
  have pos: "\<forall>ord \<in> set (e_resting_orders e). 0 < r_remaining_quantity ord"
    using assms by (simp add: engine_ok_def orders_ok_def)
  show ?thesis
  proof (cases rule: on_quote_cases [of q e])
    case (eval sv p fs)
    then show ?thesis using evaluate_loop_facts(1,5) [OF eval(2)] pos by (fastforce simp: EQuote)
  qed (simp add: EQuote)
next
  case (ETrade t)
  have pos: "\<forall>ord \<in> set (e_resting_orders e). 0 < r_remaining_quantity ord"
    using assms by (simp add: engine_ok_def orders_ok_def)
  show ?thesis
    by (rule on_market_trade_cases [of t e]) (use trade_loop_facts(1,5) [OF _ pos] in \<open>fastforce simp: ETrade\<close>)
next
  case (ESignal s)
  show ?thesis
  proof (cases rule: submit_order_cases [of s e])
    case (none e1)
    then show ?thesis by (auto simp: ESignal)
  next
    case (take t a l)
    obtain fs e' where x: "execute_aggressive s a l (e\<lparr>e_current_time_ns := t\<rparr>) = (fs, e')" by fastforce
    show ?thesis
      using execute_aggressive_facts(6-8) [OF x] assms by (simp add: ESignal take(4) x engine_ok_def)
  qed (simp add: ESignal)
qed

lemma engine_limit_step: "e_max_position (engine_step e ev) = e_max_position e"
proof (cases ev)
  case (EQuote q)
  then show ?thesis by (cases rule: on_quote_cases [of q e]) simp_all
next
  case (ETrade t)
  then show ?thesis by (cases rule: on_market_trade_cases [of t e]) simp
next
  case (ESignal s)
  then show ?thesis
    by (cases rule: submit_order_cases [of s e]) (auto simp: execute_aggressive_def Let_def split: prod.splits)
qed

lemma trade_loop_bound:
  "trade_loop c m spr t pos os = (sv, p, fs) \<Longrightarrow> \<bar>pos\<bar> \<le> m \<Longrightarrow> \<bar>p\<bar> \<le> m"
proof (induction os arbitrary: pos sv p fs)
  case (Cons ord os)
  show ?case
  proof (cases "t_timestamp_ns t < r_arrival_time_ns ord")
    case True
    then show ?thesis using Cons by (auto split: prod.splits)
  next
    case False
    obtain ord' p1 f where o: "trade_order c m spr t pos ord = (ord', p1, f)" using prod_cases3 by blast
    have "\<bar>p1\<bar> \<le> m" using o Cons.prems(2) by (auto simp: trade_order_def Let_def split: if_splits)
    then show ?thesis using Cons.IH [of p1] Cons.prems(1) False by (auto simp: o split: prod.splits)
  qed
qed simp

lemma engine_bound_step:
  assumes "\<bar>e_position e\<bar> \<le> e_max_position e"
  shows "\<bar>e_position (engine_step e ev)\<bar> \<le> e_max_position e"
proof (cases ev)
  case (EQuote q)
  then show ?thesis
    using assms evaluate_loop_facts(2) by (cases rule: on_quote_cases [of q e]) auto
next
  case (ETrade t)
  then show ?thesis using assms trade_loop_bound by (cases rule: on_market_trade_cases [of t e]) auto
next
  case (ESignal s)
  show ?thesis
  proof (cases rule: submit_order_cases [of s e])
    case (take t a l)
    then show ?thesis
      using assms take_ladder_facts(2)
      by (auto simp: ESignal execute_aggressive_def Let_def split: prod.splits)
  qed (use assms in \<open>auto simp: ESignal\<close>)
qed

interpretation micro: fill_ledger engine_step engine_ok e_position e_fills e_max_position
  by unfold_locales
    (rule engine_ok_step engine_limit_step engine_ledger_step engine_bound_step; assumption?)+

lemma engine_init_balanced:
  "engine_init m c = Inr e \<Longrightarrow> micro.balanced e \<and> e_max_position e = m"
  by (auto simp: engine_init_def micro.balanced_def engine_ok_def book_sorted_def orders_ok_def
      split: if_splits)

lemma engine_run_ok:
  assumes "engine_init m c = Inr e0"
  shows "engine_ok (foldl engine_step e0 evs)"
proof -
  have "engine_ok e0" using engine_init_balanced [OF assms] by (simp add: micro.balanced_def)
  then show ?thesis by (rule micro.run_inv)
qed

subsection \<open>Properties of the engine\<close>

text \<open>
  C3. Over any simulation the position stays within \<open>max_position\<close> and equals the sum of the
  signed fills reported; every fill has a positive quantity, and the orders left resting have
  positive remaining quantities and distinct ids below the next id.
\<close>

theorem simulation_position_bounded:
  assumes "engine_init max_position config = Inr e0"
    and "run_simulation events e0 = (fills, e)"
  shows "\<bar>e_position e\<bar> \<le> max_position \<and> e_position e = signed_sum fills
     \<and> (\<forall>f \<in> set fills. 0 < f_quantity f)
     \<and> (\<forall>ord \<in> set (e_resting_orders e). 0 < r_remaining_quantity ord \<and> r_order_id ord < e_next_order_id e)
     \<and> distinct (map r_order_id (e_resting_orders e))"
proof -
  have e: "e = foldl engine_step e0 (sort_key event_key events)" "fills = e_fills e"
    using assms(2) by (auto simp: run_simulation_def Let_def)
  have b: "micro.balanced e" and m: "e_max_position e = max_position"
    using engine_init_balanced [OF assms(1)] micro.balanced_run micro.limit_run by (auto simp: e(1))
  have "distinct (map r_order_id os)" if "sorted_wrt (\<lambda>x y. r_order_id x < r_order_id y) os" for os
    using that by (induction os) auto
  with b m show ?thesis by (auto simp: micro.balanced_def e(2) engine_ok_def orders_ok_def)
qed

text \<open>
  C8. An aggressive order in any reachable state walks its side of the book in price priority: fill
  prices are ordered from best to worst, it never fills more than it asks for, the size it takes is
  exactly the size that leaves the book, and unless the position limit interferes it fills the
  smaller of its quantity and the liquidity of the book.
\<close>

theorem aggressive_order_walks_book:
  assumes "engine_init max_position config = Inr e0" and "e = foldl engine_step e0 events"
    and "side = s_side s" "0 < s_quantity s"
    and "execute_aggressive s arrival latency e = (fs, e')"
    and "ladder = (\<lambda>b. if 0 < side then ob_asks b else ob_bids b)"
  shows "sorted_wrt (\<lambda>x y. if 0 < side then x \<le> y else y \<le> x) (map f_price_ticks fs)
     \<and> filled fs \<le> s_quantity s
     \<and> size_sum (ladder (e_book e)) = size_sum (ladder (e_book e')) + filled fs
     \<and> map l_price_ticks (ladder (e_book e')) = map l_price_ticks (ladder (e_book e))
     \<and> (\<bar>e_position e\<bar> + s_quantity s \<le> max_position \<longrightarrow>
          filled fs = min (s_quantity s) (liquidity (ladder (e_book e))))"
proof -
  have ok: "engine_ok e" and m: "e_max_position e = max_position"
    using engine_run_ok [OF assms(1)] engine_init_balanced [OF assms(1)] micro.limit_run
    by (auto simp: assms(2))
  obtain ls p where t: "take_ladder (e_config e) max_position s arrival latency (mid_price (e_book e))
      (s_quantity s) (e_position e) (ladder (e_book e)) = (ls, p, fs)" and ls: "ladder (e_book e') = ls"
    using assms(5) by (auto simp: execute_aggressive_def Let_def assms(3,6) m split: prod.splits if_splits)
  have "sorted_wrt (\<lambda>x y. if 0 < side then x \<le> y else y \<le> x) (map l_price_ticks (ladder (e_book e)))"
    using ok by (simp add: engine_ok_def book_sorted_def assms(6))
  then show ?thesis
    using take_ladder_facts [OF t] take_ladder_complete [OF t] assms(4) by (auto simp: ls)
qed

text \<open>
  A post-only order never takes liquidity: submitting one returns no fills, leaves the book,
  the position and the ledger unchanged, and the order rests exactly when its price does not cross
  the book.
\<close>

theorem post_only_never_takes:
  assumes "py_lower (s_order_type s) = ''post_only''" "s_side s \<in> {- 1, 1}" "0 < s_quantity s"
  shows "\<exists>e' new. submit_order s e = ([], e') \<and> e_book e' = e_book e \<and> e_position e' = e_position e
     \<and> e_fills e' = e_fills e \<and> e_resting_orders e' = e_resting_orders e @ new
     \<and> (if crosses s (e_book e) then new = [] else map r_price_ticks new = [limit_price_of s (e_book e)])"
  using assms by (auto simp: submit_order_def place_limit_def Let_def)

text \<open>
  C9. Resting orders are only filled on time, on their own side, for at most what remains and at
  their limit price or better, by quotes as well as by trades; and what leaves the resting orders
  is exactly what is reported as filled.
\<close>

theorem maker_fills_respect_orders:
  assumes "engine_init max_position config = Inr e0" and "e = foldl engine_step e0 events"
    and "on_quote q e = (fs, e') \<or> on_market_trade t e = (fs, e')"
  shows "(\<forall>f \<in> set fs. 0 < f_quantity f \<and> (\<exists>ord \<in> set (e_resting_orders e). maker_fill ord f))
     \<and> remaining_sum (e_resting_orders e) = remaining_sum (e_resting_orders e') + filled fs"
proof -
  have pos: "\<forall>ord \<in> set (e_resting_orders e). 0 < r_remaining_quantity ord"
    using engine_run_ok [OF assms(1), of events] by (simp add: assms(2) engine_ok_def orders_ok_def)
  from assms(3) show ?thesis
  proof
    assume q: "on_quote q e = (fs, e')"
    show ?thesis
    proof (cases rule: on_quote_cases [of q e])
      case (eval sv p fs1)
      then show ?thesis using q pos evaluate_loop_facts(3,5) [OF eval(2)] by fastforce
    qed (use q in auto)
  next
    assume "on_market_trade t e = (fs, e')"
    then show ?thesis
      by (cases rule: on_market_trade_cases [of t e]) (use trade_loop_facts(3,5) [OF _ pos] in fastforce)
  qed
qed

subsection \<open>Queue position\<close>

lemma decayed_queue_bounds:
  assumes "0 \<le> r_queue_ahead ord" "r_queue_ahead ord \<le> 2 ^ 53"
    and "0 \<le> queue_cancellation_rate c" "queue_cancellation_rate c \<le> 1"
  shows "0 \<le> decayed_queue c ord \<and> decayed_queue c ord \<le> r_queue_ahead ord"
proof -
  have q: "fint (r_queue_ahead ord) = of_int (r_queue_ahead ord)" using assms by (intro fint_small) simp
  have r: "0 \<le> fsub 1 (queue_cancellation_rate c)" "fsub 1 (queue_cancellation_rate c) \<le> 1"
    using assms(3,4) dbl.rnd_le_int [of 1 "1 - queue_cancellation_rate c"]
    by (auto simp: fsub_def intro: dbl.rnd_nonneg)
  let ?x = "fmul (of_int (r_queue_ahead ord)) (fsub 1 (queue_cancellation_rate c))"
  have "0 \<le> ?x" using assms(1) r by (intro fmul_nonneg) simp_all
  moreover have "?x \<le> of_int (r_queue_ahead ord)"
    unfolding fmul_def using assms(1,2) r by (intro dbl.rnd_le_int) (simp_all add: mult_left_le)
  ultimately have "0 \<le> py_trunc ?x" "of_int (py_trunc ?x) \<le> (of_int (r_queue_ahead ord) :: rat)"
    using py_trunc_bounds [of ?x] by auto
  then show ?thesis by (simp add: decayed_queue_def q)
qed

text \<open>
  A resting order waits behind its queue: for a cancellation rate between 0 and 1 the decayed
  queue lies between 0 and the queue ahead, a trade that does not exceed it fills nothing and only
  moves the order forward, and a larger trade fills at most what exceeds the decayed queue.
\<close>

theorem resting_order_waits_in_queue:
  assumes "0 \<le> r_queue_ahead ord" "r_queue_ahead ord \<le> 2 ^ 53"
    and "0 \<le> queue_cancellation_rate c" "queue_cancellation_rate c \<le> 1"
    and "0 \<le> t_quantity t" "0 < r_remaining_quantity ord"
    and "trade_order c max_position spr t pos ord = (ord', p, fs)"
  shows "0 \<le> r_queue_ahead ord' \<and> r_queue_ahead ord' \<le> r_queue_ahead ord
     \<and> (t_quantity t \<le> decayed_queue c ord \<longrightarrow>
          fs = [] \<and> p = pos \<and> r_remaining_quantity ord' = r_remaining_quantity ord)
     \<and> filled fs \<le> max 0 (t_quantity t - decayed_queue c ord)
     \<and> decayed_queue c ord \<le> r_queue_ahead ord"
proof -
  note d = decayed_queue_bounds [OF assms(1-4)]
  have "trade_order c max_position spr t pos ord = (ord', p, fs)" by (rule assms(7))
  then show ?thesis
    using d assms(1,5) by (auto simp: trade_order_def Let_def trade_fill_def split: if_splits)
qed

subsection \<open>Replays are deterministic\<close>

lemma sort_key_interleaving:
  assumes "\<And>k. filter (\<lambda>x. f x = k) xs = filter (\<lambda>x. f x = k) ys"
  shows "sort_key f xs = sort_key f ys"
proof (rule properties_for_sort_key)
  have c: "count (mset zs) x = count (mset (filter (\<lambda>z. f z = f x) zs)) x" for zs x by simp
  have "mset ys = mset xs"
  proof (rule multiset_eqI)
    fix x
    show "count (mset ys) x = count (mset xs) x" by (subst (1 2) c) (simp only: assms)
  qed
  then show "mset (sort_key f ys) = mset xs" by simp
  show "filter (\<lambda>x. f k = f x) (sort_key f ys) = filter (\<lambda>x. f k = f x) xs" for k
    using assms [of "f k"] by (simp add: sort_key_stable eq_commute [of "f k"])
qed simp


end
