(* ===== verification/Backtest_Witnesses.thy ===== *)
theory Backtest_Witnesses
  imports Microstructure_Props
begin

section \<open>The backtest properties at work\<close>

text \<open>
  A small market on which the hypotheses of the engine properties hold, and two runs that show
  behaviour of the code that a trader would not expect.
\<close>

definition demo_quote :: "int \<Rightarrow> int \<Rightarrow> int \<Rightarrow> quote" where
  "demo_quote t bid ask = \<lparr>q_timestamp_ns = t, q_bid_ticks = bid, q_ask_ticks = ask,
     q_bid_size = 5, q_ask_size = 5, q_bids = None, q_asks = Some [(ask + 2, 20), (ask, 5)]\<rparr>"

definition demo_signal :: "int \<Rightarrow> int \<Rightarrow> int \<Rightarrow> string \<Rightarrow> int option \<Rightarrow> signal" where
  "demo_signal t side q kind limit = \<lparr>s_timestamp_ns = t, s_side = side, s_quantity = q,
     s_order_type = kind, s_limit_price_ticks = limit, s_latency_ns = 1\<rparr>"

definition demo_trade :: "int \<Rightarrow> int \<Rightarrow> int \<Rightarrow> int \<Rightarrow> market_trade" where
  "demo_trade t price q side = \<lparr>t_timestamp_ns = t, t_price_ticks = price, t_quantity = q,
     t_aggressor_side = side\<rparr>"

definition demo_engine :: engine where
  "demo_engine = \<lparr>e_max_position = 50, e_config = default_config,
     e_book = \<lparr>ob_bids = [], ob_asks = []\<rparr>, e_position = 0, e_fills = [],
     e_resting_orders = [], e_next_order_id = 1, e_current_time_ns = 0\<rparr>"

lemma demo_engine_init: "engine_init 50 None = Inr demo_engine"
  by (simp add: engine_init_def demo_engine_def)

definition demo_replay :: replay_backtest where
  "demo_replay = \<lparr>rb_max_position = 10, rb_strict_unique_timestamps = True, rb_position = 0, rb_fills = []\<rparr>"

lemma demo_replay_init: "replay_init 10 True = Inr demo_replay"
  by (simp add: replay_init_def demo_replay_def)

theorem replay_run_sound_witness:
  "\<bar>rb_position (snd (replay_run [demo_quote 1 99 101, demo_quote 2 98 100]
      [demo_signal 1 1 7 ''market'' None, demo_signal 2 1 7 ''market'' None] demo_replay))\<bar> \<le> 10"
proof -
  let ?qs = "[demo_quote 1 99 101, demo_quote 2 98 100]"
  let ?ss = "[demo_signal 1 1 7 ''market'' None, demo_signal 2 1 7 ''market'' None]"
  obtain r b where rb: "replay_run ?qs ?ss demo_replay = (r, b)" by fastforce
  have "\<not> isl (fst (replay_run ?qs ?ss demo_replay))" by code_simp
  then obtain fs where "r = Inr fs" by (cases r) (auto simp: rb)
  then show ?thesis
    using replay_run_sound [OF demo_replay_init, of ?qs ?ss] by (auto simp: rb)
qed

theorem simulation_position_bounded_witness:
  "\<bar>e_position (snd (run_simulation [ESignal (demo_signal 2 1 70 ''market'' None), EQuote (demo_quote 1 99 101)]
      demo_engine))\<bar> \<le> 50"
proof -
  obtain fs e where r: "run_simulation [ESignal (demo_signal 2 1 70 ''market'' None), EQuote (demo_quote 1 99 101)]
      demo_engine = (fs, e)" by fastforce
  show ?thesis using simulation_position_bounded [OF demo_engine_init r, THEN conjunct1] by (simp add: r)
qed

theorem aggressive_order_walks_book_witness:
  "filled (fst (execute_aggressive (demo_signal 2 1 8 ''market'' None) 3 1
     (foldl engine_step demo_engine [EQuote (demo_quote 1 99 101)]))) = 8"
proof -
  let ?e = "foldl engine_step demo_engine [EQuote (demo_quote 1 99 101)]"
  let ?s = "demo_signal 2 1 8 ''market'' None"
  obtain fs e' where r: "execute_aggressive ?s 3 1 ?e = (fs, e')" by fastforce
  have s: "s_quantity ?s = 8" "s_side ?s = 1" by (simp_all add: demo_signal_def)
  have q: "\<bar>e_position ?e\<bar> + 8 \<le> 50" "liquidity (ob_asks (e_book ?e)) = 25" by code_simp+
  show ?thesis
    using aggressive_order_walks_book [OF demo_engine_init refl refl _ r refl] s q unfolding r by simp
qed

theorem post_only_never_takes_witness:
  "\<exists>e'. submit_order (demo_signal 2 1 8 ''POST_ONLY'' (Some 150)) demo_engine = ([], e')
     \<and> e_fills e' = e_fills demo_engine"
proof -
  have "py_lower (s_order_type (demo_signal 2 1 8 ''POST_ONLY'' (Some 150))) = ''post_only''"
    "s_side (demo_signal 2 1 8 ''POST_ONLY'' (Some 150)) \<in> {- 1, 1}"
    "0 < s_quantity (demo_signal 2 1 8 ''POST_ONLY'' (Some 150))" by code_simp+
  from post_only_never_takes [OF this, of demo_engine] show ?thesis by blast
qed

theorem maker_fills_respect_orders_witness:
  "remaining_sum (e_resting_orders (foldl engine_step demo_engine
       [EQuote (demo_quote 1 99 101), ESignal (demo_signal 2 1 8 ''limit'' (Some 100))])) =
   remaining_sum (e_resting_orders (snd (on_market_trade (demo_trade 9 100 5 (- 1)) (foldl engine_step demo_engine
       [EQuote (demo_quote 1 99 101), ESignal (demo_signal 2 1 8 ''limit'' (Some 100))]))))
   + filled (fst (on_market_trade (demo_trade 9 100 5 (- 1)) (foldl engine_step demo_engine
       [EQuote (demo_quote 1 99 101), ESignal (demo_signal 2 1 8 ''limit'' (Some 100))])))"
  using maker_fills_respect_orders [OF demo_engine_init refl disjI2 [OF prod.collapse [symmetric]]] by blast

definition demo_order :: resting_order where
  "demo_order = \<lparr>r_order_id = 1, r_placed_time_ns = 2, r_arrival_time_ns = 3, r_side = 1,
     r_price_ticks = 100, r_remaining_quantity = 8, r_queue_ahead = 10, r_is_post_only = False\<rparr>"

theorem resting_order_waits_in_queue_witness:
  "snd (snd (trade_order (default_config\<lparr>queue_cancellation_rate := 1 / 4\<rparr>) 50 2
     (demo_trade 9 100 7 (- 1)) 0 demo_order)) = []"
proof -
  let ?c = "default_config\<lparr>queue_cancellation_rate := 1 / 4\<rparr>"
  let ?t = "demo_trade 9 100 7 (- 1)"
  obtain o' p fs where r: "trade_order ?c 50 2 ?t 0 demo_order = (o', p, fs)" using prod_cases3 by blast
  have h: "0 \<le> r_queue_ahead demo_order" "r_queue_ahead demo_order \<le> 2 ^ 53"
    "0 \<le> queue_cancellation_rate ?c" "queue_cancellation_rate ?c \<le> 1" "0 \<le> t_quantity ?t"
    "0 < r_remaining_quantity demo_order"
    by (simp_all add: demo_order_def demo_trade_def)
  have "t_quantity ?t \<le> decayed_queue ?c demo_order" by code_simp
  with resting_order_waits_in_queue [OF h r] show ?thesis by (simp add: r)
qed


subsection \<open>Two findings\<close>

text \<open>One trade of 10 fills two resting orders of 10 each: every order is given the whole trade.\<close>

lemma trade_fills_every_order_in_full:
  "filled (fst (on_market_trade (demo_trade 9 100 10 (- 1)) (foldl engine_step demo_engine
     [EQuote (demo_quote 1 99 101), ESignal (demo_signal 2 1 10 ''limit'' (Some 100)),
      ESignal (demo_signal 3 1 10 ''limit'' (Some 100))]))) = 20"
  by code_simp

text \<open>A limit order to buy 8 at 101 or better takes the rest of its size at 103.\<close>

lemma crossing_limit_order_trades_through_its_limit:
  "map f_price_ticks (fst (submit_order (demo_signal 2 1 8 ''limit'' (Some 101))
     (foldl engine_step demo_engine [EQuote (demo_quote 1 99 101)]))) = [101, 103]"
  by code_simp

end
