(* ===== verification/Py_Bytes.thy ===== *)
theory Py_Bytes
  imports Py_Str "HOL-Library.Word"
begin

section \<open>Bytes, code points and struct fields\<close>

text \<open>
  \<open>bytes\<close> is a list of 8-bit words. A \<open>str\<close> that goes through \<open>encode\<close> or \<open>decode\<close> is a list
  of code points, so that the replacement character of \<open>decode(errors="replace")\<close> is a value of
  its own. The integer fields of \<open>struct\<close> are \<open>be_bytes\<close> and \<open>le_bytes\<close> with their readers;
  \<open>pack_uint\<close> refuses a value out of range with \<open>struct.error\<close>, whose text is not modelled. The
  interface \<open>field_codec\<close> is what the message formats need of a field, in either byte order.
\<close>

type_synonym byte = "8 word"
type_synonym bytes = "byte list"
type_synonym ustr = "int list"

subsection \<open>Integer fields\<close>

fun be_bytes :: "nat \<Rightarrow> int \<Rightarrow> bytes" where
  "be_bytes 0 v = []"
| "be_bytes (Suc n) v = be_bytes n (v div 256) @ [word_of_int v]"

definition be_val :: "bytes \<Rightarrow> int" where
  "be_val bs = foldl (\<lambda>v b. v * 256 + uint b) 0 bs"

definition le_bytes :: "nat \<Rightarrow> int \<Rightarrow> bytes" where
  "le_bytes n v = rev (be_bytes n v)"

definition le_val :: "bytes \<Rightarrow> int" where
  "le_val bs = be_val (rev bs)"

lemma be_val_simps [simp]: "be_val [] = 0" "be_val (bs @ [b]) = be_val bs * 256 + uint b"
  by (simp_all add: be_val_def)

lemma be_bytes_length [simp]: "length (be_bytes n v) = n"
  by (induction n arbitrary: v) simp_all

lemma be_val_bytes: "be_val (be_bytes n v) = v mod 256 ^ n"
proof (induction n arbitrary: v)
  case (Suc n)
  have "uint (word_of_int v :: byte) = v mod 256"
    by (simp add: uint_word_of_int)
  then show ?case
    using Suc [of "v div 256"] zmod_zmult2_eq [of "256 ^ n" v 256] by (simp add: algebra_simps)
qed simp

lemma be_val_bound: "0 \<le> be_val bs \<and> be_val bs < 256 ^ length bs"
proof (induction bs rule: rev_induct)
  case (snoc b bs)
  have "0 \<le> uint b" "uint b < 256" using uint_lt2p [of b] by simp_all
  with snoc show ?case by simp
qed simp

lemma be_bytes_val: "be_bytes (length bs) (be_val bs) = bs"
proof (induction bs rule: rev_induct)
  case (snoc b bs)
  have "0 \<le> uint b" "uint b < 256" using uint_lt2p [of b] by simp_all
  then have "(be_val bs * 256 + uint b) div 256 = be_val bs" by simp
  moreover have "(word_of_int (be_val bs * 256 + uint b) :: byte) = b"
    by (rule word_uint_eqI, unfold uint_word_of_int) (use \<open>0 \<le> uint b\<close> \<open>uint b < 256\<close> in simp)
  ultimately show ?case using snoc by simp
qed simp

locale field_codec =
  fixes enc :: "nat \<Rightarrow> int \<Rightarrow> bytes" and dec :: "bytes \<Rightarrow> int"
  assumes enc_length [simp]: "length (enc n v) = n"
    and dec_enc: "dec (enc n v) = v mod 256 ^ n"
    and enc_dec: "enc (length bs) (dec bs) = bs"
    and dec_bound: "0 \<le> dec bs \<and> dec bs < 256 ^ length bs"
begin

lemma dec_enc_id: "0 \<le> v \<Longrightarrow> v < 256 ^ n \<Longrightarrow> dec (enc n v) = v"
  by (simp add: dec_enc)

text \<open>A field read at its own offset in front of the rest of the message.\<close>

lemma dec_at:
  "0 \<le> v \<Longrightarrow> v < 256 ^ n \<Longrightarrow> dec (take n (enc n v @ rest)) = v"
  by (simp add: dec_enc_id)

lemma enc_inj: "v mod 256 ^ n \<noteq> w mod 256 ^ n \<Longrightarrow> enc n v \<noteq> enc n w"
  using dec_enc by metis

end

interpretation be: field_codec be_bytes be_val
  by unfold_locales (simp_all add: be_val_bytes be_bytes_val be_val_bound)

interpretation le: field_codec le_bytes le_val
  using be_bytes_val [of "rev bs" for bs] be_val_bound [of "rev bs" for bs]
  by unfold_locales (simp_all add: le_bytes_def le_val_def be_val_bytes)

definition pack_uint :: "(nat \<Rightarrow> int \<Rightarrow> bytes) \<Rightarrow> nat \<Rightarrow> int \<Rightarrow> exn + bytes" where
  "pack_uint enc n v =
     (if 0 \<le> v \<and> v < 256 ^ n then Inr (enc n v) else Inl (StructError ''argument out of range''))"

text \<open>A \<open>struct.pack\<close> of several fields: the first field that fails raises.\<close>

fun pack_all :: "(exn + bytes) list \<Rightarrow> exn + bytes" where
  "pack_all [] = Inr []"
| "pack_all (f # fs) =
     (case f of Inl e \<Rightarrow> Inl e
      | Inr b \<Rightarrow> (case pack_all fs of Inl e \<Rightarrow> Inl e | Inr bs \<Rightarrow> Inr (b @ bs)))"

lemma pack_uint_Inr:
  "pack_uint enc n v = Inr b \<longleftrightarrow> 0 \<le> v \<and> v < 256 ^ n \<and> b = enc n v"
  by (auto simp: pack_uint_def)

lemma pack_all_Inr:
  "pack_all (f # fs) = Inr r \<longleftrightarrow> (\<exists>b bs. f = Inr b \<and> pack_all fs = Inr bs \<and> r = b @ bs)"
  by (auto split: sum.splits)

subsection \<open>Code points\<close>

definition unicode_space :: "int \<Rightarrow> bool" where
  "unicode_space c \<longleftrightarrow> 9 \<le> c \<and> c \<le> 13 \<or> 28 \<le> c \<and> c \<le> 32 \<or> c = 133 \<or> c = 160 \<or> c = 5760
     \<or> 8192 \<le> c \<and> c \<le> 8202 \<or> c = 8232 \<or> c = 8233 \<or> c = 8239 \<or> c = 8287 \<or> c = 12288"

abbreviation ustrip :: "ustr \<Rightarrow> ustr" where
  "ustrip \<equiv> strip_by unicode_space"

definition encode_ascii :: "ustr \<Rightarrow> exn + bytes" where
  "encode_ascii s =
     (if \<forall>c \<in> set s. 0 \<le> c \<and> c < 128 then Inr (map word_of_int s)
      else Inl (UnicodeError ''ascii codec cannot encode''))"

definition decode_ascii :: "bytes \<Rightarrow> exn + ustr" where
  "decode_ascii bs =
     (if \<forall>b \<in> set bs. uint b < 128 then Inr (map uint bs)
      else Inl (UnicodeError ''ascii codec cannot decode''))"

definition decode_ascii_replace :: "bytes \<Rightarrow> ustr" where
  "decode_ascii_replace bs = map (\<lambda>b. if uint b < 128 then uint b else 65533) bs"

lemma uint_ascii: "0 \<le> c \<Longrightarrow> c < 128 \<Longrightarrow> uint (word_of_int c :: byte) = c"
  by (simp add: uint_word_of_int)

lemma encode_ascii_Inr:
  "encode_ascii s = Inr bs \<longleftrightarrow> (\<forall>c \<in> set s. 0 \<le> c \<and> c < 128) \<and> bs = map word_of_int s"
  by (auto simp: encode_ascii_def)

lemma decode_encode_ascii: "encode_ascii s = Inr bs \<Longrightarrow> decode_ascii bs = Inr s"
  by (auto simp: encode_ascii_def decode_ascii_def uint_ascii map_idI split: if_splits)

lemma decode_replace_encode: "encode_ascii s = Inr bs \<Longrightarrow> decode_ascii_replace bs = s"
  by (auto simp: encode_ascii_def decode_ascii_replace_def uint_ascii map_idI split: if_splits)

lemma encode_ascii_length: "encode_ascii s = Inr bs \<Longrightarrow> length bs = length s"
  by (auto simp: encode_ascii_Inr)

lemma encode_ascii_take: "encode_ascii s = Inr bs \<Longrightarrow> encode_ascii (take n s) = Inr (take n bs)"
  by (auto simp: encode_ascii_Inr take_map dest: in_set_takeD)

lemma length_ljust_take [simp]: "length (take n (ljust n pad s)) = n"
  by (simp add: ljust_def)

end
