(* ===== verification/Itch.thy ===== *)
theory Itch
  imports Py_Bytes "HOL-Library.Sublist"
begin

unbundle bit_operations_syntax

section \<open>Market data feed (python/connectivity/itch_handler.py)\<close>

text \<open>
  Encoders and parsers of the ITCH messages, the MoldUDP64 packet and the capture file, and the
  book tracker that follows a stream of messages. Messages are records; the classes that
  \<open>process\<close> and \<open>parse_itch_message\<close> tell apart with \<open>isinstance\<close> are the constructors of
  \<open>itch_message\<close>. A file is the list of its bytes: \<open>write_synthetic_pcap\<close> returns what it wrote,
  also when a field is out of range half way.
\<close>

subsection \<open>Messages\<close>

record itch_system_event =
  se_locate_id :: int
  se_timestamp_ns :: int
  se_event_code :: ustr

record itch_add_order =
  ao_locate_id :: int
  ao_timestamp_ns :: int
  ao_order_ref :: int
  ao_side :: ustr
  ao_shares :: int
  ao_stock :: ustr
  ao_price_ticks :: int

record itch_order_executed =
  oe_locate_id :: int
  oe_timestamp_ns :: int
  oe_order_ref :: int
  oe_executed_shares :: int
  oe_match_number :: int

record itch_order_cancel =
  oc_locate_id :: int
  oc_timestamp_ns :: int
  oc_order_ref :: int
  oc_canceled_shares :: int

record itch_order_delete =
  od_locate_id :: int
  od_timestamp_ns :: int
  od_order_ref :: int

datatype itch_message =
    SystemEvent itch_system_event
  | AddOrder itch_add_order
  | OrderExecuted itch_order_executed
  | OrderCancel itch_order_cancel
  | OrderDelete itch_order_delete

record mold_packet =
  mp_session :: ustr
  mp_sequence_number :: int
  mp_count :: int
  mp_messages :: "bytes list"

definition py_slice :: "nat \<Rightarrow> nat \<Rightarrow> bytes \<Rightarrow> bytes" where
  "py_slice i j raw = take (j - i) (drop i raw)"

subsection \<open>Encoders\<close>

definition parse_uint48_be :: "bytes \<Rightarrow> exn + int" where
  "parse_uint48_be raw =
     (if length raw \<noteq> 6 then Inl (StructError ''unpack requires a buffer of 6 bytes'')
      else let hi = be_val (py_slice 0 2 raw); lo = be_val (py_slice 2 6 raw)
           in Inr (push_bit 32 hi OR lo))"

definition encode_uint48_be :: "int \<Rightarrow> bytes" where
  "encode_uint48_be val =
     (let hi = drop_bit 32 val AND 65535; lo = val AND 4294967295
      in be_bytes 2 hi @ be_bytes 4 lo)"

abbreviation be_field :: "nat \<Rightarrow> int \<Rightarrow> exn + bytes" where
  "be_field \<equiv> pack_uint be_bytes"

text \<open>The \<open>c\<close> field of \<open>struct\<close>: a bytes object of length 1.\<close>

definition pack_char :: "bytes \<Rightarrow> exn + bytes" where
  "pack_char b = (if length b = 1 then Inr b else Inl (StructError ''char format requires length 1''))"

definition itch_header :: "int \<Rightarrow> int \<Rightarrow> int \<Rightarrow> exn + bytes" where
  "itch_header tag locate_id timestamp_ns =
     pack_all [Inr [word_of_int tag], be_field 2 locate_id, be_field 2 0,
               Inr (encode_uint48_be timestamp_ns)]"

definition encode_itch_add_order ::
    "int \<Rightarrow> int \<Rightarrow> int \<Rightarrow> ustr \<Rightarrow> int \<Rightarrow> ustr \<Rightarrow> int \<Rightarrow> exn + bytes" where
  "encode_itch_add_order locate_id timestamp_ns order_ref side shares stock price_ticks =
     (case encode_ascii (take 8 (ljust 8 32 stock)) of
        Inl e \<Rightarrow> Inl e
      | Inr stock_padded \<Rightarrow>
          (case encode_ascii side of
             Inl e \<Rightarrow> Inl e
           | Inr side_bytes \<Rightarrow>
               pack_all [itch_header 65 locate_id timestamp_ns, be_field 8 order_ref,
                         pack_char (take 1 side_bytes), be_field 4 shares, Inr stock_padded,
                         be_field 4 price_ticks]))"

definition encode_itch_order_executed :: "int \<Rightarrow> int \<Rightarrow> int \<Rightarrow> int \<Rightarrow> int \<Rightarrow> exn + bytes" where
  "encode_itch_order_executed locate_id timestamp_ns order_ref executed_shares match_number =
     pack_all [itch_header 69 locate_id timestamp_ns, be_field 8 order_ref,
               be_field 4 executed_shares, be_field 8 match_number]"

definition encode_itch_order_cancel :: "int \<Rightarrow> int \<Rightarrow> int \<Rightarrow> int \<Rightarrow> exn + bytes" where
  "encode_itch_order_cancel locate_id timestamp_ns order_ref canceled_shares =
     pack_all [itch_header 88 locate_id timestamp_ns, be_field 8 order_ref, be_field 4 canceled_shares]"

definition encode_itch_order_delete :: "int \<Rightarrow> int \<Rightarrow> int \<Rightarrow> exn + bytes" where
  "encode_itch_order_delete locate_id timestamp_ns order_ref =
     pack_all [itch_header 68 locate_id timestamp_ns, be_field 8 order_ref]"

fun mold_payload :: "bytes list \<Rightarrow> exn + bytes" where
  "mold_payload [] = Inr []"
| "mold_payload (msg # msgs) =
     pack_all [be_field 2 (int (length msg)), Inr msg, mold_payload msgs]"

definition encode_mold_packet :: "ustr \<Rightarrow> int \<Rightarrow> bytes list \<Rightarrow> exn + bytes" where
  "encode_mold_packet session sequence_number messages =
     (case encode_ascii (take 10 (ljust 10 32 session)) of
        Inl e \<Rightarrow> Inl e
      | Inr sess_bytes \<Rightarrow>
          pack_all [Inr sess_bytes, be_field 8 sequence_number, be_field 2 (int (length messages)),
                    mold_payload messages])"

subsection \<open>Parsers\<close>

fun mold_messages :: "nat \<Rightarrow> nat \<Rightarrow> bytes \<Rightarrow> bytes list" where
  "mold_messages 0 offset raw = []"
| "mold_messages (Suc n) offset raw =
     (if length raw < offset + 2 then []
      else let msg_len = nat (be_val (py_slice offset (offset + 2) raw)); offset' = offset + 2
           in if length raw < offset' + msg_len then []
              else py_slice offset' (offset' + msg_len) raw # mold_messages n (offset' + msg_len) raw)"

definition parse_mold_packet :: "bytes \<Rightarrow> exn + mold_packet" where
  "parse_mold_packet raw =
     (if length raw < 20 then Inl (ValueError ''packet_too_short'')
      else
        let seq = be_val (py_slice 10 18 raw); count = be_val (py_slice 18 20 raw)
        in Inr \<lparr>mp_session = ustrip (decode_ascii_replace (py_slice 0 10 raw)),
                mp_sequence_number = seq, mp_count = count,
                mp_messages = mold_messages (nat count) 20 raw\<rparr>)"

definition parse_itch_message :: "bytes \<Rightarrow> exn + itch_message option" where
  "parse_itch_message raw =
     (if raw = [] then Inr None
      else
        let msg_type = uint (hd raw); locate = be_val (py_slice 1 3 raw);
            order_ref = be_val (py_slice 11 19 raw)
        in if msg_type = 65 \<and> 36 \<le> length raw then
             (case parse_uint48_be (py_slice 5 11 raw) of
                Inl e \<Rightarrow> Inl e
              | Inr ts \<Rightarrow>
                  (case decode_ascii (py_slice 19 20 raw) of
                     Inl e \<Rightarrow> Inl e
                   | Inr side \<Rightarrow>
                       (case decode_ascii (py_slice 24 32 raw) of
                          Inl e \<Rightarrow> Inl e
                        | Inr stock \<Rightarrow>
                            Inr (Some (AddOrder
                              \<lparr>ao_locate_id = locate, ao_timestamp_ns = ts, ao_order_ref = order_ref,
                               ao_side = side, ao_shares = be_val (py_slice 20 24 raw),
                               ao_stock = ustrip stock, ao_price_ticks = be_val (py_slice 32 36 raw)\<rparr>)))))
           else if msg_type = 69 \<and> 31 \<le> length raw then
             (case parse_uint48_be (py_slice 5 11 raw) of
                Inl e \<Rightarrow> Inl e
              | Inr ts \<Rightarrow>
                  Inr (Some (OrderExecuted
                    \<lparr>oe_locate_id = locate, oe_timestamp_ns = ts, oe_order_ref = order_ref,
                     oe_executed_shares = be_val (py_slice 19 23 raw),
                     oe_match_number = be_val (py_slice 23 31 raw)\<rparr>)))
           else if msg_type = 88 \<and> 23 \<le> length raw then
             (case parse_uint48_be (py_slice 5 11 raw) of
                Inl e \<Rightarrow> Inl e
              | Inr ts \<Rightarrow>
                  Inr (Some (OrderCancel
                    \<lparr>oc_locate_id = locate, oc_timestamp_ns = ts, oc_order_ref = order_ref,
                     oc_canceled_shares = be_val (py_slice 19 23 raw)\<rparr>)))
           else if msg_type = 68 \<and> 19 \<le> length raw then
             (case parse_uint48_be (py_slice 5 11 raw) of
                Inl e \<Rightarrow> Inl e
              | Inr ts \<Rightarrow>
                  Inr (Some (OrderDelete
                    \<lparr>od_locate_id = locate, od_timestamp_ns = ts, od_order_ref = order_ref\<rparr>)))
           else Inr None)"

subsection \<open>The book tracker\<close>

record tracker =
  tk_target_stock :: ustr
  tk_orders :: "(int, itch_add_order) dict"
  tk_bids :: "(int, int) dict"
  tk_asks :: "(int, int) dict"

definition tracker_init :: "ustr \<Rightarrow> tracker" where
  "tracker_init target_stock =
     \<lparr>tk_target_stock = ustrip target_stock, tk_orders = [], tk_bids = [], tk_asks = []\<rparr>"

text \<open>\<open>self.bids if side == "B" else self.asks\<close>, read and written.\<close>

definition ladder_of :: "ustr \<Rightarrow> tracker \<Rightarrow> (int, int) dict" where
  "ladder_of side t = (if side = [66] then tk_bids t else tk_asks t)"

definition set_ladder :: "ustr \<Rightarrow> (int, int) dict \<Rightarrow> tracker \<Rightarrow> tracker" where
  "set_ladder side d t = (if side = [66] then t\<lparr>tk_bids := d\<rparr> else t\<lparr>tk_asks := d\<rparr>)"

definition reduce_level :: "int \<Rightarrow> int \<Rightarrow> (int, int) dict \<Rightarrow> (int, int) dict" where
  "reduce_level price shares d =
     (let d = AList.update price (max 0 (get_default d price 0 - shares)) d
      in if get_default d price 0 = 0 then AList.delete price d else d)"

definition reduce_order :: "int \<Rightarrow> int \<Rightarrow> tracker \<Rightarrow> tracker" where
  "reduce_order ref shares t =
     (case map_of (tk_orders t) ref of
        None \<Rightarrow> t
      | Some ord \<Rightarrow>
          let t = set_ladder (ao_side ord)
                (reduce_level (ao_price_ticks ord) shares (ladder_of (ao_side ord) t)) t;
              rem = ao_shares ord - shares
          in if rem \<le> 0 then t\<lparr>tk_orders := AList.delete ref (tk_orders t)\<rparr>
             else t\<lparr>tk_orders := AList.update ref (ord\<lparr>ao_shares := rem\<rparr>) (tk_orders t)\<rparr>)"

definition add_order :: "itch_add_order \<Rightarrow> tracker \<Rightarrow> tracker" where
  "add_order msg t =
     (if ao_stock msg = tk_target_stock t then
        let t = t\<lparr>tk_orders := AList.update (ao_order_ref msg) msg (tk_orders t)\<rparr>;
            ladder = ladder_of (ao_side msg) t
        in set_ladder (ao_side msg) (AList.update (ao_price_ticks msg)
             (get_default ladder (ao_price_ticks msg) 0 + ao_shares msg) ladder) t
      else t)"

definition delete_order :: "int \<Rightarrow> tracker \<Rightarrow> tracker" where
  "delete_order ref t =
     (case map_of (tk_orders t) ref of
        None \<Rightarrow> t
      | Some ord \<Rightarrow>
          let t = t\<lparr>tk_orders := AList.delete ref (tk_orders t)\<rparr>
          in set_ladder (ao_side ord)
               (reduce_level (ao_price_ticks ord) (ao_shares ord) (ladder_of (ao_side ord) t)) t)"

fun tracker_process :: "tracker \<Rightarrow> itch_message option \<Rightarrow> tracker" where
  "tracker_process t (Some (AddOrder msg)) = add_order msg t"
| "tracker_process t (Some (OrderExecuted msg)) =
     reduce_order (oe_order_ref msg) (oe_executed_shares msg) t"
| "tracker_process t (Some (OrderCancel msg)) =
     reduce_order (oc_order_ref msg) (oc_canceled_shares msg) t"
| "tracker_process t (Some (OrderDelete msg)) = delete_order (od_order_ref msg) t"
| "tracker_process t (Some (SystemEvent msg)) = t"
| "tracker_process t None = t"

definition tracker_best_bid :: "tracker \<Rightarrow> int" where
  "tracker_best_bid t = (case map fst (tk_bids t) of [] \<Rightarrow> 0 | p # ps \<Rightarrow> foldl max p ps)"

definition tracker_best_ask :: "tracker \<Rightarrow> int" where
  "tracker_best_ask t = (case map fst (tk_asks t) of [] \<Rightarrow> 0 | p # ps \<Rightarrow> foldl min p ps)"

definition depth_ladders :: "tracker \<Rightarrow> (int \<times> int) list \<times> (int \<times> int) list" where
  "depth_ladders t = (sort_key (\<lambda>x. - fst x) (tk_bids t), sort_key fst (tk_asks t))"

subsection \<open>Capture files\<close>

definition pcap_header :: bytes where
  "pcap_header = le_bytes 4 2712847316 @ le_bytes 2 2 @ le_bytes 2 4 @ le_bytes 4 0
     @ le_bytes 4 0 @ le_bytes 4 65535 @ le_bytes 4 1"

fun pcap_packets :: "int \<Rightarrow> bytes list \<Rightarrow> bytes \<Rightarrow> (bytes, unit) outcome" where
  "pcap_packets idx [] file = (Inr (), file)"
| "pcap_packets idx (payload # payloads) file =
     (let full_frame = replicate 42 0 @ payload;
          len = int (length full_frame)
      in case pack_all [pack_uint le_bytes 4 (1700000000 + idx), pack_uint le_bytes 4 (idx * 1000),
                        pack_uint le_bytes 4 len, pack_uint le_bytes 4 len] of
           Inl e \<Rightarrow> (Inl e, file)
         | Inr pkt_hdr \<Rightarrow> pcap_packets (idx + 1) payloads (file @ pkt_hdr @ full_frame))"

definition write_synthetic_pcap :: "bytes list \<Rightarrow> (bytes, unit) outcome" where
  "write_synthetic_pcap payloads = pcap_packets 0 payloads pcap_header"

function read_packets :: "bytes \<Rightarrow> bytes list" where
  "read_packets file =
     (let pkt_hdr = take 16 file
      in if length pkt_hdr < 16 then []
         else let caplen = nat (le_val (py_slice 8 12 pkt_hdr));
                  frame = take caplen (drop 16 file);
                  rest = read_packets (drop caplen (drop 16 file))
              in if 42 < length frame then drop 42 frame # rest else rest)"
  by pat_completeness auto
termination
  by (relation "measure length") auto

declare read_packets.simps [simp del]

definition read_pcap_payloads :: "bytes \<Rightarrow> bytes list" where
  "read_pcap_payloads file = (if length (take 24 file) < 24 then [] else read_packets (drop 24 file))"

end
