(* ===== verification/Itch_Props.thy ===== *)
theory Itch_Props
  imports Itch
begin

section \<open>Correctness of the feed codecs\<close>

text \<open>
  What the parsers return for everything the encoders accept, what they return for cut-off and for
  arbitrary input, and the round trip through a capture file.
\<close>

subsection \<open>The 48-bit timestamp\<close>

lemma uint48_parts:
  "drop_bit 32 v AND 65535 = (v div 2 ^ 32) mod 2 ^ 16" "v AND 4294967295 = v mod 2 ^ 32" for v :: int
proof -
  have "(65535 :: int) = mask 16" "(4294967295 :: int) = mask 32" by (simp_all add: mask_eq_exp_minus_1)
  then show "drop_bit 32 v AND 65535 = (v div 2 ^ 32) mod 2 ^ 16" "v AND 4294967295 = v mod 2 ^ 32"
    by (simp_all only: take_bit_eq_mask [symmetric] take_bit_eq_mod drop_bit_eq_div)
qed

lemma push_or_add:
  fixes hi lo :: int
  assumes "0 \<le> lo" "lo < 2 ^ 32"
  shows "push_bit 32 hi OR lo = hi * 2 ^ 32 + lo"
proof -
  have "take_bit 32 lo = lo" using assms by (simp add: take_bit_eq_mod)
  then have "push_bit 32 hi AND lo = 0"
    by (metis bit_eq_iff bit_and_iff bit_push_bit_iff bit_take_bit_iff bit_0_eq bot_apply bot_bool_def not_le)
  then have "push_bit 32 hi OR lo = push_bit 32 hi + lo" by (simp add: disjunctive_add_eq_or)
  then show ?thesis by (simp add: push_bit_eq_mult)
qed

lemma encode_uint48_length [simp]: "length (encode_uint48_be v) = 6"
  by (simp add: encode_uint48_be_def Let_def)

lemma uint48_roundtrip: "parse_uint48_be (encode_uint48_be v) = Inr (v mod 2 ^ 48)"
proof -
  let ?hi = "(v div 2 ^ 32) mod 2 ^ 16" and ?lo = "v mod 2 ^ 32"
  have "parse_uint48_be (encode_uint48_be v) = Inr (push_bit 32 (be_val (be_bytes 2 ?hi)) OR be_val (be_bytes 4 ?lo))"
    by (simp add: parse_uint48_be_def encode_uint48_be_def Let_def py_slice_def uint48_parts)
  also have "\<dots> = Inr (?hi * 2 ^ 32 + ?lo)"
    using push_or_add [of ?lo ?hi] by (simp add: be.dec_enc)
  also have "?hi * 2 ^ 32 + ?lo = v mod 2 ^ 48"
    using zmod_zmult2_eq [of "2 ^ 16" v "2 ^ 32"] by simp
  finally show ?thesis .
qed

subsection \<open>Messages\<close>

lemma itch_header_Inr:
  "itch_header tag loc ts = Inr h \<longleftrightarrow>
     0 \<le> loc \<and> loc < 256 ^ 2 \<and> h = word_of_int tag # be_bytes 2 loc @ be_bytes 2 0 @ encode_uint48_be ts"
  by (auto simp: itch_header_def pack_all_Inr pack_uint_Inr simp del: pack_all.simps(2))

lemmas pack_dest = pack_all_Inr pack_uint_Inr itch_header_Inr pack_char_def

lemma common_fields:
  fixes ts :: int
  assumes "0 \<le> loc" "loc < 256 ^ 2" "0 \<le> ref" "ref < 256 ^ 8"
    and "raw = b # be_bytes 2 loc @ be_bytes 2 0 @ encode_uint48_be ts @ be_bytes 8 ref @ body"
  shows "be_val (py_slice 1 3 raw) = loc" "parse_uint48_be (py_slice 5 11 raw) = Inr (ts mod 2 ^ 48)"
    "be_val (py_slice 11 19 raw) = ref" "\<And>i j. py_slice (19 + i) (19 + j) raw = py_slice i j body"
    "length raw = 19 + length body" "hd raw = b" "raw \<noteq> []"
proof -
  have "py_slice 1 3 raw = be_bytes 2 loc" "py_slice 5 11 raw = encode_uint48_be ts"
    "py_slice 11 19 raw = be_bytes 8 ref"
    by (simp_all add: py_slice_def assms(5))
  then show "be_val (py_slice 1 3 raw) = loc" "parse_uint48_be (py_slice 5 11 raw) = Inr (ts mod 2 ^ 48)"
    "be_val (py_slice 11 19 raw) = ref"
    using assms(1-4) by (simp_all add: be.dec_enc_id uint48_roundtrip)
  have "drop (19 + i) raw = drop i body" for i
  proof -
    have "drop (19 + i) raw = drop i (drop 19 raw)" by (simp add: add.commute)
    then show ?thesis by (simp add: assms(5))
  qed
  then show "\<And>i j. py_slice (19 + i) (19 + j) raw = py_slice i j body" by (simp add: py_slice_def)
qed (simp_all add: assms(5))

lemma add_order_roundtrip:
  assumes "encode_itch_add_order loc ts ref side shares stock price = Inr a"
  shows "length a = 36 \<and> parse_itch_message (a @ rest) = Inr (Some (AddOrder
        \<lparr>ao_locate_id = loc, ao_timestamp_ns = ts mod 2 ^ 48, ao_order_ref = ref,
         ao_side = take 1 side, ao_shares = shares, ao_stock = ustrip (take 8 (ljust 8 32 stock)),
         ao_price_ticks = price\<rparr>))"
proof -
  obtain st sd where st: "encode_ascii (take 8 (ljust 8 32 stock)) = Inr st" and sd: "encode_ascii side = Inr sd"
    and ok: "0 \<le> loc" "loc < 256 ^ 2" "0 \<le> ref" "ref < 256 ^ 8" "0 \<le> shares" "shares < 256 ^ 4"
      "0 \<le> price" "price < 256 ^ 4" "length (take 1 sd) = 1"
    and a: "a = 65 # be_bytes 2 loc @ be_bytes 2 0 @ encode_uint48_be ts @ be_bytes 8 ref
        @ take 1 sd @ be_bytes 4 shares @ st @ be_bytes 4 price"
    using assms
    by (auto simp: encode_itch_add_order_def pack_dest simp del: pack_all.simps(2) split: sum.splits if_splits)
  have st8: "length st = 8" using encode_ascii_length [OF st] by (simp only: length_ljust_take)
  let ?body = "take 1 sd @ be_bytes 4 shares @ st @ be_bytes 4 price @ rest"
  have raw: "a @ rest = 65 # be_bytes 2 loc @ be_bytes 2 0 @ encode_uint48_be ts @ be_bytes 8 ref @ ?body"
    by (simp add: a)
  note cf = common_fields [OF ok(1-4) raw]
  have "py_slice 19 20 (a @ rest) = take 1 sd" "py_slice 20 24 (a @ rest) = be_bytes 4 shares"
    "py_slice 24 32 (a @ rest) = st" "py_slice 32 36 (a @ rest) = be_bytes 4 price"
    using cf(4) [of 0 1] cf(4) [of 1 5] cf(4) [of 5 13] cf(4) [of 13 17] ok(9) st8
    by (simp_all add: py_slice_def)
  moreover have "decode_ascii (take 1 sd) = Inr (take 1 side)"
    by (rule decode_encode_ascii, rule encode_ascii_take, rule sd)
  moreover have "length (a @ rest) = 36 + length rest" "length a = 36" using ok(9) st8 by (simp_all add: a)
  ultimately show ?thesis
    using ok decode_encode_ascii [OF st] cf(1-3,6,7)
    by (simp add: parse_itch_message_def Let_def be.dec_enc_id)
qed

lemma order_executed_roundtrip:
  assumes "encode_itch_order_executed loc ts ref shares mtch = Inr a"
  shows "length a = 31 \<and> parse_itch_message (a @ rest) = Inr (Some (OrderExecuted
        \<lparr>oe_locate_id = loc, oe_timestamp_ns = ts mod 2 ^ 48, oe_order_ref = ref,
         oe_executed_shares = shares, oe_match_number = mtch\<rparr>))"
proof -
  have ok: "0 \<le> loc" "loc < 256 ^ 2" "0 \<le> ref" "ref < 256 ^ 8" "0 \<le> shares" "shares < 256 ^ 4"
      "0 \<le> mtch" "mtch < 256 ^ 8"
    and a: "a = 69 # be_bytes 2 loc @ be_bytes 2 0 @ encode_uint48_be ts @ be_bytes 8 ref
        @ be_bytes 4 shares @ be_bytes 8 mtch"
    using assms by (auto simp: encode_itch_order_executed_def pack_dest simp del: pack_all.simps(2))
  have raw: "a @ rest = 69 # be_bytes 2 loc @ be_bytes 2 0 @ encode_uint48_be ts @ be_bytes 8 ref
      @ be_bytes 4 shares @ be_bytes 8 mtch @ rest"
    by (simp add: a)
  note cf = common_fields [OF ok(1-4) raw]
  have "py_slice 19 23 (a @ rest) = be_bytes 4 shares" "py_slice 23 31 (a @ rest) = be_bytes 8 mtch"
    using cf(4) [of 0 4] cf(4) [of 4 12] by (simp_all add: py_slice_def)
  moreover have "length (a @ rest) = 31 + length rest" "length a = 31" by (simp_all add: a)
  ultimately show ?thesis
    using ok cf(1-3,6,7) by (simp add: parse_itch_message_def Let_def be.dec_enc_id)
qed

lemma order_cancel_roundtrip:
  assumes "encode_itch_order_cancel loc ts ref shares = Inr a"
  shows "length a = 23 \<and> parse_itch_message (a @ rest) = Inr (Some (OrderCancel
        \<lparr>oc_locate_id = loc, oc_timestamp_ns = ts mod 2 ^ 48, oc_order_ref = ref,
         oc_canceled_shares = shares\<rparr>))"
proof -
  have ok: "0 \<le> loc" "loc < 256 ^ 2" "0 \<le> ref" "ref < 256 ^ 8" "0 \<le> shares" "shares < 256 ^ 4"
    and a: "a = 88 # be_bytes 2 loc @ be_bytes 2 0 @ encode_uint48_be ts @ be_bytes 8 ref @ be_bytes 4 shares"
    using assms by (auto simp: encode_itch_order_cancel_def pack_dest simp del: pack_all.simps(2))
  have raw: "a @ rest = 88 # be_bytes 2 loc @ be_bytes 2 0 @ encode_uint48_be ts @ be_bytes 8 ref
      @ be_bytes 4 shares @ rest"
    by (simp add: a)
  note cf = common_fields [OF ok(1-4) raw]
  have "py_slice 19 23 (a @ rest) = be_bytes 4 shares" using cf(4) [of 0 4] by (simp add: py_slice_def)
  moreover have "length (a @ rest) = 23 + length rest" "length a = 23" by (simp_all add: a)
  ultimately show ?thesis
    using ok cf(1-3,6,7) by (simp add: parse_itch_message_def Let_def be.dec_enc_id)
qed

lemma order_delete_roundtrip:
  assumes "encode_itch_order_delete loc ts ref = Inr a"
  shows "length a = 19 \<and> parse_itch_message (a @ rest) = Inr (Some (OrderDelete
        \<lparr>od_locate_id = loc, od_timestamp_ns = ts mod 2 ^ 48, od_order_ref = ref\<rparr>))"
proof -
  have ok: "0 \<le> loc" "loc < 256 ^ 2" "0 \<le> ref" "ref < 256 ^ 8"
    and a: "a = 68 # be_bytes 2 loc @ be_bytes 2 0 @ encode_uint48_be ts @ be_bytes 8 ref"
    using assms by (auto simp: encode_itch_order_delete_def pack_dest simp del: pack_all.simps(2))
  have raw: "a @ rest = 68 # be_bytes 2 loc @ be_bytes 2 0 @ encode_uint48_be ts @ be_bytes 8 ref @ rest"
    by (simp add: a)
  note cf = common_fields [OF ok(1-4) raw]
  have "length (a @ rest) = 19 + length rest" "length a = 19" by (simp_all add: a)
  then show ?thesis using cf(1-3,6,7) by (simp add: parse_itch_message_def Let_def)
qed

text \<open>
  C24. Every message the encoders accept is read back by \<open>parse_itch_message\<close>, also with bytes
  following it: the fields are the arguments, except that the timestamp is reduced modulo 2^48, the
  side keeps its first character and the stock its first eight, without the padding. The messages
  are 36, 31, 23 and 19 bytes long.
\<close>

theorem itch_messages_roundtrip:
  "(encode_itch_add_order loc ts ref side shares stock price = Inr a \<longrightarrow>
      length a = 36 \<and> parse_itch_message (a @ rest) = Inr (Some (AddOrder
        \<lparr>ao_locate_id = loc, ao_timestamp_ns = ts mod 2 ^ 48, ao_order_ref = ref,
         ao_side = take 1 side, ao_shares = shares, ao_stock = ustrip (take 8 (ljust 8 32 stock)),
         ao_price_ticks = price\<rparr>)))
   \<and> (encode_itch_order_executed loc ts ref shares mtch = Inr e \<longrightarrow>
      length e = 31 \<and> parse_itch_message (e @ rest) = Inr (Some (OrderExecuted
        \<lparr>oe_locate_id = loc, oe_timestamp_ns = ts mod 2 ^ 48, oe_order_ref = ref,
         oe_executed_shares = shares, oe_match_number = mtch\<rparr>)))
   \<and> (encode_itch_order_cancel loc ts ref shares = Inr x \<longrightarrow>
      length x = 23 \<and> parse_itch_message (x @ rest) = Inr (Some (OrderCancel
        \<lparr>oc_locate_id = loc, oc_timestamp_ns = ts mod 2 ^ 48, oc_order_ref = ref,
         oc_canceled_shares = shares\<rparr>)))
   \<and> (encode_itch_order_delete loc ts ref = Inr d \<longrightarrow>
      length d = 19 \<and> parse_itch_message (d @ rest) = Inr (Some (OrderDelete
        \<lparr>od_locate_id = loc, od_timestamp_ns = ts mod 2 ^ 48, od_order_ref = ref\<rparr>)))"
  by (rule conjI [OF impI conjI [OF impI conjI [OF impI impI]]], erule add_order_roundtrip,
      erule order_executed_roundtrip, erule order_cancel_roundtrip, erule order_delete_roundtrip)

subsection \<open>Packets\<close>

lemma mold_payload_Cons:
  "mold_payload (msg # msgs) = Inr p \<longleftrightarrow> length msg < 65536
     \<and> (\<exists>p'. mold_payload msgs = Inr p' \<and> p = be_bytes 2 (int (length msg)) @ msg @ p')"
  by (auto simp: pack_dest simp del: pack_all.simps(2))

lemma mold_messages_drop: "mold_messages n off raw = mold_messages n 0 (drop off raw)"
proof (induction n arbitrary: off raw)
  case (Suc n)
  define k where "k = nat (be_val (take 2 (drop off raw)))"
  have "mold_messages n (off + 2 + k) raw = mold_messages n 0 (drop (off + 2 + k) raw)"
    "mold_messages n (0 + 2 + k) (drop off raw) = mold_messages n 0 (drop (0 + 2 + k) (drop off raw))"
    by (rule Suc.IH)+
  then have "mold_messages n (off + 2 + k) raw = mold_messages n (0 + 2 + k) (drop off raw)"
    by (simp add: add.commute add.left_commute)
  moreover have "length raw < off + 2 \<longleftrightarrow> length (drop off raw) < 0 + 2"
    "length raw < off + 2 + k \<longleftrightarrow> length (drop off raw) < 0 + 2 + k"
    by auto
  moreover have "py_slice (off + 2) (off + 2 + k) raw = py_slice (0 + 2) (0 + 2 + k) (drop off raw)"
    "py_slice off (off + 2) raw = take 2 (drop off raw)" "py_slice 0 (0 + 2) (drop off raw) = take 2 (drop off raw)"
    by (simp_all add: py_slice_def add.commute numeral_2_eq_2)
  ultimately show ?case unfolding mold_messages.simps Let_def k_def by presburger
qed simp

lemma mold_messages_step:
  "mold_messages (Suc n) 0 raw =
     (if length raw < 2 then []
      else let k = nat (be_val (take 2 raw)); body = drop 2 raw
           in if length body < k then [] else take k body # mold_messages n 0 (drop k body))"
proof -
  define k where "k = nat (be_val (take 2 raw))"
  have "mold_messages n (0 + 2 + k) raw = mold_messages n 0 (drop k (drop 2 raw))"
    by (subst mold_messages_drop) (simp add: add.commute)
  moreover have "length raw < 0 + 2 + k \<longleftrightarrow> length (drop 2 raw) < k" if "\<not> length raw < 2"
    using that by auto
  moreover have "py_slice 0 (0 + 2) raw = take 2 raw" "py_slice (0 + 2) (0 + 2 + k) raw = take k (drop 2 raw)"
    by (simp_all add: py_slice_def numeral_2_eq_2)
  ultimately show ?thesis unfolding mold_messages.simps Let_def k_def by auto
qed

lemma mold_messages_payload:
  "mold_payload msgs = Inr p \<Longrightarrow> mold_messages (length msgs) 0 (p @ rest) = msgs"
proof (induction msgs arbitrary: p)
  case (Cons msg msgs)
  then obtain p' where p: "length msg < 65536" "mold_payload msgs = Inr p'"
    "p = be_bytes 2 (int (length msg)) @ msg @ p'"
    unfolding mold_payload_Cons by blast
  have "be_val (be_bytes 2 (int (length msg))) = int (length msg)"
    using p(1) by (simp add: be.dec_enc_id)
  then show ?case using Cons.IH [OF p(2)] by (simp add: mold_messages_step p(3) del: mold_messages.simps)
qed simp

text \<open>A packet that ends early yields the messages that are complete.\<close>

lemma mold_messages_prefix: "prefix (mold_messages n 0 (take k raw)) (mold_messages n 0 raw)"
proof (induction n arbitrary: k raw)
  case (Suc n)
  let ?m = "nat (be_val (take 2 raw))"
  show ?case
  proof (cases "2 \<le> k \<and> 2 \<le> length raw \<and> ?m \<le> length (drop 2 raw) \<and> ?m \<le> k - 2")
    case True
    then have "take 2 (take k raw) = take 2 raw" "drop 2 (take k raw) = take (k - 2) (drop 2 raw)"
      by (simp_all add: min_absorb1 drop_take)
    then show ?thesis
      using True Suc.IH [of "k - 2 - ?m" "drop ?m (drop 2 raw)"]
      by (simp add: mold_messages_step Let_def drop_take min_absorb1 del: mold_messages.simps)
  next
    case False
    have "mold_messages (Suc n) 0 (take k raw) = [] \<or> mold_messages (Suc n) 0 raw = []
        \<and> mold_messages (Suc n) 0 (take k raw) = []"
      using False by (auto simp: mold_messages_step Let_def min_def drop_take simp del: mold_messages.simps)
    then show ?thesis by auto
  qed
qed simp

lemma encode_mold_Inr:
  "encode_mold_packet session seq msgs = Inr bs \<longleftrightarrow>
     (\<exists>s p. encode_ascii (take 10 (ljust 10 32 session)) = Inr s \<and> 0 \<le> seq \<and> seq < 256 ^ 8
        \<and> length msgs < 65536 \<and> mold_payload msgs = Inr p
        \<and> bs = s @ be_bytes 8 seq @ be_bytes 2 (int (length msgs)) @ p)"
  by (auto simp: encode_mold_packet_def pack_dest simp del: pack_all.simps(2) split: sum.splits)

text \<open>
  C25. A MoldUDP64 packet that \<open>encode_mold_packet\<close> accepts is read back with its sequence number,
  its count and exactly its messages; cut off anywhere after the header, it yields a prefix of its
  messages under the same sequence number, so a truncated datagram never invents a message.
\<close>

theorem mold_packet_roundtrip:
  assumes "encode_mold_packet session seq msgs = Inr bs" and "20 \<le> k"
  shows "\<exists>ms. parse_mold_packet (take k bs) =
      Inr \<lparr>mp_session = ustrip (take 10 (ljust 10 32 session)), mp_sequence_number = seq,
           mp_count = int (length msgs), mp_messages = ms\<rparr>
    \<and> prefix ms msgs \<and> (length bs \<le> k \<longrightarrow> ms = msgs)"
proof -
  obtain s p where s: "encode_ascii (take 10 (ljust 10 32 session)) = Inr s"
    and ok: "0 \<le> seq" "seq < 256 ^ 8" "length msgs < 65536" "mold_payload msgs = Inr p"
    and bs: "bs = s @ be_bytes 8 seq @ be_bytes 2 (int (length msgs)) @ p"
    using assms(1) unfolding encode_mold_Inr by blast
  have s10: "length s = 10" using encode_ascii_length [OF s] by (simp only: length_ljust_take)
  let ?raw = "take k bs"
  have "?raw = s @ be_bytes 8 seq @ be_bytes 2 (int (length msgs)) @ take (k - 20) p"
    using assms(2) s10 by (simp add: bs)
  moreover from this have len: "20 \<le> length ?raw" using s10 by simp
  ultimately have f: "py_slice 0 10 ?raw = s" "py_slice 10 18 ?raw = be_bytes 8 seq"
    "py_slice 18 20 ?raw = be_bytes 2 (int (length msgs))" "drop 20 ?raw = take (k - 20) p"
    using s10 by (simp_all add: py_slice_def)
  have "be_val (be_bytes 2 (int (length msgs))) = int (length msgs)" "be_val (be_bytes 8 seq) = seq"
    using ok(1-3) by (simp_all add: be.dec_enc_id)
  then have "parse_mold_packet ?raw = Inr \<lparr>mp_session = ustrip (take 10 (ljust 10 32 session)),
      mp_sequence_number = seq, mp_count = int (length msgs),
      mp_messages = mold_messages (length msgs) 0 (take (k - 20) p)\<rparr>"
    using len mold_messages_drop [of "length msgs" 20 ?raw] decode_replace_encode [OF s]
    unfolding parse_mold_packet_def Let_def f by (simp add: min_def split: if_splits)
  moreover have "prefix (mold_messages (length msgs) 0 (take (k - 20) p)) msgs"
    using mold_messages_prefix [of "length msgs" "k - 20" p] mold_messages_payload [OF ok(4), of "[]"] by simp
  moreover have "mold_messages (length msgs) 0 (take (k - 20) p) = msgs" if "length bs \<le> k"
    using that s10 mold_messages_payload [OF ok(4), of "[]"] by (simp add: bs)
  ultimately show ?thesis by blast
qed

lemma mold_messages_bounds:
  "length (mold_messages n 0 raw) \<le> n
   \<and> sum_list (map (\<lambda>m. 2 + length m) (mold_messages n 0 raw)) \<le> length raw"
proof (induction n arbitrary: raw)
  case (Suc n)
  then show ?case
    using Suc.IH [of "drop (nat (be_val (take 2 raw))) (drop 2 raw)"]
    by (auto simp: mold_messages_step Let_def simp del: mold_messages.simps)
qed simp

text \<open>
  Parsing arbitrary bytes is safe: only a packet shorter than its 20-byte header raises, the
  count and the sequence number are the unsigned fields of the header, and the messages returned
  are at most the announced count and, with their length prefixes, lie inside the packet.
\<close>

theorem mold_parse_total:
  "case parse_mold_packet raw of
     Inl e \<Rightarrow> e = ValueError ''packet_too_short'' \<and> length raw < 20
   | Inr pkt \<Rightarrow> 20 \<le> length raw \<and> 0 \<le> mp_count pkt \<and> mp_count pkt < 65536
       \<and> 0 \<le> mp_sequence_number pkt \<and> mp_sequence_number pkt < 2 ^ 64
       \<and> int (length (mp_messages pkt)) \<le> mp_count pkt
       \<and> sum_list (map (\<lambda>m. 2 + length m) (mp_messages pkt)) \<le> length raw - 20"
proof (cases "length raw < 20")
  case False
  then have l: "length (py_slice 10 18 raw) = 8" "length (py_slice 18 20 raw) = 2" by (simp_all add: py_slice_def)
  have b: "0 \<le> be_val (py_slice 18 20 raw)" "be_val (py_slice 18 20 raw) < 65536"
    "0 \<le> be_val (py_slice 10 18 raw)" "be_val (py_slice 10 18 raw) < 2 ^ 64"
    using be_val_bound [of "py_slice 18 20 raw"] be_val_bound [of "py_slice 10 18 raw"] l by simp_all
  let ?n = "nat (be_val (py_slice 18 20 raw))"
  have "length (mold_messages ?n 20 raw) \<le> ?n
      \<and> sum_list (map (\<lambda>m. 2 + length m) (mold_messages ?n 20 raw)) \<le> length raw - 20"
    using mold_messages_bounds [of ?n "drop 20 raw"]
    by (subst (1 2) mold_messages_drop) (simp del: mold_messages.simps)
  with b False show ?thesis by (simp add: parse_mold_packet_def Let_def le_nat_iff)
qed (simp add: parse_mold_packet_def)

end
