(* ===== verification/Tracker_Props.thy ===== *)
theory Tracker_Props
  imports Itch_Props
begin

section \<open>Correctness of the book tracker and of capture files\<close>

text \<open>
  The tracker keeps the price ladders incrementally. The abstract book is the sum over the live
  orders of a side at a price; \<open>ladder_matches\<close> says that a dictionary represents such a function
  without empty levels. Every admissible message keeps both ladders in step with the orders.
\<close>

subsection \<open>Ladders\<close>

definition ladder_matches :: "(int, int) dict \<Rightarrow> (int \<Rightarrow> int) \<Rightarrow> bool" where
  "ladder_matches d f \<longleftrightarrow> wf_dict d
     \<and> (\<forall>p. 0 \<le> f p \<and> map_of d p = (if f p = 0 then None else Some (f p)))"

lemma ladder_get: "ladder_matches d f \<Longrightarrow> get_default d p 0 = f p"
  by (auto simp: ladder_matches_def get_default_def)

lemma ladder_add:
  assumes "ladder_matches d f" "0 < x"
  shows "ladder_matches (AList.update p (get_default d p 0 + x) d) (f(p := f p + x))"
proof -
  have "0 \<le> f p" using assms(1) by (simp add: ladder_matches_def)
  then have "0 < f p + x" using assms(2) by simp
  then show ?thesis
    using assms ladder_get [OF assms(1), of p] by (auto simp: ladder_matches_def dict_simps)
qed

lemma ladder_reduce:
  assumes "ladder_matches d f" "x \<le> f p" "0 \<le> x"
  shows "ladder_matches (reduce_level p x d) (f(p := f p - x))"
  using assms ladder_get [OF assms(1), of p]
  by (auto simp: ladder_matches_def reduce_level_def Let_def dict_simps)

subsection \<open>Live orders\<close>

abbreviation is_bid :: "itch_add_order \<Rightarrow> bool" where
  "is_bid ord \<equiv> ao_side ord = [66]"

definition live :: "bool \<Rightarrow> (int, itch_add_order) dict \<Rightarrow> int \<Rightarrow> int" where
  "live bid orders p =
     dict_sum (\<lambda>ord. if is_bid ord = bid \<and> ao_price_ticks ord = p then ao_shares ord else 0) orders"

definition tracker_ok :: "tracker \<Rightarrow> bool" where
  "tracker_ok t \<longleftrightarrow> wf_dict (tk_orders t)
     \<and> (\<forall>ref ord. map_of (tk_orders t) ref = Some ord \<longrightarrow> 0 < ao_shares ord \<and> ao_stock ord = tk_target_stock t)
     \<and> ladder_matches (tk_bids t) (live True (tk_orders t))
     \<and> ladder_matches (tk_asks t) (live False (tk_orders t))"

lemma live_new:
  "map_of orders ref = None \<Longrightarrow>
   live b (AList.update ref ord orders) =
     (if is_bid ord = b then (live b orders)(ao_price_ticks ord := live b orders (ao_price_ticks ord) + ao_shares ord)
      else live b orders)"
  by (auto simp: live_def dict_sum_update_new fun_eq_iff)

lemma live_resize:
  assumes "map_of orders ref = Some ord"
  shows "live b (AList.update ref (ord\<lparr>ao_shares := ao_shares ord - x\<rparr>) orders) =
     (if is_bid ord = b then (live b orders)(ao_price_ticks ord := live b orders (ao_price_ticks ord) - x)
      else live b orders)"
  by (auto simp: live_def fun_eq_iff dict_sum_update [OF assms])

lemma live_delete:
  assumes "wf_dict orders" "map_of orders ref = Some ord"
  shows "live b (AList.delete ref orders) =
     (if is_bid ord = b
      then (live b orders)(ao_price_ticks ord := live b orders (ao_price_ticks ord) - ao_shares ord)
      else live b orders)"
  by (auto simp: live_def fun_eq_iff dict_sum_delete [OF assms])

lemma live_at_least:
  assumes "tracker_ok t" "map_of (tk_orders t) ref = Some ord"
  shows "ao_shares ord \<le> live (is_bid ord) (tk_orders t) (ao_price_ticks ord)"
proof -
  have wf: "wf_dict (tk_orders t)" using assms(1) by (simp add: tracker_ok_def)
  have "0 \<le> live (is_bid ord) (AList.delete ref (tk_orders t)) (ao_price_ticks ord)"
    unfolding live_def
  proof (rule dict_sum_nonneg)
    fix v assume "v \<in> snd ` set (AList.delete ref (tk_orders t))"
    then obtain k where "map_of (AList.delete ref (tk_orders t)) k = Some v" using wf by force
    then have "0 < ao_shares v" using assms(1) by (auto simp: tracker_ok_def dict_simps split: if_splits)
    then show "0 \<le> (if is_bid v = is_bid ord \<and> ao_price_ticks v = ao_price_ticks ord then ao_shares v else 0)"
      by simp
  qed
  then show ?thesis by (simp add: live_delete [OF wf assms(2)])
qed

lemma set_ladder_simps [simp]:
  "tk_orders (set_ladder s d t) = tk_orders t" "tk_target_stock (set_ladder s d t) = tk_target_stock t"
  "tk_bids (set_ladder s d t) = (if s = [66] then d else tk_bids t)"
  "tk_asks (set_ladder s d t) = (if s = [66] then tk_asks t else d)"
  by (simp_all add: set_ladder_def)

subsection \<open>Messages\<close>

text \<open>
  A message is admissible when it adds a fresh order of positive size, or executes or cancels no
  more of a known order than is left of it.
\<close>

fun admissible :: "tracker \<Rightarrow> itch_message option \<Rightarrow> bool" where
  "admissible t (Some (AddOrder m)) \<longleftrightarrow>
     ao_stock m = tk_target_stock t \<longrightarrow> map_of (tk_orders t) (ao_order_ref m) = None \<and> 0 < ao_shares m"
| "admissible t (Some (OrderExecuted m)) \<longleftrightarrow>
     (\<forall>ord. map_of (tk_orders t) (oe_order_ref m) = Some ord \<longrightarrow>
        0 \<le> oe_executed_shares m \<and> oe_executed_shares m \<le> ao_shares ord)"
| "admissible t (Some (OrderCancel m)) \<longleftrightarrow>
     (\<forall>ord. map_of (tk_orders t) (oc_order_ref m) = Some ord \<longrightarrow>
        0 \<le> oc_canceled_shares m \<and> oc_canceled_shares m \<le> ao_shares ord)"
| "admissible t _ \<longleftrightarrow> True"

lemma add_order_ok:
  assumes "tracker_ok t" "admissible t (Some (AddOrder m))"
  shows "tracker_ok (add_order m t)"
proof (cases "ao_stock m = tk_target_stock t")
  case True
  then have new: "map_of (tk_orders t) (ao_order_ref m) = None" "0 < ao_shares m" using assms(2) by auto
  show ?thesis
    using assms(1) new ladder_add [of _ _ "ao_shares m" "ao_price_ticks m"] True
    unfolding add_order_def Let_def
    by (simp add: tracker_ok_def live_new [OF new(1)] ladder_of_def dict_simps)
qed (use assms(1) in \<open>simp add: add_order_def\<close>)

lemma reduce_order_ok:
  assumes "tracker_ok t"
    and "\<And>ord. map_of (tk_orders t) ref = Some ord \<Longrightarrow> 0 \<le> x \<and> x \<le> ao_shares ord"
  shows "tracker_ok (reduce_order ref x t)"
proof (cases "map_of (tk_orders t) ref")
  case (Some ord)
  have x: "0 \<le> x" "x \<le> ao_shares ord" using assms(2) [OF Some] by auto
  have wf: "wf_dict (tk_orders t)" using assms(1) by (simp add: tracker_ok_def)
  have le: "x \<le> live (is_bid ord) (tk_orders t) (ao_price_ticks ord)"
    using live_at_least [OF assms(1) Some] x by linarith
  have m: "ladder_matches (reduce_level (ao_price_ticks ord) x (ladder_of (ao_side ord) t))
      ((live (is_bid ord) (tk_orders t))(ao_price_ticks ord :=
         live (is_bid ord) (tk_orders t) (ao_price_ticks ord) - x))"
    by (rule ladder_reduce) (use assms(1) le x(1) in \<open>auto simp: tracker_ok_def ladder_of_def\<close>)
  show ?thesis
  proof (cases "ao_shares ord - x \<le> 0")
    case True
    then have "x = ao_shares ord" using x by simp
    then show ?thesis
      using assms(1) m wf Some
      by (auto simp: reduce_order_def Let_def tracker_ok_def live_delete [OF wf Some] dict_simps ladder_of_def)
  next
    case False
    then show ?thesis
      using assms(1) m wf Some
      by (auto simp: reduce_order_def Let_def tracker_ok_def live_resize [OF Some] dict_simps ladder_of_def)
  qed
qed (use assms(1) in \<open>simp add: reduce_order_def\<close>)

lemma delete_order_ok:
  assumes "tracker_ok t"
  shows "tracker_ok (delete_order ref t)"
proof (cases "map_of (tk_orders t) ref")
  case (Some ord)
  have wf: "wf_dict (tk_orders t)" and pos: "0 < ao_shares ord"
    using assms(1) Some by (auto simp: tracker_ok_def)
  have m: "ladder_matches (reduce_level (ao_price_ticks ord) (ao_shares ord) (ladder_of (ao_side ord) t))
      ((live (is_bid ord) (tk_orders t))(ao_price_ticks ord :=
         live (is_bid ord) (tk_orders t) (ao_price_ticks ord) - ao_shares ord))"
    by (rule ladder_reduce)
      (use assms(1) pos live_at_least [OF assms Some] in \<open>auto simp: tracker_ok_def ladder_of_def\<close>)
  then show ?thesis
    using assms(1) wf Some
    by (auto simp: delete_order_def Let_def tracker_ok_def live_delete [OF wf Some] dict_simps ladder_of_def)
qed (use assms(1) in \<open>simp add: delete_order_def\<close>)

lemma process_ok: "tracker_ok t \<Longrightarrow> admissible t m \<Longrightarrow> tracker_ok (tracker_process t m)"
  by (cases "(t, m)" rule: tracker_process.cases)
    (auto intro: add_order_ok reduce_order_ok delete_order_ok)

text \<open>A stream is admissible when every message is, in the state it meets.\<close>

fun admissible_stream :: "tracker \<Rightarrow> itch_message option list \<Rightarrow> bool" where
  "admissible_stream t [] \<longleftrightarrow> True"
| "admissible_stream t (m # ms) \<longleftrightarrow> admissible t m \<and> admissible_stream (tracker_process t m) ms"

lemma stream_ok: "tracker_ok t \<Longrightarrow> admissible_stream t ms \<Longrightarrow> tracker_ok (foldl tracker_process t ms)"
  by (induction ms arbitrary: t) (simp_all add: process_ok)

lemma tracker_init_ok: "tracker_ok (tracker_init stock)"
  by (simp add: tracker_ok_def tracker_init_def ladder_matches_def live_def)

subsection \<open>Best prices\<close>

lemma foldl_max: "foldl max x xs = Max (set (x # xs))" for x :: int
proof -
  have "(\<lambda>y s. max s y) = (max :: int \<Rightarrow> int \<Rightarrow> int)" by (simp add: fun_eq_iff max.commute)
  then show ?thesis by (simp only: Max.set_eq_fold foldl_conv_fold)
qed

lemma foldl_min: "foldl min x xs = Min (set (x # xs))" for x :: int
proof -
  have "(\<lambda>y s. min s y) = (min :: int \<Rightarrow> int \<Rightarrow> int)" by (simp add: fun_eq_iff min.commute)
  then show ?thesis by (simp only: Min.set_eq_fold foldl_conv_fold)
qed

lemma ladder_keys: "ladder_matches d f \<Longrightarrow> fst ` set d = {p. 0 < f p}"
proof -
  assume m: "ladder_matches d f"
  then have "p \<in> dom (map_of d) \<longleftrightarrow> 0 < f p" for p
    by (auto simp: ladder_matches_def order_le_less dom_def)
  then show ?thesis by (auto simp: dom_map_of_conv_image_fst)
qed

lemma best_bid_max: "tracker_best_bid t = (if tk_bids t = [] then 0 else Max (fst ` set (tk_bids t)))"
  by (cases "tk_bids t") (simp_all add: tracker_best_bid_def foldl_max)

lemma best_ask_min: "tracker_best_ask t = (if tk_asks t = [] then 0 else Min (fst ` set (tk_asks t)))"
  by (cases "tk_asks t") (simp_all add: tracker_best_ask_def foldl_min)

text \<open>
  C4. After any admissible stream the ladders are the aggregated live orders: the size shown at a
  price is the sum of the shares of the live orders there, a level is listed exactly when that sum
  is positive, and the best bid and ask are the highest and the lowest such price, or 0.
\<close>

theorem tracker_shows_live_orders:
  assumes "admissible_stream (tracker_init stock) msgs"
    and "t = foldl tracker_process (tracker_init stock) msgs"
  shows "(\<forall>p. get_default (tk_bids t) p 0 = live True (tk_orders t) p
          \<and> get_default (tk_asks t) p 0 = live False (tk_orders t) p
          \<and> (has_key (tk_bids t) p \<longleftrightarrow> 0 < live True (tk_orders t) p)
          \<and> (has_key (tk_asks t) p \<longleftrightarrow> 0 < live False (tk_orders t) p))
     \<and> tracker_best_bid t = (if tk_bids t = [] then 0 else Max {p. 0 < live True (tk_orders t) p})
     \<and> tracker_best_ask t = (if tk_asks t = [] then 0 else Min {p. 0 < live False (tk_orders t) p})"
proof -
  have "tracker_ok t" unfolding assms(2) by (rule stream_ok [OF tracker_init_ok assms(1)])
  then have m: "ladder_matches (tk_bids t) (live True (tk_orders t))"
    "ladder_matches (tk_asks t) (live False (tk_orders t))" by (simp_all add: tracker_ok_def)
  have "has_key (tk_bids t) p \<longleftrightarrow> 0 < live True (tk_orders t) p"
    "has_key (tk_asks t) p \<longleftrightarrow> 0 < live False (tk_orders t) p" for p
    using ladder_keys [OF m(1)] ladder_keys [OF m(2)] by (auto simp: map_of_eq_None_iff)
  then show ?thesis
    using m by (simp only: ladder_get best_bid_max best_ask_min ladder_keys [OF m(1)] ladder_keys [OF m(2)]) simp
qed

subsection \<open>Capture files\<close>

lemma read_packet:
  assumes "length hdr = 8" "length frame < 256 ^ 4" "length orig = 4"
  shows "read_packets (hdr @ le_bytes 4 (int (length frame)) @ orig @ frame @ rest) =
         (if 42 < length frame then [drop 42 frame] else []) @ read_packets rest"
proof -
  have "le_val (le_bytes 4 (int (length frame))) = int (length frame)"
    using assms(2) by (intro le.dec_enc_id) auto
  then show ?thesis
    using assms by (subst read_packets.simps) (simp add: Let_def py_slice_def)
qed

lemma pcap_packets_read:
  assumes "0 \<le> idx"
  shows "\<exists>r n bs. pcap_packets idx ps written = (r, written @ bs) \<and> n \<le> length ps
     \<and> read_packets bs = filter (\<lambda>p. p \<noteq> []) (take n ps)
     \<and> (r = Inr () \<longleftrightarrow> n = length ps)
     \<and> ((\<forall>p \<in> set ps. length p + 42 < 256 ^ 4) \<and> idx + int (length ps) \<le> 4294968 \<longrightarrow> r = Inr ())"
  using assms
proof (induction ps arbitrary: idx written)
  case Nil
  have "read_packets [] = []" by (simp add: read_packets.simps)
  then show ?case by simp
next
  case (Cons p ps)
  let ?frame = "replicate 42 0 @ p"
  let ?flds = "[pack_uint le_bytes 4 (1700000000 + idx), pack_uint le_bytes 4 (idx * 1000),
    pack_uint le_bytes 4 (int (length ?frame)), pack_uint le_bytes 4 (int (length ?frame))]"
  show ?case
  proof (cases "pack_all ?flds")
    case (Inl e)
    have "\<not> (length p + 42 < 256 ^ 4 \<and> idx + 1 + int (length ps) \<le> 4294968)"
      using Inl Cons.prems by (auto simp: pack_uint_def split: if_splits)
    moreover have "read_packets [] = []" by (simp add: read_packets.simps)
    moreover have "pcap_packets idx (p # ps) written = (Inl e, written)"
      by (simp only: pcap_packets.simps Let_def Inl sum.case)
    ultimately show ?thesis
      by (intro exI [of _ "Inl e"] exI [of _ 0] exI [of _ "[]"]) (auto simp del: pcap_packets.simps)
  next
    case (Inr h)
    then have h: "h = le_bytes 4 (1700000000 + idx) @ le_bytes 4 (idx * 1000)
        @ le_bytes 4 (int (length ?frame)) @ le_bytes 4 (int (length ?frame))"
      and small: "length ?frame < 256 ^ 4"
      by (auto simp: pack_all_Inr pack_uint_Inr simp del: pack_all.simps(2))
    obtain r n bs where IH: "pcap_packets (idx + 1) ps (written @ h @ ?frame) = (r, (written @ h @ ?frame) @ bs)"
      "n \<le> length ps" "read_packets bs = filter (\<lambda>p. p \<noteq> []) (take n ps)" "r = Inr () \<longleftrightarrow> n = length ps"
      "(\<forall>p \<in> set ps. length p + 42 < 256 ^ 4) \<and> idx + 1 + int (length ps) \<le> 4294968 \<longrightarrow> r = Inr ()"
      using Cons.IH [of "idx + 1" "written @ h @ ?frame"] Cons.prems by auto
    have "read_packets (h @ ?frame @ bs) = filter (\<lambda>p. p \<noteq> []) (take (Suc n) (p # ps))"
      using read_packet [of "le_bytes 4 (1700000000 + idx) @ le_bytes 4 (idx * 1000)" ?frame
          "le_bytes 4 (int (length ?frame))" bs] small IH(3) by (simp add: h)
    moreover have "pcap_packets idx (p # ps) written = (r, written @ h @ ?frame @ bs)"
      using IH(1) by (simp only: pcap_packets.simps Let_def Inr sum.case) simp
    ultimately show ?thesis
      using IH(2,4,5)
      by (intro exI [of _ r] exI [of _ "Suc n"] exI [of _ "h @ ?frame @ bs"])
        (auto simp del: pcap_packets.simps)
  qed
qed

text \<open>
  Capture files round-trip: what \<open>read_pcap_payloads\<close> reads from a file that
  \<open>write_synthetic_pcap\<close> wrote is the list of its non-empty payloads, all of them when the write
  returned and those before the failing packet when it raised; the write returns whenever there are
  at most 4294968 payloads and each frame length fits its field.
\<close>

theorem pcap_roundtrip:
  "\<exists>r file n. write_synthetic_pcap payloads = (r, file)
     \<and> read_pcap_payloads file = filter (\<lambda>p. p \<noteq> []) (take n payloads)
     \<and> (r = Inr () \<longleftrightarrow> n = length payloads) \<and> n \<le> length payloads
     \<and> ((\<forall>p \<in> set payloads. length p + 42 < 256 ^ 4) \<and> length payloads \<le> 4294968 \<longrightarrow> r = Inr ())"
proof -
  obtain r n bs where p: "pcap_packets 0 payloads pcap_header = (r, pcap_header @ bs)"
    "n \<le> length payloads" "read_packets bs = filter (\<lambda>p. p \<noteq> []) (take n payloads)"
    "r = Inr () \<longleftrightarrow> n = length payloads"
    "(\<forall>p \<in> set payloads. length p + 42 < 256 ^ 4) \<and> int (length payloads) \<le> 4294968 \<longrightarrow> r = Inr ()"
    using pcap_packets_read [of 0 payloads pcap_header] by auto
  have "length pcap_header = 24" by (simp add: pcap_header_def)
  then have "read_pcap_payloads (pcap_header @ bs) = read_packets bs" by (simp add: read_pcap_payloads_def)
  moreover have "length payloads \<le> 4294968 \<longrightarrow> int (length payloads) \<le> 4294968" by auto
  ultimately show ?thesis using p by (auto simp: write_synthetic_pcap_def)
qed

end
