(* ===== verification/Itch_Witnesses.thy ===== *)
theory Itch_Witnesses
  imports Tracker_Props
begin

section \<open>The feed properties at work\<close>

text \<open>Concrete messages, a packet, a capture and a stream for the properties of the feed.\<close>

definition demo_add :: bytes where
  "demo_add = (case encode_itch_add_order 7 99 1001 [66] 500 [65, 65, 80, 76] 15000 of Inl _ \<Rightarrow> [] | Inr b \<Rightarrow> b)"

theorem itch_messages_roundtrip_witness:
  "parse_itch_message (demo_add @ [0, 0]) = Inr (Some (AddOrder
     \<lparr>ao_locate_id = 7, ao_timestamp_ns = 99, ao_order_ref = 1001, ao_side = [66], ao_shares = 500,
      ao_stock = [65, 65, 80, 76], ao_price_ticks = 15000\<rparr>))"
proof -
  have e: "encode_itch_add_order 7 99 1001 [66] 500 [65, 65, 80, 76] 15000 = Inr demo_add" by code_simp
  have s: "ustrip (take 8 (ljust 8 32 [65, 65, 80, 76])) = [65, 65, 80, 76]" by code_simp
  show ?thesis
    using itch_messages_roundtrip [THEN conjunct1, rule_format, OF e, of "[0, 0]"] by (simp add: s)
qed

theorem mold_packet_roundtrip_witness:
  "\<exists>ms. prefix ms [[1, 2, 3], [4, 5 :: byte]] \<and> (\<exists>bs. encode_mold_packet [83, 49] 42 [[1, 2, 3], [4, 5]] = Inr bs
     \<and> map_sum id mp_messages (parse_mold_packet (take 26 bs)) = Inr ms)"
proof -
  obtain bs where e: "encode_mold_packet [83, 49] 42 [[1, 2, 3], [4, 5]] = Inr bs"
    by (cases "encode_mold_packet [83, 49] 42 [[1, 2, 3], [4, 5]]")
      (simp_all add: encode_mold_packet_def encode_ascii_def ljust_def pack_uint_def)
  from mold_packet_roundtrip [OF e, of 26] show ?thesis using e by fastforce
qed

definition demo_order_msg :: "int \<Rightarrow> int \<Rightarrow> int \<Rightarrow> itch_message option" where
  "demo_order_msg ref shares price = Some (AddOrder
     \<lparr>ao_locate_id = 1, ao_timestamp_ns = 1, ao_order_ref = ref, ao_side = [66], ao_shares = shares,
      ao_stock = [88], ao_price_ticks = price\<rparr>)"

definition demo_exec_msg :: "int \<Rightarrow> int \<Rightarrow> itch_message option" where
  "demo_exec_msg ref shares = Some (OrderExecuted
     \<lparr>oe_locate_id = 1, oe_timestamp_ns = 2, oe_order_ref = ref, oe_executed_shares = shares, oe_match_number = 9\<rparr>)"

theorem tracker_shows_live_orders_witness:
  "get_default (tk_bids (foldl tracker_process (tracker_init [32, 88])
       [demo_order_msg 1 10 100, demo_order_msg 2 10 100, demo_exec_msg 1 4])) 100 0 =
   live True (tk_orders (foldl tracker_process (tracker_init [32, 88])
       [demo_order_msg 1 10 100, demo_order_msg 2 10 100, demo_exec_msg 1 4])) 100"
proof -
  have "admissible_stream (tracker_init [32, 88])
      [demo_order_msg 1 10 100, demo_order_msg 2 10 100, demo_exec_msg 1 4]"
    by (simp add: demo_order_msg_def demo_exec_msg_def tracker_init_def strip_by_def unicode_space_def
        add_order_def set_ladder_def ladder_of_def)
  from tracker_shows_live_orders [OF this refl] show ?thesis by blast
qed

theorem pcap_roundtrip_witness:
  "\<exists>file. write_synthetic_pcap [[1, 2], [], [3 :: byte]] = (Inr (), file)
     \<and> read_pcap_payloads file = [[1, 2], [3]]"
proof -
  obtain r out n where w: "write_synthetic_pcap [[1, 2], [], [3 :: byte]] = (r, out)"
    "read_pcap_payloads out = filter (\<lambda>p. p \<noteq> []) (take n [[1, 2], [], [3]])"
    "r = Inr () \<longleftrightarrow> n = length [[1, 2], [], [3 :: byte]]" "r = Inr ()"
    using pcap_roundtrip [of "[[1, 2], [], [3 :: byte]]"] by auto
  then show ?thesis by simp
qed

text \<open>
  An execution of more shares than its order has takes the excess from the other orders at the
  price: the ladder shows 5 where an order of 10 is live.
\<close>

lemma oversized_execution_eats_other_orders:
  "get_default (tk_bids (foldl tracker_process (tracker_init [88])
       [demo_order_msg 1 10 100, demo_order_msg 2 10 100, demo_exec_msg 1 15])) 100 0 = 5
   \<and> live True (tk_orders (foldl tracker_process (tracker_init [88])
       [demo_order_msg 1 10 100, demo_order_msg 2 10 100, demo_exec_msg 1 15])) 100 = 10"
  by code_simp

end
