(* ===== verification/Venue.thy ===== *)
theory Venue
  imports Py_Str
begin

section \<open>Venue interfaces (interfaces/venue, VenueSession of production_gate_simulations.py)\<close>

text \<open>
  The simulated order gateway, the two validated feeds and the synthetic venue session. Methods
  that raise return an \<open>outcome\<close> with the state as the exception leaves it. A feed is modelled as
  consumed when it is requested: the generator's closed check and the items come together.
\<close>

subsection \<open>Order gateway\<close>

datatype environment = Simulator | Paper | Shadow | Live

datatype order_side = Buy | Sell

datatype order_state = Accepted | Canceled | Rejected | Unknown

record order_request =
  or_client_order_id :: int
  or_instrument_id :: string
  or_side :: order_side
  or_quantity :: int
  or_price_ticks :: int
  or_environment :: environment

definition validate_request :: "order_request \<Rightarrow> exn + unit" where
  "validate_request r =
     (if or_client_order_id r \<le> 0 then Inl (ValueError ''client_order_id_invalid'')
      else if or_instrument_id r = [] then Inl (ValueError ''instrument_id_invalid'')
      else if or_quantity r \<le> 0 then Inl (ValueError ''quantity_invalid'')
      else if or_price_ticks r \<le> 0 then Inl (ValueError ''price_ticks_invalid'')
      else if or_environment r = Live then Inl (ValueError ''live_execution_disabled'')
      else Inr ())"

record order_ack =
  ack_client_order_id :: int
  ack_venue_order_id :: string
  ack_state :: order_state
  ack_accepted_quantity :: int
  ack_reason :: string

record gateway =
  gw_venue_id :: int
  gw_orders :: "(int, order_ack) dict"
  gw_closed :: bool

definition gateway_init :: "int \<Rightarrow> exn + gateway" where
  "gateway_init venue_id =
     (if venue_id \<le> 0 then Inl (ValueError ''venue_id_invalid'')
      else Inr \<lparr>gw_venue_id = venue_id, gw_orders = [], gw_closed = False\<rparr>)"

definition venue_order_id :: "gateway \<Rightarrow> int \<Rightarrow> string" where
  "venue_order_id g cid = str_of_int (gw_venue_id g) @ ''-'' @ str_of_int cid"

definition gateway_submit :: "order_request \<Rightarrow> gateway \<Rightarrow> (gateway, order_ack) outcome" where
  "gateway_submit r g =
     (if gw_closed g then (Inl (RuntimeError ''gateway_closed''), g)
      else case validate_request r of
        Inl e \<Rightarrow> (Inl e, g)
      | Inr _ \<Rightarrow>
          let cid = or_client_order_id r
          in if has_key (gw_orders g) cid
             then (Inr \<lparr>ack_client_order_id = cid, ack_venue_order_id = venue_order_id g cid,
                        ack_state = Rejected, ack_accepted_quantity = 0,
                        ack_reason = ''duplicate_client_order_id''\<rparr>, g)
             else
               let ack = \<lparr>ack_client_order_id = cid, ack_venue_order_id = venue_order_id g cid,
                          ack_state = Accepted, ack_accepted_quantity = or_quantity r,
                          ack_reason = []\<rparr>
               in (Inr ack, g\<lparr>gw_orders := AList.update cid ack (gw_orders g)\<rparr>))"

definition gateway_cancel :: "int \<Rightarrow> gateway \<Rightarrow> (gateway, order_ack) outcome" where
  "gateway_cancel cid g =
     (if gw_closed g then (Inl (RuntimeError ''gateway_closed''), g)
      else case map_of (gw_orders g) cid of
        None \<Rightarrow>
          (Inr \<lparr>ack_client_order_id = cid, ack_venue_order_id = venue_order_id g cid,
                ack_state = Unknown, ack_accepted_quantity = 0, ack_reason = ''order_not_found''\<rparr>, g)
      | Some existing \<Rightarrow>
          let ack = \<lparr>ack_client_order_id = cid, ack_venue_order_id = ack_venue_order_id existing,
                     ack_state = Canceled, ack_accepted_quantity = 0, ack_reason = []\<rparr>
          in (Inr ack, g\<lparr>gw_orders := AList.update cid ack (gw_orders g)\<rparr>))"

definition gateway_close :: "gateway \<Rightarrow> gateway" where
  "gateway_close g = g\<lparr>gw_closed := True\<rparr>"

datatype gateway_op = Submit order_request | Cancel int | CloseGateway

fun gateway_step :: "gateway_op \<Rightarrow> gateway \<Rightarrow> (gateway, order_ack option) outcome" where
  "gateway_step (Submit r) g = map_prod (map_sum id Some) id (gateway_submit r g)"
| "gateway_step (Cancel cid) g = map_prod (map_sum id Some) id (gateway_cancel cid g)"
| "gateway_step CloseGateway g = (Inr None, gateway_close g)"

subsection \<open>Validated feeds\<close>

record md_quote =
  mq_instrument_id :: string
  mq_sequence :: int
  mq_timestamp_ns :: int
  mq_bid_ticks :: int
  mq_ask_ticks :: int

definition validate_quote :: "md_quote \<Rightarrow> exn + unit" where
  "validate_quote q =
     (if mq_instrument_id q = [] then Inl (ValueError ''instrument_id_invalid'')
      else if mq_sequence q \<le> 0 then Inl (ValueError ''sequence_invalid'')
      else if mq_timestamp_ns q \<le> 0 then Inl (ValueError ''timestamp_invalid'')
      else if mq_bid_ticks q \<le> 0 \<or> mq_ask_ticks q < mq_bid_ticks q
      then Inl (ValueError ''quote_prices_invalid'')
      else Inr ())"

record md_feed =
  mf_quotes :: "md_quote list"
  mf_closed :: bool

fun check_quotes :: "(string \<times> int) list \<Rightarrow> md_quote list \<Rightarrow> exn + unit" where
  "check_quotes seen [] = Inr ()"
| "check_quotes seen (q # qs) =
     (case validate_quote q of
        Inl e \<Rightarrow> Inl e
      | Inr _ \<Rightarrow>
          let key = (mq_instrument_id q, mq_sequence q)
          in if key \<in> set seen then Inl (ValueError ''duplicate_quote_sequence'')
             else check_quotes (key # seen) qs)"

definition md_feed_init :: "md_quote list \<Rightarrow> exn + md_feed" where
  "md_feed_init qs =
     (case check_quotes [] qs of
        Inl e \<Rightarrow> Inl e
      | Inr _ \<Rightarrow> Inr \<lparr>mf_quotes = qs, mf_closed = False\<rparr>)"

definition md_feed_quotes :: "md_feed \<Rightarrow> exn + md_quote list" where
  "md_feed_quotes f = (if mf_closed f then Inl (RuntimeError ''feed_closed'') else Inr (mf_quotes f))"

definition md_feed_close :: "md_feed \<Rightarrow> md_feed" where
  "md_feed_close f = f\<lparr>mf_closed := True\<rparr>"

record execution_report =
  er_execution_id :: string
  er_client_order_id :: int
  er_instrument_id :: string
  er_side :: order_side
  er_quantity :: int
  er_price_ticks :: int
  er_timestamp_ns :: int

definition validate_report :: "execution_report \<Rightarrow> exn + unit" where
  "validate_report r =
     (if er_execution_id r = [] then Inl (ValueError ''execution_id_invalid'')
      else if er_client_order_id r \<le> 0 \<or> er_instrument_id r = []
      then Inl (ValueError ''order_reference_invalid'')
      else if er_quantity r \<le> 0 \<or> er_price_ticks r \<le> 0 \<or> er_timestamp_ns r \<le> 0
      then Inl (ValueError ''execution_values_invalid'')
      else Inr ())"

record drop_copy_feed =
  dc_reports :: "execution_report list"
  dc_closed :: bool

fun check_reports :: "string list \<Rightarrow> execution_report list \<Rightarrow> exn + unit" where
  "check_reports seen [] = Inr ()"
| "check_reports seen (r # rs) =
     (case validate_report r of
        Inl e \<Rightarrow> Inl e
      | Inr _ \<Rightarrow>
          if er_execution_id r \<in> set seen then Inl (ValueError ''duplicate_execution_id'')
          else check_reports (er_execution_id r # seen) rs)"

definition drop_copy_init :: "execution_report list \<Rightarrow> exn + drop_copy_feed" where
  "drop_copy_init rs =
     (case check_reports [] rs of
        Inl e \<Rightarrow> Inl e
      | Inr _ \<Rightarrow> Inr \<lparr>dc_reports = rs, dc_closed = False\<rparr>)"

definition drop_copy_reports :: "drop_copy_feed \<Rightarrow> exn + execution_report list" where
  "drop_copy_reports f =
     (if dc_closed f then Inl (RuntimeError ''drop_copy_closed'') else Inr (dc_reports f))"

definition drop_copy_close :: "drop_copy_feed \<Rightarrow> drop_copy_feed" where
  "drop_copy_close f = f\<lparr>dc_closed := True\<rparr>"

subsection \<open>Venue session\<close>

record venue_session =
  vs_sequence :: int
  vs_connected :: bool
  vs_orders :: "(int, string) dict"
  vs_messages_in_window :: int
  vs_throttle_per_second :: int

definition session_init :: "int \<Rightarrow> venue_session" where
  "session_init throttle =
     \<lparr>vs_sequence = 0, vs_connected = False, vs_orders = [], vs_messages_in_window = 0,
      vs_throttle_per_second = throttle\<rparr>"

definition session_connect :: "string \<Rightarrow> bool \<Rightarrow> venue_session \<Rightarrow> (venue_session, unit) outcome" where
  "session_connect credentials live v =
     (if credentials = [] \<or> live then (Inl (SimulationError ''live_session_guard_failed''), v)
      else (Inr (), v\<lparr>vs_connected := True, vs_sequence := 0, vs_messages_in_window := 0\<rparr>))"

definition session_disconnect :: "venue_session \<Rightarrow> venue_session" where
  "session_disconnect v = v\<lparr>vs_connected := False\<rparr>"

definition session_reconnect :: "string \<Rightarrow> int \<Rightarrow> venue_session \<Rightarrow> (venue_session, unit) outcome" where
  "session_reconnect credentials expected v =
     (case session_connect credentials False v of
        (Inl e, v) \<Rightarrow> (Inl e, v)
      | (Inr _, v) \<Rightarrow>
          if expected < 0 then (Inl (SimulationError ''reconnect_sequence_invalid''), v)
          else (Inr (), v\<lparr>vs_sequence := expected\<rparr>))"

definition venue_message :: "string \<Rightarrow> int \<Rightarrow> int \<Rightarrow> string" where
  "venue_message kind sequence oid = kind @ ''|'' @ str_of_int sequence @ ''|'' @ str_of_int oid"

definition session_actions :: "string list" where
  "session_actions = [''new'', ''cancel'', ''replace'', ''heartbeat'', ''drop_copy'']"

text \<open>What an accepted request does to the orders and which reply it gets.\<close>

definition session_reply :: "int \<Rightarrow> string \<Rightarrow> venue_session \<Rightarrow> string \<times> venue_session" where
  "session_reply cid action v =
     (if action = ''new'' then
        if has_key (vs_orders v) cid then (venue_message ''DUPLICATE_REJECT'' (vs_sequence v) cid, v)
        else (venue_message ''ACK'' (vs_sequence v) cid,
              v\<lparr>vs_orders := AList.update cid ''accepted'' (vs_orders v)\<rparr>)
      else if action = ''cancel'' then
        if map_of (vs_orders v) cid \<noteq> Some ''accepted''
        then (venue_message ''CANCEL_REJECT'' (vs_sequence v) cid, v)
        else (venue_message ''CANCELLED'' (vs_sequence v) cid,
              v\<lparr>vs_orders := AList.update cid ''cancelled'' (vs_orders v)\<rparr>)
      else if action = ''replace'' then
        if map_of (vs_orders v) cid \<noteq> Some ''accepted''
        then (venue_message ''REPLACE_REJECT'' (vs_sequence v) cid, v)
        else (venue_message ''REPLACED'' (vs_sequence v) cid, v)
      else if action = ''drop_copy'' then (venue_message ''DROP_COPY'' (vs_sequence v) cid, v)
      else (venue_message ''HEARTBEAT'' (vs_sequence v) 0, v))"

definition session_send :: "int \<Rightarrow> string \<Rightarrow> venue_session \<Rightarrow> (venue_session, string) outcome" where
  "session_send cid action v =
     (if \<not> vs_connected v \<or> cid < 0 \<or> action \<notin> set session_actions
      then (Inl (SimulationError ''venue_session_request_failed''), v)
      else if vs_throttle_per_second v \<le> vs_messages_in_window v
      then let v = v\<lparr>vs_sequence := vs_sequence v + 1\<rparr>
           in (Inr (venue_message ''THROTTLE_REJECT'' (vs_sequence v) cid), v)
      else
        let (reply, v) = session_reply cid action
              (v\<lparr>vs_messages_in_window := vs_messages_in_window v + 1, vs_sequence := vs_sequence v + 1\<rparr>)
        in (Inr reply, v))"

definition venue_kinds :: "string list" where
  "venue_kinds = [''ACK'', ''CANCELLED'', ''REPLACED'', ''HEARTBEAT'', ''DROP_COPY'',
     ''CANCEL_REJECT'', ''REPLACE_REJECT'', ''DUPLICATE_REJECT'', ''THROTTLE_REJECT'']"

definition session_receive :: "string \<Rightarrow> int \<Rightarrow> exn + bool" where
  "session_receive message expected =
     (case split_on (CHR ''|'') message of
        [kind, seq_field, id_field] \<Rightarrow>
          (case (int_of_str seq_field, int_of_str id_field) of
             (Some sequence, Some oid) \<Rightarrow>
               if sequence \<noteq> expected \<or> oid < 0 then Inl (SimulationError ''venue_sequence_gap'')
               else Inr (kind \<in> set venue_kinds)
           | _ \<Rightarrow> Inl (SimulationError ''venue_message_invalid''))
      | _ \<Rightarrow> Inl (SimulationError ''venue_message_malformed''))"

datatype session_op =
    Connect string bool
  | Disconnect
  | Reconnect string int
  | Send int string
  | ResetWindow

text \<open>\<open>ResetWindow\<close> is the caller's \<open>session.messages_in_window = 0\<close> at the start of a second.\<close>

fun session_step :: "venue_session \<Rightarrow> session_op \<Rightarrow> venue_session" where
  "session_step v (Connect c live) = snd (session_connect c live v)"
| "session_step v Disconnect = session_disconnect v"
| "session_step v (Reconnect c n) = snd (session_reconnect c n v)"
| "session_step v (Send cid action) = snd (session_send cid action v)"
| "session_step v ResetWindow = v\<lparr>vs_messages_in_window := 0\<rparr>"

end
