(* ===== verification/Venue_Props.thy ===== *)
theory Venue_Props
  imports Venue
begin

section \<open>Correctness of the venue interfaces\<close>

text \<open>
  The gateway accepts an order id at most once and never a live order; feeds hand out exactly what
  was validated; a venue session numbers its replies without gaps, its own reader understands every
  reply, and an order only moves forward through its life.
\<close>

subsection \<open>Gateway\<close>

fun gateway_trace :: "gateway \<Rightarrow> gateway_op list \<Rightarrow> (exn + order_ack option) list" where
  "gateway_trace g [] = []"
| "gateway_trace g (c # cs) = (let (r, g') = gateway_step c g in r # gateway_trace g' cs)"

definition accepted_for :: "int \<Rightarrow> exn + order_ack option \<Rightarrow> bool" where
  "accepted_for cid r =
     (case r of Inr (Some a) \<Rightarrow> ack_state a = Accepted \<and> ack_client_order_id a = cid | _ \<Rightarrow> False)"

text \<open>The orders the gateway may accept.\<close>

definition acceptable :: "order_request \<Rightarrow> bool" where
  "acceptable r \<longleftrightarrow> 0 < or_client_order_id r \<and> or_instrument_id r \<noteq> [] \<and> 0 < or_quantity r
     \<and> 0 < or_price_ticks r \<and> or_environment r \<noteq> Live"

lemma validate_request_iff: "validate_request r = Inr u \<longleftrightarrow> acceptable r"
  by (auto simp: validate_request_def acceptable_def split: if_splits)

lemma gateway_step_cases:
  assumes "gateway_step c g = (r, g')"
  shows "(accepted_for cid r \<longrightarrow> \<not> gw_closed g \<and> \<not> has_key (gw_orders g) cid \<and> has_key (gw_orders g') cid
            \<and> (\<exists>req. c = Submit req \<and> or_client_order_id req = cid \<and> acceptable req))
     \<and> (has_key (gw_orders g) cid \<longrightarrow> has_key (gw_orders g') cid)
     \<and> (gw_closed g \<longrightarrow> gw_closed g' \<and> gw_orders g' = gw_orders g
          \<and> (c \<noteq> CloseGateway \<longrightarrow> r = Inl (RuntimeError ''gateway_closed'')))"
proof (cases c)
  case (Submit req)
  show ?thesis
  proof (cases "validate_request req")
    case (Inl e)
    then show ?thesis using assms Submit by (auto simp: gateway_submit_def accepted_for_def split: if_splits)
  next
    case (Inr u)
    then have "acceptable req" by (simp add: validate_request_iff)
    then show ?thesis
      using assms Submit Inr
      by (auto simp: gateway_submit_def accepted_for_def Let_def dict_simps split: if_splits)
  qed
next
  case (Cancel i)
  then show ?thesis
    using assms
    by (auto simp: gateway_cancel_def accepted_for_def Let_def dict_simps split: if_splits option.splits)
qed (use assms in \<open>auto simp: gateway_close_def accepted_for_def\<close>)

lemma trace_known: "has_key (gw_orders g) cid \<Longrightarrow> filter (accepted_for cid) (gateway_trace g ops) = []"
proof (induction ops arbitrary: g)
  case (Cons c ops)
  obtain r g' where s: "gateway_step c g = (r, g')" by fastforce
  show ?case using gateway_step_cases [OF s, of cid] Cons by (auto simp: s)
qed simp

lemma trace_once: "length (filter (accepted_for cid) (gateway_trace g ops)) \<le> 1"
proof (induction ops arbitrary: g)
  case (Cons c ops)
  obtain r g' where s: "gateway_step c g = (r, g')" by fastforce
  show ?case using gateway_step_cases [OF s, of cid] Cons.IH [of g'] trace_known [of g' cid ops] by (auto simp: s)
qed simp

lemma trace_acceptable:
  "r \<in> set (gateway_trace g ops) \<Longrightarrow> accepted_for cid r \<Longrightarrow>
   \<exists>req. Submit req \<in> set ops \<and> or_client_order_id req = cid \<and> acceptable req"
proof (induction ops arbitrary: g)
  case (Cons c ops)
  obtain r' g' where s: "gateway_step c g = (r', g')" by fastforce
  show ?case using gateway_step_cases [OF s, of cid] Cons by (auto simp: s)
qed simp

lemma trace_closed:
  "gw_closed g \<Longrightarrow> r \<in> set (gateway_trace g ops) \<Longrightarrow> r = Inr None \<or> r = Inl (RuntimeError ''gateway_closed'')"
proof (induction ops arbitrary: g)
  case (Cons c ops)
  obtain r' g' where s: "gateway_step c g = (r', g')" by fastforce
  have c: "gw_closed g'" "c \<noteq> CloseGateway \<Longrightarrow> r' = Inl (RuntimeError ''gateway_closed'')"
    using gateway_step_cases [OF s] Cons.prems(1) by auto
  have "c = CloseGateway \<Longrightarrow> r' = Inr None" using s by auto
  with c(2) have "r' = Inr None \<or> r' = Inl (RuntimeError ''gateway_closed'')" by blast
  moreover have "r = r' \<or> r \<in> set (gateway_trace g' ops)" using Cons.prems(2) by (auto simp: s)
  ultimately show ?case using Cons.IH [OF c(1)] by blast
qed simp

lemma gateway_trace_append:
  "gateway_trace g (xs @ ys) = gateway_trace g xs @ gateway_trace (foldl (\<lambda>g c. snd (gateway_step c g)) g xs) ys"
  by (induction xs arbitrary: g) (auto simp: split_beta Let_def)

text \<open>
  C15. In any sequence of calls the gateway accepts a client order id at most once, only for a
  submitted request that is valid and not for the live environment, and after \<open>close\<close> every
  submit and cancel raises \<open>gateway_closed\<close>.
\<close>

theorem gateway_accepts_once:
  "length (filter (accepted_for cid) (gateway_trace g ops)) \<le> 1
   \<and> (\<forall>r \<in> set (gateway_trace g ops). accepted_for cid r \<longrightarrow>
        (\<exists>req. Submit req \<in> set ops \<and> or_client_order_id req = cid \<and> acceptable req))
   \<and> (\<forall>r \<in> set (drop (length ops) (gateway_trace g (ops @ CloseGateway # later))).
        r = Inr None \<or> r = Inl (RuntimeError ''gateway_closed''))"
proof -
  have len: "length (gateway_trace g ops) = length ops" for g
    by (induction ops arbitrary: g) (auto simp: split_beta Let_def)
  have "r = Inr None \<or> r = Inl (RuntimeError ''gateway_closed'')"
    if "r \<in> set (gateway_trace (g'\<lparr>gw_closed := True\<rparr>) later)" for r g'
    using that by (intro trace_closed) auto
  then show ?thesis
    using trace_once [of cid g ops] trace_acceptable [of _ g ops cid]
    by (auto simp: gateway_trace_append len gateway_close_def)
qed

subsection \<open>Feeds\<close>

locale validated_feed =
  fixes validate :: "'a \<Rightarrow> exn + unit" and key :: "'a \<Rightarrow> 'k" and dup :: exn
    and check :: "'k list \<Rightarrow> 'a list \<Rightarrow> exn + unit"
  assumes check_Nil: "check seen [] = Inr ()"
    and check_Cons: "check seen (x # xs) =
      (case validate x of Inl e \<Rightarrow> Inl e
       | Inr _ \<Rightarrow> if key x \<in> set seen then Inl dup else check (key x # seen) xs)"
begin

lemma check_ok:
  "check seen xs = Inr () \<longleftrightarrow>
     (\<forall>x \<in> set xs. validate x = Inr ()) \<and> distinct (map key xs) \<and> key ` set xs \<inter> set seen = {}"
  by (induction xs arbitrary: seen) (auto simp: check_Nil check_Cons split: sum.splits)

lemma check_error:
  "check seen xs = Inl e \<Longrightarrow>
     e = dup \<and> \<not> (distinct (map key xs) \<and> key ` set xs \<inter> set seen = {}) \<or> (\<exists>x \<in> set xs. validate x = Inl e)"
proof (induction xs arbitrary: seen)
  case (Cons x xs)
  show ?case
  proof (cases "validate x")
    case (Inr u)
    then show ?thesis
      using Cons.prems Cons.IH [of "key x # seen"] by (auto simp: check_Cons split: if_splits)
  qed (use Cons.prems in \<open>auto simp: check_Cons\<close>)
qed (simp add: check_Nil)

end

interpretation quotes_feed: validated_feed validate_quote "\<lambda>q. (mq_instrument_id q, mq_sequence q)"
    "ValueError ''duplicate_quote_sequence''" check_quotes
  by unfold_locales (simp_all add: Let_def split: sum.split)

interpretation reports_feed: validated_feed validate_report er_execution_id
    "ValueError ''duplicate_execution_id''" check_reports
  by unfold_locales (simp_all split: sum.split)

text \<open>
  The two feeds open exactly for lists whose items are all valid and have distinct keys
  (instrument and sequence for quotes, execution id for reports); an open feed hands out exactly
  the list it was given, a closed one raises.
\<close>

theorem feeds_hand_out_what_was_validated:
  "(case md_feed_init qs of
      Inr f \<Rightarrow> (\<forall>q \<in> set qs. validate_quote q = Inr ())
        \<and> distinct (map (\<lambda>q. (mq_instrument_id q, mq_sequence q)) qs)
        \<and> md_feed_quotes f = Inr qs \<and> md_feed_quotes (md_feed_close f) = Inl (RuntimeError ''feed_closed'')
    | Inl e \<Rightarrow> e = ValueError ''duplicate_quote_sequence'' \<and> \<not> distinct (map (\<lambda>q. (mq_instrument_id q, mq_sequence q)) qs)
        \<or> (\<exists>q \<in> set qs. validate_quote q = Inl e))
   \<and> (case drop_copy_init rs of
      Inr f \<Rightarrow> (\<forall>r \<in> set rs. validate_report r = Inr ()) \<and> distinct (map er_execution_id rs)
        \<and> drop_copy_reports f = Inr rs
        \<and> drop_copy_reports (drop_copy_close f) = Inl (RuntimeError ''drop_copy_closed'')
    | Inl e \<Rightarrow> e = ValueError ''duplicate_execution_id'' \<and> \<not> distinct (map er_execution_id rs)
        \<or> (\<exists>r \<in> set rs. validate_report r = Inl e))"
proof (rule conjI)
  show "case md_feed_init qs of
      Inr f \<Rightarrow> (\<forall>q \<in> set qs. validate_quote q = Inr ())
        \<and> distinct (map (\<lambda>q. (mq_instrument_id q, mq_sequence q)) qs)
        \<and> md_feed_quotes f = Inr qs \<and> md_feed_quotes (md_feed_close f) = Inl (RuntimeError ''feed_closed'')
    | Inl e \<Rightarrow> e = ValueError ''duplicate_quote_sequence'' \<and> \<not> distinct (map (\<lambda>q. (mq_instrument_id q, mq_sequence q)) qs)
        \<or> (\<exists>q \<in> set qs. validate_quote q = Inl e)"
    using quotes_feed.check_ok [of "[]" qs] quotes_feed.check_error [of "[]" qs]
    by (cases "check_quotes [] qs") (simp_all add: md_feed_init_def md_feed_quotes_def md_feed_close_def)
  show "case drop_copy_init rs of
      Inr f \<Rightarrow> (\<forall>r \<in> set rs. validate_report r = Inr ()) \<and> distinct (map er_execution_id rs)
        \<and> drop_copy_reports f = Inr rs
        \<and> drop_copy_reports (drop_copy_close f) = Inl (RuntimeError ''drop_copy_closed'')
    | Inl e \<Rightarrow> e = ValueError ''duplicate_execution_id'' \<and> \<not> distinct (map er_execution_id rs)
        \<or> (\<exists>r \<in> set rs. validate_report r = Inl e)"
    using reports_feed.check_ok [of "[]" rs] reports_feed.check_error [of "[]" rs]
    by (cases "check_reports [] rs")
      (simp_all add: drop_copy_init_def drop_copy_reports_def drop_copy_close_def)
qed

subsection \<open>Session\<close>

lemma kind_no_bar: "kind \<in> set venue_kinds \<Longrightarrow> CHR ''|'' \<notin> set kind"
  by (auto simp: venue_kinds_def)

lemma receive_message:
  assumes "kind \<in> set venue_kinds" "0 \<le> oid"
  shows "session_receive (venue_message kind n oid) k =
     (if n = k then Inr True else Inl (SimulationError ''venue_sequence_gap''))"
proof -
  have "split_on (CHR ''|'') (venue_message kind n oid) = [kind, str_of_int n, str_of_int oid]"
    using kind_no_bar [OF assms(1)] str_of_int_no_bar [of n] str_of_int_no_bar [of oid]
    by (simp add: venue_message_def split_on_append split_on_no_sep)
  then show ?thesis using assms by (simp add: session_receive_def)
qed

lemma message_exI:
  "kind \<in> set venue_kinds \<Longrightarrow> 0 \<le> oid \<Longrightarrow>
   \<exists>k i. venue_message kind n oid = venue_message k n i \<and> k \<in> set venue_kinds \<and> 0 \<le> i"
  by blast

lemma session_reply_message:
  assumes "0 \<le> cid"
  shows "\<exists>kind oid. fst (session_reply cid action v) = venue_message kind (vs_sequence v) oid
     \<and> kind \<in> set venue_kinds \<and> 0 \<le> oid"
  unfolding session_reply_def
  by (simp only: split: if_split)
    (intro conjI impI; simp only: fst_conv; rule message_exI; simp add: venue_kinds_def assms)

lemma session_reply_frame [simp]:
  "vs_sequence (snd (session_reply cid a v)) = vs_sequence v"
  "vs_connected (snd (session_reply cid a v)) = vs_connected v"
  "vs_messages_in_window (snd (session_reply cid a v)) = vs_messages_in_window v"
  "vs_throttle_per_second (snd (session_reply cid a v)) = vs_throttle_per_second v"
  by (simp_all add: session_reply_def)

text \<open>
  Every reply of the venue session is understood by its own reader: a successful
  \<open>send\<close> increments the sequence by one, \<open>receive\<close> returns true for the reply with exactly that sequence
  number and raises \<open>venue_sequence_gap\<close> for any other; a failed \<open>send\<close> changes nothing.
\<close>

theorem session_replies_numbered:
  "case session_send cid action v of
     (Inr reply, v') \<Rightarrow> vs_sequence v' = vs_sequence v + 1
       \<and> session_receive reply (vs_sequence v') = Inr True
       \<and> (\<forall>k. k \<noteq> vs_sequence v' \<longrightarrow> session_receive reply k = Inl (SimulationError ''venue_sequence_gap''))
   | (Inl e, v') \<Rightarrow> v' = v \<and> e = SimulationError ''venue_session_request_failed''"
proof (cases "\<not> vs_connected v \<or> cid < 0 \<or> action \<notin> set session_actions")
  case False
  then have cid: "0 \<le> cid" by auto
  show ?thesis
  proof (cases "vs_throttle_per_second v \<le> vs_messages_in_window v")
    case True
    have "''THROTTLE_REJECT'' \<in> set venue_kinds" by (simp add: venue_kinds_def)
    with False True cid show ?thesis by (simp add: session_send_def receive_message)
  next
    case open_window: False
    define v1 where "v1 = v\<lparr>vs_messages_in_window := vs_messages_in_window v + 1, vs_sequence := vs_sequence v + 1\<rparr>"
    obtain kind oid where r: "fst (session_reply cid action v1) = venue_message kind (vs_sequence v1) oid"
      "kind \<in> set venue_kinds" "0 \<le> oid" using session_reply_message [OF cid] by blast
    have s: "session_send cid action v = (Inr (fst (session_reply cid action v1)), snd (session_reply cid action v1))"
      using False open_window by (simp add: session_send_def v1_def split_beta)
    show ?thesis
      unfolding s by (simp add: r(1) receive_message [OF r(2,3)]) (simp add: v1_def)
  qed
qed (simp add: session_send_def)

text \<open>An order is unknown, accepted or cancelled, in this order.\<close>

definition order_rank :: "int \<Rightarrow> venue_session \<Rightarrow> int" where
  "order_rank cid v =
     (case map_of (vs_orders v) cid of None \<Rightarrow> 0 | Some s \<Rightarrow> if s = ''accepted'' then 1 else 2)"

definition session_ok :: "venue_session \<Rightarrow> bool" where
  "session_ok v \<longleftrightarrow> 0 \<le> vs_sequence v \<and> 0 \<le> vs_messages_in_window v
     \<and> vs_messages_in_window v \<le> max 0 (vs_throttle_per_second v)
     \<and> (\<forall>cid s. map_of (vs_orders v) cid = Some s \<longrightarrow> s = ''accepted'' \<or> s = ''cancelled'')"

lemma session_reply_ok: "session_ok v \<Longrightarrow> session_ok (snd (session_reply cid a v))"
  by (simp add: session_ok_def) (auto simp: session_reply_def dict_simps split: if_splits)

lemma session_reply_rank: "order_rank cid v \<le> order_rank cid (snd (session_reply i a v))"
  by (auto simp: order_rank_def session_reply_def dict_simps split: option.splits)

lemma session_step_ok: "session_ok v \<Longrightarrow> session_ok (session_step v c)"
proof (cases c)
  case (Send cid a)
  assume v: "session_ok v"
  let ?v1 = "v\<lparr>vs_messages_in_window := vs_messages_in_window v + 1, vs_sequence := vs_sequence v + 1\<rparr>"
  show ?thesis
  proof (cases "vs_throttle_per_second v \<le> vs_messages_in_window v")
    case True
    with v show ?thesis by (auto simp: Send session_send_def session_ok_def)
  next
    case False
    with v have "session_ok ?v1" by (auto simp: session_ok_def)
    from session_reply_ok [OF this] v False show ?thesis by (simp add: Send session_send_def split_beta)
  qed
qed (auto simp: session_ok_def session_connect_def session_reconnect_def session_disconnect_def)

lemma session_step_rank: "order_rank cid v \<le> order_rank cid (session_step v c)"
proof (cases c)
  case (Send i a)
  then show ?thesis
    using session_reply_rank [of cid "v\<lparr>vs_messages_in_window := vs_messages_in_window v + 1,
      vs_sequence := vs_sequence v + 1\<rparr>" i a]
    by (auto simp: session_send_def split_beta order_rank_def)
qed (auto simp: order_rank_def session_connect_def session_reconnect_def session_disconnect_def)

interpretation session: step_machine session_step session_ok
  by unfold_locales (rule session_step_ok)

text \<open>
  Over any sequence of connects, reconnects, sends and window resets an order of the venue
  session only moves from unknown to accepted to cancelled, never back, so it is acknowledged and
  cancelled at most once; and the messages of a window never exceed the throttle.
\<close>

theorem session_orders_move_forward:
  assumes "v0 = foldl session_step (session_init throttle) before" and "v = foldl session_step v0 later"
  shows "order_rank cid v0 \<le> order_rank cid v
     \<and> (map_of (vs_orders v) cid \<in> {None, Some ''accepted'', Some ''cancelled''})
     \<and> vs_messages_in_window v \<le> max 0 (vs_throttle_per_second v)"
proof -
  have "session_ok (session_init throttle)" by (simp add: session_ok_def session_init_def)
  then have v0: "session_ok v0" unfolding assms(1) by (rule session.run_inv)
  then have v: "session_ok v" unfolding assms(2) by (rule session.run_inv)
  have "order_rank cid v0 \<le> order_rank cid v"
    unfolding assms(2) by (rule session.run_measure [OF session_step_rank v0])
  moreover have "map_of (vs_orders v) cid \<in> {None, Some ''accepted'', Some ''cancelled''}"
    using v by (cases "map_of (vs_orders v) cid") (auto simp: session_ok_def)
  ultimately show ?thesis using v by (simp add: session_ok_def)
qed

end
