(* ===== verification/Recovery.thy ===== *)
theory Recovery
  imports Prelude
begin

section \<open>Recovery stores (interfaces/recovery, python/operations/durable_store.py)\<close>

text \<open>
  The lease store, the checkpoint store and the durable event store. A SQLite table is the list of
  its rows in the order of its integer key, or a dictionary where the key is a name; a failed
  statement changes no row. Parameters: \<open>dumps\<close> and \<open>loads\<close> for \<open>json\<close>, \<open>sha\<close> for the
  hexadecimal SHA-256 of a text, and \<open>burn\<close> for what an \<open>AUTOINCREMENT\<close> counter does when an
  insert fails on a uniqueness constraint, which SQLite leaves open (it may or may not reuse the
  number). Integers that do not fit 64 bits make the binding raise.
\<close>

definition fits_sqlite :: "int \<Rightarrow> bool" where
  "fits_sqlite n \<longleftrightarrow> - (2 ^ 63) \<le> n \<and> n < 2 ^ 63"

abbreviation int_too_large :: exn where
  "int_too_large \<equiv> OverflowError ''Python int too large to convert to SQLite INTEGER''"

abbreviation closed_database :: exn where
  "closed_database \<equiv> ProgrammingError ''Cannot operate on a closed database.''"

subsection \<open>Leases\<close>

record lease =
  ls_resource :: string
  ls_owner_id :: string
  ls_fencing_token :: int
  ls_expires_at_ns :: int

record lease_store =
  st_leases :: "(string, lease) dict"
  st_tokens :: "(string, int) dict"

definition lease_store_init :: lease_store where
  "lease_store_init = \<lparr>st_leases = [], st_tokens = []\<rparr>"

definition lease_acquire :: "string \<Rightarrow> string \<Rightarrow> int \<Rightarrow> int \<Rightarrow> lease_store
    \<Rightarrow> (lease_store, lease option) outcome" where
  "lease_acquire resource owner_id now_ns ttl_ns s =
     (if resource = [] \<or> owner_id = [] \<or> now_ns < 0 \<or> ttl_ns \<le> 0
      then (Inl (ValueError ''lease_request_invalid''), s)
      else if (case map_of (st_leases s) resource of
                 Some current \<Rightarrow> now_ns < ls_expires_at_ns current | None \<Rightarrow> False)
      then (Inr None, s)
      else
        let token = get_default (st_tokens s) resource 0 + 1;
            lease = \<lparr>ls_resource = resource, ls_owner_id = owner_id, ls_fencing_token = token,
                     ls_expires_at_ns = now_ns + ttl_ns\<rparr>
        in (Inr (Some lease), s\<lparr>st_tokens := AList.update resource token (st_tokens s),
                                st_leases := AList.update resource lease (st_leases s)\<rparr>))"

definition lease_renew :: "lease \<Rightarrow> int \<Rightarrow> int \<Rightarrow> lease_store \<Rightarrow> lease option \<times> lease_store" where
  "lease_renew lease now_ns ttl_ns s =
     (if map_of (st_leases s) (ls_resource lease) \<noteq> Some lease
         \<or> ls_expires_at_ns lease \<le> now_ns \<or> ttl_ns \<le> 0
      then (None, s)
      else
        let renewed = lease\<lparr>ls_expires_at_ns := now_ns + ttl_ns\<rparr>
        in (Some renewed, s\<lparr>st_leases := AList.update (ls_resource lease) renewed (st_leases s)\<rparr>))"

definition lease_release :: "lease \<Rightarrow> lease_store \<Rightarrow> bool \<times> lease_store" where
  "lease_release lease s =
     (if map_of (st_leases s) (ls_resource lease) \<noteq> Some lease then (False, s)
      else (True, s\<lparr>st_leases := AList.delete (ls_resource lease) (st_leases s)\<rparr>))"

datatype lease_op =
    Acquire string string int int
  | Renew lease int int
  | Release lease

fun lease_step :: "lease_store \<Rightarrow> lease_op \<Rightarrow> lease_store" where
  "lease_step s (Acquire r ow now ttl) = snd (lease_acquire r ow now ttl s)"
| "lease_step s (Renew l now ttl) = snd (lease_renew l now ttl s)"
| "lease_step s (Release l) = snd (lease_release l s)"

subsection \<open>Checkpoints\<close>

record 'j checkpoint =
  cp_name :: string
  cp_sequence :: int
  cp_payload :: 'j
  cp_checksum :: string

record checkpoint_store =
  cs_rows :: "(string, int \<times> string \<times> string) dict"
  cs_open :: bool

text \<open>Opening a file: the table is created when it is missing, its rows are kept otherwise.\<close>

definition checkpoint_open :: "(string, int \<times> string \<times> string) dict \<Rightarrow> checkpoint_store" where
  "checkpoint_open rows = \<lparr>cs_rows = rows, cs_open = True\<rparr>"

definition checkpoint_save :: "('j \<Rightarrow> string) \<Rightarrow> (string \<Rightarrow> string) \<Rightarrow> string \<Rightarrow> int \<Rightarrow> 'j
    \<Rightarrow> checkpoint_store \<Rightarrow> (checkpoint_store, 'j checkpoint) outcome" where
  "checkpoint_save dumps sha name sequence payload s =
     (if name = [] \<or> sequence < 0 then (Inl (ValueError ''checkpoint_metadata_invalid''), s)
      else
        let serialized = dumps payload; checksum = sha serialized
        in if \<not> cs_open s then (Inl closed_database, s)
           else if \<not> fits_sqlite sequence then (Inl int_too_large, s)
           else (Inr \<lparr>cp_name = name, cp_sequence = sequence, cp_payload = payload,
                      cp_checksum = checksum\<rparr>,
                 s\<lparr>cs_rows := AList.update name (sequence, serialized, checksum) (cs_rows s)\<rparr>))"

definition checkpoint_load :: "(string \<Rightarrow> 'j) \<Rightarrow> ('j \<Rightarrow> bool) \<Rightarrow> (string \<Rightarrow> string) \<Rightarrow> string
    \<Rightarrow> checkpoint_store \<Rightarrow> exn + 'j checkpoint" where
  "checkpoint_load loads is_dict sha name s =
     (if \<not> cs_open s then Inl closed_database
      else case map_of (cs_rows s) name of
        None \<Rightarrow> Inl (KeyError ''checkpoint_missing'')
      | Some (sequence, serialized, checksum) \<Rightarrow>
          if sha serialized \<noteq> checksum then Inl (ValueError ''checkpoint_integrity_failure'')
          else let payload = loads serialized
               in if \<not> is_dict payload then Inl (ValueError ''checkpoint_payload_invalid'')
                  else Inr \<lparr>cp_name = name, cp_sequence = sequence, cp_payload = payload,
                            cp_checksum = checksum\<rparr>)"

definition checkpoint_close :: "checkpoint_store \<Rightarrow> checkpoint_store" where
  "checkpoint_close s = s\<lparr>cs_open := False\<rparr>"

subsection \<open>Durable event store\<close>

record event_row =
  ev_sequence :: int
  ev_event_id :: int
  ev_correlation_id :: int
  ev_event_type :: string
  ev_timestamp_ns :: int
  ev_payload :: string

record snapshot_row =
  sr_sequence :: int
  sr_payload :: string
  sr_sha256 :: string

record event_store =
  es_events :: "event_row list"
  es_counter :: int
  es_snapshots :: "(string, snapshot_row) dict"
  es_open :: bool

definition event_store_init :: event_store where
  "event_store_init = \<lparr>es_events = [], es_counter = 0, es_snapshots = [], es_open = True\<rparr>"

text \<open>The constructor on the file a previous store left behind.\<close>

definition store_reopen :: "event_store \<Rightarrow> event_store" where
  "store_reopen s = s\<lparr>es_open := True\<rparr>"

definition store_close :: "event_store \<Rightarrow> event_store" where
  "store_close s = s\<lparr>es_open := False\<rparr>"

definition store_append :: "(int \<Rightarrow> int) \<Rightarrow> ('j \<Rightarrow> string) \<Rightarrow> int \<Rightarrow> int \<Rightarrow> string \<Rightarrow> int \<Rightarrow> 'j
    \<Rightarrow> event_store \<Rightarrow> (event_store, int) outcome" where
  "store_append burn dumps event_id correlation_id event_type timestamp_ns payload s =
     (if min event_id (min correlation_id timestamp_ns) \<le> 0 \<or> event_type = []
      then (Inl (StoreError ''event_invalid''), s)
      else if \<not> es_open s then (Inl closed_database, s)
      else if \<not> (fits_sqlite event_id \<and> fits_sqlite correlation_id \<and> fits_sqlite timestamp_ns)
      then (Inl int_too_large, s)
      else if event_id \<in> ev_event_id ` set (es_events s)
      then (Inl (StoreError ''duplicate_event''), s\<lparr>es_counter := burn (es_counter s)\<rparr>)
      else
        let sequence = es_counter s + 1;
            row = \<lparr>ev_sequence = sequence, ev_event_id = event_id, ev_correlation_id = correlation_id,
                   ev_event_type = event_type, ev_timestamp_ns = timestamp_ns,
                   ev_payload = dumps payload\<rparr>
        in (Inr sequence, s\<lparr>es_events := es_events s @ [row], es_counter := sequence\<rparr>))"

text \<open>\<open>COALESCE(MAX(sequence), 0)\<close>: the rows are kept in the order of their sequence.\<close>

definition last_sequence :: "event_store \<Rightarrow> int" where
  "last_sequence s = (if es_events s = [] then 0 else ev_sequence (last (es_events s)))"

definition store_events :: "(string \<Rightarrow> 'j) \<Rightarrow> int \<Rightarrow> event_store
    \<Rightarrow> exn + (int \<times> int \<times> int \<times> string \<times> int \<times> 'j) list" where
  "store_events loads start_sequence s =
     (if start_sequence \<le> 0 then Inl (StoreError ''sequence_invalid'')
      else if \<not> es_open s then Inl closed_database
      else if \<not> fits_sqlite start_sequence then Inl int_too_large
      else Inr (map (\<lambda>r. (ev_sequence r, ev_event_id r, ev_correlation_id r, ev_event_type r,
                          ev_timestamp_ns r, loads (ev_payload r)))
                 (filter (\<lambda>r. start_sequence \<le> ev_sequence r) (es_events s))))"

definition write_snapshot :: "('j \<Rightarrow> string) \<Rightarrow> (string \<Rightarrow> string) \<Rightarrow> string \<Rightarrow> 'j \<Rightarrow> event_store
    \<Rightarrow> (event_store, unit) outcome" where
  "write_snapshot dumps sha name payload s =
     (if name = [] then (Inl (StoreError ''snapshot_name_invalid''), s)
      else if \<not> es_open s then (Inl closed_database, s)
      else let serialized = dumps payload
           in (Inr (), s\<lparr>es_snapshots := AList.update name
                 \<lparr>sr_sequence = last_sequence s, sr_payload = serialized, sr_sha256 = sha serialized\<rparr>
                 (es_snapshots s)\<rparr>))"

definition read_snapshot :: "(string \<Rightarrow> 'j) \<Rightarrow> (string \<Rightarrow> string) \<Rightarrow> string \<Rightarrow> event_store
    \<Rightarrow> exn + (string \<times> int \<times> 'j \<times> string)" where
  "read_snapshot loads sha name s =
     (if \<not> es_open s then Inl closed_database
      else case map_of (es_snapshots s) name of
        None \<Rightarrow> Inl (StoreError ''snapshot_missing'')
      | Some r \<Rightarrow>
          if sha (sr_payload r) \<noteq> sr_sha256 r then Inl (StoreError ''snapshot_integrity_failure'')
          else Inr (name, sr_sequence r, loads (sr_payload r), sr_sha256 r))"

fun verify_snapshots :: "(string \<Rightarrow> string) \<Rightarrow> int \<Rightarrow> (string, snapshot_row) dict \<Rightarrow> exn + unit" where
  "verify_snapshots sha n [] = Inr ()"
| "verify_snapshots sha n ((name, r) # rs) =
     (if n < sr_sequence r \<or> sha (sr_payload r) \<noteq> sr_sha256 r
      then Inl (StoreError (''snapshot_recovery_failure:'' @ name))
      else verify_snapshots sha n rs)"

definition verify_recovery :: "(string \<Rightarrow> string) \<Rightarrow> event_store \<Rightarrow> exn + unit" where
  "verify_recovery sha s =
     (if \<not> es_open s then Inl closed_database
      else
        let sequences = map ev_sequence (es_events s)
        in if sequences \<noteq> [1..int (length sequences)]
           then Inl (StoreError ''sequence_continuity_failure'')
           else verify_snapshots sha (int (length sequences)) (es_snapshots s))"

datatype 'j store_op =
    Append int int string int 'j
  | WriteSnapshot string 'j
  | CloseStore
  | ReopenStore

fun store_step :: "(int \<Rightarrow> int) \<Rightarrow> ('j \<Rightarrow> string) \<Rightarrow> (string \<Rightarrow> string) \<Rightarrow> event_store \<Rightarrow> 'j store_op
    \<Rightarrow> event_store" where
  "store_step burn dumps sha s (Append i c t ts p) = snd (store_append burn dumps i c t ts p s)"
| "store_step burn dumps sha s (WriteSnapshot name p) = snd (write_snapshot dumps sha name p s)"
| "store_step burn dumps sha s CloseStore = store_close s"
| "store_step burn dumps sha s ReopenStore = store_reopen s"

end
