(* ===== verification/Recovery_Props.thy ===== *)
theory Recovery_Props
  imports Recovery
begin

section \<open>Correctness of the recovery stores\<close>

text \<open>
  Fencing tokens count 1, 2, 3, ... per resource, only the holder of the stored lease can touch it,
  and a lease that has expired does not keep the resource from the next owner.
\<close>

subsection \<open>Leases\<close>

definition lease_ok :: "lease_store \<Rightarrow> bool" where
  "lease_ok s \<longleftrightarrow> (\<forall>r l. map_of (st_leases s) r = Some l \<longrightarrow>
     ls_resource l = r \<and> ls_fencing_token l = get_default (st_tokens s) r 0)"

text \<open>What the lease interface promises: the token of a resource is that of its last grant.\<close>

locale fenced_leases =
  fixes acquire :: "string \<Rightarrow> string \<Rightarrow> int \<Rightarrow> int \<Rightarrow> 's \<Rightarrow> ('s, lease option) outcome"
    and renew :: "lease \<Rightarrow> int \<Rightarrow> int \<Rightarrow> 's \<Rightarrow> lease option \<times> 's"
    and release :: "lease \<Rightarrow> 's \<Rightarrow> bool \<times> 's"
    and token :: "'s \<Rightarrow> string \<Rightarrow> int"
    and holder :: "'s \<Rightarrow> string \<Rightarrow> lease option"
    and ok :: "'s \<Rightarrow> bool"
  assumes acquire_grant: "ok s \<Longrightarrow> acquire r ow now ttl s = (Inr (Some l), s') \<Longrightarrow>
        ls_resource l = r \<and> ls_owner_id l = ow \<and> ls_fencing_token l = token s r + 1
        \<and> token s' = (token s)(r := token s r + 1) \<and> holder s' = (holder s)(r := Some l)
        \<and> (\<forall>l0. holder s r = Some l0 \<longrightarrow> ls_expires_at_ns l0 \<le> now)"
    and acquire_refuse: "acquire r ow now ttl s = (x, s') \<Longrightarrow> \<forall>l. x \<noteq> Inr (Some l) \<Longrightarrow> s' = s"
    and renew_keeps: "token (snd (renew l now ttl s)) = token s"
    and release_keeps: "token (snd (release l s)) = token s"
    and holder_token: "ok s \<Longrightarrow> holder s r = Some l \<Longrightarrow> ls_resource l = r \<and> ls_fencing_token l = token s r"
    and fenced_renew: "holder s (ls_resource l) \<noteq> Some l \<Longrightarrow> renew l now ttl s = (None, s)"
    and fenced_release: "holder s (ls_resource l) \<noteq> Some l \<Longrightarrow> release l s = (False, s)"
    and ok_acquire: "ok s \<Longrightarrow> ok (snd (acquire r ow now ttl s))"
    and ok_renew: "ok s \<Longrightarrow> ok (snd (renew l now ttl s))"
    and ok_release: "ok s \<Longrightarrow> ok (snd (release l s))"
begin

fun run :: "'s \<Rightarrow> lease_op list \<Rightarrow> 's" where
  "run s [] = s"
| "run s (Acquire r ow now ttl # cs) = run (snd (acquire r ow now ttl s)) cs"
| "run s (Renew l now ttl # cs) = run (snd (renew l now ttl s)) cs"
| "run s (Release l # cs) = run (snd (release l s)) cs"

fun grants :: "string \<Rightarrow> 's \<Rightarrow> lease_op list \<Rightarrow> int list" where
  "grants r s [] = []"
| "grants r s (Acquire q ow now ttl # cs) =
     (case acquire q ow now ttl s of
        (Inr (Some l), s') \<Rightarrow> (if q = r then ls_fencing_token l # grants r s' cs else grants r s' cs)
      | (_, s') \<Rightarrow> grants r s' cs)"
| "grants r s (Renew l now ttl # cs) = grants r (snd (renew l now ttl s)) cs"
| "grants r s (Release l # cs) = grants r (snd (release l s)) cs"

lemma run_ok: "ok s \<Longrightarrow> ok (run s cs)"
  by (induction s cs rule: run.induct) (simp_all add: ok_acquire ok_renew ok_release)

text \<open>The tokens granted for a resource are consecutive, starting after the current one.\<close>

lemma grants_consecutive:
  "ok s \<Longrightarrow> grants r s cs = [token s r + 1..token (run s cs) r] \<and> token s r \<le> token (run s cs) r"
proof (induction cs arbitrary: s)
  case (Cons c cs)
  show ?case
  proof (cases c)
    case (Acquire q ow now ttl)
    obtain x s' where a: "acquire q ow now ttl s = (x, s')" by fastforce
    have "ok s'" using ok_acquire [OF Cons.prems, of q ow now ttl] by (simp add: a)
    then have IH: "grants r s' cs = [token s' r + 1..token (run s' cs) r]" "token s' r \<le> token (run s' cs) r"
      using Cons.IH by auto
    show ?thesis
    proof (cases "\<exists>l. x = Inr (Some l)")
      case True
      then obtain l where x: "x = Inr (Some l)" by blast
      from acquire_grant [OF Cons.prems a [unfolded x]] IH show ?thesis
        by (auto simp: Acquire a x upto_rec1)
    next
      case False
      then have "s' = s" using acquire_refuse [OF a] by blast
      with IH False show ?thesis by (auto simp: Acquire a split: sum.splits option.splits)
    qed
  next
    case (Renew l now ttl)
    show ?thesis using Cons.IH [OF ok_renew [OF Cons.prems]] by (simp add: Renew renew_keeps)
  next
    case (Release l)
    show ?thesis using Cons.IH [OF ok_release [OF Cons.prems]] by (simp add: Release release_keeps)
  qed
qed simp

lemma stale_fenced:
  assumes "ok s" "ls_fencing_token l < token s (ls_resource l)"
  shows "renew l now ttl s = (None, s)" "release l s = (False, s)"
proof -
  have "holder s (ls_resource l) \<noteq> Some l" using holder_token [OF assms(1), of "ls_resource l" l] assms(2) by auto
  then show "renew l now ttl s = (None, s)" "release l s = (False, s)"
    by (simp_all add: fenced_renew fenced_release)
qed

end

lemma acquire_grantD:
  "lease_acquire r ow now ttl s = (Inr (Some l), s') \<Longrightarrow>
     l = \<lparr>ls_resource = r, ls_owner_id = ow,
          ls_fencing_token = get_default (st_tokens s) r 0 + 1, ls_expires_at_ns = now + ttl\<rparr>
     \<and> s' = s\<lparr>st_tokens := AList.update r (get_default (st_tokens s) r 0 + 1) (st_tokens s),
              st_leases := AList.update r l (st_leases s)\<rparr>
     \<and> (\<forall>l0. map_of (st_leases s) r = Some l0 \<longrightarrow> ls_expires_at_ns l0 \<le> now)"
  by (auto simp: lease_acquire_def Let_def split: if_splits option.splits)

lemma acquire_refuseD:
  "lease_acquire r ow now ttl s = (x, s') \<Longrightarrow> \<forall>l. x \<noteq> Inr (Some l) \<Longrightarrow> s' = s"
  by (auto simp: lease_acquire_def Let_def split: if_splits)

lemma lease_ok_acquire: "lease_ok s \<Longrightarrow> lease_ok (snd (lease_acquire r ow now ttl s))"
  unfolding lease_acquire_def Let_def by (simp add: lease_ok_def dict_simps)

lemma lease_ok_renew: "lease_ok s \<Longrightarrow> lease_ok (snd (lease_renew l now ttl s))"
  unfolding lease_renew_def Let_def by (simp add: lease_ok_def dict_simps)

lemma lease_ok_release:
  assumes "lease_ok s"
  shows "lease_ok (snd (lease_release l s))"
  unfolding lease_ok_def
proof (intro allI impI)
  fix r l'
  assume "map_of (st_leases (snd (lease_release l s))) r = Some l'"
  then have "map_of (st_leases s) r = Some l'"
    by (simp add: lease_release_def dict_simps split: if_splits)
  moreover have "st_tokens (snd (lease_release l s)) = st_tokens s" by (simp add: lease_release_def)
  ultimately show "ls_resource l' = r
      \<and> ls_fencing_token l' = get_default (st_tokens (snd (lease_release l s))) r 0"
    using assms unfolding lease_ok_def by metis
qed

interpretation leases: fenced_leases lease_acquire lease_renew lease_release
    "\<lambda>s r. get_default (st_tokens s) r 0" "\<lambda>s. map_of (st_leases s)" lease_ok
proof (unfold_locales, goal_cases)
  case (1 s r ow now ttl l s')
  from acquire_grantD [OF 1(2)] show ?case by (auto simp: dict_simps fun_eq_iff)
next
  case (2 r ow now ttl s x s')
  then show ?case by (rule acquire_refuseD)
next
  case (8 s r ow now ttl)
  then show ?case by (rule lease_ok_acquire)
next
  case (9 s l now ttl)
  then show ?case by (rule lease_ok_renew)
next
  case (10 s l)
  then show ?case by (rule lease_ok_release)
qed (auto simp: lease_ok_def lease_renew_def lease_release_def Let_def)

lemma lease_run_eq: "leases.run s ops = foldl lease_step s ops"
  by (induction s ops rule: leases.run.induct) simp_all

lemma lease_init_ok: "lease_ok lease_store_init"
  by (simp add: lease_ok_def lease_store_init_def)

text \<open>The tokens \<open>acquire\<close> grants for a resource along a run of the lease store.\<close>

fun granted_tokens :: "string \<Rightarrow> lease_store \<Rightarrow> lease_op list \<Rightarrow> int list" where
  "granted_tokens r s [] = []"
| "granted_tokens r s (c # cs) =
     (case c of
        Acquire q ow now ttl \<Rightarrow>
          (case fst (lease_acquire q ow now ttl s) of
             Inr (Some l) \<Rightarrow> if q = r then [ls_fencing_token l] else []
           | _ \<Rightarrow> [])
      | _ \<Rightarrow> [])
     @ granted_tokens r (lease_step s c) cs"

lemma granted_eq: "granted_tokens r s cs = leases.grants r s cs"
proof (induction cs arbitrary: s)
  case (Cons c cs)
  then show ?case
    by (cases c) (auto simp: split_beta split: sum.splits option.splits prod.splits)
qed simp

text \<open>
  Fencing tokens are handed out without reuse: over any sequence of acquires, renewals and
  releases the tokens granted for a resource are 1, 2, 3, ... in this order, also across expiry,
  release and changes of owner.
\<close>

theorem fencing_tokens_consecutive:
  "\<exists>n \<ge> 0. granted_tokens r lease_store_init ops = [1..n]
     \<and> get_default (st_tokens (foldl lease_step lease_store_init ops)) r 0 = n"
  using leases.grants_consecutive [OF lease_init_ok, of r ops]
  by (simp add: granted_eq lease_run_eq lease_store_init_def)

text \<open>
  C5. A lease is exclusive and fences off its predecessors: in every reachable state with a stored
  lease, its token is the newest of its resource, nobody acquires the resource before it expires,
  and every other lease for the resource, in particular one with an older token, can neither be
  renewed nor released, each without changing the store.
\<close>

theorem lease_exclusive_and_fenced:
  assumes "s = foldl lease_step lease_store_init ops" and "map_of (st_leases s) r = Some l"
  shows "ls_resource l = r \<and> ls_fencing_token l = get_default (st_tokens s) r 0
     \<and> (\<forall>ow now ttl. r \<noteq> [] \<and> ow \<noteq> [] \<and> 0 \<le> now \<and> 0 < ttl \<and> now < ls_expires_at_ns l \<longrightarrow>
          lease_acquire r ow now ttl s = (Inr None, s))
     \<and> (\<forall>l' now ttl. ls_resource l' = r \<and> l' \<noteq> l \<longrightarrow>
          lease_renew l' now ttl s = (None, s) \<and> lease_release l' s = (False, s))"
proof -
  have ok: "lease_ok s" unfolding assms(1) lease_run_eq [symmetric] by (rule leases.run_ok [OF lease_init_ok])
  note h = leases.holder_token [OF ok assms(2)]
  have "lease_renew l' now ttl s = (None, s) \<and> lease_release l' s = (False, s)"
    if "ls_resource l' = r" "l' \<noteq> l" for l' now ttl
    using that assms(2) by (intro conjI leases.fenced_renew leases.fenced_release) auto
  with h assms(2) show ?thesis by (auto simp: lease_acquire_def)
qed

text \<open>
  C14. A resource never stays blocked: in every reachable state, as soon as the clock has reached
  the expiry of the stored lease (at once if there is none), any owner with a valid request is
  granted the resource with the next token, and from then on the previous holder can neither renew
  nor release.
\<close>

theorem expired_lease_is_taken_over:
  assumes "s = foldl lease_step lease_store_init ops"
    and "r \<noteq> []" "ow \<noteq> []" "0 \<le> now" "0 < ttl"
    and "\<forall>l. map_of (st_leases s) r = Some l \<longrightarrow> ls_expires_at_ns l \<le> now"
  shows "\<exists>l s'. lease_acquire r ow now ttl s = (Inr (Some l), s')
     \<and> ls_owner_id l = ow \<and> ls_fencing_token l = get_default (st_tokens s) r 0 + 1
     \<and> ls_expires_at_ns l = now + ttl \<and> map_of (st_leases s') r = Some l
     \<and> (\<forall>l0 t ttl'. map_of (st_leases s) r = Some l0 \<longrightarrow>
          lease_renew l0 t ttl' s' = (None, s') \<and> lease_release l0 s' = (False, s'))"
proof -
  have ok: "lease_ok s" unfolding assms(1) lease_run_eq [symmetric] by (rule leases.run_ok [OF lease_init_ok])
  have "\<not> (case map_of (st_leases s) r of Some current \<Rightarrow> now < ls_expires_at_ns current | None \<Rightarrow> False)"
    using assms(6) by (auto split: option.split)
  then have "\<exists>l s'. lease_acquire r ow now ttl s = (Inr (Some l), s')"
    using assms(2-5) by (simp add: lease_acquire_def Let_def)
  then obtain l s' where a: "lease_acquire r ow now ttl s = (Inr (Some l), s')" by blast
  note g = acquire_grantD [OF a] and t = leases.acquire_grant [OF ok a]
  have ok': "lease_ok s'" using lease_ok_acquire [OF ok, of r ow now ttl] by (simp add: a)
  have "lease_renew l0 t ttl' s' = (None, s') \<and> lease_release l0 s' = (False, s')"
    if "map_of (st_leases s) r = Some l0" for l0 t ttl'
  proof -
    have "ls_resource l0 = r" "ls_fencing_token l0 < get_default (st_tokens s') (ls_resource l0) 0"
      using leases.holder_token [OF ok that] g by (auto simp: dict_simps)
    then show ?thesis by (intro conjI leases.stale_fenced [OF ok'])
  qed
  then show ?thesis using a g by (auto simp: dict_simps)
qed

end
