(* ===== verification/Event_Store_Props.thy ===== *)
theory Event_Store_Props
  imports Recovery_Props
begin

section \<open>Correctness of the event, snapshot and checkpoint stores\<close>

text \<open>
  The event store keeps its rows, in order and without gaps, through failed appends and restarts,
  so that \<open>verify_recovery\<close> passes; snapshots and checkpoints come back as written. What a failed
  insert does to the row counter is the parameter \<open>burn\<close>.
\<close>

subsection \<open>Event store\<close>

lemma store_append_cases:
  assumes "store_append burn dumps i c t ts p s = (x, s')"
  obtains (same) "s' = s" "\<forall>n. x \<noteq> Inr n"
  | (dup) "i \<in> ev_event_id ` set (es_events s)" "x = Inl (StoreError ''duplicate_event'')"
      "s' = s\<lparr>es_counter := burn (es_counter s)\<rparr>"
  | (new) row where "i \<notin> ev_event_id ` set (es_events s)" "x = Inr (es_counter s + 1)"
      "ev_sequence row = es_counter s + 1" "ev_event_id row = i" "ev_payload row = dumps p"
      "0 < ev_event_id row" "0 < ev_correlation_id row"
      "s' = s\<lparr>es_events := es_events s @ [row], es_counter := es_counter s + 1\<rparr>"
proof (cases "min i (min c ts) \<le> 0 \<or> t = [] \<or> \<not> es_open s
    \<or> \<not> (fits_sqlite i \<and> fits_sqlite c \<and> fits_sqlite ts)")
  case True
  then have "s' = s \<and> (\<forall>n. x \<noteq> Inr n)" using assms by (auto simp: store_append_def split: if_splits)
  then show thesis using same by blast
next
  case ok: False
  define row where "row = \<lparr>ev_sequence = es_counter s + 1, ev_event_id = i, ev_correlation_id = c,
    ev_event_type = t, ev_timestamp_ns = ts, ev_payload = dumps p\<rparr>"
  show thesis
  proof (cases "i \<in> ev_event_id ` set (es_events s)")
    case True
    then show thesis using assms ok dup by (simp add: store_append_def)
  next
    case False
    then have "x = Inr (es_counter s + 1)"
      "s' = s\<lparr>es_events := es_events s @ [row], es_counter := es_counter s + 1\<rparr>"
      using assms ok by (simp_all add: store_append_def Let_def row_def)
    with False ok show thesis by (intro new [of row]) (simp_all add: row_def min_le_iff_disj not_le)
  qed
qed

lemma write_snapshot_cases:
  assumes "write_snapshot dumps sha name p s = (x, s')"
  obtains (same) "s' = s" "x \<noteq> Inr ()"
  | (stored) "x = Inr ()" "name \<noteq> []" "es_open s" "s' = s\<lparr>es_snapshots := AList.update name
       \<lparr>sr_sequence = last_sequence s, sr_payload = dumps p, sr_sha256 = sha (dumps p)\<rparr> (es_snapshots s)\<rparr>"
  using assms by (auto simp: write_snapshot_def Let_def split: if_splits)

definition rows_ok :: "event_store \<Rightarrow> bool" where
  "rows_ok s \<longleftrightarrow> sorted_wrt (<) (map ev_sequence (es_events s)) \<and> distinct (map ev_event_id (es_events s))
     \<and> (\<forall>r \<in> set (es_events s). 1 \<le> ev_sequence r \<and> ev_sequence r \<le> es_counter s) \<and> 0 \<le> es_counter s"

lemma rows_ok_step:
  assumes "rows_ok s" and burn: "\<And>n. n \<le> burn n"
  shows "rows_ok (store_step burn dumps sha s c)
     \<and> (\<exists>new. es_events (store_step burn dumps sha s c) = es_events s @ new)"
proof (cases c)
  case (Append i ci t ts p)
  obtain x s' where a: "store_append burn dumps i ci t ts p s = (x, s')" by fastforce
  show ?thesis
    using a
  proof (cases rule: store_append_cases)
    case dup
    then show ?thesis
      using assms(1) burn [of "es_counter s"] by (auto simp: Append a rows_ok_def intro: order_trans)
  next
    case (new row)
    then show ?thesis
      using assms(1) by (auto simp: Append a rows_ok_def sorted_wrt_append)
  qed (use assms in \<open>auto simp: Append a\<close>)
next
  case (WriteSnapshot name p)
  then show ?thesis using assms(1) by (auto simp: write_snapshot_def rows_ok_def Let_def)
qed (use assms(1) in \<open>auto simp: rows_ok_def store_close_def store_reopen_def\<close>)

lemma rows_ok_run:
  assumes "rows_ok s" and burn: "\<And>n. n \<le> burn n"
  shows "rows_ok (foldl (store_step burn dumps sha) s ops)
     \<and> (\<exists>new. es_events (foldl (store_step burn dumps sha) s ops) = es_events s @ new)"
  using assms(1)
proof (induction ops arbitrary: s)
  case (Cons c ops)
  from rows_ok_step [OF Cons.prems burn, of dumps sha c] Cons.IH [of "store_step burn dumps sha s c"]
  show ?case by (metis append.assoc foldl_Cons)
qed simp

text \<open>
  C16. Whatever the database does with the number of a failed insert, as long as numbers only grow,
  no event is ever lost or renumbered: over any continuation of any run the stored rows stay where
  they are, the sequences increase strictly, and an event id is stored at most once.
\<close>

theorem events_never_lost:
  assumes "\<forall>n. n \<le> burn n"
    and "s1 = foldl (store_step burn dumps sha) event_store_init before"
    and "s2 = foldl (store_step burn dumps sha) s1 later"
  shows "(\<exists>new. es_events s2 = es_events s1 @ new)
     \<and> sorted_wrt (<) (map ev_sequence (es_events s2)) \<and> distinct (map ev_event_id (es_events s2))"
proof -
  have "rows_ok event_store_init" by (simp add: rows_ok_def event_store_init_def)
  then have "rows_ok s1" using rows_ok_run [of _ burn] assms(1,2) by blast
  then have "rows_ok s2 \<and> (\<exists>new. es_events s2 = es_events s1 @ new)"
    using rows_ok_run [of s1 burn dumps sha later] assms(1,3) by blast
  then show ?thesis by (simp add: rows_ok_def)
qed

definition contiguous :: "(string \<Rightarrow> string) \<Rightarrow> event_store \<Rightarrow> bool" where
  "contiguous sha s \<longleftrightarrow> map ev_sequence (es_events s) = [1..int (length (es_events s))]
     \<and> es_counter s = int (length (es_events s))
     \<and> (\<forall>r \<in> snd ` set (es_snapshots s). sr_sequence r \<le> es_counter s \<and> sha (sr_payload r) = sr_sha256 r)"

lemma upto_snoc: "0 \<le> n \<Longrightarrow> [1..n + 1] = [1..n] @ [n + 1]" for n :: int
  by (simp add: upto_rec2)

lemma last_sequence_contiguous: "contiguous sha s \<Longrightarrow> last_sequence s = es_counter s"
proof (cases "es_events s = []")
  case False
  assume c: "contiguous sha s"
  then have m: "map ev_sequence (es_events s) = [1..int (length (es_events s))]" by (simp add: contiguous_def)
  have "ev_sequence (last (es_events s)) = last (map ev_sequence (es_events s))"
    using False by (simp add: last_map)
  also have "\<dots> = int (length (es_events s))"
    using False unfolding m by (subst upto_rec2) (simp_all add: Suc_leI)
  finally show ?thesis using c False by (simp add: last_sequence_def contiguous_def)
qed (simp add: last_sequence_def contiguous_def)

lemma update_values_ball:
  "P x \<Longrightarrow> \<forall>v \<in> snd ` set d. P v \<Longrightarrow> \<forall>v \<in> snd ` set (AList.update k x d). P v"
  by (induction d) (auto split: if_splits)

lemma contiguous_step:
  assumes "contiguous sha s"
  shows "contiguous sha (store_step (\<lambda>n. n) dumps sha s c)"
proof (cases c)
  case (Append i ci t ts p)
  obtain x s' where a: "store_append (\<lambda>n. n) dumps i ci t ts p s = (x, s')" by fastforce
  show ?thesis
    using a
  proof (cases rule: store_append_cases)
    case (new row)
    have "[1..int (length (es_events s)) + 1] = [1..int (length (es_events s))] @ [int (length (es_events s)) + 1]"
      by (rule upto_snoc) simp
    then show ?thesis
      using assms new by (auto simp: Append a contiguous_def add.commute)
  qed (use assms in \<open>auto simp: Append a\<close>)
next
  case (WriteSnapshot name p)
  obtain x s' where a: "write_snapshot dumps sha name p s = (x, s')" by fastforce
  show ?thesis
    using a
  proof (cases rule: write_snapshot_cases)
    case stored
    then show ?thesis
      using assms last_sequence_contiguous [OF assms] unfolding WriteSnapshot store_step.simps a contiguous_def
      by (simp del: ball_simps) (intro update_values_ball, auto)
  qed (use assms in \<open>auto simp: WriteSnapshot a\<close>)
qed (use assms in \<open>auto simp: contiguous_def store_close_def store_reopen_def\<close>)

lemma verify_snapshots_ok:
  "\<forall>r \<in> snd ` set d. sr_sequence r \<le> n \<and> sha (sr_payload r) = sr_sha256 r \<Longrightarrow> verify_snapshots sha n d = Inr ()"
  by (induction d) auto

interpretation event_log: step_machine "store_step (\<lambda>n. n) dumps sha" "contiguous sha" for dumps sha
  by unfold_locales (rule contiguous_step)

text \<open>
  C17. When a failed insert does not consume a number, recovery verification never fails: after any
  sequence of appends (duplicates and invalid events included), snapshots, closes and reopens the
  sequences are exactly 1 to n, and \<open>verify_recovery\<close> of the open store succeeds, for every
  serialization and every digest function.
\<close>

theorem recovery_verifies:
  assumes "s = foldl (store_step (\<lambda>n. n) dumps sha) event_store_init ops" and "es_open s"
  shows "map ev_sequence (es_events s) = [1..int (length (es_events s))] \<and> verify_recovery sha s = Inr ()"
proof -
  have "contiguous sha event_store_init" by (simp add: contiguous_def event_store_init_def)
  then have c: "contiguous sha s" unfolding assms(1) by (rule event_log.run_inv)
  then have "verify_snapshots sha (es_counter s) (es_snapshots s) = Inr ()"
    unfolding contiguous_def by (intro verify_snapshots_ok) blast
  with c show ?thesis using assms(2) by (simp add: verify_recovery_def Let_def contiguous_def)
qed

subsection \<open>Snapshots and checkpoints\<close>

lemma snapshot_step_other:
  assumes "\<forall>q. c \<noteq> WriteSnapshot name q"
  shows "map_of (es_snapshots (store_step burn dumps sha s c)) name = map_of (es_snapshots s) name"
proof (cases c)
  case (Append i ci t ts p)
  obtain x s' where a: "store_append burn dumps i ci t ts p s = (x, s')" by fastforce
  show ?thesis using a by (cases rule: store_append_cases) (simp_all add: Append a)
next
  case (WriteSnapshot n q)
  obtain x s' where a: "write_snapshot dumps sha n q s = (x, s')" by fastforce
  show ?thesis
    using a assms by (cases rule: write_snapshot_cases) (auto simp: WriteSnapshot a dict_simps)
qed (simp_all add: store_close_def store_reopen_def)

lemma snapshot_run_other:
  "\<forall>q. WriteSnapshot name q \<notin> set ops \<Longrightarrow>
   map_of (es_snapshots (foldl (store_step burn dumps sha) s ops)) name = map_of (es_snapshots s) name"
proof (induction ops arbitrary: s)
  case (Cons c ops)
  have "\<forall>q. c \<noteq> WriteSnapshot name q" using Cons.prems by auto
  with Cons.IH [of "store_step burn dumps sha s c"] Cons.prems snapshot_step_other [of c name burn dumps sha s]
  show ?case by simp
qed simp

text \<open>
  A snapshot survives: once \<open>write_snapshot\<close> returned, \<open>read_snapshot\<close> returns the payload, the
  last sequence at the time of writing and the digest, after any further appends, other snapshots,
  closes and reopens, provided \<open>json.loads\<close> inverts \<open>json.dumps\<close> on the payload.
\<close>

theorem snapshot_survives:
  assumes "write_snapshot dumps sha name p s = (Inr (), s1)" and "loads (dumps p) = p"
    and "\<forall>q. WriteSnapshot name q \<notin> set ops" and "s2 = foldl (store_step burn dumps sha) s1 ops" "es_open s2"
  shows "read_snapshot loads sha name s2 = Inr (name, last_sequence s, p, sha (dumps p))"
proof -
  have "map_of (es_snapshots s1) name =
      Some \<lparr>sr_sequence = last_sequence s, sr_payload = dumps p, sr_sha256 = sha (dumps p)\<rparr>"
    using assms(1) by (auto elim!: write_snapshot_cases simp: dict_simps)
  then have "map_of (es_snapshots s2) name =
      Some \<lparr>sr_sequence = last_sequence s, sr_payload = dumps p, sr_sha256 = sha (dumps p)\<rparr>"
    using snapshot_run_other [OF assms(3)] assms(4) by simp
  then show ?thesis using assms(2,5) by (simp add: read_snapshot_def)
qed

text \<open>
  A checkpoint that was saved is loaded again as it was returned, and saving it leaves every
  other checkpoint readable as before, provided \<open>json.loads\<close> inverts \<open>json.dumps\<close> on the payload;
  a stored text whose digest differs from the stored checksum is never returned.
\<close>

theorem checkpoint_roundtrip:
  assumes "checkpoint_save dumps sha name n p s = (Inr cp, s')" and "loads (dumps p) = p" "is_dict p"
  shows "checkpoint_load loads is_dict sha name s' = Inr cp
     \<and> (\<forall>m. m \<noteq> name \<longrightarrow> checkpoint_load loads is_dict sha m s' = checkpoint_load loads is_dict sha m s)
     \<and> (\<forall>m k txt sum s0. map_of (cs_rows s0) m = Some (k, txt, sum) \<and> sha txt \<noteq> sum \<longrightarrow>
          (\<forall>c. checkpoint_load loads is_dict sha m s0 \<noteq> Inr c))"
  using assms
  by (auto simp: checkpoint_save_def checkpoint_load_def Let_def dict_simps split: if_splits option.splits)

text \<open>
  If the database does skip the number of a failed insert, a rejected duplicate followed by a new
  event is enough to make recovery verification fail.
\<close>

lemma skipped_number_breaks_recovery:
  "verify_recovery (\<lambda>x. x) (foldl (store_step (\<lambda>n. n + 1) (\<lambda>x. x) (\<lambda>x. x)) event_store_init
     [Append 1 1 ''fill'' 10 ''{}'', Append 1 1 ''fill'' 11 ''{}'', Append 2 1 ''fill'' 12 ''{}''])
   = Inl (StoreError ''sequence_continuity_failure'')"
  by code_simp

end
