(* ===== verification/Custody.thy ===== *)
theory Custody
  imports Py_Bytes
begin

unbundle bit_operations_syntax

section \<open>Key custody (interfaces/custody, hsm_simulator.py, SimulatedHsm)\<close>

text \<open>
  The versioned key store with its HMAC signer, the HSM simulator and the dual-control HSM of the
  gate simulation. Parameters: \<open>hmac\<close> and \<open>sha\<close> for the digests, and, as arguments of the
  operations that draw them, the random bytes and the clock readings. \<open>KeyMetadata\<close> is a frozen
  dataclass: assigning to one of its fields raises \<open>FrozenInstanceError\<close>, and so do the methods
  that do it, after whatever they did before.
\<close>

subsection \<open>Key store\<close>

record key_version =
  kv_key_id :: string
  kv_version :: int
  kv_active :: bool
  kv_exportable :: bool

type_synonym key_store = "(string, key_version list) dict"

definition key_rotate :: "string \<Rightarrow> key_store \<Rightarrow> (key_store, key_version) outcome" where
  "key_rotate key_id ks =
     (if key_id = [] then (Inl (ValueError ''key_id_invalid''), ks)
      else
        let versions = get_default ks key_id [];
            value = \<lparr>kv_key_id = key_id, kv_version = int (length versions) + 1,
                     kv_active = True, kv_exportable = False\<rparr>
        in (Inr value, AList.update key_id
              (map (\<lambda>item. item\<lparr>kv_active := False\<rparr>) versions @ [value]) ks))"

definition active_key :: "string \<Rightarrow> key_store \<Rightarrow> (key_store, key_version) outcome" where
  "active_key key_id ks =
     (case find kv_active (rev (get_default ks key_id [])) of
        Some version \<Rightarrow> (Inr version, ks)
      | None \<Rightarrow> key_rotate key_id ks)"

definition key_revoke :: "string \<Rightarrow> int \<Rightarrow> key_store \<Rightarrow> (key_store, unit) outcome" where
  "key_revoke key_id version ks =
     (let versions = get_default ks key_id []
      in if \<not> (\<exists>item \<in> set versions. kv_version item = version)
         then (Inl (KeyError ''key_version_missing''), ks)
         else (Inr (), AList.update key_id
                 (map (\<lambda>item. if kv_version item = version then item\<lparr>kv_active := False\<rparr> else item)
                    versions) ks))"

subsection \<open>HMAC signer\<close>

record 'k signer =
  sg_key_store :: key_store
  sg_secrets :: "(string \<times> int, 'k) dict"

definition secret_label :: "string \<Rightarrow> int \<Rightarrow> string" where
  "secret_label key_id version = ''simulator:'' @ key_id @ '':'' @ str_of_int version"

definition signer_secret :: "(string \<Rightarrow> 'k) \<Rightarrow> string \<Rightarrow> int \<Rightarrow> 'k signer \<Rightarrow> 'k \<times> 'k signer" where
  "signer_secret sha key_id version s =
     (case map_of (sg_secrets s) (key_id, version) of
        Some k \<Rightarrow> (k, s)
      | None \<Rightarrow>
          let k = sha (secret_label key_id version)
          in (k, s\<lparr>sg_secrets := AList.update (key_id, version) k (sg_secrets s)\<rparr>))"

definition signer_sign :: "(string \<Rightarrow> 'k) \<Rightarrow> ('k \<Rightarrow> 'p \<Rightarrow> 'd) \<Rightarrow> string \<Rightarrow> 'p \<Rightarrow> 'k signer
    \<Rightarrow> ('k signer, 'd) outcome" where
  "signer_sign sha hmac key_id payload s =
     (case active_key key_id (sg_key_store s) of
        (Inl e, ks) \<Rightarrow> (Inl e, s\<lparr>sg_key_store := ks\<rparr>)
      | (Inr active, ks) \<Rightarrow>
          let (k, s) = signer_secret sha key_id (kv_version active) (s\<lparr>sg_key_store := ks\<rparr>)
          in (Inr (hmac k payload), s))"

fun verify_versions :: "(string \<Rightarrow> 'k) \<Rightarrow> ('k \<Rightarrow> 'p \<Rightarrow> 'd) \<Rightarrow> string \<Rightarrow> 'p \<Rightarrow> 'd
    \<Rightarrow> key_version list \<Rightarrow> 'k signer \<Rightarrow> bool \<times> 'k signer" where
  "verify_versions sha hmac key_id payload signature [] s = (False, s)"
| "verify_versions sha hmac key_id payload signature (v # vs) s =
     (let (k, s) = signer_secret sha key_id (kv_version v) s
      in if hmac k payload = signature then (True, s)
         else verify_versions sha hmac key_id payload signature vs s)"

definition signer_verify :: "(string \<Rightarrow> 'k) \<Rightarrow> ('k \<Rightarrow> 'p \<Rightarrow> 'd) \<Rightarrow> string \<Rightarrow> 'p \<Rightarrow> 'd \<Rightarrow> 'k signer
    \<Rightarrow> bool \<times> 'k signer" where
  "signer_verify sha hmac key_id payload signature s =
     verify_versions sha hmac key_id payload signature (get_default (sg_key_store s) key_id []) s"

datatype ('p, 'd) signer_op =
    RotateKey string
  | RevokeKey string int
  | Sign string 'p
  | Verify string 'p 'd

fun signer_step :: "(string \<Rightarrow> 'k) \<Rightarrow> ('k \<Rightarrow> 'p \<Rightarrow> 'd) \<Rightarrow> 'k signer \<Rightarrow> ('p, 'd) signer_op \<Rightarrow> 'k signer" where
  "signer_step sha hmac s (RotateKey k) = s\<lparr>sg_key_store := snd (key_rotate k (sg_key_store s))\<rparr>"
| "signer_step sha hmac s (RevokeKey k v) = s\<lparr>sg_key_store := snd (key_revoke k v (sg_key_store s))\<rparr>"
| "signer_step sha hmac s (Sign k p) = snd (signer_sign sha hmac k p s)"
| "signer_step sha hmac s (Verify k p d) = snd (signer_verify sha hmac k p d s)"

subsection \<open>HSM simulator\<close>

record key_metadata =
  km_key_id :: string
  km_algorithm :: string
  km_created_ns :: int
  km_last_used_ns :: int
  km_rotation_count :: int
  km_disabled :: bool

record audit_entry =
  au_sequence :: int
  au_action :: string
  au_key_id :: string
  au_timestamp_ns :: int
  au_old_key_fingerprint :: "string option"

record hsm =
  hsm_keys :: "(string, bytes) dict"
  hsm_metadata :: "(string, key_metadata) dict"
  hsm_audit :: "audit_entry list"
  hsm_sequence :: int

definition hsm_init :: hsm where
  "hsm_init = \<lparr>hsm_keys = [], hsm_metadata = [], hsm_audit = [], hsm_sequence = 0\<rparr>"

abbreviation frozen :: "string \<Rightarrow> exn" where
  "frozen field \<equiv> FrozenInstanceError (''cannot assign to field '' @ CHR 0x27 # field @ [CHR 0x27])"

definition audit_event :: "string \<Rightarrow> string \<Rightarrow> int \<Rightarrow> string option \<Rightarrow> hsm \<Rightarrow> hsm" where
  "audit_event action key_id now fingerprint h =
     (let n = hsm_sequence h + 1
      in h\<lparr>hsm_sequence := n,
           hsm_audit := hsm_audit h @ [\<lparr>au_sequence = n, au_action = action, au_key_id = key_id,
             au_timestamp_ns = now, au_old_key_fingerprint = fingerprint\<rparr>]\<rparr>)"

definition hsm_algorithms :: "string list" where
  "hsm_algorithms = [''AES-256-GCM'', ''HMAC-SHA256'', ''ECDSA-P256'']"

definition hsm_create_key :: "string \<Rightarrow> string \<Rightarrow> bytes \<Rightarrow> int \<Rightarrow> int \<Rightarrow> hsm
    \<Rightarrow> (hsm, key_metadata) outcome" where
  "hsm_create_key key_id algorithm key now audit_now h =
     (if key_id = [] \<or> algorithm \<notin> set hsm_algorithms then (Inl (HSMError ''invalid_key_spec''), h)
      else if has_key (hsm_keys h) key_id then (Inl (HSMError ''key_exists''), h)
      else
        let md = \<lparr>km_key_id = key_id, km_algorithm = algorithm, km_created_ns = now,
                  km_last_used_ns = 0, km_rotation_count = 0, km_disabled = False\<rparr>
        in (Inr md, audit_event ''key_create'' key_id audit_now None
              (h\<lparr>hsm_keys := AList.update key_id key (hsm_keys h),
                 hsm_metadata := AList.update key_id md (hsm_metadata h)\<rparr>)))"

text \<open>A key without metadata cannot occur; looking it up would raise \<open>KeyError\<close>.\<close>

definition hsm_rotate_key :: "(bytes \<Rightarrow> string) \<Rightarrow> string \<Rightarrow> bytes \<Rightarrow> int \<Rightarrow> int \<Rightarrow> hsm
    \<Rightarrow> (hsm, key_metadata) outcome" where
  "hsm_rotate_key fingerprint key_id new_key now audit_now h =
     (case map_of (hsm_keys h) key_id of
        None \<Rightarrow> (Inl (HSMError ''key_missing''), h)
      | Some old_key \<Rightarrow>
          let h = h\<lparr>hsm_keys := AList.update key_id new_key (hsm_keys h)\<rparr>
          in case map_of (hsm_metadata h) key_id of
               None \<Rightarrow> (Inl (KeyError key_id), h)
             | Some md \<Rightarrow>
                 let md' = \<lparr>km_key_id = key_id, km_algorithm = km_algorithm md, km_created_ns = now,
                            km_last_used_ns = km_last_used_ns md,
                            km_rotation_count = km_rotation_count md + 1,
                            km_disabled = km_disabled md\<rparr>
                 in (Inr md', audit_event ''key_rotate'' key_id audit_now
                       (Some (take 16 (fingerprint old_key)))
                       (h\<lparr>hsm_metadata := AList.update key_id md' (hsm_metadata h)\<rparr>)))"

definition hsm_disable_key :: "string \<Rightarrow> hsm \<Rightarrow> (hsm, unit) outcome" where
  "hsm_disable_key key_id h =
     (if \<not> has_key (hsm_keys h) key_id then (Inl (HSMError ''key_missing''), h)
      else if \<not> has_key (hsm_metadata h) key_id then (Inl (KeyError key_id), h)
      else (Inl (frozen ''disabled''), h))"

text \<open>\<open>self._metadata[key_id].last_used_ns = time.time_ns()\<close> before a result is returned.\<close>

definition assign_last_used :: "'a \<Rightarrow> exn + 'a" where
  "assign_last_used result = Inl (frozen ''last_used_ns'')"

definition xor_stream :: "bytes \<Rightarrow> byte \<Rightarrow> bytes \<Rightarrow> bytes" where
  "xor_stream key start bs =
     map (\<lambda>(index, b). b XOR key ! nat ((uint start + int index) mod int (length key)))
       (enumerate 0 bs)"

definition sealed :: "(bytes \<Rightarrow> bytes \<Rightarrow> bytes) \<Rightarrow> bytes \<Rightarrow> bytes \<Rightarrow> bytes \<Rightarrow> bytes \<Rightarrow> bytes" where
  "sealed hmac key nonce plaintext aad =
     (let ciphertext = nonce @ xor_stream key (nonce ! 0) plaintext
      in ciphertext @ take 16 (hmac key (ciphertext @ aad)))"

text \<open>
  \<open>encrypt\<close> builds the sealed message and then assigns \<open>last_used_ns\<close>, which raises, so the
  message is never returned; \<open>decrypt\<close> and \<open>sign\<close> end in the same way.
\<close>

definition hsm_encrypt :: "(bytes \<Rightarrow> bytes \<Rightarrow> bytes) \<Rightarrow> string \<Rightarrow> bytes \<Rightarrow> bytes \<Rightarrow> bytes \<Rightarrow> hsm
    \<Rightarrow> (hsm, bytes) outcome" where
  "hsm_encrypt hmac key_id plaintext aad nonce h =
     (case map_of (hsm_keys h) key_id of
        None \<Rightarrow> (Inl (HSMError ''key_missing''), h)
      | Some key \<Rightarrow>
          (case map_of (hsm_metadata h) key_id of
             None \<Rightarrow> (Inl (KeyError key_id), h)
           | Some md \<Rightarrow>
               if km_disabled md then (Inl (HSMError ''key_disabled''), h)
               else let ciphertext = sealed hmac key nonce plaintext aad
                    in (assign_last_used ciphertext, h)))"

definition open_sealed :: "(bytes \<Rightarrow> bytes \<Rightarrow> bytes) \<Rightarrow> bytes \<Rightarrow> bytes \<Rightarrow> bytes \<Rightarrow> exn + bytes" where
  "open_sealed hmac key ciphertext aad =
     (if length ciphertext < 28 then Inl (HSMError ''ciphertext_too_short'')
      else
        let n = length ciphertext; nonce = take 12 ciphertext;
            body = take (n - 28) (drop 12 ciphertext); tag = drop (n - 16) ciphertext
        in if tag \<noteq> take 16 (hmac key (body @ aad)) then Inl (HSMError ''integrity_failure'')
           else Inr (xor_stream key (nonce ! 0) body))"

definition hsm_decrypt :: "(bytes \<Rightarrow> bytes \<Rightarrow> bytes) \<Rightarrow> string \<Rightarrow> bytes \<Rightarrow> bytes \<Rightarrow> hsm
    \<Rightarrow> (hsm, bytes) outcome" where
  "hsm_decrypt hmac key_id ciphertext aad h =
     (case map_of (hsm_keys h) key_id of
        None \<Rightarrow> (Inl (HSMError ''key_missing''), h)
      | Some key \<Rightarrow>
          (case map_of (hsm_metadata h) key_id of
             None \<Rightarrow> (Inl (KeyError key_id), h)
           | Some md \<Rightarrow>
               if km_disabled md then (Inl (HSMError ''key_disabled''), h)
               else case open_sealed hmac key ciphertext aad of
                      Inl e \<Rightarrow> (Inl e, h)
                    | Inr plaintext \<Rightarrow> (assign_last_used plaintext, h)))"

definition hsm_sign :: "(bytes \<Rightarrow> bytes \<Rightarrow> bytes) \<Rightarrow> string \<Rightarrow> bytes \<Rightarrow> hsm \<Rightarrow> (hsm, bytes) outcome" where
  "hsm_sign hmac key_id data h =
     (case map_of (hsm_keys h) key_id of
        None \<Rightarrow> (Inl (HSMError ''key_missing''), h)
      | Some key \<Rightarrow>
          (case map_of (hsm_metadata h) key_id of
             None \<Rightarrow> (Inl (KeyError key_id), h)
           | Some md \<Rightarrow>
               if km_algorithm md \<noteq> ''HMAC-SHA256'' then (Inl (HSMError ''algorithm_mismatch''), h)
               else (assign_last_used (hmac key data), h)))"

definition hsm_verify :: "(bytes \<Rightarrow> bytes \<Rightarrow> bytes) \<Rightarrow> string \<Rightarrow> bytes \<Rightarrow> bytes \<Rightarrow> int \<Rightarrow> hsm
    \<Rightarrow> (hsm, bool) outcome" where
  "hsm_verify hmac key_id data signature now h =
     (case map_of (hsm_keys h) key_id of
        None \<Rightarrow> (Inl (HSMError ''key_missing''), h)
      | Some key \<Rightarrow>
          (case map_of (hsm_metadata h) key_id of
             None \<Rightarrow> (Inl (KeyError key_id), h)
           | Some md \<Rightarrow>
               if km_algorithm md \<noteq> ''HMAC-SHA256'' then (Inl (HSMError ''algorithm_mismatch''), h)
               else (Inr (hmac key data = signature), audit_event ''verify'' key_id now None h)))"

definition export_state :: "hsm \<Rightarrow> (string, key_metadata) dict \<times> audit_entry list" where
  "export_state h = (hsm_metadata h, hsm_audit h)"

text \<open>\<open>import_state\<close> draws a fresh key for every imported id: \<open>fresh\<close> gives the random bytes.\<close>

definition import_state :: "(string \<Rightarrow> bytes) \<Rightarrow> (string, key_metadata) dict \<times> audit_entry list \<Rightarrow> hsm" where
  "import_state fresh st =
     \<lparr>hsm_keys = foldl (\<lambda>d (k, md). AList.update k (fresh k) d) [] (fst st),
      hsm_metadata = foldl (\<lambda>d (k, md). AList.update k (md\<lparr>km_key_id := k\<rparr>) d) [] (fst st),
      hsm_audit = snd st,
      hsm_sequence = (case map au_sequence (snd st) of [] \<Rightarrow> 0 | n # ns \<Rightarrow> foldl max n ns)\<rparr>"

text \<open>The script's self test: create, encrypt, decrypt, compare.\<close>

definition hsm_main :: "(bytes \<Rightarrow> bytes \<Rightarrow> bytes) \<Rightarrow> bytes \<Rightarrow> bytes \<Rightarrow> bytes \<Rightarrow> int \<Rightarrow> int
    \<Rightarrow> exn + (string, key_metadata) dict \<times> audit_entry list" where
  "hsm_main hmac key nonce development_data now audit_now =
     (case hsm_create_key ''dev-key-001'' ''AES-256-GCM'' key now audit_now hsm_init of
        (Inl e, _) \<Rightarrow> Inl e
      | (Inr _, h) \<Rightarrow>
          (case hsm_encrypt hmac ''dev-key-001'' development_data [] nonce h of
             (Inl e, _) \<Rightarrow> Inl e
           | (Inr encrypted, h) \<Rightarrow>
               (case hsm_decrypt hmac ''dev-key-001'' encrypted [] h of
                  (Inl e, _) \<Rightarrow> Inl e
                | (Inr decrypted, h) \<Rightarrow>
                    if decrypted \<noteq> development_data then Inl (HSMError ''round_trip_failure'')
                    else Inr (export_state h))))"

datatype hsm_op =
    CreateKey string string bytes int int
  | RotateHsmKey string bytes int int
  | DisableKey string
  | Encrypt string bytes bytes bytes
  | Decrypt string bytes bytes
  | SignData string bytes
  | VerifyData string bytes bytes int

fun hsm_step :: "(bytes \<Rightarrow> string) \<Rightarrow> (bytes \<Rightarrow> bytes \<Rightarrow> bytes) \<Rightarrow> hsm \<Rightarrow> hsm_op \<Rightarrow> hsm" where
  "hsm_step fp hmac h (CreateKey k a key now anow) = snd (hsm_create_key k a key now anow h)"
| "hsm_step fp hmac h (RotateHsmKey k key now anow) = snd (hsm_rotate_key fp k key now anow h)"
| "hsm_step fp hmac h (DisableKey k) = snd (hsm_disable_key k h)"
| "hsm_step fp hmac h (Encrypt k p aad nonce) = snd (hsm_encrypt hmac k p aad nonce h)"
| "hsm_step fp hmac h (Decrypt k c aad) = snd (hsm_decrypt hmac k c aad h)"
| "hsm_step fp hmac h (SignData k d) = snd (hsm_sign hmac k d h)"
| "hsm_step fp hmac h (VerifyData k d sig now) = snd (hsm_verify hmac k d sig now h)"

subsection \<open>Dual-control HSM of the gate simulation\<close>

record provision_entry =
  pe_version :: int
  pe_operator :: string
  pe_approver :: string

record sim_hsm =
  sh_active_version :: int
  sh_revoked :: "int list"
  sh_keys :: "(int, bytes) dict"
  sh_audit :: "provision_entry list"

definition sim_hsm_init :: sim_hsm where
  "sim_hsm_init = \<lparr>sh_active_version = 0, sh_revoked = [], sh_keys = [], sh_audit = []\<rparr>"

definition sim_provision :: "(bytes \<Rightarrow> string) \<Rightarrow> int \<Rightarrow> string \<Rightarrow> string \<Rightarrow> bytes \<Rightarrow> sim_hsm
    \<Rightarrow> (sim_hsm, string) outcome" where
  "sim_provision digest version operator approver key h =
     (if version \<le> sh_active_version h \<or> operator = [] \<or> approver = [] \<or> operator = approver
      then (Inl (SimulationError ''key_provisioning_policy_failed''), h)
      else (Inr (digest key),
            h\<lparr>sh_keys := AList.update version key (sh_keys h),
              sh_revoked := (if sh_active_version h \<noteq> 0
                             then List.insert (sh_active_version h) (sh_revoked h) else sh_revoked h),
              sh_active_version := version,
              sh_audit := sh_audit h @ [\<lparr>pe_version = version, pe_operator = operator,
                                         pe_approver = approver\<rparr>]\<rparr>))"

definition sim_sign :: "(bytes \<Rightarrow> 'p \<Rightarrow> 'd) \<Rightarrow> int \<Rightarrow> 'p \<Rightarrow> sim_hsm \<Rightarrow> exn + 'd" where
  "sim_sign hmac version payload h =
     (case map_of (sh_keys h) version of
        None \<Rightarrow> Inl (SimulationError ''key_not_active'')
      | Some key \<Rightarrow>
          if version \<in> set (sh_revoked h) then Inl (SimulationError ''key_not_active'')
          else Inr (hmac key payload))"

definition sim_verify :: "(bytes \<Rightarrow> 'p \<Rightarrow> 'd) \<Rightarrow> int \<Rightarrow> 'p \<Rightarrow> 'd \<Rightarrow> sim_hsm \<Rightarrow> bool" where
  "sim_verify hmac version payload signature h =
     (case sim_sign hmac version payload h of Inl _ \<Rightarrow> False | Inr d \<Rightarrow> d = signature)"

definition sim_export :: "int \<Rightarrow> sim_hsm \<Rightarrow> exn + unit" where
  "sim_export version h = Inl (SimulationError ''key_export_denied'')"

definition sim_verify_audit :: "sim_hsm \<Rightarrow> bool" where
  "sim_verify_audit h \<longleftrightarrow> 2 \<le> length (sh_audit h) \<and> sh_active_version h = 2 \<and> 1 \<in> set (sh_revoked h)
     \<and> (\<forall>item \<in> set (sh_audit h). pe_operator item \<noteq> pe_approver item)"

fun provision_step :: "(bytes \<Rightarrow> string) \<Rightarrow> sim_hsm \<Rightarrow> int \<times> string \<times> string \<times> bytes \<Rightarrow> sim_hsm" where
  "provision_step digest h (version, operator, approver, key) =
     snd (sim_provision digest version operator approver key h)"

end
