(* ===== verification/Custody_Props.thy ===== *)
theory Custody_Props
  imports Custody
begin

section \<open>Correctness of key custody\<close>

text \<open>
  Versions of a key are numbered 1 to n with at most one active, and signatures made by the signer
  are recognised by it ever after. Rotation, revocation, signing and verification are the steps of
  one machine; its invariant ties the cached secrets to the versions.
\<close>

subsection \<open>Key store\<close>

definition versions_ok :: "string \<Rightarrow> key_version list \<Rightarrow> bool" where
  "versions_ok key_id vs \<longleftrightarrow> map kv_version vs = [1..int (length vs)]
     \<and> length (filter kv_active vs) \<le> 1
     \<and> (\<forall>v \<in> set vs. kv_key_id v = key_id \<and> \<not> kv_exportable v)"

definition store_ok :: "key_store \<Rightarrow> bool" where
  "store_ok ks \<longleftrightarrow> (\<forall>key_id. versions_ok key_id (get_default ks key_id []))"

lemma versions_upto_snoc: "[1..1 + int n] = [1..int n] @ [1 + int n]"
  by (simp add: upto_rec2)

lemma rotate_versions_ok:
  assumes "versions_ok k vs"
  shows "versions_ok k (map (\<lambda>v. v\<lparr>kv_active := False\<rparr>) vs @
     [\<lparr>kv_key_id = k, kv_version = int (length vs) + 1, kv_active = True, kv_exportable = False\<rparr>])"
proof -
  have "filter kv_active (map (\<lambda>v. v\<lparr>kv_active := False\<rparr>) vs) = []" by (induction vs) auto
  then show ?thesis
    using assms by (auto simp: versions_ok_def comp_def versions_upto_snoc add.commute)
qed

lemma revoke_versions_ok:
  assumes "versions_ok k vs"
  shows "versions_ok k (map (\<lambda>v. if kv_version v = n then v\<lparr>kv_active := False\<rparr> else v) vs)"
proof -
  have "length (filter kv_active (map (\<lambda>v. if kv_version v = n then v\<lparr>kv_active := False\<rparr> else v) vs))
      \<le> length (filter kv_active vs)"
    by (induction vs) auto
  moreover have m: "map kv_version (map (\<lambda>v. if kv_version v = n then v\<lparr>kv_active := False\<rparr> else v) vs)
      = map kv_version vs" by (induction vs) auto
  ultimately show ?thesis
    using assms unfolding versions_ok_def m length_map by (auto split: if_splits)
qed

lemma store_ok_rotate: "store_ok ks \<Longrightarrow> store_ok (snd (key_rotate k ks))"
  using rotate_versions_ok by (auto simp: store_ok_def key_rotate_def Let_def dict_simps)

lemma store_ok_revoke: "store_ok ks \<Longrightarrow> store_ok (snd (key_revoke k n ks))"
  using revoke_versions_ok by (auto simp: store_ok_def key_revoke_def Let_def dict_simps)

lemma store_ok_active: "store_ok ks \<Longrightarrow> store_ok (snd (active_key k ks))"
  using store_ok_rotate by (auto simp: active_key_def split: option.splits)

text \<open>Versions are never removed: what the store knows of a key only grows.\<close>

definition version_count :: "key_store \<Rightarrow> string \<Rightarrow> nat" where
  "version_count ks k = length (get_default ks k [])"

lemma version_count_mono:
  "version_count ks j \<le> version_count (snd (key_rotate k ks)) j"
  "version_count ks j \<le> version_count (snd (key_revoke k n ks)) j"
  "version_count ks j \<le> version_count (snd (active_key k ks)) j"
  by (auto simp: version_count_def key_rotate_def key_revoke_def active_key_def Let_def dict_simps
      split: option.splits)

lemma active_key_member:
  assumes "active_key k ks = (Inr v, ks')"
  shows "v \<in> set (get_default ks' k [])" and "kv_active v"
  using assms
  by (auto simp: active_key_def key_rotate_def Let_def dict_simps find_Some_iff split: option.splits if_splits)
     (metis nth_mem set_rev length_rev)

subsection \<open>Signer\<close>

definition secrets_ok :: "(string \<Rightarrow> 'k) \<Rightarrow> 'k signer \<Rightarrow> bool" where
  "secrets_ok sha s \<longleftrightarrow> (\<forall>k n x. map_of (sg_secrets s) (k, n) = Some x \<longrightarrow> x = sha (secret_label k n))"

lemma signer_secret_ok:
  assumes "secrets_ok sha s"
  shows "fst (signer_secret sha k n s) = sha (secret_label k n)"
    and "secrets_ok sha (snd (signer_secret sha k n s))"
    and "sg_key_store (snd (signer_secret sha k n s)) = sg_key_store s"
  using assms
  by (auto simp: secrets_ok_def signer_secret_def Let_def dict_simps split: option.splits if_splits)

lemma verify_versions_ok:
  assumes "secrets_ok sha s"
  shows "fst (verify_versions sha hmac k p d vs s) \<longleftrightarrow>
      (\<exists>v \<in> set vs. hmac (sha (secret_label k (kv_version v))) p = d)"
    and "secrets_ok sha (snd (verify_versions sha hmac k p d vs s))"
    and "sg_key_store (snd (verify_versions sha hmac k p d vs s)) = sg_key_store s"
  using assms
proof (atomize (full), induction vs arbitrary: s)
  case (Cons v vs)
  then have ok: "secrets_ok sha s" by simp
  note f = signer_secret_ok [OF ok, of k "kv_version v"]
  show ?case using Cons.IH [of "snd (signer_secret sha k (kv_version v) s)"] f by (auto simp: Let_def split_beta)
qed simp

definition signer_ok :: "(string \<Rightarrow> 'k) \<Rightarrow> 'k signer \<Rightarrow> bool" where
  "signer_ok sha s \<longleftrightarrow> secrets_ok sha s \<and> store_ok (sg_key_store s)"

lemma signer_sign_eq:
  assumes "secrets_ok sha s"
  shows "fst (signer_sign sha hmac k p s) = map_sum id (\<lambda>v. hmac (sha (secret_label k (kv_version v))) p)
           (fst (active_key k (sg_key_store s)))"
    and "secrets_ok sha (snd (signer_sign sha hmac k p s))"
    and "sg_key_store (snd (signer_sign sha hmac k p s)) = snd (active_key k (sg_key_store s))"
proof -
  have ok: "secrets_ok sha (s\<lparr>sg_key_store := ks\<rparr>)" for ks using assms by (simp add: secrets_ok_def)
  show "fst (signer_sign sha hmac k p s) = map_sum id (\<lambda>v. hmac (sha (secret_label k (kv_version v))) p)
           (fst (active_key k (sg_key_store s)))"
    and "secrets_ok sha (snd (signer_sign sha hmac k p s))"
    and "sg_key_store (snd (signer_sign sha hmac k p s)) = snd (active_key k (sg_key_store s))"
    using signer_secret_ok [OF ok]
    by (auto simp: signer_sign_def split_beta ok split: sum.splits prod.splits)
qed

lemma signer_step_ok: "signer_ok sha s \<Longrightarrow> signer_ok sha (signer_step sha hmac s c)"
  using store_ok_rotate store_ok_revoke store_ok_active
  by (cases c) (simp_all add: signer_ok_def signer_sign_eq signer_verify_def verify_versions_ok,
      simp_all add: secrets_ok_def)

interpretation signer: step_machine "signer_step sha hmac" "signer_ok sha" for sha hmac
  by unfold_locales (rule signer_step_ok)

text \<open>
  Over any sequence of rotations, revocations, signatures and verifications the versions of
  every key are numbered 1 to n, at most one of them is active, none is exportable, and asking for
  the active key returns an active version of that key (creating one only if there is none).
\<close>

theorem key_versions_wellformed:
  assumes "s = foldl (signer_step sha hmac) \<lparr>sg_key_store = [], sg_secrets = []\<rparr> ops"
  shows "versions_ok key_id (get_default (sg_key_store s) key_id [])
     \<and> (case active_key key_id (sg_key_store s) of
          (Inl e, ks) \<Rightarrow> key_id = [] \<and> e = ValueError ''key_id_invalid''
        | (Inr v, ks) \<Rightarrow> kv_active v \<and> v \<in> set (get_default ks key_id [])
            \<and> versions_ok key_id (get_default ks key_id []))"
proof -
  have "signer_ok sha \<lparr>sg_key_store = [], sg_secrets = []\<rparr>"
    by (simp add: signer_ok_def secrets_ok_def store_ok_def versions_ok_def)
  then have ok: "signer_ok sha s" unfolding assms by (rule signer.run_inv)
  obtain x ks where a: "active_key key_id (sg_key_store s) = (x, ks)" by fastforce
  have ks: "store_ok ks"
    using ok store_ok_active [of "sg_key_store s" key_id] by (simp add: signer_ok_def a)
  have "x = Inl e \<Longrightarrow> key_id = [] \<and> e = ValueError ''key_id_invalid''" for e
    using a by (auto simp: active_key_def key_rotate_def Let_def split: option.splits if_splits)
  moreover have "x = Inr v \<Longrightarrow> kv_active v \<and> v \<in> set (get_default ks key_id [])" for v
    using active_key_member [of key_id "sg_key_store s" v ks] a by auto
  ultimately show ?thesis
    using ok ks unfolding a by (cases x) (auto simp: signer_ok_def store_ok_def)
qed

lemma verify_iff:
  assumes "signer_ok sha s"
  shows "fst (signer_verify sha hmac k p d s) \<longleftrightarrow>
     (\<exists>n \<in> {1..int (version_count (sg_key_store s) k)}. hmac (sha (secret_label k n)) p = d)"
proof -
  let ?vs = "get_default (sg_key_store s) k []"
  have "kv_version ` set ?vs = set [1..int (length ?vs)]"
    using assms unfolding signer_ok_def store_ok_def versions_ok_def by (metis list.set_map)
  then have "(\<exists>v \<in> set ?vs. hmac (sha (secret_label k (kv_version v))) p = d) \<longleftrightarrow>
      (\<exists>n \<in> {1..int (length ?vs)}. hmac (sha (secret_label k n)) p = d)"
    by (metis (mono_tags, lifting) image_iff set_upto)
  then show ?thesis
    using assms by (simp add: signer_verify_def verify_versions_ok signer_ok_def version_count_def)
qed

lemma step_version_count:
  "signer_ok sha s \<Longrightarrow> version_count (sg_key_store s) k \<le> version_count (sg_key_store (signer_step sha hmac s c)) k"
  by (cases c) (auto simp: version_count_mono signer_sign_eq signer_verify_def verify_versions_ok signer_ok_def)

text \<open>
  C27. Signatures stay recognised: a signature that \<open>sign\<close> returned is verified by the same signer
  for the same key and payload after any further rotations, revocations, signatures and
  verifications, because versions are never removed from the store.
\<close>

theorem signatures_stay_valid:
  assumes "s = foldl (signer_step sha hmac) \<lparr>sg_key_store = [], sg_secrets = []\<rparr> before"
    and "signer_sign sha hmac key_id payload s = (Inr signature, s1)"
  shows "fst (signer_verify sha hmac key_id payload signature (foldl (signer_step sha hmac) s1 later))"
proof -
  have "signer_ok sha \<lparr>sg_key_store = [], sg_secrets = []\<rparr>"
    by (simp add: signer_ok_def secrets_ok_def store_ok_def versions_ok_def)
  then have ok: "signer_ok sha s" unfolding assms(1) by (rule signer.run_inv)
  then have ok1: "signer_ok sha s1"
    using signer_step_ok [of sha s hmac "Sign key_id payload"] assms(2) by simp
  obtain v where v: "active_key key_id (sg_key_store s) = (Inr v, sg_key_store s1)"
    and sig: "signature = hmac (sha (secret_label key_id (kv_version v))) payload"
    using signer_sign_eq [of sha s hmac key_id payload] ok assms(2)
    by (cases "active_key key_id (sg_key_store s)"; cases "fst (active_key key_id (sg_key_store s))")
      (auto simp: signer_ok_def)
  have "fst (signer_verify sha hmac key_id payload signature s1)"
    using ok1 active_key_member(1) [OF v] by (auto simp: signer_verify_def verify_versions_ok signer_ok_def sig)
  then have "\<exists>n \<in> {1..int (version_count (sg_key_store s1) key_id)}. hmac (sha (secret_label key_id n)) payload = signature"
    by (simp add: verify_iff [OF ok1])
  moreover have "version_count (sg_key_store s1) key_id
      \<le> version_count (sg_key_store (foldl (signer_step sha hmac) s1 later)) key_id"
    by (rule signer.run_measure [OF step_version_count ok1])
  moreover have "signer_ok sha (foldl (signer_step sha hmac) s1 later)" by (rule signer.run_inv [OF ok1])
  ultimately show ?thesis by (fastforce simp: verify_iff)
qed

end
