(* ===== verification/Hsm_Props.thy ===== *)
theory Hsm_Props
  imports Custody_Props
begin

section \<open>Correctness of the HSM simulator and the dual-control HSM\<close>

text \<open>
  The HSM simulator numbers its audit trail without gaps and survives export and import; its
  \<open>encrypt\<close>, \<open>decrypt\<close>, \<open>sign\<close> and \<open>disable_key\<close> never return, which is stated as it is. The
  dual-control HSM of the gate simulation signs with its newest key only.
\<close>


subsection \<open>HSM simulator\<close>

definition hsm_ok :: "hsm \<Rightarrow> bool" where
  "hsm_ok h \<longleftrightarrow> map au_sequence (hsm_audit h) = [1..hsm_sequence h] \<and> 0 \<le> hsm_sequence h
     \<and> wf_dict (hsm_metadata h) \<and> (\<forall>k. has_key (hsm_keys h) k \<longleftrightarrow> has_key (hsm_metadata h) k)
     \<and> (\<forall>k md. map_of (hsm_metadata h) k = Some md \<longrightarrow> km_key_id md = k)"

lemma hsm_sequence_length:
  assumes "hsm_ok h"
  shows "hsm_sequence h = int (length (hsm_audit h))"
proof -
  have "length (hsm_audit h) = length [1..hsm_sequence h]"
    using assms unfolding hsm_ok_def by (metis length_map)
  then show ?thesis using assms by (simp add: hsm_ok_def)
qed

lemma audit_event_ok: "hsm_ok h \<Longrightarrow> hsm_ok (audit_event a k now f h)"
  by (simp add: hsm_ok_def audit_event_def Let_def upto_rec2 add.commute)

lemma hsm_store_ok:
  "hsm_ok h \<Longrightarrow> km_key_id md = k \<Longrightarrow>
   hsm_ok (h\<lparr>hsm_keys := AList.update k key (hsm_keys h), hsm_metadata := AList.update k md (hsm_metadata h)\<rparr>)"
  by (simp add: hsm_ok_def dict_simps)

lemma hsm_create_ok: "hsm_ok h \<Longrightarrow> hsm_ok (snd (hsm_create_key k a key now anow h))"
  by (simp add: hsm_create_key_def Let_def audit_event_ok hsm_store_ok)

lemma hsm_rotate_ok:
  assumes "hsm_ok h"
  shows "hsm_ok (snd (hsm_rotate_key fp k key now anow h))"
proof (cases "map_of (hsm_keys h) k")
  case (Some old)
  then obtain md where "map_of (hsm_metadata h) k = Some md"
    using assms unfolding hsm_ok_def by (metis option.distinct(1) option.exhaust)
  then show ?thesis
    using Some assms by (simp add: hsm_rotate_key_def Let_def audit_event_ok hsm_store_ok)
qed (simp add: hsm_rotate_key_def assms)

lemma hsm_unused_frame [simp]:
  "snd (hsm_disable_key k h) = h" "snd (hsm_encrypt hmac k p aad nonce h) = h"
  "snd (hsm_decrypt hmac k c aad h) = h" "snd (hsm_sign hmac k d h) = h"
  by (simp_all add: hsm_disable_key_def hsm_encrypt_def hsm_decrypt_def hsm_sign_def split: option.split sum.split)

lemma hsm_verify_ok: "hsm_ok h \<Longrightarrow> hsm_ok (snd (hsm_verify hmac k d sig now h))"
  by (simp add: hsm_verify_def audit_event_ok split: option.split)

interpretation hsm_sim: step_machine "hsm_step fp hmac" hsm_ok for fp hmac
proof
  show "hsm_ok h \<Longrightarrow> hsm_ok (hsm_step fp hmac h c)" for h c
    by (cases c) (simp_all add: hsm_create_ok hsm_rotate_ok hsm_verify_ok)
qed

lemma foldl_update_fresh:
  assumes "wf_dict d" and "fst ` set acc \<inter> fst ` set d = {}"
  shows "foldl (\<lambda>a (k, v). AList.update k (f k v) a) acc d = acc @ map (\<lambda>(k, v). (k, f k v)) d"
  using assms
proof (induction d arbitrary: acc)
  case (Cons kv d)
  obtain k v where kv: "kv = (k, v)" by fastforce
  have "k \<notin> fst ` set acc" using Cons.prems by (auto simp: kv)
  then have "AList.update k (f k v) acc = acc @ [(k, f k v)]" by (rule update_new_key)
  then show ?case using Cons.IH [of "acc @ [(k, f k v)]"] Cons.prems by (simp add: kv)
qed simp

lemma map_of_map_key: "map_of (map (\<lambda>(k, v). (k, f k)) d) k = (if has_key d k then Some (f k) else None)"
  by (induction d) auto

lemma foldl_max_upto: "foldl max m [m + 1..m + int k] = m + int k"
proof (induction k)
  case (Suc k)
  have "[m + 1..m + int (Suc k)] = [m + 1..m + int k] @ [m + int (Suc k)]"
    by (simp add: upto_rec2 add.assoc)
  then show ?case using Suc by simp
qed simp

lemma max_of_upto: "0 \<le> n \<Longrightarrow> (case [1..n] of [] \<Rightarrow> 0 | m # ms \<Rightarrow> foldl max m ms) = n" for n :: int
  using foldl_max_upto [of 1 "nat (n - 1)"] by (cases "1 \<le> n") (simp_all add: upto_rec1)

text \<open>
  The HSM simulator keeps its books: over any sequence of its operations the audit entries are
  numbered 1 to n, every key has metadata under its own id, and a simulator restored from the
  exported state has the same metadata, audit trail, sequence number and key ids (the key material
  itself is drawn afresh), so further audit entries continue the numbering.
\<close>

theorem hsm_books_survive_export:
  assumes "h = foldl (hsm_step fp hmac) hsm_init ops" and "h' = import_state fresh (export_state h)"
  shows "map au_sequence (hsm_audit h) = [1..int (length (hsm_audit h))]
     \<and> hsm_sequence h = int (length (hsm_audit h))
     \<and> (\<forall>k. has_key (hsm_keys h) k \<longleftrightarrow> has_key (hsm_metadata h) k)
     \<and> export_state h' = export_state h \<and> hsm_sequence h' = hsm_sequence h
     \<and> (\<forall>k. map_of (hsm_keys h') k = (if has_key (hsm_keys h) k then Some (fresh k) else None))"
proof -
  have "hsm_ok hsm_init" by (simp add: hsm_ok_def hsm_init_def)
  then have ok: "hsm_ok h" unfolding assms(1) by (rule hsm_sim.run_inv)
  then have md: "wf_dict (hsm_metadata h)"
    and ids: "\<And>k md. map_of (hsm_metadata h) k = Some md \<Longrightarrow> km_key_id md = k"
    by (auto simp: hsm_ok_def)
  have len: "hsm_sequence h = int (length (hsm_audit h))"
    using ok by (rule hsm_sequence_length)
  have "map (\<lambda>(k, md). (k, md\<lparr>km_key_id := k\<rparr>)) (hsm_metadata h) = hsm_metadata h"
  proof (rule map_idI)
    fix kv assume kv: "kv \<in> set (hsm_metadata h)"
    obtain k v where "kv = (k, v)" by fastforce
    with kv md have "map_of (hsm_metadata h) k = Some v" by simp
    then have "km_key_id v = k" by (rule ids)
    with \<open>kv = (k, v)\<close> show "(case kv of (k, md) \<Rightarrow> (k, md\<lparr>km_key_id := k\<rparr>)) = kv" by auto
  qed
  then have meta: "hsm_metadata h' = hsm_metadata h"
    using md by (simp add: assms(2) import_state_def export_state_def foldl_update_fresh)
  have keys: "hsm_keys h' = map (\<lambda>(k, md). (k, fresh k)) (hsm_metadata h)"
    using md foldl_update_fresh [of "hsm_metadata h" "[]" "\<lambda>k _. fresh k"]
    by (simp add: assms(2) import_state_def export_state_def)
  have "map_of (hsm_keys h') k = (if has_key (hsm_keys h) k then Some (fresh k) else None)" for k
    using ok unfolding keys hsm_ok_def by (auto simp: map_of_map_key split: option.split)
  moreover have "hsm_sequence h' = hsm_sequence h"
    using ok by (simp add: assms(2) import_state_def export_state_def hsm_ok_def max_of_upto)
  ultimately show ?thesis
    using ok len meta by (simp add: hsm_ok_def export_state_def) (simp add: assms(2) import_state_def export_state_def)
qed

text \<open>
  As the metadata class is frozen, the simulator cannot encrypt, decrypt, sign or disable a key:
  each of these calls raises whatever the state and the arguments, changes nothing and leaves no
  audit entry, and with an existing, enabled key of the right algorithm the exception is
  \<open>FrozenInstanceError\<close>. So the script's own self test raises it.
\<close>

theorem hsm_simulator_cannot_use_keys:
  "raised (fst (hsm_encrypt hmac k p aad nonce h)) \<and> snd (hsm_encrypt hmac k p aad nonce h) = h
   \<and> raised (fst (hsm_decrypt hmac k c aad h)) \<and> snd (hsm_decrypt hmac k c aad h) = h
   \<and> raised (fst (hsm_sign hmac k d h)) \<and> snd (hsm_sign hmac k d h) = h
   \<and> raised (fst (hsm_disable_key k h)) \<and> snd (hsm_disable_key k h) = h
   \<and> hsm_main hmac key nonce p now anow = Inl (frozen ''last_used_ns'')"
  by (simp add: hsm_disable_key_def hsm_encrypt_def hsm_decrypt_def hsm_sign_def hsm_main_def hsm_create_key_def
      hsm_init_def audit_event_def hsm_algorithms_def assign_last_used_def Let_def dict_simps
      split: option.split sum.split)

text \<open>
  Even without the frozen metadata a sealed message would not open: \<open>encrypt\<close> authenticates the
  nonce with the body, \<open>decrypt\<close> the body alone. With a digest that tells the two apart the
  integrity check fails.
\<close>

lemma sealed_never_opens:
  assumes "length nonce = 12" and "\<And>x. length (hmac key x) = 32"
    and "\<And>x y. take 16 (hmac key x) = take 16 (hmac key y) \<Longrightarrow> x = y"
  shows "open_sealed hmac key (sealed hmac key nonce p aad) aad = Inl (HSMError ''integrity_failure'')"
proof -
  let ?body = "xor_stream key (nonce ! 0) p"
  have "nonce @ ?body @ aad \<noteq> ?body @ aad" using assms(1) by (auto dest: arg_cong [of _ _ length])
  then have "take 16 (hmac key (nonce @ ?body @ aad)) \<noteq> take 16 (hmac key (?body @ aad))"
    using assms(3) by blast
  then show ?thesis using assms(1,2) by (simp add: open_sealed_def sealed_def Let_def)
qed

subsection \<open>Dual-control HSM\<close>

definition sim_ok :: "sim_hsm \<Rightarrow> bool" where
  "sim_ok h \<longleftrightarrow> 0 \<le> sh_active_version h
     \<and> (\<forall>v. has_key (sh_keys h) v \<longrightarrow> 0 < v \<and> v \<le> sh_active_version h)
     \<and> (\<forall>v. has_key (sh_keys h) v \<and> v \<notin> set (sh_revoked h) \<longleftrightarrow> v = sh_active_version h \<and> v \<noteq> 0)
     \<and> (\<forall>v \<in> set (sh_revoked h). v < sh_active_version h)
     \<and> sorted_wrt (<) (map pe_version (sh_audit h))
     \<and> (\<forall>e \<in> set (sh_audit h). 0 < pe_version e \<and> pe_version e \<le> sh_active_version h \<and> pe_operator e \<noteq> []
          \<and> pe_approver e \<noteq> [] \<and> pe_operator e \<noteq> pe_approver e)
     \<and> sh_active_version h = (if sh_audit h = [] then 0 else pe_version (last (sh_audit h)))"

lemma sim_provision_cases:
  assumes "sim_provision digest v a b key h = (r, h')"
  obtains (refused) "h' = h" "r = Inl (SimulationError ''key_provisioning_policy_failed'')"
  | (added) "sh_active_version h < v" "a \<noteq> []" "b \<noteq> []" "a \<noteq> b" "r = Inr (digest key)"
      "sh_keys h' = AList.update v key (sh_keys h)" "sh_active_version h' = v"
      "set (sh_revoked h') = (if sh_active_version h \<noteq> 0 then {sh_active_version h} else {}) \<union> set (sh_revoked h)"
      "sh_audit h' = sh_audit h @ [\<lparr>pe_version = v, pe_operator = a, pe_approver = b\<rparr>]"
proof (cases "v \<le> sh_active_version h \<or> a = [] \<or> b = [] \<or> a = b")
  case True
  then show thesis using assms refused by (simp add: sim_provision_def)
next
  case False
  then show thesis using assms by (intro added) (auto simp: sim_provision_def)
qed

lemma sim_provision_ok:
  assumes ok: "sim_ok h"
  shows "sim_ok (snd (sim_provision digest v a b key h))"
proof -
  obtain r h' where p: "sim_provision digest v a b key h = (r, h')" by fastforce
  then show ?thesis
  proof (cases rule: sim_provision_cases)
    case added
    have keys: "has_key (sh_keys h') w \<longleftrightarrow> w = v \<or> has_key (sh_keys h) w" for w
      by (simp add: added(6) dict_simps)
    have "sorted_wrt (<) (map pe_version (sh_audit h'))"
      using ok added(1) unfolding sim_ok_def added(9) by (fastforce simp: sorted_wrt_append)
    moreover have "has_key (sh_keys h') w \<and> w \<notin> set (sh_revoked h') \<longleftrightarrow> w = v \<and> w \<noteq> 0" for w
      using ok added(1) unfolding keys added(8) sim_ok_def by (smt (verit) UnE UnI1 UnI2 insertE singletonI empty_iff)
    moreover have "\<forall>w. has_key (sh_keys h') w \<longrightarrow> 0 < w \<and> w \<le> v"
      using ok added(1) unfolding keys sim_ok_def by force
    moreover have "\<forall>w \<in> set (sh_revoked h'). w < v" "0 \<le> v"
      using ok added(1) unfolding added(8) sim_ok_def by (auto dest: order.strict_trans)
    moreover have "\<forall>e \<in> set (sh_audit h'). 0 < pe_version e \<and> pe_version e \<le> v \<and> pe_operator e \<noteq> []
          \<and> pe_approver e \<noteq> [] \<and> pe_operator e \<noteq> pe_approver e"
      using ok added(1-4) unfolding added(9) sim_ok_def by force
    ultimately show ?thesis unfolding p snd_conv sim_ok_def added(7) by (simp add: added(9))
  qed (use ok p in simp)
qed

interpretation sim_hsm: step_machine "provision_step digest" sim_ok for digest
  by unfold_locales (auto simp: sim_provision_ok)

text \<open>
  C26. Dual control: over any sequence of provisioning attempts the audit trail lists positive,
  strictly increasing versions, each with an operator and a different approver; exactly the newest
  provisioned version can sign, every other version number is refused by \<open>sign\<close> and rejected by
  \<open>verify\<close> whatever the signature, and what the newest version signs it verifies.
\<close>

theorem dual_control_newest_key_only:
  assumes "h = foldl (provision_step digest) sim_hsm_init ops"
  shows "sorted_wrt (<) (map pe_version (sh_audit h))
     \<and> (\<forall>e \<in> set (sh_audit h). 0 < pe_version e \<and> pe_operator e \<noteq> [] \<and> pe_approver e \<noteq> []
          \<and> pe_operator e \<noteq> pe_approver e)
     \<and> (\<forall>v. if sh_audit h \<noteq> [] \<and> v = pe_version (last (sh_audit h))
           then \<exists>signature. sim_sign hmac v payload h = Inr signature \<and> sim_verify hmac v payload signature h
           else sim_sign hmac v payload h = Inl (SimulationError ''key_not_active'')
             \<and> (\<forall>signature. \<not> sim_verify hmac v payload signature h))"
proof -
  have "sim_ok sim_hsm_init" by (simp add: sim_ok_def sim_hsm_init_def)
  then have ok: "sim_ok h" unfolding assms by (rule sim_hsm.run_inv)
  have "if has_key (sh_keys h) v \<and> v \<notin> set (sh_revoked h)
      then \<exists>signature. sim_sign hmac v payload h = Inr signature \<and> sim_verify hmac v payload signature h
      else sim_sign hmac v payload h = Inl (SimulationError ''key_not_active'')
        \<and> (\<forall>signature. \<not> sim_verify hmac v payload signature h)" for v
    by (auto simp: sim_sign_def sim_verify_def split: option.split)
  moreover have "has_key (sh_keys h) v \<and> v \<notin> set (sh_revoked h)
      \<longleftrightarrow> sh_audit h \<noteq> [] \<and> v = pe_version (last (sh_audit h))" for v
  proof (cases "sh_audit h = []")
    case False
    then have "0 < pe_version (last (sh_audit h))" "sh_active_version h = pe_version (last (sh_audit h))"
      using ok last_in_set [OF False] unfolding sim_ok_def by metis+
    with False ok show ?thesis unfolding sim_ok_def by (metis less_irrefl)
  qed (use ok in \<open>simp add: sim_ok_def\<close>)
  ultimately have sign: "\<forall>v. if sh_audit h \<noteq> [] \<and> v = pe_version (last (sh_audit h))
      then \<exists>signature. sim_sign hmac v payload h = Inr signature \<and> sim_verify hmac v payload signature h
      else sim_sign hmac v payload h = Inl (SimulationError ''key_not_active'')
        \<and> (\<forall>signature. \<not> sim_verify hmac v payload signature h)"
    by (intro allI) (simp only:)
  show ?thesis
    by (intro conjI sign) (use ok in \<open>simp_all add: sim_ok_def\<close>)
qed

text \<open>Revoking a version does not revoke its signatures.\<close>

lemma revoked_key_still_verifies:
  "let s0 = \<lparr>sg_key_store = [], sg_secrets = []\<rparr>; sha = (\<lambda>x. x); hmac = (\<lambda>k p. k @ p);
       (r, s1) = signer_sign sha hmac ''k'' ''m'' s0;
       s2 = signer_step sha hmac s1 (RevokeKey ''k'' 1)
   in (case r of Inr d \<Rightarrow> fst (signer_verify sha hmac ''k'' ''m'' d s2) | Inl _ \<Rightarrow> False)
      \<and> map kv_active (get_default (sg_key_store s2) ''k'' []) = [False]"
  by code_simp

end
