(* ===== verification/Infra_Witnesses.thy ===== *)
theory Infra_Witnesses
  imports Venue_Props Event_Store_Props Hsm_Props
begin

section \<open>Concrete runs of the venue, recovery and custody theorems\<close>

text \<open>
  Each theorem with a hypothesis, applied to a concrete run. Where a theorem has a parameter for
  code outside the repository, a concrete function stands in: the identity for serialization and
  digests.
\<close>

subsection \<open>Venue\<close>

definition w_order :: "int \<Rightarrow> environment \<Rightarrow> order_request" where
  "w_order cid env = \<lparr>or_client_order_id = cid, or_instrument_id = ''AAPL'', or_side = Buy, or_quantity = 10,
     or_price_ticks = 100, or_environment = env\<rparr>"

definition w_gateway :: gateway where
  "w_gateway = \<lparr>gw_venue_id = 7, gw_orders = [], gw_closed = False\<rparr>"

definition w_calls :: "gateway_op list" where
  "w_calls = [Submit (w_order 1 Paper), Submit (w_order 1 Paper), Cancel 1, Submit (w_order 1 Paper),
     Submit (w_order 2 Live)]"

theorem gateway_accepts_once_witness:
  "map (accepted_for 1) (gateway_trace w_gateway w_calls) = [True, False, False, False, False]
   \<and> (\<exists>req. Submit req \<in> set w_calls \<and> or_client_order_id req = 1 \<and> acceptable req)
   \<and> length (filter (accepted_for 1) (gateway_trace w_gateway w_calls)) \<le> 1"
proof -
  have t: "map (accepted_for 1) (gateway_trace w_gateway w_calls) = [True, False, False, False, False]" by code_simp
  then have "\<exists>r \<in> set (gateway_trace w_gateway w_calls). accepted_for 1 r"
    by (metis (no_types, lifting) imageE list.set_intros(1) list.set_map)
  with t show ?thesis
    using gateway_accepts_once [of 1 w_gateway w_calls "[Cancel 1]"] by blast
qed

definition w_md_quote :: "int \<Rightarrow> md_quote" where
  "w_md_quote n = \<lparr>mq_instrument_id = ''AAPL'', mq_sequence = n, mq_timestamp_ns = 5, mq_bid_ticks = 99, mq_ask_ticks = 101\<rparr>"

definition w_report :: "string \<Rightarrow> execution_report" where
  "w_report i = \<lparr>er_execution_id = i, er_client_order_id = 1, er_instrument_id = ''AAPL'', er_side = Sell,
     er_quantity = 3, er_price_ticks = 100, er_timestamp_ns = 9\<rparr>"

theorem feeds_hand_out_what_was_validated_witness:
  "(case md_feed_init [w_md_quote 1, w_md_quote 2] of
      Inr f \<Rightarrow> md_feed_quotes f = Inr [w_md_quote 1, w_md_quote 2] | Inl e \<Rightarrow> False)
   \<and> drop_copy_init [w_report ''x'', w_report ''x''] = Inl (ValueError ''duplicate_execution_id'')
   \<and> \<not> distinct (map er_execution_id [w_report ''x'', w_report ''x''])"
proof -
  have "\<exists>f. md_feed_init [w_md_quote 1, w_md_quote 2] = Inr f" by (simp add: md_feed_init_def w_md_quote_def validate_quote_def)
  moreover have "drop_copy_init [w_report ''x'', w_report ''x''] = Inl (ValueError ''duplicate_execution_id'')" by code_simp
  ultimately show ?thesis
    using feeds_hand_out_what_was_validated [of "[w_md_quote 1, w_md_quote 2]" "[w_report ''x'', w_report ''x'']"]
    by (auto simp: w_report_def)
qed

theorem session_replies_numbered_witness:
  "\<exists>reply. fst (session_send 5 ''new'' ((session_init 2)\<lparr>vs_connected := True\<rparr>)) = Inr reply
     \<and> session_receive reply 1 = Inr True \<and> session_receive reply 3 = Inl (SimulationError ''venue_sequence_gap'')"
proof -
  obtain reply v' where s: "session_send 5 ''new'' ((session_init 2)\<lparr>vs_connected := True\<rparr>) = (Inr reply, v')"
    by (simp add: session_send_def session_init_def session_actions_def split_beta)
  then have "vs_sequence v' = 1" using session_replies_numbered [where cid = 5 and action = "''new''" and v = "(session_init 2)\<lparr>vs_connected := True\<rparr>"]
    by (simp add: session_init_def)
  then show ?thesis using session_replies_numbered [where cid = 5 and action = "''new''" and v = "(session_init 2)\<lparr>vs_connected := True\<rparr>"] s by simp
qed

definition w_venue_before :: "session_op list" where
  "w_venue_before = [Connect ''cred'' False, Send 9 ''new'']"

theorem session_orders_move_forward_witness:
  "order_rank 9 (foldl session_step (session_init 3) w_venue_before) = 1
   \<and> 1 \<le> order_rank 9 (foldl session_step (foldl session_step (session_init 3) w_venue_before)
                          [Send 9 ''cancel'', Send 9 ''new'', Disconnect])"
proof -
  have "order_rank 9 (foldl session_step (session_init 3) w_venue_before) = 1" by code_simp
  then show ?thesis
    using session_orders_move_forward [OF refl refl, where before = w_venue_before and throttle = 3 and cid = 9
        and later = "[Send 9 ''cancel'', Send 9 ''new'', Disconnect]"] by simp
qed

subsection \<open>Recovery\<close>

definition w_leases :: "lease_op list" where
  "w_leases = [Acquire ''book'' ''a'' 0 10, Acquire ''book'' ''b'' 5 10, Acquire ''book'' ''b'' 10 10]"

definition w_lease :: lease where
  "w_lease = \<lparr>ls_resource = ''book'', ls_owner_id = ''b'', ls_fencing_token = 2, ls_expires_at_ns = 20\<rparr>"

lemma w_lease_stored: "map_of (st_leases (foldl lease_step lease_store_init w_leases)) ''book'' = Some w_lease"
  by code_simp

theorem lease_exclusive_and_fenced_witness:
  "fst (lease_acquire ''book'' ''c'' 19 5 (foldl lease_step lease_store_init w_leases)) = Inr None
   \<and> fst (lease_renew (w_lease\<lparr>ls_fencing_token := 1\<rparr>) 11 5 (foldl lease_step lease_store_init w_leases)) = None"
proof -
  have "ls_resource (w_lease\<lparr>ls_fencing_token := 1\<rparr>) = ''book''" "w_lease\<lparr>ls_fencing_token := 1\<rparr> \<noteq> w_lease"
    and "19 < ls_expires_at_ns w_lease" by (simp_all add: w_lease_def)
  then show ?thesis using lease_exclusive_and_fenced [OF refl w_lease_stored] by simp
qed

theorem expired_lease_is_taken_over_witness:
  "\<exists>l s'. lease_acquire ''book'' ''c'' 20 5 (foldl lease_step lease_store_init w_leases) = (Inr (Some l), s')
     \<and> ls_fencing_token l = get_default (st_tokens (foldl lease_step lease_store_init w_leases)) ''book'' 0 + 1
     \<and> lease_release w_lease s' = (False, s')"
proof -
  have "\<forall>l. map_of (st_leases (foldl lease_step lease_store_init w_leases)) ''book'' = Some l \<longrightarrow> ls_expires_at_ns l \<le> 20"
    by (simp add: w_lease_stored) (simp add: w_lease_def)
  then show ?thesis
    using expired_lease_is_taken_over [OF refl, where r = "''book''" and ow = "''c''" and now = 20 and ttl = 5 and ops = w_leases]
      w_lease_stored by auto
qed

definition w_events :: "string store_op list" where
  "w_events = [Append 1 1 ''fill'' 10 ''{}'', Append 1 1 ''fill'' 11 ''{}'', WriteSnapshot ''s'' ''p'', Append 2 1 ''fill'' 12 ''{}'']"

theorem events_never_lost_witness:
  "\<exists>new. es_events (foldl (store_step (\<lambda>n. n + 1) id id) (foldl (store_step (\<lambda>n. n + 1) id id) event_store_init w_events)
      [Append 3 1 ''fill'' 13 ''{}'']) = es_events (foldl (store_step (\<lambda>n. n + 1) id id) event_store_init w_events) @ new"
  using events_never_lost [OF _ refl refl, where burn = "\<lambda>n. n + 1" and dumps = id and sha = id and before = w_events
      and later = "[Append 3 1 ''fill'' 13 ''{}'']"] by simp

theorem recovery_verifies_witness:
  "verify_recovery id (foldl (store_step (\<lambda>n. n) id id) event_store_init w_events) = Inr ()"
proof -
  have "es_open (foldl (store_step (\<lambda>n. n) id id) event_store_init w_events)" by code_simp
  then show ?thesis by (rule conjunct2 [OF recovery_verifies [OF refl]])
qed

theorem snapshot_survives_witness:
  "read_snapshot id id ''s'' (foldl (store_step (\<lambda>n. n) id id) (snd (write_snapshot id id ''s'' ''p'' event_store_init))
     [Append 1 1 ''fill'' 10 ''{}'', CloseStore, ReopenStore]) = Inr (''s'', 0, ''p'', ''p'')"
proof -
  let ?s = "snd (write_snapshot id id ''s'' ''p'' event_store_init)"
  have "write_snapshot id id ''s'' ''p'' event_store_init = (Inr (), ?s)" by code_simp
  moreover have "es_open (foldl (store_step (\<lambda>n. n) id id) ?s [Append 1 1 ''fill'' 10 ''{}'', CloseStore, ReopenStore])"
    by code_simp
  ultimately show ?thesis
    using snapshot_survives [OF _ _ _ refl, where dumps = id and loads = id and sha = id and name = "''s''" and p = "''p''"
        and s = event_store_init and burn = "\<lambda>n. n" and ops = "[Append 1 1 ''fill'' 10 ''{}'', CloseStore, ReopenStore]"]
    by (simp add: last_sequence_def event_store_init_def)
qed

theorem checkpoint_roundtrip_witness:
  "checkpoint_load id (\<lambda>_. True) id ''book'' (snd (checkpoint_save id id ''book'' 4 ''{}'' (checkpoint_open [])))
   = Inr \<lparr>cp_name = ''book'', cp_sequence = 4, cp_payload = ''{}'', cp_checksum = ''{}''\<rparr>"
proof -
  let ?cp = "\<lparr>cp_name = ''book'', cp_sequence = 4, cp_payload = ''{}'', cp_checksum = ''{}''\<rparr>"
  have "checkpoint_save id id ''book'' 4 ''{}'' (checkpoint_open [])
      = (Inr ?cp, snd (checkpoint_save id id ''book'' 4 ''{}'' (checkpoint_open [])))" by code_simp
  from checkpoint_roundtrip [OF this, of id "\<lambda>_. True"] show ?thesis by simp
qed

subsection \<open>Custody\<close>

definition w_hmac :: "string \<Rightarrow> string \<Rightarrow> string" where
  "w_hmac k p = k @ p"

definition w_keys :: "(string, string) signer_op list" where
  "w_keys = [RotateKey ''k'', Sign ''k'' ''m'', RotateKey ''k'', RevokeKey ''k'' 2]"

theorem key_versions_wellformed_witness:
  "versions_ok ''k'' (get_default (sg_key_store (foldl (signer_step id w_hmac) \<lparr>sg_key_store = [], sg_secrets = []\<rparr> w_keys)) ''k'' [])
   \<and> length (get_default (sg_key_store (foldl (signer_step id w_hmac) \<lparr>sg_key_store = [], sg_secrets = []\<rparr> w_keys)) ''k'' []) = 2"
proof -
  have "length (get_default (sg_key_store (foldl (signer_step id w_hmac) \<lparr>sg_key_store = [], sg_secrets = []\<rparr> w_keys)) ''k'' []) = 2"
    by code_simp
  then show ?thesis using key_versions_wellformed [OF refl, of "''k''" id w_hmac w_keys] by blast
qed

theorem signatures_stay_valid_witness:
  "fst (signer_verify id w_hmac ''k'' ''m'' ''simulator:k:1m''
     (foldl (signer_step id w_hmac) (snd (signer_sign id w_hmac ''k'' ''m'' \<lparr>sg_key_store = [], sg_secrets = []\<rparr>)) w_keys))"
proof (rule signatures_stay_valid [OF refl, where before = "[]"])
  show "signer_sign id w_hmac ''k'' ''m'' (foldl (signer_step id w_hmac) \<lparr>sg_key_store = [], sg_secrets = []\<rparr> [])
    = (Inr ''simulator:k:1m'', snd (signer_sign id w_hmac ''k'' ''m'' \<lparr>sg_key_store = [], sg_secrets = []\<rparr>))"
    by code_simp
qed

definition w_hsm_calls :: "hsm_op list" where
  "w_hsm_calls = [CreateKey ''k'' ''HMAC-SHA256'' [1, 2] 5 6, RotateHsmKey ''k'' [3, 4] 7 8, SignData ''k'' [9],
     VerifyData ''k'' [9] [1] 10]"

definition w_fp :: "bytes \<Rightarrow> string" where
  "w_fp b = ''fp''"

definition w_mac :: "bytes \<Rightarrow> bytes \<Rightarrow> bytes" where
  "w_mac k d = k @ d"

theorem hsm_books_survive_export_witness:
  "length (hsm_audit (foldl (hsm_step w_fp w_mac) hsm_init w_hsm_calls)) = 3
   \<and> hsm_sequence (import_state (\<lambda>_. [0]) (export_state (foldl (hsm_step w_fp w_mac) hsm_init w_hsm_calls))) = 3"
proof -
  have "length (hsm_audit (foldl (hsm_step w_fp w_mac) hsm_init w_hsm_calls)) = 3" by code_simp
  then show ?thesis
    using hsm_books_survive_export [OF refl refl, of w_fp w_mac w_hsm_calls "\<lambda>_. [0]"] by simp
qed

definition w_provision :: "(int \<times> string \<times> string \<times> bytes) list" where
  "w_provision = [(1, ''a'', ''b'', [1]), (2, ''a'', ''a'', [2]), (3, ''a'', ''c'', [3])]"

theorem dual_control_newest_key_only_witness:
  "map pe_version (sh_audit (foldl (provision_step w_fp) sim_hsm_init w_provision)) = [1, 3]
   \<and> (\<exists>d. sim_sign w_mac 3 [7] (foldl (provision_step w_fp) sim_hsm_init w_provision) = Inr d)
   \<and> sim_sign w_mac 1 [7] (foldl (provision_step w_fp) sim_hsm_init w_provision) = Inl (SimulationError ''key_not_active'')"
proof -
  let ?h = "foldl (provision_step w_fp) sim_hsm_init w_provision"
  have v: "map pe_version (sh_audit ?h) = [1, 3]" by code_simp
  then have "sh_audit ?h \<noteq> []" by auto
  with v have "pe_version (last (sh_audit ?h)) = 3" by (metis last.simps last_map list.distinct(1))
  with v \<open>sh_audit ?h \<noteq> []\<close> show ?thesis
    using spec [OF conjunct2 [OF conjunct2 [OF dual_control_newest_key_only [OF refl, of w_fp w_provision w_mac "[7]"]]], of 3]
      spec [OF conjunct2 [OF conjunct2 [OF dual_control_newest_key_only [OF refl, of w_fp w_provision w_mac "[7]"]]], of 1]
    by auto
qed

end
