(* ===== verification/Py_Json.thy ===== *)
theory Py_Json
  imports Py_Str Py_Float
begin

section \<open>Python values read from JSON\<close>

text \<open>
  What \<open>json.loads\<close> returns, and the operations the operational scripts apply to it without
  checking its type first: truth value, \<open>int(v)\<close>, \<open>str(v)\<close>, \<open>==\<close>, \<open>v.get(k, x)\<close> and
  \<open>v[k]\<close>. Each can be applied to a value of any type, and where Python raises, the result is the
  exception; the text of the interpreter's own messages is replaced by a short tag. A finite float
  is the rational it denotes. Floats, lists and dicts have a textual form that is a parameter
  (\<open>rep\<close>) of \<open>str\<close>. A key of a dict occurs once.
\<close>

datatype jfloat = Fin rat | PosInf | NegInf | NaN

datatype json =
    JNull
  | JBool bool
  | JInt int
  | JFloat jfloat
  | JStr string
  | JArr "json list"
  | JObj "(string \<times> json) list"

subsection \<open>Results\<close>

definition res_bind :: "exn + 'a \<Rightarrow> ('a \<Rightarrow> exn + 'b) \<Rightarrow> exn + 'b" where
  "res_bind r f = (case r of Inl e \<Rightarrow> Inl e | Inr a \<Rightarrow> f a)"

lemma res_bind_simps [simp]: "res_bind (Inl e) f = Inl e" "res_bind (Inr a) f = f a"
  by (simp_all add: res_bind_def)

lemma res_bind_assoc: "res_bind (res_bind r f) g = res_bind r (\<lambda>x. res_bind (f x) g)"
  by (cases r) simp_all

lemma res_bind_eq_Inr: "res_bind r f = Inr b \<longleftrightarrow> (\<exists>a. r = Inr a \<and> f a = Inr b)"
  by (cases r) auto

lemma res_bind_eq_Inl: "res_bind r f = Inl e \<longleftrightarrow> r = Inl e \<or> (\<exists>a. r = Inr a \<and> f a = Inl e)"
  by (cases r) auto

text \<open>A list comprehension whose element expression may raise.\<close>

fun map_res :: "('a \<Rightarrow> exn + 'b) \<Rightarrow> 'a list \<Rightarrow> exn + 'b list" where
  "map_res f [] = Inr []"
| "map_res f (x # xs) = res_bind (f x) (\<lambda>y. res_bind (map_res f xs) (\<lambda>ys. Inr (y # ys)))"

text \<open>A comprehension with a condition that may raise, and \<open>any\<close>, which stops at the first hit.\<close>

fun filter_res :: "('a \<Rightarrow> exn + bool) \<Rightarrow> 'a list \<Rightarrow> exn + 'a list" where
  "filter_res p [] = Inr []"
| "filter_res p (x # xs) =
     res_bind (p x) (\<lambda>b. res_bind (filter_res p xs) (\<lambda>ys. Inr (if b then x # ys else ys)))"

fun any_res :: "('a \<Rightarrow> exn + bool) \<Rightarrow> 'a list \<Rightarrow> exn + bool" where
  "any_res p [] = Inr False"
| "any_res p (x # xs) = res_bind (p x) (\<lambda>b. if b then Inr True else any_res p xs)"

lemma map_res_eq_Inr: "map_res f xs = Inr ys \<longleftrightarrow> list_all2 (\<lambda>x y. f x = Inr y) xs ys"
  by (induction xs arbitrary: ys) (auto simp: res_bind_eq_Inr list_all2_Cons1)

lemma map_res_total: "(\<And>x. x \<in> set xs \<Longrightarrow> f x = Inr (g x)) \<Longrightarrow> map_res f xs = Inr (map g xs)"
  by (induction xs) simp_all

lemma filter_res_total: "(\<And>x. x \<in> set xs \<Longrightarrow> p x = Inr (q x)) \<Longrightarrow> filter_res p xs = Inr (filter q xs)"
  by (induction xs) simp_all

lemma filter_res_eq_Inr:
  "filter_res p xs = Inr ys \<longleftrightarrow> (\<forall>x \<in> set xs. \<exists>b. p x = Inr b) \<and> ys = filter (\<lambda>x. p x = Inr True) xs"
proof (induction xs arbitrary: ys)
  case (Cons x xs)
  then show ?case by (cases "p x") (auto simp: res_bind_eq_Inr)
qed auto

lemma any_res_total: "(\<And>x. x \<in> set xs \<Longrightarrow> p x = Inr (q x)) \<Longrightarrow> any_res p xs = Inr (\<exists>x \<in> set xs. q x)"
  by (induction xs) simp_all

subsection \<open>Truth, numbers, text\<close>

fun truthy :: "json \<Rightarrow> bool" where
  "truthy JNull = False"
| "truthy (JBool b) = b"
| "truthy (JInt n) = (n \<noteq> 0)"
| "truthy (JFloat f) = (f \<noteq> Fin 0)"
| "truthy (JStr s) = (s \<noteq> [])"
| "truthy (JArr xs) = (xs \<noteq> [])"
| "truthy (JObj d) = (d \<noteq> [])"

fun is_dict :: "json \<Rightarrow> bool" where
  "is_dict (JObj d) = True"
| "is_dict _ = False"

fun is_list :: "json \<Rightarrow> bool" where
  "is_list (JArr xs) = True"
| "is_list _ = False"

fun is_str :: "json \<Rightarrow> bool" where
  "is_str (JStr s) = True"
| "is_str _ = False"

text \<open>\<open>isinstance(v, int)\<close>: \<open>bool\<close> is a subclass of \<open>int\<close>. \<open>int_value\<close> is its value then.\<close>

fun int_value :: "json \<Rightarrow> int option" where
  "int_value (JBool b) = Some (of_bool b)"
| "int_value (JInt n) = Some n"
| "int_value _ = None"

fun py_int :: "json \<Rightarrow> exn + int" where
  "py_int (JBool b) = Inr (of_bool b)"
| "py_int (JInt n) = Inr n"
| "py_int (JFloat (Fin q)) = Inr (py_trunc q)"
| "py_int (JFloat NaN) = Inl (ValueError ''cannot convert float NaN to integer'')"
| "py_int (JFloat PosInf) = Inl (OverflowError ''cannot convert float infinity to integer'')"
| "py_int (JFloat NegInf) = Inl (OverflowError ''cannot convert float infinity to integer'')"
| "py_int (JStr s) =
     (case int_of_str s of Some n \<Rightarrow> Inr n | None \<Rightarrow> Inl (ValueError ''invalid literal for int()''))"
| "py_int _ = Inl (TypeError ''int() argument'')"

fun py_str :: "(json \<Rightarrow> string) \<Rightarrow> json \<Rightarrow> string" where
  "py_str rep JNull = ''None''"
| "py_str rep (JBool b) = (if b then ''True'' else ''False'')"
| "py_str rep (JInt n) = str_of_int n"
| "py_str rep (JStr s) = s"
| "py_str rep v = rep v"

subsection \<open>Equality\<close>

text \<open>
  Numbers of different types compare by value. Inside a container Python compares identity before
  equality, and the decoder uses one \<open>NaN\<close> object, so \<open>NaN\<close> equals itself there but not by itself.
\<close>

fun num_value :: "json \<Rightarrow> jfloat option" where
  "num_value (JBool b) = Some (Fin (of_bool b))"
| "num_value (JInt n) = Some (Fin (of_int n))"
| "num_value (JFloat f) = Some f"
| "num_value _ = None"

fun json_same :: "json \<Rightarrow> json \<Rightarrow> bool"
  and same_list :: "json list \<Rightarrow> json list \<Rightarrow> bool"
  and same_dict :: "(string \<times> json) list \<Rightarrow> (string \<times> json) list \<Rightarrow> bool" where
  "json_same JNull w = (w = JNull)"
| "json_same (JBool b) w = (num_value w = Some (Fin (of_bool b)))"
| "json_same (JInt n) w = (num_value w = Some (Fin (of_int n)))"
| "json_same (JFloat f) w = (num_value w = Some f)"
| "json_same (JStr s) w = (w = JStr s)"
| "json_same (JArr xs) w = (case w of JArr ys \<Rightarrow> same_list xs ys | _ \<Rightarrow> False)"
| "json_same (JObj d) w = (case w of JObj e \<Rightarrow> length d = length e \<and> same_dict d e | _ \<Rightarrow> False)"
| "same_list [] ys = (ys = [])"
| "same_list (x # xs) ys = (case ys of [] \<Rightarrow> False | y # ys' \<Rightarrow> json_same x y \<and> same_list xs ys')"
| "same_dict [] e = True"
| "same_dict (kv # d) e = (case map_of e (fst kv) of None \<Rightarrow> False | Some w \<Rightarrow> json_same (snd kv) w \<and> same_dict d e)"

definition json_eq :: "json \<Rightarrow> json \<Rightarrow> bool" where
  "json_eq v w \<longleftrightarrow> json_same v w \<and> v \<noteq> JFloat NaN"

lemma json_eq_JStr [simp]: "json_eq v (JStr s) \<longleftrightarrow> v = JStr s"
  by (cases v) (auto simp: json_eq_def)

lemma json_eq_JInt: "json_eq v (JInt n) \<longleftrightarrow> num_value v = Some (Fin (of_int n))"
  by (cases v) (auto simp: json_eq_def)

subsection \<open>Access\<close>

text \<open>\<open>v.get(k, x)\<close> and \<open>v[k]\<close> for a string \<open>k\<close>: only a dict supports them.\<close>

definition jget :: "json \<Rightarrow> string \<Rightarrow> json \<Rightarrow> exn + json" where
  "jget v k x = (case v of JObj d \<Rightarrow> Inr (get_default d k x) | _ \<Rightarrow> Inl (AttributeError ''get''))"

definition jitem :: "json \<Rightarrow> string \<Rightarrow> exn + json" where
  "jitem v k =
     (case v of
        JObj d \<Rightarrow> (case map_of d k of Some w \<Rightarrow> Inr w | None \<Rightarrow> Inl (KeyError k))
      | _ \<Rightarrow> Inl (TypeError ''subscript''))"

lemma jget_JObj [simp]: "jget (JObj d) k x = Inr (get_default d k x)"
  by (simp add: jget_def)

lemma jget_eq_Inr: "jget v k x = Inr w \<longleftrightarrow> (\<exists>d. v = JObj d \<and> w = get_default d k x)"
  by (cases v) (auto simp: jget_def)

definition jget_int :: "json \<Rightarrow> string \<Rightarrow> int \<Rightarrow> exn + int" where
  "jget_int v k n = res_bind (jget v k (JInt n)) py_int"

definition jitem_int :: "json \<Rightarrow> string \<Rightarrow> exn + int" where
  "jitem_int v k = res_bind (jitem v k) py_int"

lemma jitem_eq_Inr: "jitem v k = Inr w \<longleftrightarrow> (\<exists>d. v = JObj d \<and> map_of d k = Some w)"
  by (cases v) (auto simp: jitem_def split: option.splits)

lemma jitem_int_dict: "jitem_int v k = Inr n \<Longrightarrow> is_dict v"
  by (auto simp: jitem_int_def res_bind_eq_Inr jitem_eq_Inr)

text \<open>
  \<open>v[k]\<close> for a key of any type. A dict with string keys has no other key, and a list or dict cannot be
  a key; a list and a string take an index, from the end when it is negative.
\<close>

definition list_item :: "'a list \<Rightarrow> int \<Rightarrow> exn + 'a" where
  "list_item xs n =
     (let i = if n < 0 then n + int (length xs) else n
      in if 0 \<le> i \<and> i < int (length xs) then Inr (xs ! nat i) else Inl (IndexError ''index out of range''))"

definition jindex :: "json \<Rightarrow> json \<Rightarrow> exn + json" where
  "jindex v k =
     (case v of
        JObj d \<Rightarrow>
          (case k of
             JStr s \<Rightarrow> jitem v s
           | JArr _ \<Rightarrow> Inl (TypeError ''unhashable type'')
           | JObj _ \<Rightarrow> Inl (TypeError ''unhashable type'')
           | _ \<Rightarrow> Inl (KeyError ''key''))
      | JArr xs \<Rightarrow>
          (case int_value k of Some n \<Rightarrow> list_item xs n | None \<Rightarrow> Inl (TypeError ''subscript''))
      | JStr s \<Rightarrow>
          (case int_value k of
             Some n \<Rightarrow> map_sum id (\<lambda>c. JStr [c]) (list_item s n) | None \<Rightarrow> Inl (TypeError ''subscript''))
      | _ \<Rightarrow> Inl (TypeError ''subscript''))"

lemma jindex_JObj_JStr [simp]: "jindex (JObj d) (JStr s) = jitem (JObj d) s"
  by (simp add: jindex_def)

subsection \<open>Iteration and membership\<close>

text \<open>\<open>for x in v\<close>: the items of a list, the keys of a dict, the characters of a string.\<close>

fun iter_items :: "json \<Rightarrow> exn + json list" where
  "iter_items (JArr xs) = Inr xs"
| "iter_items (JObj d) = Inr (map (\<lambda>kv. JStr (fst kv)) d)"
| "iter_items (JStr s) = Inr (map (\<lambda>c. JStr [c]) s)"
| "iter_items _ = Inl (TypeError ''not iterable'')"

text \<open>\<open>v in names\<close> for a set of strings: a list or dict cannot be hashed.\<close>

definition in_names :: "json \<Rightarrow> string list \<Rightarrow> exn + bool" where
  "in_names v names =
     (if is_list v \<or> is_dict v then Inl (TypeError ''unhashable type'')
      else Inr (\<exists>s \<in> set names. v = JStr s))"

subsection \<open>Text\<close>

text \<open>\<open>sep.join(rows)\<close> and the encoding of a text as UTF-8.\<close>

fun py_join :: "string \<Rightarrow> string list \<Rightarrow> string" where
  "py_join sep [] = []"
| "py_join sep [r] = r"
| "py_join sep (r # q # rs) = r @ sep @ py_join sep (q # rs)"

definition utf8_size :: "string \<Rightarrow> nat" where
  "utf8_size s = sum_list (map (\<lambda>c. if (of_char c :: nat) < 128 then 1 else 2) s)"

abbreviation newline :: string where
  "newline \<equiv> [CHR 0x0A]"

lemma py_join_Cons: "rs \<noteq> [] \<Longrightarrow> py_join sep (r # rs) = r @ sep @ py_join sep rs"
  by (cases rs) simp_all

lemma split_join_lines:
  assumes "rows \<noteq> []" and "\<forall>r \<in> set rows. CHR 0x0A \<notin> set r"
  shows "split_on (CHR 0x0A) (py_join newline rows) = rows"
  using assms by (induction rows rule: list_nonempty_induct) (simp_all add: py_join_Cons split_on_no_sep split_on_append)

end
