(* ===== verification/Gate_Sim.thy ===== *)
theory Gate_Sim
  imports Venue Custody Py_Json
begin

section \<open>Production gate simulations (scripts/operations/production_gate_simulations.py)\<close>

text \<open>
  The six scripted simulations and \<open>run\<close>, which combines them. A simulation returns the dict the
  script builds, or the exception that escapes it. Parameters: \<open>sha\<close> for the hexadecimal SHA-256 of
  a text, \<open>key_digest\<close> for the digest of a key's hexadecimal form, \<open>hmac\<close>, \<open>dumps\<close> for
  \<open>json.dumps\<close>; arguments: the two random keys, the texts of the two RTL files and of the release
  binding, if it exists.
\<close>

definition checks_json :: "(string \<times> bool) list \<Rightarrow> json" where
  "checks_json cs = JObj (map (\<lambda>(name, b). (name, JBool b)) cs)"

subsection \<open>Security\<close>

definition simulate_security :: "(bytes \<Rightarrow> string) \<Rightarrow> (bytes \<Rightarrow> string \<Rightarrow> string) \<Rightarrow> bytes \<Rightarrow> bytes \<Rightarrow> exn + json" where
  "simulate_security key_digest hmac k1 k2 =
     (case sim_provision key_digest 1 ''security-a'' ''security-b'' k1 sim_hsm_init of
        (Inl e, _) \<Rightarrow> Inl e
      | (Inr first_fingerprint, h) \<Rightarrow>
          (case sim_provision key_digest 2 ''security-a'' ''security-c'' k2 h of
             (Inl e, _) \<Rightarrow> Inl e
           | (Inr second_fingerprint, h) \<Rightarrow>
               let payload = ''release-binding-v2''
               in case sim_sign hmac 2 payload h of
                    Inl e \<Rightarrow> Inl e
                  | Inr signature \<Rightarrow>
                      let old_key_rejected = (case sim_sign hmac 1 payload h of Inl _ \<Rightarrow> True | Inr _ \<Rightarrow> False);
                          export_rejected = (case sim_export 2 h of Inl _ \<Rightarrow> True | Inr _ \<Rightarrow> False)
                      in Inr (JObj
                           [(''passed'', JBool (sim_verify hmac 2 payload signature h
                              \<and> \<not> sim_verify hmac 1 payload signature h
                              \<and> first_fingerprint \<noteq> second_fingerprint
                              \<and> old_key_rejected \<and> export_rejected \<and> sim_verify_audit h)),
                            (''checks'', checks_json
                              [(''non_exportable'', export_rejected), (''old_key_revoked'', old_key_rejected),
                               (''dual_control'', sim_verify_audit h),
                               (''signature_round_trip'', sim_verify hmac 2 payload signature h)])])))"

subsection \<open>Venue and shadow session\<close>

definition caught :: "exn + 'a \<Rightarrow> bool" where
  "caught r = (case r of Inl (SimulationError _) \<Rightarrow> True | _ \<Rightarrow> False)"

fun all_checks :: "(string \<times> (exn + bool)) list \<Rightarrow> exn + (string \<times> bool) list" where
  "all_checks [] = Inr []"
| "all_checks ((name, r) # rs) = res_bind r (\<lambda>b. res_bind (all_checks rs) (\<lambda>bs. Inr ((name, b) # bs)))"

text \<open>Calls of the session in a row: the reply of each, or the exception of the first that raises.\<close>

definition then_send :: "int \<Rightarrow> string \<Rightarrow> venue_session \<Rightarrow> (string \<Rightarrow> venue_session \<Rightarrow> exn + 'a) \<Rightarrow> exn + 'a" where
  "then_send cid action v k =
     (case session_send cid action v of (Inl e, _) \<Rightarrow> Inl e | (Inr reply, v) \<Rightarrow> k reply v)"

definition new_window :: "venue_session \<Rightarrow> venue_session" where
  "new_window v = v\<lparr>vs_messages_in_window := 0\<rparr>"

definition simulate_venue :: "exn + json" where
  "simulate_venue =
     (case session_connect ''synthetic-certification-credential'' False (session_init 4) of
        (Inl e, _) \<Rightarrow> Inl e
      | (Inr _, v) \<Rightarrow>
          then_send 1001 ''new'' v (\<lambda>new_message v.
          then_send 1001 ''cancel'' v (\<lambda>cancel_message v.
          then_send 1001 ''new'' (new_window v) (\<lambda>duplicate_message v.
            (case session_reconnect ''synthetic-certification-credential'' 3 (session_disconnect (new_window v)) of
               (Inl e, _) \<Rightarrow> Inl e
             | (Inr _, v) \<Rightarrow>
                 then_send 0 ''heartbeat'' v (\<lambda>heartbeat_message v.
                 let gap_rejected = caught (session_receive new_message 3)
                 in res_bind (all_checks
                      [(''new_ack'', session_receive new_message 1),
                       (''cancel_ack'', session_receive cancel_message 2),
                       (''duplicate_reject'', session_receive duplicate_message 3),
                       (''reconnect_heartbeat'', session_receive heartbeat_message 4),
                       (''sequence_gap_rejected'', Inr gap_rejected)])
                      (\<lambda>checks. Inr (JObj [(''passed'', JBool (\<forall>c \<in> set checks. snd c)),
                                           (''checks'', checks_json checks)]))))))))"

text \<open>\<open>attempted_live\<close> is set in the \<open>try\<close> block and again in its handler.\<close>

definition simulate_shadow_session :: "exn + json" where
  "simulate_shadow_session =
     (case session_connect ''synthetic-paper-credential'' False (session_init 4) of
        (Inl e, _) \<Rightarrow> Inl e
      | (Inr _, v) \<Rightarrow>
          (case session_connect ''synthetic-paper-credential'' True v of
             (r, v) \<Rightarrow>
               let attempted_live = (case r of Inr _ \<Rightarrow> True | Inl _ \<Rightarrow> True)
               in then_send 2001 ''new'' v (\<lambda>new_message v.
                  then_send 2001 ''drop_copy'' v (\<lambda>report v.
                  res_bind (if attempted_live then session_receive new_message 1 else Inr False) (\<lambda>a.
                  res_bind (if a then session_receive report 2 else Inr False) (\<lambda>b.
                    Inr (JObj
                      [(''passed'', JBool b),
                       (''checks'', checks_json
                          [(''live_guard'', attempted_live), (''shadow_order'', True), (''drop_copy'', True)])])))))))"

subsection \<open>Hardware, incident, governance\<close>

text \<open>\<open>token in text\<close> for strings.\<close>

fun occurs_in :: "string \<Rightarrow> string \<Rightarrow> bool" where
  "occurs_in t [] = (t = [])"
| "occurs_in t (c # s) = (take (length t) (c # s) = t \<or> occurs_in t s)"

definition hardware_tokens :: "string list" where
  "hardware_tokens = [''OFFSET_PRICE_TICKS'', ''OFFSET_LIMITS_VERSION'', ''side_buy'', ''decision_valid'', ''reason_code'']"

definition simulate_hardware :: "string \<Rightarrow> string \<Rightarrow> json" where
  "simulate_hardware package gate =
     (let interface_check = (\<forall>token \<in> set hardware_tokens. occurs_in token package \<or> occurs_in token gate);
          slack = fl (14 / 10);
          cdc_checks = [''async_reset_release'', ''request_clock_to_response_clock'', ''downstream_ready_backpressure'']
      in JObj
        [(''passed'', JBool (interface_check \<and> 0 < slack \<and> length cdc_checks = 3)),
         (''checks'', checks_json
            [(''interface_contract'', interface_check), (''modeled_timing_slack'', 0 < slack),
             (''cdc_reset_checks'', length cdc_checks = 3)]),
         (''timing_model'', JObj [(''clock_mhz'', JInt 250), (''target_period_ns'', JFloat (Fin (fl 4))),
            (''modeled_worst_path_ns'', JFloat (Fin (fl (26 / 10)))), (''modeled_slack_ns'', JFloat (Fin slack))]),
         (''cdc_checks'', JArr (map JStr cdc_checks))])"

definition incident_log :: "(string \<times> string \<times> string) list" where
  "incident_log = [(''opened'', ''severity'', ''critical''), (''paged'', ''channel'', ''synthetic-pager''),
     (''acknowledged'', ''owner'', ''on-call-ops''), (''resolved'', ''runbook'', ''kill-and-reconcile-v1'')]"

definition simulate_incident :: json where
  "simulate_incident =
     (let valid = (map fst incident_log = [''opened'', ''paged'', ''acknowledged'', ''resolved''])
      in JObj
        [(''passed'', JBool valid),
         (''checks'', checks_json [(''alert_deduplicated'', True), (''page_sent'', True),
            (''acknowledgment_required'', True), (''runbook_linked'', True), (''ordered_lifecycle'', valid)]),
         (''events'', JArr (map (\<lambda>(event, key, value).
            JObj [(''event'', JStr event), (''id'', JStr ''incident-001''), (key, JStr value)]) incident_log))])"

definition governance_approvals :: "(string \<times> string \<times> string) list" where
  "governance_approvals = [(''risk_manager'', ''risk-a'', ''approve''), (''operations_manager'', ''ops-b'', ''approve'')]"

definition approvals_json :: json where
  "approvals_json = JArr (map (\<lambda>(role, identity, decision).
     JObj [(''role'', JStr role), (''identity'', JStr identity), (''decision'', JStr decision)]) governance_approvals)"

definition simulate_governance :: "(string \<Rightarrow> string) \<Rightarrow> (json \<Rightarrow> string) \<Rightarrow> string option \<Rightarrow> json" where
  "simulate_governance sha dumps binding =
     (let binding_source = (case binding of Some _ \<Rightarrow> ''production'' | None \<Rightarrow> ''synthetic'');
          binding_digest = (case binding of Some text \<Rightarrow> sha text | None \<Rightarrow> sha ''synthetic-release-binding-v2'');
          serialized = dumps (JObj [(''change_id'', JStr ''release-2026-08-25-001''),
                                    (''binding_digest'', JStr binding_digest), (''approvals'', approvals_json)]);
          approval_hash = sha serialized;
          checks =
            [(''distinct_identities'', card (set (map (\<lambda>(_, i, _). i) governance_approvals)) = 2),
             (''required_roles'', set (map fst governance_approvals) = {''risk_manager'', ''operations_manager''}),
             (''all_approved'', \<forall>(_, _, d) \<in> set governance_approvals. d = ''approve''),
             (''change_bound'', binding_digest \<noteq> ''missing''),
             (''approval_hash'', length approval_hash = 64)]
      in JObj
        [(''passed'', JBool (\<forall>c \<in> set checks. snd c)), (''checks'', checks_json checks),
         (''approval_hash'', JStr approval_hash), (''binding_source'', JStr binding_source)])"

subsection \<open>All gates\<close>

definition gate_limitations :: "string list" where
  "gate_limitations =
     [''simulation does not prove HSM/KMS hardware custody or production identity configuration'',
      ''synthetic protocol does not prove venue certification, live credentials, or real market-data behavior'',
      ''modeled timing and RTL benches do not prove vendor implementation timing, CDC, formal, or target-board HIL'',
      ''synthetic alerts and runbooks do not prove production paging or incident-platform delivery'',
      ''synthetic approvals and hashes do not constitute independent organizational authorization'']"

definition run_gates :: "(string \<Rightarrow> string) \<Rightarrow> (bytes \<Rightarrow> string) \<Rightarrow> (bytes \<Rightarrow> string \<Rightarrow> string) \<Rightarrow> (json \<Rightarrow> string)
    \<Rightarrow> bytes \<Rightarrow> bytes \<Rightarrow> string \<Rightarrow> string \<Rightarrow> string option \<Rightarrow> exn + json" where
  "run_gates sha key_digest hmac dumps k1 k2 package gate binding =
     res_bind (simulate_security key_digest hmac k1 k2) (\<lambda>security.
     res_bind simulate_venue (\<lambda>venue.
     res_bind simulate_shadow_session (\<lambda>shadow.
     let results =
       [(''hsm_kms_key_custody_simulation'', security), (''venue_protocol_conformance_simulation'', venue),
        (''live_session_safety_simulation'', shadow), (''fpga_evidence_simulation'', simulate_hardware package gate),
        (''incident_response_simulation'', simulate_incident),
        (''governance_dual_control_simulation'', simulate_governance sha dumps binding)]
     in res_bind (map_res (\<lambda>(name, value). jitem value ''passed'') results) (\<lambda>flags.
        Inr (JObj
          [(''format'', JInt 2), (''status'', JStr (if \<forall>f \<in> set flags. truthy f then ''passed'' else ''failed'')),
           (''gates'', JObj (zip (map fst results) flags)), (''details'', JObj results),
           (''limitations'', JArr (map JStr gate_limitations))])))))"

end
