(* ===== verification/Gate_Sim_Props.thy ===== *)
theory Gate_Sim_Props
  imports Gate_Sim
begin

section \<open>What the production gates decide\<close>

text \<open>
  The security gate depends on the two drawn keys only, the hardware gate on the two RTL texts; the
  venue, shadow, incident and governance gates always pass.
\<close>

lemma simulate_security_result:
  "simulate_security key_digest hmac k1 k2 =
     Inr (JObj [(''passed'', JBool (key_digest k1 \<noteq> key_digest k2)),
       (''checks'', checks_json [(''non_exportable'', True), (''old_key_revoked'', True), (''dual_control'', True),
          (''signature_round_trip'', True)])])"
  by (auto simp: simulate_security_def sim_provision_def sim_hsm_init_def sim_sign_def sim_verify_def sim_export_def
      sim_verify_audit_def Let_def)

lemma simulate_venue_result:
  "simulate_venue = Inr (JObj [(''passed'', JBool True), (''checks'', checks_json [(''new_ack'', True), (''cancel_ack'', True),
      (''duplicate_reject'', True), (''reconnect_heartbeat'', True), (''sequence_gap_rejected'', True)])])"
  by code_simp

lemma simulate_shadow_session_result:
  "simulate_shadow_session = Inr (JObj [(''passed'', JBool True), (''checks'', checks_json [(''live_guard'', True),
      (''shadow_order'', True), (''drop_copy'', True)])])"
  by code_simp

lemma slack_positive: "0 < fl (7 / 5)"
  by code_simp

lemma simulate_hardware_passed:
  "jitem (simulate_hardware package gate) ''passed'' =
     Inr (JBool (\<forall>token \<in> set hardware_tokens. occurs_in token package \<or> occurs_in token gate))"
  unfolding simulate_hardware_def by (simp add: jitem_def Let_def slack_positive del: occurs_in.simps)

lemma simulate_incident_passed: "jitem simulate_incident ''passed'' = Inr (JBool True)"
  by code_simp

lemma simulate_governance_passed:
  assumes "\<And>t. length (sha t) = 64"
  shows "jitem (simulate_governance sha dumps binding) ''passed'' = Inr (JBool True)"
proof -
  have "sha t \<noteq> ''missing''" for t using assms [of t] by auto
  then show ?thesis
    by (auto simp: simulate_governance_def jitem_def Let_def governance_approvals_def assms split: option.split)
qed

text \<open>
  What the production gates decide: the six simulations never raise, and with a digest of 64
  characters the overall status is \<open>passed\<close> exactly when the two drawn keys have different
  fingerprints and each of the five interface names occurs in one of the two RTL sources; nothing
  else can fail it.
\<close>

theorem gates_pass_iff:
  assumes "\<And>t. length (sha t) = 64"
  shows "\<exists>r. run_gates sha key_digest hmac dumps k1 k2 package gate binding = Inr r
     \<and> jitem r ''status'' = Inr (JStr (if key_digest k1 \<noteq> key_digest k2
          \<and> (\<forall>token \<in> set hardware_tokens. occurs_in token package \<or> occurs_in token gate)
        then ''passed'' else ''failed''))"
proof -
  note parts = simulate_security_result simulate_venue_result simulate_shadow_session_result
    simulate_hardware_passed simulate_incident_passed simulate_governance_passed [of sha, OF assms]
  have passed: "jitem (JObj ((''passed'', b) # d)) ''passed'' = Inr b" for b d by (simp add: jitem_def)
  show ?thesis
    unfolding run_gates_def parts(1-3) res_bind_simps Let_def
    by (simp only: map_res.simps prod.case parts passed res_bind_simps)
      (simp add: jitem_def)
qed
end
