(* ===== verification/Reconcile.thy ===== *)
theory Reconcile
  imports Py_Json
begin

section \<open>Reconciliation, failover drill and journal replay\<close>

text \<open>
  \<open>python/reconciliation/reconcile.py\<close>, \<open>python/operations/failover_drill.py\<close> and
  \<open>python/replay/replay.py\<close>. The records are JSON values of any shape: a record without a usable
  id is a finding, but a quantity or price that is not a number raises out of \<open>compare\<close>.
  Parameters: \<open>loads\<close> for \<open>json.loads\<close> and \<open>rep\<close> for the text of floats and containers.
\<close>

subsection \<open>Order reconciliation\<close>

definition finding :: "json \<Rightarrow> string \<Rightarrow> string \<Rightarrow> json" where
  "finding cid state detail =
     JObj [(''client_order_id'', cid), (''state'', JStr state), (''detail'', JStr detail)]"

text \<open>The exceptions \<open>_index\<close> catches.\<close>

fun key_type_or_value_error :: "exn \<Rightarrow> bool" where
  "key_type_or_value_error (KeyError m) = True"
| "key_type_or_value_error (TypeError m) = True"
| "key_type_or_value_error (ValueError m) = True"
| "key_type_or_value_error (JSONDecodeError m) = True"
| "key_type_or_value_error _ = False"

fun index_loop :: "string \<Rightarrow> json list \<Rightarrow> (int, json) dict \<Rightarrow> json list
    \<Rightarrow> exn + (int, json) dict \<times> json list" where
  "index_loop source [] indexed findings = Inr (indexed, findings)"
| "index_loop source (record # records) indexed findings =
     (case jitem_int record ''client_order_id'' of
        Inl e \<Rightarrow>
          if key_type_or_value_error e
          then index_loop source records indexed
                 (findings @ [finding JNull ''invalid_record'' (source @ ''_client_order_id_invalid'')])
          else Inl e
      | Inr cid \<Rightarrow>
          if cid \<le> 0
          then index_loop source records indexed
                 (findings @ [finding (JInt cid) ''invalid_record'' (source @ ''_client_order_id_non_positive'')])
          else if has_key indexed cid
          then index_loop source records indexed
                 (findings @ [finding (JInt cid) ''duplicate_record'' (''duplicate_'' @ source @ ''_client_order_id'')])
          else index_loop source records (AList.update cid record indexed) findings)"

definition index_records :: "json list \<Rightarrow> string \<Rightarrow> exn + (int, json) dict \<times> json list" where
  "index_records records source = index_loop source records [] []"

definition classify :: "json \<Rightarrow> json option \<Rightarrow> exn + string \<times> string" where
  "classify order report =
     (case report of
        None \<Rightarrow> Inr (''missing_venue'', ''venue_report_missing'')
      | Some report \<Rightarrow>
          res_bind (jget_int report ''executed_quantity'' 0) (\<lambda>venue_quantity.
          res_bind (jget_int order ''executed_quantity'' 0) (\<lambda>local_quantity.
            if venue_quantity < local_quantity then Inr (''quantity_mismatch'', ''venue_quantity_below_local'')
            else
              res_bind (jget_int order ''average_price_ticks'' 0) (\<lambda>local_price.
                if local_price = 0 then Inr (''matched'', ''matched'')
                else
                  res_bind (jget_int report ''average_price_ticks'' 0) (\<lambda>venue_price.
                    if venue_price \<noteq> local_price then Inr (''price_mismatch'', ''average_price_differs'')
                    else Inr (''matched'', ''matched''))))))"

definition local_finding :: "(int, json) dict \<Rightarrow> (int, json) dict \<Rightarrow> int \<Rightarrow> exn + json" where
  "local_finding local_by_id venue_by_id cid =
     (case map_of local_by_id cid of
        None \<Rightarrow> Inl (KeyError (str_of_int cid))
      | Some order \<Rightarrow>
          res_bind (classify order (map_of venue_by_id cid)) (\<lambda>(state, detail).
            Inr (finding (JInt cid) state detail)))"

definition missing_local :: "(int, json) dict \<Rightarrow> int list \<Rightarrow> json list" where
  "missing_local local_by_id cids =
     map (\<lambda>cid. finding (JInt cid) ''missing_local'' ''local_order_missing'')
       (filter (\<lambda>cid. \<not> has_key local_by_id cid) cids)"

definition compare :: "json list \<Rightarrow> json list \<Rightarrow> exn + json list" where
  "compare local venue =
     res_bind (index_records local ''local'') (\<lambda>(local_by_id, local_findings).
     res_bind (index_records venue ''venue'') (\<lambda>(venue_by_id, venue_findings).
     res_bind (map_res (local_finding local_by_id venue_by_id) (sort (map fst local_by_id))) (\<lambda>found.
       Inr (local_findings @ venue_findings @ found
            @ missing_local local_by_id (sort (map fst venue_by_id))))))"

text \<open>The result the script prints: the findings, and whether one of them is not \<open>matched\<close>.\<close>

definition reconcile_result :: "json list \<Rightarrow> json list \<Rightarrow> exn + json" where
  "reconcile_result local venue =
     res_bind (compare local venue) (\<lambda>findings.
     res_bind (any_res (\<lambda>item. res_bind (jitem item ''state'') (\<lambda>s. Inr (\<not> json_eq s (JStr ''matched'')))) findings)
       (\<lambda>ambiguous. Inr (JObj [(''findings'', JArr findings), (''ambiguous'', JBool ambiguous)])))"

subsection \<open>Failover drill\<close>

definition drill :: "(json \<Rightarrow> string) \<Rightarrow> json \<Rightarrow> json list \<Rightarrow> exn + json" where
  "drill rep lease findings =
     res_bind (jget lease ''owner_id'' (JStr [])) (\<lambda>owner_value.
     res_bind (jget_int lease ''epoch'' 0) (\<lambda>epoch.
     res_bind (jget_int lease ''expires_at_ns'' 0) (\<lambda>expires.
     res_bind (jget_int lease ''now_ns'' 0) (\<lambda>now.
     res_bind (any_res (\<lambda>item. res_bind (jget item ''state'' JNull) (\<lambda>s. Inr (\<not> json_eq s (JStr ''matched'')))) findings)
       (\<lambda>ambiguous.
       let owner = py_str rep owner_value; expired = (expires \<le> now);
           promoted = (owner \<noteq> [] \<and> epoch > 0 \<and> \<not> expired \<and> \<not> ambiguous)
       in Inr (JObj
            [(''previous_owner'', JStr owner), (''previous_epoch'', JInt epoch),
             (''expired'', JBool expired), (''ambiguous'', JBool ambiguous), (''promoted'', JBool promoted),
             (''action'', JStr (if promoted then ''promote_standby'' else ''hold_and_escalate''))]))))))"

subsection \<open>Journal replay\<close>

record replay_event =
  event_id :: int
  event_sequence :: int
  event_type :: string
  correlation_id :: int
  event_payload :: string

text \<open>\<open>str.splitlines\<close>: the line boundaries below 256; a carriage return takes a line feed with it.\<close>

definition is_line_break :: "char \<Rightarrow> bool" where
  "is_line_break c \<longleftrightarrow> of_char c \<in> {10, 11, 12, 13, 28, 29, 30, 133 :: int}"

fun py_splitlines :: "string \<Rightarrow> string list" where
  "py_splitlines [] = []"
| "py_splitlines (c # s) =
     (if c = CHR 0x0D \<and> s \<noteq> [] \<and> hd s = CHR 0x0A then [] # py_splitlines (tl s)
      else if is_line_break c then [] # py_splitlines s
      else (case py_splitlines s of [] \<Rightarrow> [[c]]
            | w # ws \<Rightarrow> (c # w) # ws))"

definition load_event :: "(json \<Rightarrow> string) \<Rightarrow> json \<Rightarrow> exn + replay_event" where
  "load_event rep raw =
     res_bind (jitem_int raw ''event_id'') (\<lambda>i.
     res_bind (jitem_int raw ''sequence'') (\<lambda>n.
     res_bind (jitem raw ''event_type'') (\<lambda>t.
     res_bind (jitem_int raw ''correlation_id'') (\<lambda>c.
     res_bind (jitem raw ''payload'') (\<lambda>p.
       Inr \<lparr>event_id = i, event_sequence = n, event_type = py_str rep t, correlation_id = c,
            event_payload = py_str rep p\<rparr>)))))"

definition load_events :: "(json \<Rightarrow> string) \<Rightarrow> (string \<Rightarrow> exn + json) \<Rightarrow> string \<Rightarrow> exn + replay_event list" where
  "load_events rep loads text =
     map_res (\<lambda>line. res_bind (loads line) (load_event rep))
       (filter (\<lambda>line. py_strip line \<noteq> []) (py_splitlines text))"

fun validate_loop :: "int \<Rightarrow> int list \<Rightarrow> replay_event list \<Rightarrow> string list" where
  "validate_loop expected event_ids [] = []"
| "validate_loop expected event_ids (e # es) =
     (if event_id e \<le> 0 \<or> correlation_id e < 0
      then [''identifier_invalid:'' @ str_of_int (event_id e) @ '':'' @ str_of_int (correlation_id e)] else [])
     @ (if event_id e \<in> set event_ids then [''duplicate_event_id:'' @ str_of_int (event_id e)] else [])
     @ (if event_sequence e \<noteq> expected
        then [''sequence_gap:'' @ str_of_int expected @ '':'' @ str_of_int (event_sequence e)] else [])
     @ validate_loop (if expected \<le> event_sequence e then event_sequence e + 1 else expected)
         (event_id e # event_ids) es"

definition validate :: "replay_event list \<Rightarrow> string list" where
  "validate events = validate_loop 1 [] events"

text \<open>The result the script prints and its exit status.\<close>

definition replay_result :: "replay_event list \<Rightarrow> json \<times> int" where
  "replay_result events =
     (let failures = validate events
      in (JObj [(''events'', JInt (int (length events))), (''valid'', JBool (failures = [])),
                (''failures'', JArr (map JStr failures))],
          if failures = [] then 0 else 1))"

end
