(* ===== verification/Reconcile_Props.thy ===== *)
theory Reconcile_Props
  imports Reconcile
begin

section \<open>Correctness of reconciliation, failover drill and replay\<close>

text \<open>
  \<open>compare\<close> is related to a declarative statement of what reconciled means; the failover drill
  promotes only in that state; and the replay validator accepts exactly the well-formed journals.
\<close>

subsection \<open>The index of a list of records\<close>


definition order_id :: "json \<Rightarrow> int option" where
  "order_id r = (case jitem_int r ''client_order_id'' of Inl _ \<Rightarrow> None | Inr n \<Rightarrow> if 0 < n then Some n else None)"

definition is_matched :: "json \<Rightarrow> bool" where
  "is_matched f \<longleftrightarrow> jget f ''state'' JNull = Inr (JStr ''matched'')"

lemma is_matched_finding [simp]: "is_matched (finding c s d) \<longleftrightarrow> s = ''matched''"
  by (simp add: is_matched_def finding_def get_default_def)

definition unmatched_finding :: "json \<Rightarrow> bool" where
  "unmatched_finding f \<longleftrightarrow> (\<exists>c s d. f = finding c s d \<and> s \<noteq> ''matched'')"

lemma unmatched_finding_simps [simp]:
  "unmatched_finding (finding c s d) \<longleftrightarrow> s \<noteq> ''matched''"
  "unmatched_finding f \<Longrightarrow> \<not> is_matched f"
proof -
  show "unmatched_finding (finding c s d) \<longleftrightarrow> s \<noteq> ''matched''" by (auto simp: unmatched_finding_def finding_def)
  show "unmatched_finding f \<Longrightarrow> \<not> is_matched f" by (auto simp: unmatched_finding_def)
qed

text \<open>What \<open>_index\<close> does with one record: it is indexed, or it leaves a finding, or it raises.\<close>

lemma index_loop_Cons_cases:
  assumes "index_loop src (r # rs) d fs = Inr (d', fs')"
  obtains (indexed) cid where "order_id r = Some cid" "\<not> has_key d cid" "0 < cid"
      "index_loop src rs (AList.update cid r d) fs = Inr (d', fs')"
  | (duplicate) f cid where "unmatched_finding f" "order_id r = Some cid" "has_key d cid"
      "index_loop src rs d (fs @ [f]) = Inr (d', fs')"
  | (invalid) f where "unmatched_finding f" "order_id r = None"
      "index_loop src rs d (fs @ [f]) = Inr (d', fs')"
proof (cases "jitem_int r ''client_order_id''")
  case (Inl e)
  then show thesis using assms by (intro invalid) (auto simp: order_id_def split: if_splits)
next
  case (Inr cid)
  show thesis
  proof (cases "0 < cid")
    case False
    then show thesis using assms Inr by (intro invalid) (auto simp: order_id_def)
  next
    case pos: True
    then have o: "order_id r = Some cid" using Inr by (simp add: order_id_def)
    show thesis
    proof (cases "has_key d cid")
      case True
      then show thesis using assms Inr pos o by (intro duplicate [of _ cid]) auto
    next
      case False
      then show thesis using assms Inr pos o by (intro indexed [of cid]) auto
    qed
  qed
qed

lemma index_loop_dict:
  assumes "index_loop src rs d fs = Inr (d', fs')" and "wf_dict d"
  shows "wf_dict d' \<and> length d' + length fs' = length rs + length d + length fs
     \<and> (\<forall>cid. map_of d' cid = (case map_of d cid of Some r \<Rightarrow> Some r | None \<Rightarrow> find (\<lambda>r. order_id r = Some cid) rs))"
  using assms
proof (induction rs arbitrary: d fs)
  case (Cons r rs)
  from Cons.prems(1) show ?case
  proof (cases rule: index_loop_Cons_cases)
    case (indexed cid)
    have "length (AList.update cid r d) = Suc (length d)" using indexed(2) by (induction d) auto
    with Cons.IH [OF indexed(4)] Cons.prems(2) indexed(1,2) show ?thesis
      by (simp add: dict_simps split: option.split)
  next
    case (duplicate f cid)
    with Cons.IH [OF duplicate(4) Cons.prems(2)] show ?thesis by (auto split: option.split)
  next
    case (invalid f)
    with Cons.IH [OF invalid(3) Cons.prems(2)] show ?thesis by (auto split: option.split)
  qed
qed (auto split: option.split)

lemma index_loop_findings:
  assumes "index_loop src rs d fs = Inr (d', fs')"
  shows "length fs \<le> length fs' \<and> ((\<forall>f \<in> set fs. unmatched_finding f) \<longrightarrow> (\<forall>f \<in> set fs'. unmatched_finding f))
     \<and> (length fs' = length fs \<longleftrightarrow>
          (\<forall>r \<in> set rs. \<exists>cid. order_id r = Some cid \<and> \<not> has_key d cid) \<and> distinct (map order_id rs))"
  using assms
proof (induction rs arbitrary: d fs)
  case (Cons r rs)
  from Cons.prems show ?case
  proof (cases rule: index_loop_Cons_cases)
    case (indexed cid)
    have "(\<forall>r' \<in> set rs. \<exists>c. order_id r' = Some c \<and> \<not> has_key (AList.update cid r d) c) \<longleftrightarrow>
        (\<forall>r' \<in> set rs. \<exists>c. order_id r' = Some c \<and> \<not> has_key d c) \<and> order_id r \<notin> order_id ` set rs"
      unfolding indexed(1) map_of_update by (auto simp: image_iff) (metis option.inject)+
    with Cons.IH [OF indexed(4)] indexed(1,2) show ?thesis by auto
  next
    case (duplicate f cid)
    with Cons.IH [OF duplicate(4)] show ?thesis by auto
  next
    case (invalid f)
    with Cons.IH [OF invalid(3)] show ?thesis by auto
  qed
qed simp

lemma index_records_props:
  assumes "index_records rs src = Inr (d, fs)"
  shows "wf_dict d" and "length d + length fs = length rs"
    and "map_of d cid = find (\<lambda>r. order_id r = Some cid) rs"
    and "\<forall>f \<in> set fs. unmatched_finding f"
    and "fs = [] \<longleftrightarrow> (\<forall>r \<in> set rs. order_id r \<noteq> None) \<and> distinct (map order_id rs)"
  using index_loop_dict [of src rs "[]" "[]" d fs] index_loop_findings [of src rs "[]" "[]" d fs] assms
  by (auto simp: index_records_def)

lemma indexed_ids:
  assumes "index_records rs src = Inr (d, fs)"
  shows "cid \<in> fst ` set d \<longleftrightarrow> Some cid \<in> order_id ` set rs"
proof -
  have "cid \<in> fst ` set d \<longleftrightarrow> map_of d cid \<noteq> None" by (simp add: map_of_eq_None_iff)
  also have "\<dots> \<longleftrightarrow> (\<exists>r \<in> set rs. order_id r = Some cid)"
    unfolding index_records_props(3) [OF assms] find_None_iff by blast
  finally show ?thesis by force
qed

text \<open>When a venue report confirms a local order, in the terms of the code's conversions.\<close>

definition agrees :: "json \<Rightarrow> json \<Rightarrow> bool" where
  "agrees order report \<longleftrightarrow>
     (\<exists>lq vq p. jget_int order ''executed_quantity'' 0 = Inr lq \<and> jget_int report ''executed_quantity'' 0 = Inr vq
        \<and> lq \<le> vq \<and> jget_int order ''average_price_ticks'' 0 = Inr p
        \<and> (p = 0 \<or> jget_int report ''average_price_ticks'' 0 = Inr p))"

text \<open>The reconciled state: the same valid ids, each once, on both sides, and every pair agrees.\<close>

definition reconciled :: "json list \<Rightarrow> json list \<Rightarrow> bool" where
  "reconciled local venue \<longleftrightarrow>
     None \<notin> order_id ` set local \<and> None \<notin> order_id ` set venue
     \<and> distinct (map order_id local) \<and> distinct (map order_id venue)
     \<and> order_id ` set local = order_id ` set venue
     \<and> (\<forall>od \<in> set local. \<forall>re \<in> set venue. order_id od = order_id re \<longrightarrow> agrees od re)"

lemma classify_matched: "classify od rep = Inr (''matched'', d) \<Longrightarrow> \<exists>re. rep = Some re \<and> agrees od re"
  by (auto simp: classify_def agrees_def res_bind_eq_Inr split: option.splits if_splits)

lemma classify_agrees: "agrees od re \<Longrightarrow> classify od (Some re) = Inr (''matched'', ''matched'')"
  by (auto simp: classify_def agrees_def)

lemma local_finding_matched:
  assumes "map_of d cid = Some od" and "local_finding d e cid = Inr f"
  shows "is_matched f \<longleftrightarrow> (\<exists>re. map_of e cid = Some re \<and> agrees od re)"
proof -
  obtain s t where "classify od (map_of e cid) = Inr (s, t)" "f = finding (JInt cid) s t"
    using assms by (auto simp: local_finding_def res_bind_eq_Inr)
  then show ?thesis using classify_matched [of od "map_of e cid" t] classify_agrees [of od] by auto
qed

text \<open>With distinct ids, looking one up is the same as being a member.\<close>

lemma find_unique:
  "distinct (map order_id rs) \<Longrightarrow> find (\<lambda>r. order_id r = Some cid) rs = Some x \<longleftrightarrow> x \<in> set rs \<and> order_id x = Some cid"
proof (induction rs)
  case (Cons r rs)
  then have "order_id r = Some cid \<Longrightarrow> \<not> (x \<in> set rs \<and> order_id x = Some cid)" by force
  with Cons show ?case by auto
qed simp

text \<open>All findings match exactly when every local id has an agreeing report and no other id is reported.\<close>

definition all_confirmed :: "(int, json) dict \<Rightarrow> (int, json) dict \<Rightarrow> bool" where
  "all_confirmed d e \<longleftrightarrow>
     (\<forall>cid od. map_of d cid = Some od \<longrightarrow> (\<exists>re. map_of e cid = Some re \<and> agrees od re)) \<and> fst ` set e \<subseteq> fst ` set d"

lemma findings_confirmed:
  assumes "list_all2 (\<lambda>cid f. local_finding d e cid = Inr f) (sort (map fst d)) fs"
  shows "(\<forall>f \<in> set fs. is_matched f) \<and> missing_local d (sort (map fst e)) = [] \<longleftrightarrow> all_confirmed d e"
proof -
  let ?ok = "\<lambda>cid. \<exists>od re. map_of d cid = Some od \<and> map_of e cid = Some re \<and> agrees od re"
  have one: "is_matched f \<longleftrightarrow> ?ok cid" if "local_finding d e cid = Inr f" for cid f
    using that local_finding_matched [of d cid _ e f] by (cases "map_of d cid") (auto simp: local_finding_def)
  have "(\<forall>f \<in> set fs. is_matched f) \<longleftrightarrow> (\<forall>cid \<in> set (sort (map fst d)). ?ok cid)"
    using assms by (induction rule: list_all2_induct) (auto simp: one)
  also have "\<dots> \<longleftrightarrow> (\<forall>cid. map_of d cid \<noteq> None \<longrightarrow> ?ok cid)"
    by (simp add: map_of_eq_None_iff Ball_def del: not_None_eq)
  also have "\<dots> \<longleftrightarrow> (\<forall>cid od. map_of d cid = Some od \<longrightarrow> (\<exists>re. map_of e cid = Some re \<and> agrees od re))"
    by auto
  finally have a: "(\<forall>f \<in> set fs. is_matched f) \<longleftrightarrow> \<dots>" .
  have "missing_local d (sort (map fst e)) = [] \<longleftrightarrow> (\<forall>cid \<in> fst ` set e. map_of d cid \<noteq> None)"
    by (simp add: missing_local_def filter_empty_conv)
  also have "\<dots> \<longleftrightarrow> fst ` set e \<subseteq> fst ` set d"
    unfolding map_of_eq_None_iff by blast
  finally show ?thesis unfolding a all_confirmed_def by simp
qed

lemma all_confirmed_iff_reconciled:
  assumes l: "index_records local sl = Inr (d, [])" and v: "index_records venue sv = Inr (e, [])"
  shows "all_confirmed d e \<longleftrightarrow> reconciled local venue"
proof -
  note L = index_records_props [OF l] and V = index_records_props [OF v]
  have ids: "None \<notin> order_id ` set local" "None \<notin> order_id ` set venue" "distinct (map order_id local)"
    "distinct (map order_id venue)" using L(5) V(5) by (auto simp: image_iff)
  have lk: "map_of d cid = Some x \<longleftrightarrow> x \<in> set local \<and> order_id x = Some cid"
    "map_of e cid = Some x \<longleftrightarrow> x \<in> set venue \<and> order_id x = Some cid" for cid x
    using L(3) V(3) find_unique ids(3,4) by metis+
  have sub: "order_id ` set xs \<subseteq> order_id ` set ys"
    if "\<And>cid. Some cid \<in> order_id ` set xs \<Longrightarrow> Some cid \<in> order_id ` set ys" "None \<notin> order_id ` set xs" for xs ys
    using that by (metis not_Some_eq subsetI)
  show ?thesis
  proof
    assume c: "all_confirmed d e"
    then have hit: "\<exists>re. map_of e cid = Some re \<and> agrees od re" if "map_of d cid = Some od" for cid od
      using that by (auto simp: all_confirmed_def)
    have "order_id ` set local \<subseteq> order_id ` set venue"
      by (rule sub [OF _ ids(1)]) (use hit lk in \<open>metis imageE image_eqI\<close>)
    moreover have "order_id ` set venue \<subseteq> order_id ` set local"
      using c unfolding all_confirmed_def
      by (intro sub [OF _ ids(2)]) (auto simp only: indexed_ids [OF l, symmetric] indexed_ids [OF v, symmetric])
    moreover have "agrees od re" if "od \<in> set local" "re \<in> set venue" "order_id od = order_id re" for od re
      using hit lk that ids(1) by (metis image_eqI not_Some_eq option.inject)
    ultimately show "reconciled local venue" using ids unfolding reconciled_def by blast
  next
    assume r: "reconciled local venue"
    then have eq: "order_id ` set local = order_id ` set venue" by (simp add: reconciled_def)
    have "fst ` set e \<subseteq> fst ` set d" unfolding subset_iff indexed_ids [OF l] indexed_ids [OF v] eq by simp
    moreover have "\<exists>re. map_of e cid = Some re \<and> agrees od re" if "map_of d cid = Some od" for cid od
    proof -
      have od: "od \<in> set local" "order_id od = Some cid" using that lk by auto
      then obtain re where "re \<in> set venue" "order_id re = Some cid" using eq by (metis imageE image_eqI)
      then show ?thesis using od r lk unfolding reconciled_def by metis
    qed
    ultimately show "all_confirmed d e" by (simp add: all_confirmed_def)
  qed
qed

lemma compare_cases:
  assumes "compare local venue = Inr fs"
  obtains d lf e vf found where "index_records local ''local'' = Inr (d, lf)" "index_records venue ''venue'' = Inr (e, vf)"
    "list_all2 (\<lambda>cid f. local_finding d e cid = Inr f) (sort (map fst d)) found"
    "fs = lf @ vf @ found @ missing_local d (sort (map fst e))"
  using assms by (auto simp: compare_def res_bind_eq_Inr map_res_eq_Inr)

lemma missing_local_not_matched: "f \<in> set (missing_local d cids) \<Longrightarrow> \<not> is_matched f"
  by (auto simp: missing_local_def)

lemma compare_matched_iff:
  assumes "compare local venue = Inr fs"
  shows "(\<forall>f \<in> set fs. is_matched f) \<longleftrightarrow> reconciled local venue"
  using assms
proof (cases rule: compare_cases)
  case (1 d lf e vf found)
  note L = index_records_props [OF 1(1)] and V = index_records_props [OF 1(2)]
  have "(\<forall>f \<in> set fs. is_matched f) \<longleftrightarrow> lf = [] \<and> vf = [] \<and>
      (\<forall>f \<in> set found. is_matched f) \<and> missing_local d (sort (map fst e)) = []"
    unfolding 1(4) using L(4) V(4) unmatched_finding_simps(2) missing_local_not_matched [of _ d "sort (map fst e)"]
    by (cases lf; cases vf; cases "missing_local d (sort (map fst e))") auto
  also have "\<dots> \<longleftrightarrow> lf = [] \<and> vf = [] \<and> all_confirmed d e"
    using findings_confirmed [OF 1(3)] by simp
  also have "\<dots> \<longleftrightarrow> reconciled local venue"
    using all_confirmed_iff_reconciled [of local "''local''" d venue "''venue''" e] 1(1,2) L(5) V(5)
    by (auto simp: reconciled_def image_iff)
  finally show ?thesis .
qed

text \<open>Every record is accounted for exactly once.\<close>

lemma compare_length:
  assumes "compare local venue = Inr fs"
  shows "length fs + card (order_id ` set local \<inter> order_id ` set venue - {None}) = length local + length venue"
  using assms
proof (cases rule: compare_cases)
  case (1 d lf e vf found)
  note L = index_records_props [OF 1(1)] and V = index_records_props [OF 1(2)]
  have ids: "order_id ` set local \<inter> order_id ` set venue - {None} = Some ` (fst ` set e \<inter> fst ` set d)"
  proof (rule set_eqI)
    fix x show "x \<in> order_id ` set local \<inter> order_id ` set venue - {None} \<longleftrightarrow> x \<in> Some ` (fst ` set e \<inter> fst ` set d)"
    proof (cases x)
      case (Some cid)
      have "Some cid \<in> Some ` (fst ` set e \<inter> fst ` set d) \<longleftrightarrow> cid \<in> fst ` set e \<and> cid \<in> fst ` set d" by blast
      then show ?thesis unfolding Some indexed_ids [OF 1(1)] indexed_ids [OF 1(2)] by blast
    qed simp
  qed
  have "length (missing_local d (sort (map fst e))) = card (fst ` set e - fst ` set d)"
  proof -
    have "length (missing_local d (sort (map fst e))) = length (filter (\<lambda>cid. cid \<notin> fst ` set d) (sort (map fst e)))"
      by (simp add: missing_local_def map_of_eq_None_iff)
    also have "\<dots> = card (set (filter (\<lambda>cid. cid \<notin> fst ` set d) (sort (map fst e))))"
      using V(1) by (intro distinct_card [symmetric]) (simp add: distinct_sort)
    also have "set (filter (\<lambda>cid. cid \<notin> fst ` set d) (sort (map fst e))) = fst ` set e - fst ` set d" by auto
    finally show ?thesis .
  qed
  moreover have "length found = length d" using list_all2_lengthD [OF 1(3)] by simp
  moreover have "card (fst ` set e) = length e" using V(1) by (metis distinct_card length_map list.set_map)
  moreover have "card (fst ` set e) = card (fst ` set e - fst ` set d) + card (fst ` set e \<inter> fst ` set d)"
    by (metis List.finite_set card_Int_Diff finite_imageI add.commute)
  moreover have "card (Some ` (fst ` set e \<inter> fst ` set d)) = card (fst ` set e \<inter> fst ` set d)"
    by (rule card_image) simp
  ultimately show ?thesis using L(2) V(2) unfolding 1(4) ids by simp
qed


lemma compare_findings:
  assumes "compare local venue = Inr fs" and "f \<in> set fs"
  shows "\<exists>c s d. f = finding c s d"
  using assms(1)
proof (cases rule: compare_cases)
  case (1 d lf e vf found)
  have "\<exists>c s t. f = finding c s t" if "f \<in> set found"
  proof -
    from 1(3) that obtain cid where "local_finding d e cid = Inr f"
      by (induction rule: list_all2_induct) auto
    then show ?thesis by (auto simp: local_finding_def res_bind_eq_Inr split: option.splits)
  qed
  then show ?thesis
    using assms(2) index_records_props(4) [OF 1(1)] index_records_props(4) [OF 1(2)]
    unfolding 1(4) unmatched_finding_def missing_local_def set_append set_map by blast
qed

text \<open>Both scripts that ask whether a finding is not \<open>matched\<close> get the same answer.\<close>

lemma finding_state [simp]:
  "jget (finding c s d) ''state'' x = Inr (JStr s)" "jitem (finding c s d) ''state'' = Inr (JStr s)"
  by (simp_all add: finding_def get_default_def jitem_def)

lemma ambiguous_findings:
  assumes "compare local venue = Inr fs"
  shows "any_res (\<lambda>item. res_bind (jitem item ''state'') (\<lambda>s. Inr (\<not> json_eq s (JStr ''matched'')))) fs = Inr (\<not> reconciled local venue)"
    and "any_res (\<lambda>item. res_bind (jget item ''state'' JNull) (\<lambda>s. Inr (\<not> json_eq s (JStr ''matched'')))) fs = Inr (\<not> reconciled local venue)"
proof -
  have "\<not> reconciled local venue \<longleftrightarrow> (\<exists>f \<in> set fs. \<not> is_matched f)" using compare_matched_iff [OF assms] by blast
  then show "any_res (\<lambda>item. res_bind (jitem item ''state'') (\<lambda>s. Inr (\<not> json_eq s (JStr ''matched'')))) fs = Inr (\<not> reconciled local venue)"
    and "any_res (\<lambda>item. res_bind (jget item ''state'' JNull) (\<lambda>s. Inr (\<not> json_eq s (JStr ''matched'')))) fs = Inr (\<not> reconciled local venue)"
    by (auto intro!: any_res_total dest!: compare_findings [OF assms])
qed

text \<open>
  C19. Reconciliation is complete and sound: when \<open>compare\<close> returns, the script reports the findings
  as unambiguous exactly when both sides list the same valid order ids, each once, and every venue
  report confirms its local order (at least the executed quantity, and the same average price unless
  the local one is 0); and the findings account for every record once, a pair of records with the
  same id sharing one.
\<close>

theorem reconciliation_verdict:
  assumes "compare local venue = Inr fs"
  shows "reconcile_result local venue =
       Inr (JObj [(''findings'', JArr fs), (''ambiguous'', JBool (\<not> reconciled local venue))])
     \<and> length fs + card (order_id ` set local \<inter> order_id ` set venue - {None}) = length local + length venue"
  using ambiguous_findings(1) [OF assms] compare_length [OF assms] by (simp add: reconcile_result_def assms)

text \<open>
  Failover composed with reconciliation: fed with the findings of \<open>compare\<close>, the drill promotes
  the standby exactly when the lease names an owner with a positive epoch that has not expired and
  local and venue state are reconciled; otherwise it holds.
\<close>

theorem failover_promotes_only_reconciled:
  assumes "compare local venue = Inr fs" and "drill rep lease fs = Inr result"
  shows "\<exists>owner epoch expires now promoted.
       jget lease ''owner_id'' (JStr []) = Inr owner \<and> jget_int lease ''epoch'' 0 = Inr epoch
     \<and> jget_int lease ''expires_at_ns'' 0 = Inr expires \<and> jget_int lease ''now_ns'' 0 = Inr now
     \<and> (promoted \<longleftrightarrow> py_str rep owner \<noteq> [] \<and> 0 < epoch \<and> now < expires \<and> reconciled local venue)
     \<and> jitem result ''promoted'' = Inr (JBool promoted)
     \<and> jitem result ''action'' = Inr (JStr (if promoted then ''promote_standby'' else ''hold_and_escalate''))"
proof -
  obtain owner epoch expires now where v: "jget lease ''owner_id'' (JStr []) = Inr owner"
    "jget_int lease ''epoch'' 0 = Inr epoch" "jget_int lease ''expires_at_ns'' 0 = Inr expires"
    "jget_int lease ''now_ns'' 0 = Inr now"
    using assms(2) unfolding drill_def by (auto simp: res_bind_eq_Inr)
  show ?thesis
    using assms(2) unfolding drill_def v ambiguous_findings(2) [OF assms(1)]
    by (auto simp: Let_def jitem_def not_le)
qed

subsection \<open>Replay of a journal\<close>

lemma validate_loop_Nil:
  "validate_loop n ids es = [] \<longleftrightarrow>
     map event_sequence es = [n..n + int (length es) - 1]
     \<and> (\<forall>e \<in> set es. 0 < event_id e \<and> 0 \<le> correlation_id e)
     \<and> distinct (map event_id es) \<and> event_id ` set es \<inter> set ids = {}"
proof (induction es arbitrary: n ids)
  case (Cons e es)
  have "[n..n + int (length (e # es)) - 1] = n # [n + 1..n + 1 + int (length es) - 1]"
    by (subst upto_rec1) (simp_all add: algebra_simps)
  then show ?case using Cons.IH [of "n + 1" "event_id e # ids"] by (auto simp: not_le)
qed simp

text \<open>
  The replay validator accepts exactly the well-formed journals: no failure is reported if and
  only if the sequence numbers are 1 to n in this order, the event ids are positive and distinct,
  and the correlation ids are not negative; the script exits with 0 exactly then.
\<close>

theorem replay_accepts_wellformed_journals:
  "(snd (replay_result es) = 0 \<longleftrightarrow>
     map event_sequence es = [1..int (length es)]
     \<and> (\<forall>e \<in> set es. 0 < event_id e \<and> 0 \<le> correlation_id e) \<and> distinct (map event_id es))
   \<and> (validate es = [] \<longleftrightarrow> snd (replay_result es) = 0)"
  by (simp add: replay_result_def validate_def validate_loop_Nil Let_def)

end
