(* ===== verification/Journal_Props.thy ===== *)
theory Journal_Props
  imports Event_Store_Props Reconcile_Props
begin

section \<open>The durable store's events as a replay journal\<close>

text \<open>
  \<open>DurableEventStore.events\<close> hands out one dict per event, and \<open>replay.py\<close> reads a journal of such
  dicts. What the store holds always replays without a failure.
\<close>

definition event_dict :: "int \<times> int \<times> int \<times> string \<times> int \<times> json \<Rightarrow> json" where
  "event_dict = (\<lambda>(n, i, c, t, ts, p).
     JObj [(''sequence'', JInt n), (''event_id'', JInt i), (''correlation_id'', JInt c),
           (''event_type'', JStr t), (''timestamp_ns'', JInt ts), (''payload'', p)])"

lemma load_event_dict:
  "load_event rep (event_dict (n, i, c, t, ts, p)) =
     Inr \<lparr>event_id = i, event_sequence = n, event_type = t, correlation_id = c, event_payload = py_str rep p\<rparr>"
  by (simp add: load_event_def event_dict_def jitem_int_def jitem_def)

definition positive_rows :: "event_store \<Rightarrow> bool" where
  "positive_rows s \<longleftrightarrow> (\<forall>r \<in> set (es_events s). 0 < ev_event_id r \<and> 0 < ev_correlation_id r)"

lemma positive_rows_step: "positive_rows s \<Longrightarrow> positive_rows (store_step burn dumps sha s c)"
proof (cases c)
  case (Append i ci t ts p)
  assume ok: "positive_rows s"
  obtain x s' where a: "store_append burn dumps i ci t ts p s = (x, s')" by fastforce
  then show ?thesis using ok by (cases rule: store_append_cases) (auto simp: Append a positive_rows_def)
next
  case (WriteSnapshot name p)
  assume ok: "positive_rows s"
  obtain x s' where a: "write_snapshot dumps sha name p s = (x, s')" by fastforce
  then show ?thesis using ok by (cases rule: write_snapshot_cases) (auto simp: WriteSnapshot a positive_rows_def)
qed (auto simp: positive_rows_def store_close_def store_reopen_def)

interpretation journal: step_machine "store_step burn dumps sha" positive_rows for burn dumps sha
  by unfold_locales (rule positive_rows_step)


end
