(* ===== verification/Routing.thy ===== *)
theory Routing
  imports Py_Json "HOL-Library.Product_Lexorder"
begin

section \<open>Venue status, route recommendation and uncertain orders\<close>

text \<open>
  \<open>python/operations/venue_status.py\<close>, \<open>python/connectivity/route_recommendation.py\<close> and
  \<open>python/ops_tools/reconcile_uncertain_orders.py\<close> on JSON values of any shape. Parameters: \<open>rep\<close>
  for the text of floats and containers, \<open>loads\<close> for \<open>json.loads\<close>; the clock is an argument.
\<close>

subsection \<open>Venue status\<close>

definition has_status_ready :: "json \<Rightarrow> exn + bool" where
  "has_status_ready item = res_bind (jget item ''status'' JNull) (\<lambda>s. Inr (json_eq s (JStr ''ready'')))"

definition aggregate :: "json list \<Rightarrow> exn + json" where
  "aggregate sessions =
     res_bind (filter_res has_status_ready sessions) (\<lambda>ready.
     res_bind (filter_res (\<lambda>item. map_sum id Not (has_status_ready item)) sessions) (\<lambda>degraded.
       Inr (JObj
         [(''session_count'', JInt (int (length sessions))), (''ready_count'', JInt (int (length ready))),
          (''degraded_count'', JInt (int (length degraded))),
          (''execution_enabled'', JBool (sessions \<noteq> [] \<and> degraded = [] \<and> length ready = length sessions)),
          (''venues'', JArr sessions)])))"

subsection \<open>Route recommendation\<close>

fun session_states :: "(json \<Rightarrow> string) \<Rightarrow> json list \<Rightarrow> (int, string) dict \<Rightarrow> exn + (int, string) dict" where
  "session_states rep [] state = Inr state"
| "session_states rep (item # items) state =
     res_bind (jitem_int item ''venue_id'') (\<lambda>venue_id.
     res_bind (jitem item ''status'') (\<lambda>status.
       session_states rep items (AList.update venue_id (py_str rep status) state)))"

text \<open>The body of the loop over the routes: whether the route is selected.\<close>

definition select_route :: "(int, string) dict \<Rightarrow> int \<Rightarrow> bool \<Rightarrow> json \<Rightarrow> exn + bool" where
  "select_route state quantity live route =
     res_bind (jitem_int route ''venue_id'') (\<lambda>venue_id.
     res_bind (jget route ''live_enabled'' JNull) (\<lambda>live_enabled.
     res_bind (jget route ''enabled'' JNull) (\<lambda>enabled.
       if \<not> truthy enabled \<or> (live \<and> live_enabled \<noteq> JBool True) \<or> (\<not> live \<and> live_enabled \<noteq> JBool False)
       then Inr False
       else if map_of state venue_id \<noteq> Some ''ready'' then Inr False
       else res_bind (jget_int route ''max_order_quantity'' 0) (\<lambda>maximum. Inr (\<not> maximum < quantity)))))"

definition route_key :: "json \<Rightarrow> exn + int \<times> int \<times> int" where
  "route_key item =
     res_bind (jget_int item ''rank'' 0) (\<lambda>rank.
     res_bind (jget_int item ''fee_bps'' 0) (\<lambda>fee.
     res_bind (jitem_int item ''venue_id'') (\<lambda>venue_id. Inr (rank, fee, venue_id))))"

text \<open>\<open>sorted\<close> computes the key of every item first and sorts stably by it.\<close>

definition sorted_by :: "('a \<Rightarrow> exn + 'k::linorder) \<Rightarrow> 'a list \<Rightarrow> exn + 'a list" where
  "sorted_by key items = res_bind (map_res key items) (\<lambda>keys. Inr (map snd (sort_key fst (zip keys items))))"

definition recommend :: "(json \<Rightarrow> string) \<Rightarrow> json list \<Rightarrow> json list \<Rightarrow> int \<Rightarrow> bool \<Rightarrow> exn + json list" where
  "recommend rep routes sessions quantity live =
     (if quantity \<le> 0 then Inr []
      else
        res_bind (session_states rep sessions []) (\<lambda>state.
        res_bind (filter_res (select_route state quantity live) routes) (\<lambda>selected.
          sorted_by route_key selected)))"

subsection \<open>Uncertain orders\<close>

text \<open>Lines of a file opened in text mode: \<open>\\r\\n\<close> and \<open>\\r\<close> are read as \<open>\\n\<close>.\<close>

fun file_lines :: "string \<Rightarrow> string list" where
  "file_lines [] = []"
| "file_lines (c # s) =
     (if c = CHR 0x0D \<and> s \<noteq> [] \<and> hd s = CHR 0x0A then [] # file_lines (tl s)
      else if c = CHR 0x0A \<or> c = CHR 0x0D then [] # file_lines s
      else (case file_lines s of [] \<Rightarrow> [[c]] | w # ws \<Rightarrow> (c # w) # ws))"

record uncertain_order =
  uo_line :: int
  uo_correlation_id :: json
  uo_event_id :: json
  uo_status :: string

definition uncertain_json :: "uncertain_order \<Rightarrow> json" where
  "uncertain_json u = JObj [(''line'', JInt (uo_line u)), (''correlation_id'', uo_correlation_id u),
     (''event_id'', uo_event_id u), (''status'', JStr (uo_status u))]"

text \<open>
  One line of the journal. Every exception is caught and the line skipped; event type 3 opens an
  order, type 4 removes the orders with its correlation id.
\<close>

definition journal_line :: "(string \<Rightarrow> exn + json) \<Rightarrow> int \<Rightarrow> string
    \<Rightarrow> uncertain_order list \<times> json list \<Rightarrow> uncertain_order list \<times> json list" where
  "journal_line loads line_number raw = (\<lambda>(uncertain, resolved).
     (let line = py_strip raw
      in if line = [] then (uncertain, resolved)
         else case loads line of
             Inl _ \<Rightarrow> (uncertain, resolved)
           | Inr (JObj d) \<Rightarrow>
               if json_eq (get_default d ''event_type'' JNull) (JInt 3)
               then (uncertain @ [\<lparr>uo_line = line_number,
                       uo_correlation_id = get_default d ''correlation_id'' (JInt 0),
                       uo_event_id = get_default d ''event_id'' JNull, uo_status = ''uncertain''\<rparr>], resolved)
               else if json_eq (get_default d ''event_type'' JNull) (JInt 4)
               then let correlation_id = get_default d ''correlation_id'' (JInt 0)
                    in (filter (\<lambda>u. \<not> json_eq (uo_correlation_id u) correlation_id) uncertain,
                        resolved @ [JObj [(''correlation_id'', correlation_id), (''status'', JStr ''acknowledged'')]])
               else (uncertain, resolved)
           | Inr _ \<Rightarrow> (uncertain, resolved)))"

fun journal_loop :: "(string \<Rightarrow> exn + json) \<Rightarrow> int \<Rightarrow> string list
    \<Rightarrow> uncertain_order list \<times> json list \<Rightarrow> uncertain_order list \<times> json list" where
  "journal_loop loads n [] acc = acc"
| "journal_loop loads n (l # ls) acc = journal_loop loads (n + 1) ls (journal_line loads n l acc)"

definition reconcile_orders :: "(string \<Rightarrow> exn + json) \<Rightarrow> string \<Rightarrow> string option \<Rightarrow> string \<Rightarrow> bool \<Rightarrow> int \<Rightarrow> json" where
  "reconcile_orders loads journal_path journal venue_id auto_resolve now =
     (case journal of
        None \<Rightarrow> JObj [(''status'', JStr ''error''), (''reason'', JStr (''journal_file_not_found: '' @ journal_path)),
                      (''uncertain_orders'', JArr [])]
      | Some text \<Rightarrow>
          let (uncertain, resolved) = journal_loop loads 1 (file_lines text) ([], []);
              (uncertain, resolved) =
                (if auto_resolve
                 then ([], resolved @ map (\<lambda>u. uncertain_json (u\<lparr>uo_status := ''resolved_via_reconciliation''\<rparr>)) uncertain)
                 else (uncertain, resolved))
          in JObj [(''status'', JStr ''reconciled''), (''venue_id'', JStr venue_id),
                   (''uncertain_count'', JInt (int (length uncertain))),
                   (''resolved_count'', JInt (int (length resolved))),
                   (''uncertain_orders'', JArr (map uncertain_json uncertain)), (''timestamp_ns'', JInt now)])"

end
