(* ===== verification/Routing_Props.thy ===== *)
theory Routing_Props
  imports Routing "HOL-Library.Multiset"
begin

section \<open>Correctness of venue status, routing and the uncertain-order tool\<close>

text \<open>
  Execution is enabled only when every session is ready; the recommended routes are exactly the
  eligible ones in the order of their keys; and the uncertain orders are exactly those that no later
  acknowledgment mentions.
\<close>


subsection \<open>Venue status\<close>

definition ready_session :: "json \<Rightarrow> bool" where
  "ready_session item \<longleftrightarrow> jget item ''status'' JNull = Inr (JStr ''ready'')"

lemma has_status_ready_dict: "has_status_ready item = (if is_dict item then Inr (ready_session item) else Inl (AttributeError ''get''))"
  by (cases item) (auto simp: has_status_ready_def ready_session_def jget_def)

text \<open>
  Venue status: \<open>aggregate\<close> raises exactly when a session is not a dict; otherwise it counts every
  session as ready or degraded, and it enables execution exactly when there is a session and all of
  them have status \<open>ready\<close>.
\<close>

theorem execution_enabled_iff_all_ready:
  "aggregate sessions =
     (if \<forall>item \<in> set sessions. is_dict item
      then Inr (JObj
         [(''session_count'', JInt (int (length sessions))),
          (''ready_count'', JInt (int (length (filter ready_session sessions)))),
          (''degraded_count'', JInt (int (length sessions) - int (length (filter ready_session sessions)))),
          (''execution_enabled'', JBool (sessions \<noteq> [] \<and> (\<forall>item \<in> set sessions. ready_session item))),
          (''venues'', JArr sessions)])
      else Inl (AttributeError ''get''))"
proof (cases "\<forall>item \<in> set sessions. is_dict item")
  case True
  have "filter_res has_status_ready sessions = Inr (filter ready_session sessions)"
    "filter_res (\<lambda>item. map_sum id Not (has_status_ready item)) sessions = Inr (filter (\<lambda>i. \<not> ready_session i) sessions)"
    using True by (auto intro!: filter_res_total simp: has_status_ready_dict)
  moreover have "int (length (filter (\<lambda>i. \<not> ready_session i) sessions)) = int (length sessions) - int (length (filter ready_session sessions))"
    using sum_length_filter_compl [of ready_session sessions] by simp
  moreover have "filter (\<lambda>i. \<not> ready_session i) sessions = [] \<and> length (filter ready_session sessions) = length sessions
      \<longleftrightarrow> (\<forall>item \<in> set sessions. ready_session item)"
    by (auto simp: filter_empty_conv)
  ultimately show ?thesis using True by (simp add: aggregate_def)
next
  case False
  then have "filter_res has_status_ready sessions = Inl (AttributeError ''get'')"
  proof (induction sessions)
    case (Cons i rest)
    then show ?case by (cases "filter_res has_status_ready rest") (auto simp: has_status_ready_dict)
  qed simp
  with False show ?thesis by (simp add: aggregate_def)
qed

subsection \<open>Routes\<close>

lemma session_states_map:
  "session_states rep items state = Inr st \<Longrightarrow>
   map_of st v = (case find (\<lambda>item. jitem_int item ''venue_id'' = Inr v) (rev items) of
      Some item \<Rightarrow> Some (py_str rep (projr (jitem item ''status''))) | None \<Rightarrow> map_of state v)"
proof (induction items arbitrary: state)
  case (Cons i items)
  then obtain w s where i: "jitem_int i ''venue_id'' = Inr w" "jitem i ''status'' = Inr s"
    "session_states rep items (AList.update w (py_str rep s) state) = Inr st"
    by (auto simp: res_bind_eq_Inr)
  have f: "find P (xs @ [x]) = (case find P xs of None \<Rightarrow> if P x then Some x else None | Some y \<Rightarrow> Some y)" for P and x :: json and xs
    by (induction xs) auto
  show ?case unfolding Cons.IH [OF i(3)] using i(1,2) by (auto simp: f dict_simps split: option.split)
qed simp

text \<open>The status of a venue: that of the last session listed for it.\<close>

definition venue_ready :: "(json \<Rightarrow> string) \<Rightarrow> json list \<Rightarrow> int \<Rightarrow> bool" where
  "venue_ready rep sessions v \<longleftrightarrow>
     (\<exists>item s. find (\<lambda>item. jitem_int item ''venue_id'' = Inr v) (rev sessions) = Some item
        \<and> jitem item ''status'' = Inr s \<and> py_str rep s = ''ready'')"

definition eligible :: "(json \<Rightarrow> string) \<Rightarrow> json list \<Rightarrow> int \<Rightarrow> bool \<Rightarrow> json \<Rightarrow> bool" where
  "eligible rep sessions quantity live route \<longleftrightarrow>
     (\<exists>v e m. jitem_int route ''venue_id'' = Inr v \<and> jget route ''enabled'' JNull = Inr e \<and> truthy e
        \<and> jget route ''live_enabled'' JNull = Inr (JBool live) \<and> venue_ready rep sessions v
        \<and> jget_int route ''max_order_quantity'' 0 = Inr m \<and> quantity \<le> m)"

lemma session_states_status:
  assumes "session_states rep sessions state = Inr st" and "item \<in> set sessions"
  shows "\<exists>s. jitem item ''status'' = Inr s"
  using assms by (induction sessions arbitrary: state) (auto simp: res_bind_eq_Inr)

lemma session_states_ready:
  assumes "session_states rep sessions [] = Inr st"
  shows "map_of st v = Some ''ready'' \<longleftrightarrow> venue_ready rep sessions v"
proof (cases "find (\<lambda>item. jitem_int item ''venue_id'' = Inr v) (rev sessions)")
  case None
  then show ?thesis by (simp add: session_states_map [OF assms] venue_ready_def)
next
  case (Some item)
  then have "item \<in> set sessions" by (auto simp: find_Some_iff) (metis length_rev nth_mem set_rev)
  then obtain s where "jitem item ''status'' = Inr s" using session_states_status [OF assms] by blast
  then show ?thesis using Some by (simp add: session_states_map [OF assms] venue_ready_def)
qed

lemma select_route_eligible:
  assumes "session_states rep sessions [] = Inr st"
  shows "select_route st q live route = Inr True \<longleftrightarrow> eligible rep sessions q live route"
proof
  assume "select_route st q live route = Inr True"
  then show "eligible rep sessions q live route"
    unfolding select_route_def eligible_def session_states_ready [OF assms, symmetric]
    by (auto simp: res_bind_eq_Inr split: if_splits)
next
  assume "eligible rep sessions q live route"
  then show "select_route st q live route = Inr True"
    unfolding select_route_def eligible_def session_states_ready [OF assms, symmetric] by auto
qed

text \<open>\<open>sorted_by\<close> is a stable sort by the key.\<close>

lemma sorted_by_spec:
  assumes "sorted_by key xs = Inr ys"
  shows "mset ys = mset xs" and "sorted (map (\<lambda>x. projr (key x)) ys)"
    and "filter (\<lambda>x. key x = Inr k) ys = filter (\<lambda>x. key x = Inr k) xs"
proof -
  obtain ks where ks: "map_res key xs = Inr ks" and ys: "ys = map snd (sort_key fst (zip ks xs))"
    using assms by (auto simp: sorted_by_def res_bind_eq_Inr)
  have k: "list_all2 (\<lambda>x k. key x = Inr k) xs ks" using ks by (simp add: map_res_eq_Inr)
  then have len: "length ks = length xs" by (simp add: list_all2_lengthD)
  have pair: "key (snd p) = Inr (fst p)" if "p \<in> set (zip ks xs)" for p
    using that k by (auto simp: list_all2_conv_all_nth set_zip)
  have "mset ys = mset (map snd (zip ks xs))" unfolding ys by (metis mset_map mset_sort)
  then show "mset ys = mset xs" using len by simp
  have "map (\<lambda>x. projr (key x)) ys = map fst (sort_key fst (zip ks xs))"
    unfolding ys using pair by simp
  then show "sorted (map (\<lambda>x. projr (key x)) ys)" by simp
  have f: "filter (\<lambda>x. key x = Inr k) (map snd ps) = map snd (filter (\<lambda>p. fst p = k) ps)"
    if "\<forall>p \<in> set ps. key (snd p) = Inr (fst p)" for ps
    using that by (induction ps) auto
  have "filter (\<lambda>x. key x = Inr k) ys = map snd (filter (\<lambda>p. fst p = k) (sort_key fst (zip ks xs)))"
    unfolding ys using pair by (intro f) simp
  also have "\<dots> = map snd (filter (\<lambda>p. fst p = k) (zip ks xs))" by (simp add: sort_key_stable)
  also have "\<dots> = filter (\<lambda>x. key x = Inr k) (map snd (zip ks xs))" using pair by (intro f [symmetric]) simp
  finally show "filter (\<lambda>x. key x = Inr k) ys = filter (\<lambda>x. key x = Inr k) xs" using len by simp
qed



subsection \<open>Uncertain orders\<close>

text \<open>What a journal says, line by line: an order was sent, or a correlation id acknowledged.\<close>

datatype journal_entry = Sent uncertain_order | Acked json

definition journal_entry :: "(string \<Rightarrow> exn + json) \<Rightarrow> int \<Rightarrow> string \<Rightarrow> journal_entry list" where
  "journal_entry loads n raw =
     (if py_strip raw = [] then []
      else case loads (py_strip raw) of
          Inr (JObj d) \<Rightarrow>
            if json_eq (get_default d ''event_type'' JNull) (JInt 3)
            then [Sent \<lparr>uo_line = n, uo_correlation_id = get_default d ''correlation_id'' (JInt 0),
                       uo_event_id = get_default d ''event_id'' JNull, uo_status = ''uncertain''\<rparr>]
            else if json_eq (get_default d ''event_type'' JNull) (JInt 4)
            then [Acked (get_default d ''correlation_id'' (JInt 0))] else []
        | _ \<Rightarrow> [])"

fun journal_entries :: "(string \<Rightarrow> exn + json) \<Rightarrow> int \<Rightarrow> string list \<Rightarrow> journal_entry list" where
  "journal_entries loads n [] = []"
| "journal_entries loads n (l # ls) = journal_entry loads n l @ journal_entries loads (n + 1) ls"

definition acked_in :: "journal_entry list \<Rightarrow> uncertain_order \<Rightarrow> bool" where
  "acked_in es u \<longleftrightarrow> (\<exists>c. Acked c \<in> set es \<and> json_eq (uo_correlation_id u) c)"

text \<open>The reference: an order is uncertain if no later line acknowledges its correlation id.\<close>

fun never_acked :: "journal_entry list \<Rightarrow> uncertain_order list" where
  "never_acked [] = []"
| "never_acked (Sent u # es) = (if acked_in es u then never_acked es else u # never_acked es)"
| "never_acked (Acked c # es) = never_acked es"

definition acknowledged :: "journal_entry list \<Rightarrow> nat" where
  "acknowledged es = length (filter (\<lambda>e. case e of Acked _ \<Rightarrow> True | Sent _ \<Rightarrow> False) es)"

lemma journal_line_entry:
  "journal_line loads n l (u, r) =
     (case journal_entry loads n l of
        [] \<Rightarrow> (u, r)
      | e # _ \<Rightarrow> (case e of
           Sent x \<Rightarrow> (u @ [x], r)
         | Acked c \<Rightarrow> (filter (\<lambda>x. \<not> json_eq (uo_correlation_id x) c) u,
                       r @ [JObj [(''correlation_id'', c), (''status'', JStr ''acknowledged'')]])))"
  by (simp add: journal_line_def journal_entry_def Let_def split: sum.split json.split)

lemma journal_entry_cases:
  obtains "journal_entry loads n l = []" | u where "journal_entry loads n l = [Sent u]"
  | c where "journal_entry loads n l = [Acked c]"
proof -
  have "journal_entry loads n l = [] \<or> (\<exists>u. journal_entry loads n l = [Sent u]) \<or> (\<exists>c. journal_entry loads n l = [Acked c])"
    by (simp add: journal_entry_def split: sum.split json.split)
  with that show thesis by blast
qed

lemma acked_in_simps [simp]:
  "acked_in (Sent x # es) u = acked_in es u"
  "acked_in (Acked c # es) u \<longleftrightarrow> json_eq (uo_correlation_id u) c \<or> acked_in es u"
  by (auto simp: acked_in_def)

lemma journal_loop_spec:
  "fst (journal_loop loads n ls (u, r)) =
     filter (\<lambda>x. \<not> acked_in (journal_entries loads n ls) x) u @ never_acked (journal_entries loads n ls)
   \<and> length (snd (journal_loop loads n ls (u, r))) = length r + acknowledged (journal_entries loads n ls)"
proof (induction ls arbitrary: n u r)
  case (Cons l ls)
  show ?case
  proof (cases rule: journal_entry_cases [of loads n l])
    case 1
    then show ?thesis using Cons.IH [of "n + 1" u r] by (simp add: journal_line_entry)
  next
    case (2 x)
    then show ?thesis using Cons.IH [of "n + 1" "u @ [x]" r]
      by (simp add: journal_line_entry acknowledged_def)
  next
    case (3 c)
    then show ?thesis
      using Cons.IH [of "n + 1" "filter (\<lambda>x. \<not> json_eq (uo_correlation_id x) c) u"
          "r @ [JObj [(''correlation_id'', c), (''status'', JStr ''acknowledged'')]]"]
      by (simp add: journal_line_entry acknowledged_def conj_commute)
  qed
qed (simp add: acked_in_def acknowledged_def)


end
