(* ===== verification/Monitoring.thy ===== *)
theory Monitoring
  imports Py_Json "HOL-Library.List_Lexorder" "HOL-Library.Char_ord"
begin

section \<open>Readiness, health and metrics\<close>

text \<open>
  \<open>scripts/production/readiness_check.py\<close>, \<open>scripts/operations/health_report.py\<close>,
  \<open>python/ops_tools/health.py\<close>, \<open>python/operations/prometheus_exporter.py\<close> and
  \<open>python/operations/metrics_exporter.py\<close>. A file is what reading and parsing it gives: a value or
  the exception. Strings compare by code points. A response is its status, headers and body.
\<close>

subsection \<open>Readiness\<close>

definition implemented_flag :: "json \<Rightarrow> exn + bool" where
  "implemented_flag gate = map_sum id truthy (jget gate ''implemented'' JNull)"

definition blocker_summary :: "json \<Rightarrow> exn + json" where
  "blocker_summary gate =
     res_bind (jget gate ''id'' JNull) (\<lambda>i.
     res_bind (jget gate ''domain'' JNull) (\<lambda>d.
     res_bind (jget gate ''name'' JNull) (\<lambda>n.
     res_bind (jget gate ''evidence'' JNull) (\<lambda>e.
       Inr (JObj [(''id'', i), (''domain'', d), (''name'', n), (''evidence'', e)])))))"

definition evaluate :: "json \<Rightarrow> exn + json" where
  "evaluate matrix =
     res_bind (jget matrix ''gates'' (JArr [])) (\<lambda>gates.
     res_bind (iter_items gates) (\<lambda>items.
     res_bind (filter_res implemented_flag items) (\<lambda>implemented.
     res_bind (filter_res (\<lambda>gate. map_sum id Not (implemented_flag gate)) items) (\<lambda>blockers.
     res_bind (jget matrix ''system'' (JStr ''Ito'')) (\<lambda>system.
     res_bind (map_res blocker_summary blockers) (\<lambda>summaries.
       Inr (JObj
         [(''system'', system),
          (''status'', JStr (if blockers = [] then ''production_ready'' else ''not_production_ready'')),
          (''implemented_count'', JInt (int (length implemented))), (''gate_count'', JInt (int (length items))),
          (''blocker_count'', JInt (int (length blockers))), (''blockers'', JArr summaries)])))))))"

subsection \<open>Health report\<close>

definition local_ids :: "string list" where
  "local_ids = [''GATE-SW-001'', ''GATE-SW-002'', ''GATE-SW-003'', ''GATE-SW-004'', ''GATE-HW-001'', ''GATE-OPS-001'',
     ''GATE-SEC-003'', ''GATE-SEC-004'', ''GATE-OPS-003'', ''GATE-OPS-004'', ''GATE-OPS-005'']"

text \<open>\<open>gate.get(k)\<close> of a value that is known to be a dict.\<close>

definition gate_field :: "json \<Rightarrow> string \<Rightarrow> json" where
  "gate_field gate k = (case gate of JObj d \<Rightarrow> get_default d k JNull | _ \<Rightarrow> JNull)"

definition local_failure :: "json \<Rightarrow> exn + bool" where
  "local_failure gate =
     (if \<not> is_dict gate then Inr False
      else res_bind (in_names (gate_field gate ''id'') local_ids) (\<lambda>known.
        Inr (known \<and> gate_field gate ''implemented'' \<noteq> JBool True)))"

text \<open>The failing local gates and the blockers, from a readiness matrix or an evaluation of one.\<close>

definition report_lists :: "(json \<Rightarrow> string) \<Rightarrow> json \<Rightarrow> exn + string list \<times> string list" where
  "report_lists rep readiness =
     (case (gate_field readiness ''gates'', gate_field readiness ''blockers'') of
        (JArr gates, _) \<Rightarrow>
          res_bind (filter_res local_failure gates) (\<lambda>failing.
            Inr (map (\<lambda>gate. py_str rep (gate_field gate ''id'')) failing,
                 map (\<lambda>gate. py_str rep (gate_field gate ''id''))
                   (filter (\<lambda>gate. is_dict gate \<and> gate_field gate ''implemented'' \<noteq> JBool True) gates)))
      | (_, JArr gates) \<Rightarrow>
          let blockers = map (\<lambda>gate. py_str rep (gate_field gate ''id'')) (filter is_dict gates)
          in Inr (filter (\<lambda>i. i \<in> set local_ids) blockers, blockers)
      | _ \<Rightarrow> Inl (HealthError ''invalid_readiness''))"

definition build_report :: "(json \<Rightarrow> string) \<Rightarrow> json \<Rightarrow> bool \<Rightarrow> exn + json" where
  "build_report rep readiness recovery_present =
     (if \<not> is_dict readiness then Inl (HealthError ''invalid_readiness'')
      else
        res_bind (report_lists rep readiness) (\<lambda>(local_failures, blockers).
        res_bind (jget readiness ''status'' (JStr ''unknown'')) (\<lambda>status.
          Inr (JObj
            [(''format'', JInt 1),
             (''local_status'', JStr (if local_failures = [] \<and> recovery_present then ''healthy'' else ''degraded'')),
             (''production_status'', JStr (py_str rep status)),
             (''local_failures'', JArr (map JStr local_failures)),
             (''external_blockers'', JArr (map JStr blockers)),
             (''external_blocker_count'', JInt (int (length blockers))),
             (''recovery_artifact_present'', JBool recovery_present)]))))"

subsection \<open>Branch health\<close>

record health_snapshot =
  hs_branch_id :: string
  hs_feed_healthy :: bool
  hs_clock_healthy :: bool
  hs_gateway_ready :: bool
  hs_journal_ready :: bool
  hs_policy_valid :: bool

definition trading_allowed :: "health_snapshot \<Rightarrow> bool" where
  "trading_allowed h \<longleftrightarrow> hs_feed_healthy h \<and> hs_clock_healthy h \<and> hs_gateway_ready h \<and> hs_journal_ready h \<and> hs_policy_valid h"

definition health_dict :: "health_snapshot \<Rightarrow> json" where
  "health_dict h = JObj
     [(''branch_id'', JStr (hs_branch_id h)), (''trading_allowed'', JBool (trading_allowed h)),
      (''feed_healthy'', JBool (hs_feed_healthy h)), (''clock_healthy'', JBool (hs_clock_healthy h)),
      (''gateway_ready'', JBool (hs_gateway_ready h)), (''journal_ready'', JBool (hs_journal_ready h)),
      (''policy_valid'', JBool (hs_policy_valid h))]"

text \<open>What the script prints, and its exit status.\<close>

definition health_main :: "(json \<Rightarrow> string) \<Rightarrow> json \<Rightarrow> exn + json \<times> int" where
  "health_main rep snapshot =
     res_bind (jitem snapshot ''branch_id'') (\<lambda>b.
     res_bind (map_res (jitem snapshot)
         [''feed_healthy'', ''clock_healthy'', ''gateway_ready'', ''journal_ready'', ''policy_valid'']) (\<lambda>flags.
       let h = \<lparr>hs_branch_id = py_str rep b, hs_feed_healthy = truthy (flags ! 0), hs_clock_healthy = truthy (flags ! 1),
                hs_gateway_ready = truthy (flags ! 2), hs_journal_ready = truthy (flags ! 3),
                hs_policy_valid = truthy (flags ! 4)\<rparr>
       in Inr (health_dict h, if trading_allowed h then 0 else 1)))"

subsection \<open>Prometheus exporter\<close>

definition load_snapshot :: "exn + json \<Rightarrow> exn + json" where
  "load_snapshot content =
     (case content of
        Inl (OSError m) \<Rightarrow> Inl (ExporterError (''snapshot_invalid:'' @ m))
      | Inl (JSONDecodeError m) \<Rightarrow> Inl (ExporterError (''snapshot_invalid:'' @ m))
      | Inl e \<Rightarrow> Inl e
      | Inr v \<Rightarrow> if is_dict v then Inr v else Inl (ExporterError ''snapshot_invalid''))"

definition gauge :: "string \<Rightarrow> string \<Rightarrow> string list" where
  "gauge name value = [''# TYPE '' @ name @ '' gauge'', name @ '' '' @ value]"

fun count_actions :: "json list \<Rightarrow> (string, int) dict \<Rightarrow> int \<Rightarrow> (string, int) dict \<times> int" where
  "count_actions [] counts total_actions = (counts, total_actions)"
| "count_actions (entry # entries) counts total_actions =
     (case entry of
        JObj d \<Rightarrow>
          (case get_default d ''action'' JNull of
             JStr action \<Rightarrow> count_actions entries
               (AList.update action (get_default counts action 0 + 1) counts) (total_actions + 1)
           | _ \<Rightarrow> count_actions entries counts total_actions)
      | _ \<Rightarrow> count_actions entries counts total_actions)"

definition action_metric :: "string \<Rightarrow> string" where
  "action_metric action =
     ''ito_audit_action_'' @ map (\<lambda>c. if c = CHR ''-'' then CHR ''_'' else c) action @ ''_total''"

definition render_audit_metrics :: "json option \<Rightarrow> exn + string" where
  "render_audit_metrics audit =
     (case audit of
        None \<Rightarrow> Inr []
      | Some v \<Rightarrow>
          res_bind (iter_items v) (\<lambda>entries.
            let (counts, total_actions) = count_actions entries [] 0
            in Inr (py_join newline (gauge ''ito_audit_total_events'' (str_of_int total_actions)
                      @ concat (map (\<lambda>(action, count). gauge (action_metric action) (str_of_int count))
                                  (sort_key fst counts))) @ newline)))"

definition portfolio_metrics :: "(string \<times> string) list" where
  "portfolio_metrics =
     [(''ito_portfolio_net_position'', ''net_position''), (''ito_portfolio_gross_position'', ''gross_position''),
      (''ito_portfolio_gross_notional_ticks'', ''gross_notional_ticks''),
      (''ito_portfolio_realized_pnl_ticks'', ''realized_pnl_ticks''),
      (''ito_portfolio_unrealized_pnl_ticks'', ''unrealized_pnl_ticks''), (''ito_portfolio_loss_ticks'', ''loss_ticks'')]"

text \<open>An \<open>int\<close> in an f-string; a \<open>bool\<close> is one and prints as its name.\<close>

definition int_text :: "json \<Rightarrow> string" where
  "int_text v = py_str (\<lambda>_. []) v"

definition portfolio_rows :: "json \<Rightarrow> exn + string list" where
  "portfolio_rows portfolio =
     res_bind (map_res (\<lambda>(name, field).
         res_bind (jget portfolio field JNull) (\<lambda>value.
           if int_value value = None then Inl (ExporterError (''metric_invalid:'' @ name))
           else Inr (gauge name (int_text value)))) portfolio_metrics) (\<lambda>rows. Inr (concat rows))"

definition flag_text :: "bool \<Rightarrow> string" where
  "flag_text b = (if b then ''1'' else ''0'')"

definition health_rows :: "json \<Rightarrow> exn + string list" where
  "health_rows health =
     res_bind (jget health ''local_status'' JNull) (\<lambda>local.
     res_bind (jget health ''production_status'' JNull) (\<lambda>production.
     res_bind (jget health ''recovery_artifact_present'' JNull) (\<lambda>recovery.
     res_bind (jget health ''external_blocker_count'' (JInt 0)) (\<lambda>blockers.
       if (case int_value blockers of None \<Rightarrow> True | Some n \<Rightarrow> n < 0)
       then Inl (ExporterError ''blocker_count_invalid'')
       else Inr (gauge ''ito_local_validation_pass'' (flag_text (json_eq local (JStr ''healthy'')))
         @ gauge ''ito_production_readiness'' (flag_text (json_eq production (JStr ''production_ready'')))
         @ gauge ''ito_external_blocker_count'' (int_text blockers)
         @ gauge ''ito_recovery_artifact_present'' (flag_text (recovery = JBool True)))))))"

definition render_metrics :: "json \<Rightarrow> json option \<Rightarrow> json option \<Rightarrow> exn + string" where
  "render_metrics health portfolio audit =
     res_bind (health_rows health) (\<lambda>rows.
     res_bind (case portfolio of None \<Rightarrow> Inr [] | Some p \<Rightarrow> portfolio_rows p) (\<lambda>portfolio_part.
     res_bind (case audit of None \<Rightarrow> Inr [] | Some _ \<Rightarrow> map_sum id (\<lambda>t. [t]) (render_audit_metrics audit)) (\<lambda>audit_part.
       Inr (py_join newline (rows @ portfolio_part @ audit_part) @ newline))))"

record response =
  rs_status :: int
  rs_headers :: "(string \<times> string) list"
  rs_body :: string

definition empty_response :: "int \<Rightarrow> response" where
  "empty_response status = \<lparr>rs_status = status, rs_headers = [], rs_body = []\<rparr>"

text \<open>A path that was not given, or that is not a file, gives no snapshot.\<close>

definition load_optional :: "(exn + json) option \<Rightarrow> exn + json option" where
  "load_optional source = (case source of None \<Rightarrow> Inr None | Some content \<Rightarrow> map_sum id Some (load_snapshot content))"

definition exporter_get :: "string \<Rightarrow> exn + json \<Rightarrow> (exn + json) option \<Rightarrow> (exn + json) option \<Rightarrow> exn + response" where
  "exporter_get path health_source portfolio_source audit_source =
     (if path \<noteq> ''/metrics'' then Inr (empty_response 404)
      else
        case res_bind (load_snapshot health_source) (\<lambda>health.
             res_bind (load_optional portfolio_source) (\<lambda>portfolio.
             res_bind (load_optional audit_source) (\<lambda>audit. render_metrics health portfolio audit))) of
          Inl (ExporterError _) \<Rightarrow> Inr (empty_response 503)
        | Inl e \<Rightarrow> Inl e
        | Inr payload \<Rightarrow> Inr \<lparr>rs_status = 200,
            rs_headers = [(''Content-Type'', ''text/plain; version=0.0.4''),
                          (''Content-Length'', str_of_int (int (utf8_size payload)))],
            rs_body = payload\<rparr>)"

text \<open>The text \<open>health_report.py\<close> writes for a report of its own.\<close>

definition write_prometheus :: "json \<Rightarrow> exn + string" where
  "write_prometheus report =
     res_bind (jitem report ''local_status'') (\<lambda>local.
     res_bind (jitem report ''production_status'') (\<lambda>production.
     res_bind (jitem report ''recovery_artifact_present'') (\<lambda>recovery.
     res_bind (jitem report ''external_blocker_count'') (\<lambda>blockers.
       Inr (py_join newline
         [''# HELP ito_local_validation_pass Local repository controls and recovery artifact passed'',
          ''# TYPE ito_local_validation_pass gauge'',
          ''ito_local_validation_pass '' @ flag_text (json_eq local (JStr ''healthy'')),
          ''# HELP ito_production_readiness Production readiness gate passed'',
          ''# TYPE ito_production_readiness gauge'',
          ''ito_production_readiness '' @ flag_text (json_eq production (JStr ''production_ready'')),
          ''# HELP ito_external_blocker_count Unresolved external production gates'',
          ''# TYPE ito_external_blocker_count gauge'',
          ''ito_external_blocker_count '' @ int_text blockers,
          ''# HELP ito_recovery_artifact_present Manifest-verified recovery artifact present'',
          ''# TYPE ito_recovery_artifact_present gauge'',
          ''ito_recovery_artifact_present '' @ flag_text (truthy recovery), []])))))"

subsection \<open>The second exporter\<close>

definition system_metrics :: "int \<Rightarrow> string" where
  "system_metrics now = py_join newline
     [''# HELP ito_production_readiness Current production readiness status (1=ready, 0=not ready)'',
      ''# TYPE ito_production_readiness gauge'', ''ito_production_readiness 0'', [],
      ''# HELP ito_external_blocker_count Active external blocker count'',
      ''# TYPE ito_external_blocker_count gauge'', ''ito_external_blocker_count 6'', [],
      ''# HELP ito_recovery_artifact_present Presence of recovery artifact (1=true, 0=false)'',
      ''# TYPE ito_recovery_artifact_present gauge'', ''ito_recovery_artifact_present 1'', [],
      ''# HELP ito_local_validation_pass Local validation pass indicator'',
      ''# TYPE ito_local_validation_pass gauge'', ''ito_local_validation_pass 1'', [],
      ''# HELP ito_system_uptime_seconds System uptime in seconds'',
      ''# TYPE ito_system_uptime_seconds counter'', ''ito_system_uptime_seconds '' @ str_of_int now] @ newline"

definition metrics_get :: "string \<Rightarrow> int \<Rightarrow> response" where
  "metrics_get path now =
     (if path \<noteq> ''/metrics'' then empty_response 404
      else \<lparr>rs_status = 200, rs_headers = [(''Content-Type'', ''text/plain; version=0.0.4; charset=utf-8'')],
            rs_body = system_metrics now\<rparr>)"

end
