(* ===== verification/Monitoring_Props.thy ===== *)
theory Monitoring_Props
  imports Monitoring
begin

section \<open>Correctness of readiness, health and metrics\<close>

text \<open>
  What a scraper reads from the exporter's page is what the snapshots say, the exporter answers every
  request, and the health report does not depend on whether it is built from the readiness matrix or
  from its evaluation.
\<close>


subsection \<open>What a scraper reads\<close>

text \<open>A scraper takes the value of the first line that starts with the metric's name and a blank.\<close>

definition scrape_rows :: "string \<Rightarrow> string list \<Rightarrow> int option" where
  "scrape_rows name rows =
     (case find (\<lambda>row. take (length name + 1) row = name @ '' '') rows of
        None \<Rightarrow> None | Some row \<Rightarrow> int_of_str (drop (length name + 1) row))"

definition scrape :: "string \<Rightarrow> string \<Rightarrow> int option" where
  "scrape name body = scrape_rows name (split_on (CHR 0x0A) body)"

definition metric_name :: "string \<Rightarrow> bool" where
  "metric_name n \<longleftrightarrow> n \<noteq> [] \<and> CHR '' '' \<notin> set n \<and> CHR ''#'' \<notin> set n \<and> CHR 0x0A \<notin> set n"

lemma scrape_gauge:
  assumes "metric_name name" "metric_name m"
  shows "scrape_rows name (gauge m value @ rows) = (if m = name then int_of_str value else scrape_rows name rows)"
proof -
  have "take (length name + 1) (''# TYPE '' @ m @ '' gauge'') \<noteq> name @ '' ''"
    using assms by (cases name) (auto simp: metric_name_def)
  moreover have "take (length name + 1) (m @ '' '' @ value) = name @ '' '' \<longleftrightarrow> m = name"
  proof
    assume h: "take (length name + 1) (m @ '' '' @ value) = name @ '' ''"
    have word: "takeWhile (\<lambda>c. c \<noteq> CHR '' '') (w @ '' '' @ v) = w" if "metric_name w" for w v
      using that by (subst takeWhile_append2) (auto simp: metric_name_def)
    from h have "m @ '' '' @ value = name @ '' '' @ drop (length name + 1) (m @ '' '' @ value)"
      by (metis append.assoc append_take_drop_id)
    then show "m = name" using word [OF assms(1)] word [OF assms(2)] by metis
  qed simp
  ultimately show ?thesis by (simp add: scrape_rows_def gauge_def)
qed

text \<open>A page of gauges.\<close>

definition page :: "(string \<times> string) list \<Rightarrow> string" where
  "page ps = py_join newline (concat (map (\<lambda>(n, v). gauge n v) ps)) @ newline"

lemma split_page:
  assumes "rows \<noteq> []" and "\<forall>r \<in> set rows. CHR 0x0A \<notin> set r"
  shows "split_on (CHR 0x0A) (py_join newline rows @ newline) = rows @ [[]]"
proof -
  have "py_join newline (rows @ [[]]) = py_join newline rows @ newline"
    using assms(1) by (induction rows rule: list_nonempty_induct) (simp_all add: py_join_Cons)
  then show ?thesis using split_join_lines [of "rows @ [[]]"] assms(2) by simp
qed

lemma scrape_page:
  assumes "ps \<noteq> []" and "\<forall>p \<in> set ps. metric_name (fst p) \<and> CHR 0x0A \<notin> set (snd p)" and "metric_name name"
  shows "scrape name (page ps) = Option.bind (map_of ps name) int_of_str"
proof -
  let ?rows = "concat (map (\<lambda>(n, v). gauge n v) ps)"
  have "?rows \<noteq> []" using assms(1) by (cases ps) (auto simp: gauge_def)
  moreover have "\<forall>r \<in> set ?rows. CHR 0x0A \<notin> set r"
    using assms(2) by (fastforce simp: gauge_def metric_name_def)
  ultimately have "scrape name (page ps) = scrape_rows name (?rows @ [[]])"
    by (simp add: scrape_def page_def split_page)
  also have "\<dots> = Option.bind (map_of ps name) int_of_str"
    using assms(2)
  proof (induction ps)
    case Nil
    then show ?case by (simp add: scrape_rows_def)
  next
    case (Cons p ps)
    then show ?case by (cases p) (simp add: scrape_gauge [OF assms(3)])
  qed
  finally show ?thesis .
qed

lemma flag_text_int [simp]: "int_of_str (flag_text b) = Some (of_bool b)"
proof -
  have "flag_text True = str_of_int 1" "flag_text False = str_of_int 0" by code_simp+
  then show ?thesis by (cases b) simp_all
qed

lemma flag_text_no_newline [simp]: "CHR 0x0A \<notin> set (flag_text b)"
  by (simp add: flag_text_def)

text \<open>
  The exporter publishes what the snapshots say: with integers in the six portfolio fields and a
  blocker count that is not negative, rendering succeeds, and scraping each metric by its name reads
  back exactly the snapshot's number, the blocker count, and 1 or 0 for the three status gauges.
\<close>

lemma scraped_metrics_match_snapshots:
  assumes "\<forall>(name, field) \<in> set portfolio_metrics. map_of p field = Some (JInt (v field))"
    and "get_default h ''external_blocker_count'' (JInt 0) = JInt b" and "0 \<le> b"
  shows "\<exists>body. render_metrics (JObj h) (Some (JObj p)) None = Inr body
     \<and> (\<forall>(name, field) \<in> set portfolio_metrics. scrape name body = Some (v field))
     \<and> scrape ''ito_external_blocker_count'' body = Some b
     \<and> scrape ''ito_local_validation_pass'' body = Some (of_bool (map_of h ''local_status'' = Some (JStr ''healthy'')))
     \<and> scrape ''ito_production_readiness'' body = Some (of_bool (map_of h ''production_status'' = Some (JStr ''production_ready'')))
     \<and> scrape ''ito_recovery_artifact_present'' body = Some (of_bool (map_of h ''recovery_artifact_present'' = Some (JBool True)))"
proof -
  define hp where "hp = [(''ito_local_validation_pass'', flag_text (map_of h ''local_status'' = Some (JStr ''healthy''))),
    (''ito_production_readiness'', flag_text (map_of h ''production_status'' = Some (JStr ''production_ready''))),
    (''ito_external_blocker_count'', str_of_int b),
    (''ito_recovery_artifact_present'', flag_text (map_of h ''recovery_artifact_present'' = Some (JBool True)))]"
  define pp where "pp = map (\<lambda>(name, field). (name, str_of_int (v field))) portfolio_metrics"
  have dflt: "get_default h k JNull = w \<longleftrightarrow> map_of h k = Some w" if "w \<noteq> JNull" for k w
    using that by (auto simp: get_default_def split: option.splits)
  have "health_rows (JObj h) = Inr (concat (map (\<lambda>(n, v). gauge n v) hp))"
    using assms(2,3) by (simp add: health_rows_def hp_def dflt int_text_def)
  moreover have "portfolio_rows (JObj p) = Inr (concat (map (\<lambda>(n, v). gauge n v) pp))"
  proof -
    have "map_res (\<lambda>(name, field). res_bind (jget (JObj p) field JNull) (\<lambda>value.
           if int_value value = None then Inl (ExporterError (''metric_invalid:'' @ name))
           else Inr (gauge name (int_text value)))) portfolio_metrics
        = Inr (map (\<lambda>(name, field). gauge name (str_of_int (v field))) portfolio_metrics)"
      using assms(1) by (intro map_res_total) (auto simp: get_default_def int_text_def)
    moreover have "map (\<lambda>(n, v). gauge n v) pp = map (\<lambda>(name, field). gauge name (str_of_int (v field))) portfolio_metrics"
      by (simp add: pp_def split_beta)
    ultimately show ?thesis unfolding portfolio_rows_def by (simp only: res_bind_simps)
  qed
  ultimately have body: "render_metrics (JObj h) (Some (JObj p)) None = Inr (page (hp @ pp))"
    by (simp add: render_metrics_def page_def)
  have ok: "\<forall>q \<in> set (hp @ pp). metric_name (fst q) \<and> CHR 0x0A \<notin> set (snd q)"
    by (simp add: hp_def pp_def portfolio_metrics_def metric_name_def str_of_int_no_newline)
  have "scrape name (page (hp @ pp)) = Option.bind (map_of (hp @ pp) name) int_of_str" if "metric_name name" for name
    using ok that by (intro scrape_page) (simp_all add: hp_def)
  then show ?thesis
    unfolding body by (intro exI [of _ "page (hp @ pp)"])
      (simp add: hp_def pp_def portfolio_metrics_def metric_name_def)
qed


subsection \<open>Responses\<close>

text \<open>What reading a file can do, for \<open>load_snapshot\<close>: give a value or one of the caught exceptions.\<close>

definition readable :: "exn + json \<Rightarrow> bool" where
  "readable content = (case content of Inl (OSError _) \<Rightarrow> True | Inl (JSONDecodeError _) \<Rightarrow> True | Inl _ \<Rightarrow> False | Inr _ \<Rightarrow> True)"

lemma load_snapshot_cases:
  assumes "readable content"
  obtains d where "content = Inr (JObj d)" "load_snapshot content = Inr (JObj d)"
  | m where "load_snapshot content = Inl (ExporterError m)" "\<And>d. content \<noteq> Inr (JObj d)"
proof (cases content)
  case (Inl e)
  then show thesis using assms that(2) by (cases e) (auto simp: readable_def load_snapshot_def)
next
  case (Inr v)
  then show thesis using that by (cases v) (auto simp: load_snapshot_def)
qed

lemma load_optional_cases:
  assumes "pred_option readable source"
  obtains "source = None" "load_optional source = Inr None"
  | d where "source = Some (Inr (JObj d))" "load_optional source = Inr (Some (JObj d))"
  | m where "load_optional source = Inl (ExporterError m)" "\<And>d. source \<noteq> Some (Inr (JObj d))" "source \<noteq> None"
proof (cases source)
  case (Some content)
  with assms have "readable content" by simp
  then show thesis
    by (cases rule: load_snapshot_cases) (use Some that(2,3) in \<open>auto simp: load_optional_def\<close>)
qed (use that(1) in \<open>simp add: load_optional_def\<close>)

text \<open>The audit snapshot of the exporter is a dict, and iterating over it gives its keys.\<close>

definition audit_zero :: string where
  "audit_zero = ''# TYPE ito_audit_total_events gauge'' @ newline @ ''ito_audit_total_events 0'' @ newline"

lemma audit_of_dict: "render_audit_metrics (Some (JObj d)) = Inr audit_zero"
proof -
  have "count_actions (map (\<lambda>kv. JStr (fst kv)) d) c n = (c, n)" for c n by (induction d) simp_all
  moreover have "str_of_int 0 = ''0''" by code_simp
  ultimately show ?thesis by (simp add: render_audit_metrics_def gauge_def audit_zero_def)
qed

lemma portfolio_rows_total: "portfolio_rows (JObj p) = Inl e \<Longrightarrow> \<exists>m. e = ExporterError m"
proof -
  have "map_res (\<lambda>(name, field). res_bind (jget (JObj p) field JNull) (\<lambda>value.
      if int_value value = None then Inl (ExporterError (''metric_invalid:'' @ name))
      else Inr (gauge name (int_text value)))) ms = Inl e \<Longrightarrow> \<exists>m. e = ExporterError m" for ms :: "(string \<times> string) list"
    by (induction ms) (auto simp: res_bind_eq_Inl split: if_splits)
  then show "portfolio_rows (JObj p) = Inl e \<Longrightarrow> \<exists>m. e = ExporterError m"
    by (auto simp: portfolio_rows_def res_bind_eq_Inl)
qed

lemma health_rows_total: "health_rows (JObj h) = Inl e \<Longrightarrow> \<exists>m. e = ExporterError m"
  by (auto simp: health_rows_def split: if_splits)

lemma py_join_snoc: "py_join sep (xs @ [t]) = (if xs = [] then t else py_join sep xs @ sep @ t)"
proof (cases "xs = []")
  case False
  then show ?thesis by (induction xs rule: list_nonempty_induct) (simp_all add: py_join_Cons)
qed simp


lemma render_metrics_cases:
  fixes p a
  obtains m where "render_metrics (JObj h) (map_option JObj p) (map_option JObj a) = Inl (ExporterError m)"
  | rows where "render_metrics (JObj h) (map_option JObj p) (map_option JObj a) =
      Inr (py_join newline (rows @ (if a = None then [] else [audit_zero])) @ newline)"
proof (cases "health_rows (JObj h)")
  case (Inl e)
  then show thesis using health_rows_total [OF Inl] that(1) by (auto simp: render_metrics_def)
next
  case (Inr rows)
  show thesis
  proof (cases "case map_option JObj p of None \<Rightarrow> Inr [] | Some q \<Rightarrow> portfolio_rows q")
    case (Inl e)
    then have "\<exists>m. e = ExporterError m" using portfolio_rows_total by (auto split: option.splits)
    then show thesis using Inr Inl that(1) by (auto simp: render_metrics_def)
  next
    case (Inr more_rows)
    with \<open>health_rows (JObj h) = Inr rows\<close> show thesis
      by (intro that(2) [of "rows @ more_rows"]) (cases a, simp_all add: render_metrics_def audit_of_dict)
  qed
qed

lemma snapshots_cases:
  assumes "readable health" "pred_option readable portfolio" "pred_option readable audit"
  obtains (failed) "exporter_get ''/metrics'' health portfolio audit = Inr (empty_response 503)"
  | (loaded) h p a where "health = Inr (JObj h)" "portfolio = map_option (\<lambda>d. Inr (JObj d)) p" "audit = map_option (\<lambda>d. Inr (JObj d)) a"
      "load_snapshot health = Inr (JObj h)" "load_optional portfolio = Inr (map_option JObj p)" "load_optional audit = Inr (map_option JObj a)"
  using assms(1)
proof (cases rule: load_snapshot_cases)
  case (1 h)
  have one: thesis if p: "portfolio = map_option (\<lambda>d. Inr (JObj d)) p" "load_optional portfolio = Inr (map_option JObj p)" for p
    using load_optional_cases [where source = audit, OF assms(3)]
  proof (cases)
    case a: 1
    then show thesis using loaded [of h p None] 1 p by simp
  next
    case a: (2 d)
    then show thesis using loaded [of h p "Some d"] 1 p by simp
  next
    case (3 m)
    then show thesis using failed 1 p by (simp add: exporter_get_def)
  qed
  show thesis
    using load_optional_cases [where source = portfolio, OF assms(2)]
  proof (cases)
    case 1
    then show thesis by (intro one [of None]) simp_all
  next
    case (2 d)
    then show thesis by (intro one [of "Some d"]) simp_all
  next
    case (3 m)
    then show thesis using failed 1 by (simp add: exporter_get_def)
  qed
next
  case (2 m)
  then show thesis using failed by (simp add: exporter_get_def)
qed


subsection \<open>Readiness and health\<close>

text \<open>A gate of a readiness matrix: a dict with a text as id and a flag, which may be missing.\<close>

definition gate_ok :: "json \<Rightarrow> bool" where
  "gate_ok g \<longleftrightarrow> is_dict g \<and> (\<exists>s. gate_field g ''id'' = JStr s)
     \<and> gate_field g ''implemented'' \<in> {JNull, JBool True, JBool False}"

definition open_gate :: "json \<Rightarrow> bool" where
  "open_gate g \<longleftrightarrow> gate_field g ''implemented'' \<noteq> JBool True"

definition gate_id :: "json \<Rightarrow> string" where
  "gate_id g = (case gate_field g ''id'' of JStr s \<Rightarrow> s | _ \<Rightarrow> [])"

lemma gate_field_JObj: "gate_field (JObj d) k = get_default d k JNull"
  by (simp add: gate_field_def)

lemma jget_gate: "is_dict g \<Longrightarrow> jget g k JNull = Inr (gate_field g k)"
  by (cases g) (simp_all add: gate_field_def)

lemma py_str_gate_id: "gate_ok g \<Longrightarrow> py_str rep (gate_field g ''id'') = gate_id g"
  by (auto simp: gate_ok_def gate_id_def)

lemma implemented_flag_gate: "gate_ok g \<Longrightarrow> implemented_flag g = Inr (\<not> open_gate g)"
  by (auto simp: gate_ok_def implemented_flag_def jget_gate open_gate_def)

lemma blocker_summary_id:
  assumes "gate_ok g"
  obtains d where "blocker_summary g = Inr (JObj d)" "gate_field (JObj d) ''id'' = gate_field g ''id''"
proof -
  let ?d = "map (\<lambda>k. (k, gate_field g k)) [''id'', ''domain'', ''name'', ''evidence'']"
  have "blocker_summary g = Inr (JObj ?d)" using assms by (simp add: gate_ok_def blocker_summary_def jget_gate)
  moreover have "gate_field (JObj ?d) ''id'' = gate_field g ''id''" by (simp add: gate_field_JObj get_default_def)
  ultimately show thesis by (rule that)
qed

lemma evaluate_gates:
  assumes "map_of m ''gates'' = Some (JArr gs)" and "\<forall>g \<in> set gs. gate_ok g"
  obtains ss e where "evaluate (JObj m) = Inr (JObj e)" "map_of e ''blockers'' = Some (JArr ss)" "map_of e ''gates'' = None"
    "map_of e ''status'' = Some (JStr (if filter open_gate gs = [] then ''production_ready'' else ''not_production_ready''))"
    "list_all2 (\<lambda>g s. blocker_summary g = Inr s) (filter open_gate gs) ss"
proof -
  have "filter_res implemented_flag gs = Inr (filter (\<lambda>g. \<not> open_gate g) gs)"
    "filter_res (\<lambda>g. map_sum id Not (implemented_flag g)) gs = Inr (filter open_gate gs)"
    using assms(2) by (auto intro!: filter_res_total simp: implemented_flag_gate)
  moreover obtain ss where ss: "map_res blocker_summary (filter open_gate gs) = Inr ss"
  proof -
    have "\<exists>s. blocker_summary g = Inr s" if "g \<in> set (filter open_gate gs)" for g
      using blocker_summary_id [of g] assms(2) that by (metis filter_is_subset subsetD)
    then have "map_res blocker_summary (filter open_gate gs) = Inr (map (\<lambda>g. projr (blocker_summary g)) (filter open_gate gs))"
      by (intro map_res_total) force
    then show thesis by (rule that)
  qed
  ultimately obtain e where "evaluate (JObj m) = Inr (JObj e)" "map_of e ''blockers'' = Some (JArr ss)" "map_of e ''gates'' = None"
    "map_of e ''status'' = Some (JStr (if filter open_gate gs = [] then ''production_ready'' else ''not_production_ready''))"
    using assms(1) by (simp add: evaluate_def get_default_def)
  moreover have "list_all2 (\<lambda>g s. blocker_summary g = Inr s) (filter open_gate gs) ss"
    using ss by (simp add: map_res_eq_Inr)
  ultimately show thesis by (rule that)
qed

lemma report_lists_gates:
  assumes "map_of m ''gates'' = Some (JArr gs)" and "\<forall>g \<in> set gs. gate_ok g"
  shows "report_lists rep (JObj m) = Inr (filter (\<lambda>i. i \<in> set local_ids) (map gate_id (filter open_gate gs)), map gate_id (filter open_gate gs))"
proof -
  have "local_failure g = Inr (gate_id g \<in> set local_ids \<and> open_gate g)" if "g \<in> set gs" for g
    using assms(2) that by (auto simp: local_failure_def gate_ok_def in_names_def gate_id_def open_gate_def)
  then have "filter_res local_failure gs = Inr (filter (\<lambda>g. gate_id g \<in> set local_ids \<and> open_gate g) gs)"
    by (rule filter_res_total)
  moreover have ids: "map (\<lambda>g. py_str rep (gate_field g ''id'')) (filter P gs) = map gate_id (filter P gs)" for P
    using assms(2) by (simp add: py_str_gate_id)
  moreover have "filter (\<lambda>g. is_dict g \<and> gate_field g ''implemented'' \<noteq> JBool True) gs = filter open_gate gs"
    using assms(2) by (intro filter_cong) (auto simp: gate_ok_def open_gate_def)
  moreover have "map gate_id (filter (\<lambda>g. gate_id g \<in> set local_ids \<and> open_gate g) gs)
      = filter (\<lambda>i. i \<in> set local_ids) (map gate_id (filter open_gate gs))"
    by (simp add: filter_map comp_def conj_commute)
  moreover have "report_lists rep (JObj m) = res_bind (filter_res local_failure gs) (\<lambda>failing.
      Inr (map (\<lambda>g. py_str rep (gate_field g ''id'')) failing,
           map (\<lambda>g. py_str rep (gate_field g ''id''))
             (filter (\<lambda>g. is_dict g \<and> gate_field g ''implemented'' \<noteq> JBool True) gs)))"
    using assms(1) by (simp add: report_lists_def gate_field_JObj get_default_def)
  ultimately show ?thesis by (simp only: res_bind_simps)
qed

lemma report_lists_blockers:
  assumes "map_of e ''gates'' = None" "map_of e ''blockers'' = Some (JArr ss)"
    and "list_all2 (\<lambda>g s. blocker_summary g = Inr s) gs ss" and "\<forall>g \<in> set gs. gate_ok g"
  shows "report_lists rep (JObj e) = Inr (filter (\<lambda>i. i \<in> set local_ids) (map gate_id gs), map gate_id gs)"
proof -
  have "filter is_dict ss = ss \<and> map (\<lambda>s. py_str rep (gate_field s ''id'')) ss = map gate_id gs"
    using assms(3,4)
  proof (induction rule: list_all2_induct)
    case (Cons g gs s ss)
    then have "gate_ok g" by simp
    then show ?case using Cons by (elim blocker_summary_id) (auto simp: py_str_gate_id)
  qed simp
  then show ?thesis using assms(1,2) by (simp add: report_lists_def gate_field_JObj get_default_def Let_def)
qed

text \<open>
  Readiness and health agree: for a readiness matrix whose gates have text ids and boolean (or
  missing) flags, the health report built from the matrix and the one built from its evaluation have
  the same local status, local failures, blockers and blocker count, and the evaluation says
  \<open>production_ready\<close> exactly when there are no blockers.
\<close>

theorem health_report_same_from_matrix_or_evaluation:
  assumes "map_of m ''gates'' = Some (JArr gs)" and "\<forall>g \<in> set gs. gate_ok g"
  shows "\<exists>e r1 r2. evaluate (JObj m) = Inr e \<and> build_report rep (JObj m) recovery = Inr r1 \<and> build_report rep e recovery = Inr r2
     \<and> jitem r1 ''local_status'' = jitem r2 ''local_status'' \<and> jitem r1 ''local_failures'' = jitem r2 ''local_failures''
     \<and> jitem r1 ''external_blockers'' = jitem r2 ''external_blockers''
     \<and> jitem r1 ''external_blocker_count'' = jitem r2 ''external_blocker_count''
     \<and> (jitem e ''status'' = Inr (JStr ''production_ready'') \<longleftrightarrow> jitem r1 ''external_blockers'' = Inr (JArr []))"
proof (rule evaluate_gates [OF assms])
  fix ss e
  assume e: "evaluate (JObj m) = Inr (JObj e)" "map_of e ''blockers'' = Some (JArr ss)" "map_of e ''gates'' = None"
    "map_of e ''status'' = Some (JStr (if filter open_gate gs = [] then ''production_ready'' else ''not_production_ready''))"
    "list_all2 (\<lambda>g s. blocker_summary g = Inr s) (filter open_gate gs) ss"
  have lists: "report_lists rep (JObj e) = report_lists rep (JObj m)"
    using report_lists_blockers [OF e(3,2,5), of rep] assms(2) report_lists_gates [OF assms, of rep] by simp
  show ?thesis
    using e(1,4) lists report_lists_gates [OF assms, of rep]
    by (simp add: build_report_def jitem_def)
qed

end
