(* ===== verification/Json_Text.thy ===== *)
theory Json_Text
  imports Py_Json Py_Bytes "HOL-Library.List_Lexorder" "HOL-Library.Char_ord" "HOL-Library.Sublist"
begin

section \<open>The text of JSON documents\<close>

text \<open>
  The part of the standard module \<open>json\<close> that the sources use: \<open>dumps\<close> with \<open>sort_keys=True\<close>, plain,
  with compact separators or with an indentation, and \<open>loads\<close>. Characters are code points below 256.
  The shortest text of a finite float is a parameter \<open>frep\<close>; parsed decimals are rounded to the nearest
  double. A syntax error is a \<open>JSONDecodeError\<close> without the position in its message, and there is no
  limit on the depth of nesting.
\<close>

subsection \<open>Sorting of keys\<close>

fun sorted_json :: "json \<Rightarrow> json"
  and sorted_items :: "json list \<Rightarrow> json list"
  and sorted_members :: "(string \<times> json) list \<Rightarrow> (string \<times> json) list" where
  "sorted_json (JArr xs) = JArr (sorted_items xs)"
| "sorted_json (JObj d) = JObj (sort_key fst (sorted_members d))"
| "sorted_json v = v"
| "sorted_items [] = []"
| "sorted_items (x # xs) = sorted_json x # sorted_items xs"
| "sorted_members [] = []"
| "sorted_members (kv # d) = (fst kv, sorted_json (snd kv)) # sorted_members d"

subsection \<open>Printing\<close>

record json_style =
  js_item :: string
  js_key :: string
  js_indent :: "nat option"

definition plain_style :: json_style where
  "plain_style = \<lparr>js_item = '', '', js_key = '': '', js_indent = None\<rparr>"

definition compact_style :: json_style where
  "compact_style = \<lparr>js_item = '','', js_key = '':'', js_indent = None\<rparr>"

definition indent_style :: json_style where
  "indent_style = \<lparr>js_item = '','', js_key = '': '', js_indent = Some 2\<rparr>"

definition hex_digit :: "nat \<Rightarrow> char" where
  "hex_digit n = ''0123456789abcdef'' ! n"

definition json_char :: "char \<Rightarrow> string" where
  "json_char c =
     (let v = (of_char c :: nat)
      in if c = CHR 0x22 then [CHR 0x5C, CHR 0x22]
         else if c = CHR 0x5C then [CHR 0x5C, CHR 0x5C]
         else if v = 10 then [CHR 0x5C, CHR ''n'']
         else if v = 13 then [CHR 0x5C, CHR ''r'']
         else if v = 9 then [CHR 0x5C, CHR ''t'']
         else if v = 12 then [CHR 0x5C, CHR ''f'']
         else if v = 8 then [CHR 0x5C, CHR ''b'']
         else if 32 \<le> v \<and> v \<le> 126 then [c]
         else [CHR 0x5C, CHR ''u'', CHR ''0'', CHR ''0'', hex_digit (v div 16), hex_digit (v mod 16)])"

definition json_string :: "string \<Rightarrow> string" where
  "json_string s = [CHR 0x22] @ concat (map json_char s) @ [CHR 0x22]"

definition line_start :: "json_style \<Rightarrow> nat \<Rightarrow> string" where
  "line_start style level =
     (case js_indent style of None \<Rightarrow> [] | Some n \<Rightarrow> CHR 0x0A # replicate (n * level) (CHR '' ''))"

definition bracketed :: "json_style \<Rightarrow> nat \<Rightarrow> char \<Rightarrow> char \<Rightarrow> string list \<Rightarrow> string" where
  "bracketed style level opening_char closing_char items =
     (if items = [] then [opening_char, closing_char]
      else [opening_char] @ line_start style (Suc level) @ py_join (js_item style @ line_start style (Suc level)) items
        @ line_start style level @ [closing_char])"

fun float_text :: "(rat \<Rightarrow> string) \<Rightarrow> jfloat \<Rightarrow> string" where
  "float_text frep (Fin x) = frep x"
| "float_text frep PosInf = ''Infinity''"
| "float_text frep NegInf = ''-Infinity''"
| "float_text frep NaN = ''NaN''"

fun json_text :: "(rat \<Rightarrow> string) \<Rightarrow> json_style \<Rightarrow> nat \<Rightarrow> json \<Rightarrow> string"
  and item_texts :: "(rat \<Rightarrow> string) \<Rightarrow> json_style \<Rightarrow> nat \<Rightarrow> json list \<Rightarrow> string list"
  and member_texts :: "(rat \<Rightarrow> string) \<Rightarrow> json_style \<Rightarrow> nat \<Rightarrow> (string \<times> json) list \<Rightarrow> string list" where
  "json_text frep style level JNull = ''null''"
| "json_text frep style level (JBool b) = (if b then ''true'' else ''false'')"
| "json_text frep style level (JInt n) = str_of_int n"
| "json_text frep style level (JFloat f) = float_text frep f"
| "json_text frep style level (JStr s) = json_string s"
| "json_text frep style level (JArr xs) =
     bracketed style level (CHR 0x5B) (CHR 0x5D) (item_texts frep style (Suc level) xs)"
| "json_text frep style level (JObj d) =
     bracketed style level (CHR 0x7B) (CHR 0x7D) (member_texts frep style (Suc level) d)"
| "item_texts frep style level [] = []"
| "item_texts frep style level (x # xs) = json_text frep style level x # item_texts frep style level xs"
| "member_texts frep style level [] = []"
| "member_texts frep style level (kv # d) =
     (json_string (fst kv) @ js_key style @ json_text frep style level (snd kv)) # member_texts frep style level d"

definition json_dumps :: "(rat \<Rightarrow> string) \<Rightarrow> json_style \<Rightarrow> json \<Rightarrow> string" where
  "json_dumps frep style v = json_text frep style 0 (sorted_json v)"

subsection \<open>Parsing\<close>

definition json_space :: "char \<Rightarrow> bool" where
  "json_space c \<longleftrightarrow> c = CHR '' '' \<or> c = CHR 0x09 \<or> c = CHR 0x0A \<or> c = CHR 0x0D"

definition skip_space :: "string \<Rightarrow> string" where
  "skip_space s = dropWhile json_space s"

definition hex_value :: "char \<Rightarrow> nat option" where
  "hex_value c =
     (let v = (of_char c :: nat)
      in if 48 \<le> v \<and> v \<le> 57 then Some (v - 48)
         else if 97 \<le> v \<and> v \<le> 102 then Some (v - 87)
         else if 65 \<le> v \<and> v \<le> 70 then Some (v - 55)
         else None)"

text \<open>A code point given by four hexadecimal digits, when it is one of the model's characters.\<close>

definition hex_char :: "char \<Rightarrow> char \<Rightarrow> char \<Rightarrow> char \<Rightarrow> char option" where
  "hex_char a b c d =
     (case (hex_value a, hex_value b, hex_value c, hex_value d) of
        (Some w, Some x, Some y, Some z) \<Rightarrow> if w = 0 \<and> x = 0 then Some (char_of (16 * y + z)) else None
      | _ \<Rightarrow> None)"

definition unescape :: "char \<Rightarrow> char option" where
  "unescape c = map_of
     [(CHR 0x22, CHR 0x22), (CHR 0x5C, CHR 0x5C), (CHR ''/'', CHR ''/''), (CHR ''b'', CHR 0x08), (CHR ''f'', CHR 0x0C),
      (CHR ''n'', CHR 0x0A), (CHR ''r'', CHR 0x0D), (CHR ''t'', CHR 0x09)] c"

text \<open>A string after its opening quote: its characters, and the input after the closing quote.\<close>

fun string_body :: "string \<Rightarrow> (string \<times> string) option" where
  "string_body [] = None"
| "string_body (c # s) =
     (if c = CHR 0x22 then Some ([], s)
      else if c = CHR 0x5C
      then (case s of
              [] \<Rightarrow> None
            | e # t \<Rightarrow>
                if e = CHR ''u''
                then (case t of
                        h1 # h2 # h3 # h4 # u \<Rightarrow>
                          (case hex_char h1 h2 h3 h4 of
                             None \<Rightarrow> None
                           | Some x \<Rightarrow> map_option (\<lambda>(r, rest). (x # r, rest)) (string_body u))
                      | _ \<Rightarrow> None)
                else (case unescape e of
                        None \<Rightarrow> None
                      | Some x \<Rightarrow> map_option (\<lambda>(r, rest). (x # r, rest)) (string_body t)))
      else if (of_char c :: nat) < 32 then None
      else map_option (\<lambda>(r, rest). (c # r, rest)) (string_body s))"

definition is_digit :: "char \<Rightarrow> bool" where
  "is_digit c \<longleftrightarrow> digit_value c \<noteq> None"

definition digits_value :: "string \<Rightarrow> int" where
  "digits_value ds = foldl (\<lambda>a c. a * 10 + the (digit_value c)) 0 ds"

text \<open>The optional fraction and exponent of a number: the digits after the point and the power of ten.\<close>

definition fraction_part :: "string \<Rightarrow> string \<times> string" where
  "fraction_part s =
     (case s of
        c # t \<Rightarrow> if c = CHR ''.'' \<and> takeWhile is_digit t \<noteq> [] then (takeWhile is_digit t, dropWhile is_digit t) else ([], s)
      | [] \<Rightarrow> ([], s))"

definition exponent_part :: "string \<Rightarrow> int option \<times> string" where
  "exponent_part s =
     (case s of
        c # t \<Rightarrow>
          if c = CHR ''e'' \<or> c = CHR ''E''
          then (let (sg, u) = (case t of x # u \<Rightarrow> if x = CHR ''-'' then (-1, u) else if x = CHR ''+'' then (1, u) else (1, t)
                                       | [] \<Rightarrow> (1, t))
                in if takeWhile is_digit u \<noteq> [] then (Some (sg * digits_value (takeWhile is_digit u)), dropWhile is_digit u)
                   else (None, s))
          else (None, s)
      | [] \<Rightarrow> (None, s))"

definition power_of_ten :: "int \<Rightarrow> rat" where
  "power_of_ten e = (if 0 \<le> e then 10 ^ nat e else 1 / 10 ^ nat (- e))"

definition parse_number :: "string \<Rightarrow> (json \<times> string) option" where
  "parse_number s =
     (let (sg, s1) = (case s of c # t \<Rightarrow> if c = CHR ''-'' then (-1, t) else (1, s) | [] \<Rightarrow> (1, s));
          ds = takeWhile is_digit s1;
          (ip, s2) = (case ds of
                        [] \<Rightarrow> ([], s1)
                      | c # _ \<Rightarrow> if c = CHR ''0'' then ([c], tl s1) else (ds, dropWhile is_digit s1));
          (fp, s3) = fraction_part s2;
          (ep, s4) = exponent_part s3
      in if ip = [] then None
         else if fp = [] \<and> ep = None then Some (JInt (sg * digits_value ip), s4)
         else Some (JFloat (Fin (fl (of_int (sg * digits_value (ip @ fp))
                * power_of_ten ((case ep of None \<Rightarrow> 0 | Some e \<Rightarrow> e) - int (length fp))))), s4))"

definition json_literals :: "(string \<times> json) list" where
  "json_literals = [(''null'', JNull), (''true'', JBool True), (''false'', JBool False), (''NaN'', JFloat NaN),
     (''Infinity'', JFloat PosInf), (''-Infinity'', JFloat NegInf)]"

definition parse_atom :: "string \<Rightarrow> (json \<times> string) option" where
  "parse_atom s =
     (case find (\<lambda>(t, _). prefix t s) json_literals of
        Some (t, v) \<Rightarrow> Some (v, drop (length t) s)
      | None \<Rightarrow> parse_number s)"

text \<open>Members of an object in order: a repeated key keeps its place and takes the later value.\<close>

definition dict_of_members :: "(string \<times> json) list \<Rightarrow> (string, json) dict" where
  "dict_of_members ms = foldl (\<lambda>d (k, v). AList.update k v d) [] ms"

text \<open>The fuel bounds the number of nested calls; \<open>json_loads\<close> gives more than any text can need.\<close>

fun parse_value :: "nat \<Rightarrow> string \<Rightarrow> (json \<times> string) option"
  and parse_items :: "nat \<Rightarrow> string \<Rightarrow> (json list \<times> string) option"
  and parse_members :: "nat \<Rightarrow> string \<Rightarrow> ((string \<times> json) list \<times> string) option" where
  "parse_value 0 s = None"
| "parse_value (Suc n) s =
     (case skip_space s of
        [] \<Rightarrow> None
      | c # t \<Rightarrow>
          if c = CHR 0x22 then map_option (\<lambda>(x, u). (JStr x, u)) (string_body t)
          else if c = CHR 0x5B
          then (if take 1 (skip_space t) = [CHR 0x5D] then Some (JArr [], tl (skip_space t))
                else map_option (\<lambda>(xs, u). (JArr xs, u)) (parse_items n t))
          else if c = CHR 0x7B
          then (if take 1 (skip_space t) = [CHR 0x7D] then Some (JObj [], tl (skip_space t))
                else map_option (\<lambda>(ms, u). (JObj (dict_of_members ms), u)) (parse_members n t))
          else parse_atom (c # t))"
| "parse_items 0 s = None"
| "parse_items (Suc n) s =
     (case parse_value n s of
        None \<Rightarrow> None
      | Some (v, u) \<Rightarrow>
          (case skip_space u of
             [] \<Rightarrow> None
           | c # w \<Rightarrow>
               if c = CHR '','' then map_option (\<lambda>(xs, r). (v # xs, r)) (parse_items n w)
               else if c = CHR 0x5D then Some ([v], w)
               else None))"
| "parse_members 0 s = None"
| "parse_members (Suc n) s =
     (case skip_space s of
        [] \<Rightarrow> None
      | q # t \<Rightarrow>
          if q \<noteq> CHR 0x22 then None
          else (case string_body t of
             None \<Rightarrow> None
           | Some (k, u) \<Rightarrow>
               if take 1 (skip_space u) \<noteq> [CHR '':''] then None
               else (case parse_value n (tl (skip_space u)) of
                  None \<Rightarrow> None
                | Some (v, x) \<Rightarrow>
                    (case skip_space x of
                       [] \<Rightarrow> None
                     | c # y \<Rightarrow>
                         if c = CHR '','' then map_option (\<lambda>(ms, r). ((k, v) # ms, r)) (parse_members n y)
                         else if c = CHR 0x7D then Some ([(k, v)], y)
                         else None))))"

definition json_loads :: "string \<Rightarrow> exn + json" where
  "json_loads s =
     (case parse_value (Suc (length s)) s of
        None \<Rightarrow> Inl (JSONDecodeError ''Expecting value'')
      | Some (v, rest) \<Rightarrow> if skip_space rest = [] then Inr v else Inl (JSONDecodeError ''Extra data''))"

subsection \<open>Bytes\<close>

text \<open>\<open>str.encode("utf-8")\<close> for code points below 256.\<close>

definition utf8_char :: "char \<Rightarrow> bytes" where
  "utf8_char c = (let v = (of_char c :: int) in
     if v < 128 then [word_of_int v] else [word_of_int (192 + v div 64), word_of_int (128 + v mod 64)])"

definition utf8_encode :: "string \<Rightarrow> bytes" where
  "utf8_encode s = concat (map utf8_char s)"

text \<open>\<open>bytes.decode("utf-8")\<close>; sequences for code points from 256 on are outside the model's characters.\<close>

fun utf8_decode :: "bytes \<Rightarrow> string option" where
  "utf8_decode [] = Some []"
| "utf8_decode (b # bs) =
     (if uint b < 128 then map_option (Cons (char_of (uint b))) (utf8_decode bs)
      else case bs of
          [] \<Rightarrow> None
        | c # cs \<Rightarrow>
            if 194 \<le> uint b \<and> uint b < 196 \<and> 128 \<le> uint c \<and> uint c < 192
            then map_option (Cons (char_of ((uint b - 192) * 64 + (uint c - 128)))) (utf8_decode cs)
            else None)"

text \<open>\<open>json.loads\<close> of encoded text.\<close>

definition json_loads_bytes :: "bytes \<Rightarrow> exn + json" where
  "json_loads_bytes bs =
     (case utf8_decode bs of None \<Rightarrow> Inl (ValueError ''invalid utf-8'') | Some s \<Rightarrow> json_loads s)"

end
