(* ===== verification/Backup.thy ===== *)
theory Backup
  imports Json_Text
begin

section \<open>Backup and restore (scripts/operations/backup_restore.py)\<close>

text \<open>
  Paths are lists of components. A directory tree has files and directories; the destination of a
  restore and the staging directory are such trees, without symbolic links. An archive is the list of
  its members. \<open>backup\<close> is the archive made of the collected files; collecting them is in theory \<open>Collect\<close>.
  Parameters: \<open>dumps\<close> and \<open>loads\<close> for the text of the manifest, which are \<open>manifest_dumps\<close> and
  \<open>json_loads_bytes\<close> in the code, \<open>sha\<close> for the hexadecimal SHA-256 of a file's content, \<open>rep\<close> for the
  text of floats and containers.
\<close>

subsection \<open>Paths\<close>

type_synonym path = "string list"

definition parse_path :: "string \<Rightarrow> path" where
  "parse_path s = filter (\<lambda>part. part \<noteq> [] \<and> part \<noteq> ''.'') (split_on (CHR ''/'') s)"

definition is_absolute :: "string \<Rightarrow> bool" where
  "is_absolute s \<longleftrightarrow> s \<noteq> [] \<and> hd s = CHR ''/''"

definition as_posix :: "path \<Rightarrow> string" where
  "as_posix p = (if p = [] then ''.'' else py_join ''/'' p)"

definition safe_relative :: "string \<Rightarrow> exn + path" where
  "safe_relative value =
     (if is_absolute value \<or> ''..'' \<in> set (parse_path value) then Inl (BackupError (''unsafe_path:'' @ value))
      else Inr (parse_path value))"

subsection \<open>Trees\<close>

record tree =
  tr_files :: "(path, bytes) dict"
  tr_dirs :: "path list"

definition empty_tree :: tree where
  "empty_tree = \<lparr>tr_files = [], tr_dirs = [[]]\<rparr>"

definition ancestors :: "path \<Rightarrow> path list" where
  "ancestors p = map (\<lambda>i. take i p) [0..<length p]"

text \<open>\<open>mkdir(parents=True, exist_ok=True)\<close> for the parent of \<open>p\<close>, and writing and replacing a file.\<close>

definition make_parents :: "path \<Rightarrow> tree \<Rightarrow> exn + tree" where
  "make_parents p t =
     (if \<exists>q \<in> set (ancestors p). has_key (tr_files t) q then Inl (OSError ''not a directory'')
      else Inr (t\<lparr>tr_dirs := tr_dirs t @ ancestors p\<rparr>))"

definition write_bytes :: "path \<Rightarrow> bytes \<Rightarrow> tree \<Rightarrow> exn + tree" where
  "write_bytes p data t =
     (if p \<in> set (tr_dirs t) then Inl (OSError ''is a directory'')
      else Inr (t\<lparr>tr_files := AList.update p data (tr_files t)\<rparr>))"

definition replace_file :: "path \<Rightarrow> path \<Rightarrow> bytes \<Rightarrow> tree \<Rightarrow> exn + tree" where
  "replace_file src dst data t =
     (if dst \<in> set (tr_dirs t) then Inl (OSError ''is a directory'')
      else Inr (t\<lparr>tr_files := AList.update dst data (AList.delete src (tr_files t))\<rparr>))"

subsection \<open>Backup\<close>

datatype member_kind = Regular | SymbolicLink | HardLink | OtherKind

record member =
  mb_name :: string
  mb_kind :: member_kind
  mb_data :: bytes

definition manifest_entry :: "(bytes \<Rightarrow> string) \<Rightarrow> path \<times> bytes \<Rightarrow> json" where
  "manifest_entry sha = (\<lambda>(p, data).
     JObj [(''path'', JStr (as_posix p)), (''size'', JInt (int (length data))), (''sha256'', JStr (sha data))])"

definition manifest :: "(bytes \<Rightarrow> string) \<Rightarrow> string \<Rightarrow> (path \<times> bytes) list \<Rightarrow> json" where
  "manifest sha root_name files =
     JObj [(''format'', JInt 1), (''root'', JStr root_name), (''files'', JArr (map (manifest_entry sha) files))]"

text \<open>\<open>json.dumps(data, sort_keys=True, separators=(",", ":")).encode("utf-8")\<close>.\<close>

definition manifest_dumps :: "(rat \<Rightarrow> string) \<Rightarrow> json \<Rightarrow> bytes" where
  "manifest_dumps frep data = utf8_encode (json_dumps frep compact_style data)"

definition backup :: "(json \<Rightarrow> bytes) \<Rightarrow> (bytes \<Rightarrow> string) \<Rightarrow> string \<Rightarrow> (path \<times> bytes) list \<Rightarrow> member list" where
  "backup dumps sha root_name files =
     \<lparr>mb_name = ''manifest.json'', mb_kind = Regular, mb_data = dumps (manifest sha root_name files)\<rparr>
     # map (\<lambda>(p, data). \<lparr>mb_name = as_posix p, mb_kind = Regular, mb_data = data\<rparr>) files"

subsection \<open>Restore\<close>

fun verify_members :: "member list \<Rightarrow> exn + unit" where
  "verify_members [] = Inr ()"
| "verify_members (m # ms) =
     res_bind (safe_relative (mb_name m)) (\<lambda>relative.
       if mb_kind m \<noteq> Regular then Inl (BackupError (''unsupported_member:'' @ mb_name m))
       else verify_members ms)"

text \<open>\<open>getmember\<close> takes the last member of the name.\<close>

definition get_member :: "member list \<Rightarrow> string \<Rightarrow> exn + member" where
  "get_member archive name =
     (case find (\<lambda>m. mb_name m = name) (rev archive) of Some m \<Rightarrow> Inr m | None \<Rightarrow> Inl (KeyError name))"

definition extract_member :: "member \<Rightarrow> tree \<Rightarrow> exn + tree" where
  "extract_member m t =
     res_bind (make_parents (parse_path (mb_name m)) t) (write_bytes (parse_path (mb_name m)) (mb_data m))"

fun extract_all :: "member list \<Rightarrow> tree \<Rightarrow> exn + tree" where
  "extract_all [] t = Inr t"
| "extract_all (m # ms) t = res_bind (extract_member m t) (extract_all ms)"

definition manifest_files :: "json \<Rightarrow> exn + json list" where
  "manifest_files data =
     res_bind (jget data ''format'' JNull) (\<lambda>format.
     res_bind (jget data ''files'' JNull) (\<lambda>files.
       if \<not> json_eq format (JInt 1) then Inl (BackupError ''invalid_manifest'')
       else case files of JArr entries \<Rightarrow> Inr entries | _ \<Rightarrow> Inl (BackupError ''invalid_manifest'')))"

definition entry_path :: "(json \<Rightarrow> string) \<Rightarrow> json \<Rightarrow> exn + path" where
  "entry_path rep entry = res_bind (jitem entry ''path'') (\<lambda>v. safe_relative (py_str rep v))"

definition check_entry :: "(json \<Rightarrow> string) \<Rightarrow> (bytes \<Rightarrow> string) \<Rightarrow> tree \<Rightarrow> json \<Rightarrow> exn + unit" where
  "check_entry rep sha staging entry =
     res_bind (entry_path rep entry) (\<lambda>relative.
       let failure = Inl (BackupError (''integrity_failure:'' @ as_posix relative))
       in case map_of (tr_files staging) relative of
            None \<Rightarrow> failure
          | Some data \<Rightarrow>
              res_bind (jitem_int entry ''size'') (\<lambda>size.
                if int (length data) \<noteq> size then failure
                else res_bind (jitem entry ''sha256'') (\<lambda>sha256.
                  if \<not> json_eq (JStr (sha data)) sha256 then failure else Inr ())))"

definition temporary_target :: "path \<Rightarrow> path" where
  "temporary_target p = butlast p @ [''.'' @ last p @ ''.restore'']"

text \<open>The body of the second loop: parents, copy to the temporary name, replace the target.\<close>

definition restore_file :: "path \<Rightarrow> bytes \<Rightarrow> tree \<Rightarrow> (tree, unit) outcome" where
  "restore_file p data t =
     (case make_parents p t of
        Inl e \<Rightarrow> (Inl e, t)
      | Inr t1 \<Rightarrow>
          (case write_bytes (temporary_target p) data t1 of
             Inl e \<Rightarrow> (Inl e, t1)
           | Inr t2 \<Rightarrow>
               (case replace_file (temporary_target p) p data t2 of
                  Inl e \<Rightarrow> (Inl e, t2)
                | Inr t3 \<Rightarrow> (Inr (), t3))))"

fun restore_entries :: "(json \<Rightarrow> string) \<Rightarrow> tree \<Rightarrow> json list \<Rightarrow> tree \<Rightarrow> (tree, unit) outcome" where
  "restore_entries rep staging [] t = (Inr (), t)"
| "restore_entries rep staging (entry # entries) t =
     (case entry_path rep entry of
        Inl e \<Rightarrow> (Inl e, t)
      | Inr relative \<Rightarrow>
          (case map_of (tr_files staging) relative of
             None \<Rightarrow> (Inl (OSError ''no such file''), t)
           | Some data \<Rightarrow>
               (case restore_file relative data t of
                  (Inl e, t) \<Rightarrow> (Inl e, t)
                | (Inr _, t) \<Rightarrow> restore_entries rep staging entries t)))"

definition restore :: "(json \<Rightarrow> string) \<Rightarrow> (bytes \<Rightarrow> exn + json) \<Rightarrow> (bytes \<Rightarrow> string) \<Rightarrow> member list \<Rightarrow> tree
    \<Rightarrow> (tree, unit) outcome" where
  "restore rep loads sha archive destination =
     (case
        res_bind (verify_members archive) (\<lambda>_.
        res_bind (get_member archive ''manifest.json'') (\<lambda>manifest_member.
        res_bind (loads (mb_data manifest_member)) (\<lambda>data.
        res_bind (manifest_files data) (\<lambda>entries.
        res_bind (extract_all archive empty_tree) (\<lambda>staging.
        res_bind (map_res (check_entry rep sha staging) entries) (\<lambda>_. Inr (staging, entries)))))))
      of
        Inl e \<Rightarrow> (Inl e, destination)
      | Inr (staging, entries) \<Rightarrow> restore_entries rep staging entries destination)"

end
