(* ===== verification/Json_Text_Props.thy ===== *)
theory Json_Text_Props
  imports Json_Text
begin

section \<open>Parsing what was printed\<close>

text \<open>
  A printed document parses back to itself with its keys sorted, in each of the styles, and access by
  key does not see the sorting. The files the scripts exchange rest on this.
\<close>

subsection \<open>Space\<close>

definition spaces :: "string \<Rightarrow> bool" where
  "spaces w \<longleftrightarrow> (\<forall>c \<in> set w. json_space c)"

lemma spaces_simps [simp]: "spaces []" "spaces (c # w) \<longleftrightarrow> json_space c \<and> spaces w" "spaces (v @ w) \<longleftrightarrow> spaces v \<and> spaces w"
  by (auto simp: spaces_def)

lemma skip_spaces: "spaces w \<Longrightarrow> skip_space (w @ s) = skip_space s"
  by (simp add: skip_space_def spaces_def dropWhile_append2)

lemma skip_space_Cons [simp]: "\<not> json_space c \<Longrightarrow> skip_space (c # s) = c # s"
  by (simp add: skip_space_def)

lemma skip_spaces_Nil [simp]: "spaces w \<Longrightarrow> skip_space w = []"
  using skip_spaces [of w "[]"] by (simp add: skip_space_def)

lemma spaces_line_start [simp]: "spaces (line_start style level)"
  by (auto simp: line_start_def spaces_def json_space_def split: option.split)

definition style_ok :: "json_style \<Rightarrow> bool" where
  "style_ok style \<longleftrightarrow> (\<exists>w. spaces w \<and> js_item style = CHR '','' # w) \<and> (\<exists>w. spaces w \<and> js_key style = CHR '':'' # w)"

lemma styles_ok [simp]: "style_ok plain_style" "style_ok compact_style" "style_ok indent_style"
  by (auto simp: style_ok_def plain_style_def compact_style_def indent_style_def json_space_def)

subsection \<open>Strings\<close>

lemma hex_value_digit: "n < 16 \<Longrightarrow> hex_value (hex_digit n) = Some n"
proof -
  have "\<forall>n \<in> set [0..<16]. hex_value (hex_digit n) = Some n" by code_simp
  then show "n < 16 \<Longrightarrow> hex_value (hex_digit n) = Some n" by simp
qed

lemma hex_char_code: "hex_char (CHR ''0'') (CHR ''0'') (hex_digit (of_char c div 16)) (hex_digit (of_char c mod 16)) = Some c"
proof -
  have "hex_value (CHR ''0'') = Some 0" by code_simp
  moreover have "of_char c div 16 < (16 :: nat)" using nat_of_char_less_256 [of c] by (simp add: less_mult_imp_div_less)
  ultimately show ?thesis by (simp add: hex_char_def hex_value_digit)
qed

lemma string_body_char: "string_body (json_char c @ s) = map_option (\<lambda>(r, rest). (c # r, rest)) (string_body s)"
proof -
  have codes: "of_char c = (10 :: nat) \<longleftrightarrow> c = CHR 0x0A" "of_char c = (13 :: nat) \<longleftrightarrow> c = CHR 0x0D" "of_char c = (9 :: nat) \<longleftrightarrow> c = CHR 0x09"
    "of_char c = (12 :: nat) \<longleftrightarrow> c = CHR 0x0C" "of_char c = (8 :: nat) \<longleftrightarrow> c = CHR 0x08"
    by (auto simp: of_char_eq_iff [symmetric, where 'a = nat])
  show ?thesis
    by (auto simp: json_char_def Let_def codes unescape_def hex_char_code)
qed

lemma string_body_text: "string_body (concat (map json_char s) @ CHR 0x22 # rest) = Some (s, rest)"
  by (induction s) (simp_all add: string_body_char)

subsection \<open>Numbers\<close>

definition stops :: "string \<Rightarrow> bool" where
  "stops rest \<longleftrightarrow> rest = [] \<or> (\<not> is_digit (hd rest) \<and> hd rest \<notin> {CHR ''.'', CHR ''e'', CHR ''E''})"

lemma stops_Cons [simp]: "stops (c # s) \<longleftrightarrow> \<not> is_digit c \<and> c \<notin> {CHR ''.'', CHR ''e'', CHR ''E''}"
  by (simp add: stops_def)

lemma stops_Nil [simp]: "stops []"
  by (simp add: stops_def)

lemma is_digit_char: "0 \<le> d \<Longrightarrow> d < 10 \<Longrightarrow> is_digit (digit_char d)"
  by (simp add: is_digit_def digit_value_char)

lemma digits_value_snoc: "0 \<le> d \<Longrightarrow> d < 10 \<Longrightarrow> digits_value (ds @ [digit_char d]) = digits_value ds * 10 + d"
  by (simp add: digits_value_def digit_value_char)

lemma digit_char_zero:
  assumes d: "0 \<le> d" "d < 10"
  shows "digit_char d = CHR ''0'' \<longleftrightarrow> d = 0"
proof -
  have "digit_value (CHR ''0'') = Some 0" "digit_char 0 = CHR ''0''" by code_simp+
  then show ?thesis using digit_value_char [OF d] by auto
qed

lemma str_of_nonneg_spec:
  "0 \<le> n \<Longrightarrow> (\<forall>c \<in> set (str_of_nonneg n). is_digit c) \<and> str_of_nonneg n \<noteq> [] \<and> digits_value (str_of_nonneg n) = n
     \<and> (hd (str_of_nonneg n) = CHR ''0'' \<longleftrightarrow> n = 0) \<and> (n = 0 \<longrightarrow> str_of_nonneg n = ''0'')"
proof (induction n rule: str_of_nonneg.induct)
  case (1 n)
  show ?case
  proof (cases "n < 10")
    case True
    have zero: "digit_char 0 = CHR ''0''" by code_simp
    have "digits_value [digit_char n] = n" using digits_value_snoc [of n "[]"] True "1.prems" by (simp add: digits_value_def)
    moreover have "str_of_nonneg n = [digit_char n]" using True by (subst str_of_nonneg.simps) simp
    ultimately show ?thesis using True "1.prems" digit_char_zero [of n] zero by (auto simp: is_digit_char)
  next
    case False
    have r: "str_of_nonneg n = str_of_nonneg (n div 10) @ [digit_char (n mod 10)]" using False by (subst str_of_nonneg.simps) simp
    have ih: "(\<forall>c \<in> set (str_of_nonneg (n div 10)). is_digit c) \<and> str_of_nonneg (n div 10) \<noteq> [] \<and> digits_value (str_of_nonneg (n div 10)) = n div 10
      \<and> (hd (str_of_nonneg (n div 10)) = CHR ''0'' \<longleftrightarrow> n div 10 = 0)"
      using "1.IH" [OF False] False by simp
    have "n div 10 \<noteq> 0" using False by simp
    then show ?thesis using ih False by (simp add: r is_digit_char digits_value_snoc)
  qed
qed

lemma takeWhile_digits:
  assumes "\<forall>c \<in> set ds. is_digit c" "stops rest"
  shows "takeWhile is_digit (ds @ rest) = ds" "dropWhile is_digit (ds @ rest) = rest"
proof -
  have "takeWhile is_digit rest = []" "dropWhile is_digit rest = rest"
    using assms(2) by (cases rest; simp)+
  then show "takeWhile is_digit (ds @ rest) = ds" "dropWhile is_digit (ds @ rest) = rest"
    using assms(1) by (simp_all add: takeWhile_append2 dropWhile_append2)
qed

lemma no_fraction: "stops rest \<Longrightarrow> fraction_part rest = ([], rest)" "stops rest \<Longrightarrow> exponent_part rest = (None, rest)"
  by (cases rest; simp add: fraction_part_def exponent_part_def)+

lemma parse_number_nonneg:
  assumes "0 \<le> n" "stops rest"
  shows "parse_number (str_of_nonneg n @ rest) = Some (JInt n, rest)"
    and "parse_number (CHR ''-'' # str_of_nonneg n @ rest) = Some (JInt (- n), rest)"
proof -
  note spec = str_of_nonneg_spec [OF assms(1)]
  obtain c cs where cs: "str_of_nonneg n = c # cs" using spec by (cases "str_of_nonneg n") auto
  have "c \<noteq> CHR ''-''" using spec cs by (auto simp: is_digit_def digit_value_def)
  moreover have "c = CHR ''0'' \<Longrightarrow> cs = []" using spec cs by auto
  moreover have "takeWhile is_digit (c # cs @ rest) = c # cs" "dropWhile is_digit (c # cs @ rest) = rest"
    using takeWhile_digits [of "c # cs" rest] spec cs assms(2) by simp_all
  moreover have "digits_value (c # cs) = n" using spec cs by simp
  ultimately show "parse_number (str_of_nonneg n @ rest) = Some (JInt n, rest)"
    "parse_number (CHR ''-'' # str_of_nonneg n @ rest) = Some (JInt (- n), rest)"
    by (auto simp: parse_number_def cs no_fraction [OF assms(2)] simp del: takeWhile.simps dropWhile.simps)
qed

lemma parse_number_int: "stops rest \<Longrightarrow> parse_number (str_of_int n @ rest) = Some (JInt n, rest)"
  using parse_number_nonneg [of n rest] parse_number_nonneg [of "- n" rest] by (simp add: str_of_int_def)

lemma str_of_int_head:
  "\<exists>c cs. str_of_int n = c # cs \<and> (is_digit c \<or> (c = CHR ''-'' \<and> (\<exists>d ds. cs = d # ds \<and> is_digit d)))"
proof (cases "n < 0")
  case True
  then show ?thesis using str_of_nonneg_spec [of "- n"] by (cases "str_of_nonneg (- n)") (auto simp: str_of_int_def)
next
  case False
  then show ?thesis using str_of_nonneg_spec [of n] by (cases "str_of_nonneg n") (auto simp: str_of_int_def)
qed


text \<open>A text that starts like a number is none of the literals.\<close>

definition number_head :: "string \<Rightarrow> bool" where
  "number_head s \<longleftrightarrow> (\<exists>c cs. s = c # cs \<and> (is_digit c \<or> (c = CHR ''-'' \<and> (\<exists>d ds. cs = d # ds \<and> is_digit d))))"

lemma not_digits: "\<not> is_digit (CHR ''n'')" "\<not> is_digit (CHR ''t'')" "\<not> is_digit (CHR ''f'')" "\<not> is_digit (CHR ''N'')"
  "\<not> is_digit (CHR ''I'')" "\<not> is_digit (CHR ''-'')" "\<not> is_digit (CHR 0x22)" "\<not> is_digit (CHR 0x5B)" "\<not> is_digit (CHR 0x7B)"
  "\<not> is_digit (CHR 0x5D)" "\<not> is_digit (CHR 0x7D)" "\<not> is_digit (CHR '','')" "\<not> is_digit (CHR 0x0A)" "\<not> is_digit (CHR '' '')"
  "\<not> is_digit (CHR 0x09)" "\<not> is_digit (CHR 0x0D)"
  by code_simp+

lemma parse_atom_number: "number_head s \<Longrightarrow> parse_atom (s @ rest) = parse_number (s @ rest)"
  using not_digits by (auto simp: parse_atom_def json_literals_def number_head_def)

lemma number_head_first:
  "number_head s \<Longrightarrow> \<exists>c cs. s = c # cs \<and> \<not> json_space c \<and> c \<noteq> CHR 0x22 \<and> c \<noteq> CHR 0x5B \<and> c \<noteq> CHR 0x7B"
  using not_digits by (auto simp: number_head_def json_space_def)

lemma parse_value_number:
  assumes "number_head s" "spaces w"
  shows "parse_value (Suc n) (w @ s @ rest) = parse_number (s @ rest)"
proof -
  obtain c cs where c: "s = c # cs" "\<not> json_space c" "c \<noteq> CHR 0x22" "c \<noteq> CHR 0x5B" "c \<noteq> CHR 0x7B"
    using number_head_first [OF assms(1)] by blast
  then show ?thesis using parse_atom_number [OF assms(1), of rest] assms(2) by (simp add: skip_spaces)
qed

definition float_ok :: "(rat \<Rightarrow> string) \<Rightarrow> rat \<Rightarrow> bool" where
  "float_ok frep x \<longleftrightarrow> number_head (frep x) \<and> (\<forall>rest. stops rest \<longrightarrow> parse_number (frep x @ rest) = Some (JFloat (Fin x), rest))"

subsection \<open>Documents\<close>

text \<open>Documents that have a text: no repeated key, and floats whose text reads back as the same double.\<close>

fun doc_ok :: "(rat \<Rightarrow> string) \<Rightarrow> json \<Rightarrow> bool"
  and items_ok :: "(rat \<Rightarrow> string) \<Rightarrow> json list \<Rightarrow> bool"
  and members_ok :: "(rat \<Rightarrow> string) \<Rightarrow> (string \<times> json) list \<Rightarrow> bool" where
  "doc_ok frep (JFloat (Fin x)) = float_ok frep x"
| "doc_ok frep (JArr xs) = items_ok frep xs"
| "doc_ok frep (JObj d) = (wf_dict d \<and> members_ok frep d)"
| "doc_ok frep v = True"
| "items_ok frep [] = True"
| "items_ok frep (x # xs) = (doc_ok frep x \<and> items_ok frep xs)"
| "members_ok frep [] = True"
| "members_ok frep (kv # d) = (doc_ok frep (snd kv) \<and> members_ok frep d)"

text \<open>The fuel that parsing the text of a document needs.\<close>

fun fuel_for :: "json \<Rightarrow> nat"
  and fuel_for_items :: "json list \<Rightarrow> nat"
  and fuel_for_members :: "(string \<times> json) list \<Rightarrow> nat" where
  "fuel_for (JArr xs) = Suc (fuel_for_items xs)"
| "fuel_for (JObj d) = Suc (fuel_for_members d)"
| "fuel_for v = 1"
| "fuel_for_items [] = 0"
| "fuel_for_items (x # xs) = Suc (fuel_for x + fuel_for_items xs)"
| "fuel_for_members [] = 0"
| "fuel_for_members (kv # d) = Suc (fuel_for (snd kv) + fuel_for_members d)"

lemma fuel_for_pos: "0 < fuel_for v"
  by (cases v) simp_all

lemma texts_Nil [simp]: "item_texts frep style level xs = [] \<longleftrightarrow> xs = []" "member_texts frep style level d = [] \<longleftrightarrow> d = []"
  by (cases xs; simp) (cases d; simp)

lemma stops_spaces: "spaces w \<Longrightarrow> \<not> is_digit c \<Longrightarrow> c \<notin> {CHR ''.'', CHR ''e'', CHR ''E''} \<Longrightarrow> stops (w @ c # s)"
  using not_digits by (cases w) (auto simp: json_space_def)

lemma text_first:
  assumes "doc_ok frep v"
  shows "\<exists>c cs. json_text frep style level v = c # cs \<and> \<not> json_space c \<and> c \<noteq> CHR 0x5D \<and> c \<noteq> CHR 0x7D"
proof -
  have num: "number_head s \<Longrightarrow> \<exists>c cs. s = c # cs \<and> \<not> json_space c \<and> c \<noteq> CHR 0x5D \<and> c \<noteq> CHR 0x7D" for s
    using not_digits by (auto simp: number_head_def json_space_def)
  show ?thesis
  proof (cases v)
    case (JInt n)
    then show ?thesis using num [of "str_of_int n"] str_of_int_head [of n] by (simp add: number_head_def)
  next
    case (JFloat f)
    then show ?thesis using assms num [of "frep _"] by (cases f) (auto simp: float_ok_def json_space_def)
  qed (auto simp: json_space_def json_string_def bracketed_def)
qed

lemma dict_of_members_distinct:
  assumes "wf_dict d"
  shows "dict_of_members d = d"
proof -
  have "foldl (\<lambda>d (k, v). AList.update k v d) acc d = acc @ d" if "wf_dict (acc @ d)" for acc
    using that
  proof (induction d arbitrary: acc)
    case (Cons kv d)
    have "fst kv \<notin> fst ` set acc" using Cons.prems by auto
    then have "AList.update (fst kv) (snd kv) acc = acc @ [kv]" using update_new_key [of "fst kv" acc "snd kv"] by simp
    then show ?case using Cons.IH [of "acc @ [kv]"] Cons.prems by (simp add: split_beta)
  qed simp
  from this [of "[]"] assms show ?thesis by (simp add: dict_of_members_def)
qed

lemma parse_value_constants:
  assumes "spaces w" "0 < n"
  shows "parse_value n (w @ ''null'' @ rest) = Some (JNull, rest)" "parse_value n (w @ ''true'' @ rest) = Some (JBool True, rest)"
    "parse_value n (w @ ''false'' @ rest) = Some (JBool False, rest)" "parse_value n (w @ ''NaN'' @ rest) = Some (JFloat NaN, rest)"
    "parse_value n (w @ ''Infinity'' @ rest) = Some (JFloat PosInf, rest)" "parse_value n (w @ ''-Infinity'' @ rest) = Some (JFloat NegInf, rest)"
  using assms by (cases n; simp add: skip_spaces json_space_def parse_atom_def json_literals_def)+

lemma parse_value_string:
  assumes "spaces w" "0 < n"
  shows "parse_value n (w @ json_string s @ rest) = Some (JStr s, rest)"
  using assms by (cases n) (simp_all add: skip_spaces json_space_def json_string_def string_body_text)

lemma py_join_first: "r = c # cs \<Longrightarrow> \<exists>z. py_join sep (r # rs) = c # z"
  by (cases rs) simp_all

text \<open>One step of the parser for each form of text, given that the parts parse back.\<close>

lemma parse_text_array:
  assumes "items_ok frep xs" "spaces w"
    and items: "\<And>u v. spaces u \<Longrightarrow> spaces v \<Longrightarrow> xs \<noteq> [] \<Longrightarrow>
      parse_items m (u @ py_join (js_item style @ line_start style (Suc level)) (item_texts frep style (Suc level) xs) @ v @ CHR 0x5D # rest)
        = Some (xs, rest)"
  shows "parse_value (Suc m) (w @ json_text frep style level (JArr xs) @ rest) = Some (JArr xs, rest)"
proof (cases xs)
  case Nil
  then show ?thesis using assms(2) by (simp add: skip_spaces json_space_def bracketed_def)
next
  case (Cons x ys)
  let ?t = "line_start style (Suc level) @ py_join (js_item style @ line_start style (Suc level)) (item_texts frep style (Suc level) xs)
    @ line_start style level @ CHR 0x5D # rest"
  obtain c cs where c: "json_text frep style (Suc level) x = c # cs" "\<not> json_space c" "c \<noteq> CHR 0x5D"
    using text_first [of frep x style "Suc level"] assms(1) Cons by auto
  obtain z where "py_join (js_item style @ line_start style (Suc level)) (item_texts frep style (Suc level) xs) = c # z"
    using py_join_first [OF c(1)] Cons by fastforce
  then have "take 1 (skip_space ?t) \<noteq> [CHR 0x5D]" using c(2,3) by (simp add: skip_spaces)
  moreover have "parse_items m ?t = Some (xs, rest)" using Cons by (intro items) simp_all
  ultimately show ?thesis using assms(2) Cons by (simp add: skip_spaces json_space_def bracketed_def)
qed

lemma parse_text_object:
  assumes "wf_dict d" "spaces w"
    and members: "\<And>u v. spaces u \<Longrightarrow> spaces v \<Longrightarrow> d \<noteq> [] \<Longrightarrow>
      parse_members m (u @ py_join (js_item style @ line_start style (Suc level)) (member_texts frep style (Suc level) d) @ v @ CHR 0x7D # rest)
        = Some (d, rest)"
  shows "parse_value (Suc m) (w @ json_text frep style level (JObj d) @ rest) = Some (JObj d, rest)"
proof (cases d)
  case Nil
  then show ?thesis using assms(2) by (simp add: skip_spaces json_space_def bracketed_def)
next
  case (Cons kv e)
  let ?t = "line_start style (Suc level) @ py_join (js_item style @ line_start style (Suc level)) (member_texts frep style (Suc level) d)
    @ line_start style level @ CHR 0x7D # rest"
  obtain cs where "json_string (fst kv) @ js_key style @ json_text frep style (Suc level) (snd kv) = CHR 0x22 # cs"
    by (simp add: json_string_def)
  from py_join_first [OF this] obtain z where
    "py_join (js_item style @ line_start style (Suc level)) (member_texts frep style (Suc level) d) = CHR 0x22 # z"
    using Cons by fastforce
  then have "take 1 (skip_space ?t) \<noteq> [CHR 0x7D]" by (simp add: skip_spaces json_space_def)
  moreover have "parse_members m ?t = Some (d, rest)" using Cons by (intro members) simp_all
  ultimately show ?thesis using assms(1,2) Cons dict_of_members_distinct [of d]
    by (simp add: skip_spaces json_space_def bracketed_def)
qed

lemma parse_text_items:
  assumes "style_ok style" "spaces w'"
    and first: "\<And>r. stops r \<Longrightarrow> parse_value m (w @ json_text frep style level x @ r) = Some (x, r)"
    and more: "\<And>u. spaces u \<Longrightarrow> xs \<noteq> [] \<Longrightarrow>
      parse_items m (u @ py_join (js_item style @ line_start style level) (item_texts frep style level xs) @ w' @ CHR 0x5D # rest) = Some (xs, rest)"
  shows "parse_items (Suc m) (w @ py_join (js_item style @ line_start style level) (item_texts frep style level (x # xs)) @ w' @ CHR 0x5D # rest)
    = Some (x # xs, rest)"
proof (cases "xs = []")
  case True
  have "stops (w' @ CHR 0x5D # rest)" using assms(2) not_digits by (intro stops_spaces) simp_all
  then show ?thesis using True assms(2) first by (simp add: skip_spaces json_space_def)
next
  case False
  obtain s where s: "spaces s" "js_item style = CHR '','' # s" using assms(1) by (auto simp: style_ok_def)
  let ?r = "py_join (js_item style @ line_start style level) (item_texts frep style level xs) @ w' @ CHR 0x5D # rest"
  have "parse_value m (w @ json_text frep style level x @ CHR '','' # s @ line_start style level @ ?r)
      = Some (x, CHR '','' # s @ line_start style level @ ?r)" using not_digits by (intro first) simp
  moreover have "parse_items m ((s @ line_start style level) @ ?r) = Some (xs, rest)" using False s(1) by (intro more) simp_all
  ultimately show ?thesis using False by (simp add: s(2) py_join_Cons json_space_def)
qed

lemma parse_text_members:
  assumes "style_ok style" "spaces w" "spaces w'"
    and first: "\<And>u r. spaces u \<Longrightarrow> stops r \<Longrightarrow> parse_value m (u @ json_text frep style level (snd kv) @ r) = Some (snd kv, r)"
    and more: "\<And>u. spaces u \<Longrightarrow> d \<noteq> [] \<Longrightarrow>
      parse_members m (u @ py_join (js_item style @ line_start style level) (member_texts frep style level d) @ w' @ CHR 0x7D # rest) = Some (d, rest)"
  shows "parse_members (Suc m) (w @ py_join (js_item style @ line_start style level) (member_texts frep style level (kv # d)) @ w' @ CHR 0x7D # rest)
    = Some (kv # d, rest)"
proof -
  obtain s where s: "spaces s" "js_item style = CHR '','' # s" using assms(1) by (auto simp: style_ok_def)
  obtain s2 where s2: "spaces s2" "js_key style = CHR '':'' # s2" using assms(1) by (auto simp: style_ok_def)
  note key = string_body_text [of "fst kv"]
  show ?thesis
  proof (cases "d = []")
    case True
    have "stops (w' @ CHR 0x7D # rest)" using assms(3) not_digits by (intro stops_spaces) simp_all
    from first [OF s2(1) this] show ?thesis
      using True assms(2,3) by (simp add: s2(2) json_string_def key skip_spaces json_space_def)
  next
    case False
    let ?r = "py_join (js_item style @ line_start style level) (member_texts frep style level d) @ w' @ CHR 0x7D # rest"
    have "parse_value m (s2 @ json_text frep style level (snd kv) @ CHR '','' # s @ line_start style level @ ?r)
        = Some (snd kv, CHR '','' # s @ line_start style level @ ?r)" using not_digits s2(1) by (intro first) simp_all
    moreover have "parse_members m ((s @ line_start style level) @ ?r) = Some (d, rest)" using False s(1) by (intro more) simp_all
    ultimately show ?thesis using False assms(2)
      by (simp add: s(2) s2(2) py_join_Cons json_string_def key skip_spaces json_space_def)
  qed
qed

lemma parse_text_number:
  assumes "doc_ok frep v" "spaces w" "stops rest" "v = JInt k \<or> v = JFloat f"
  shows "parse_value (Suc m) (w @ json_text frep style level v @ rest) = Some (v, rest)"
  using assms(4)
proof
  assume v: "v = JInt k"
  have "number_head (str_of_int k)" using str_of_int_head [of k] by (simp add: number_head_def)
  from parse_value_number [OF this assms(2), of m rest] show ?thesis using parse_number_int [OF assms(3)] by (simp add: v)
next
  assume v: "v = JFloat f"
  show ?thesis
  proof (cases f)
    case (Fin x)
    then have ok: "float_ok frep x" using assms(1) v by simp
    then have "number_head (frep x)" by (simp add: float_ok_def)
    from parse_value_number [OF this assms(2), of m rest] show ?thesis using ok assms(3) by (simp add: v Fin float_ok_def)
  qed (use parse_value_constants [OF assms(2), of "Suc m" rest] v in \<open>simp_all del: parse_value.simps\<close>)
qed

lemma parse_text:
  "style_ok style \<Longrightarrow> doc_ok frep v \<Longrightarrow> fuel_for v \<le> n \<Longrightarrow> stops rest \<Longrightarrow> spaces w
     \<Longrightarrow> parse_value n (w @ json_text frep style level v @ rest) = Some (v, rest)"
  "style_ok style \<Longrightarrow> items_ok frep xs \<Longrightarrow> fuel_for_items xs \<le> n \<Longrightarrow> spaces w \<Longrightarrow> spaces w' \<Longrightarrow> xs \<noteq> []
     \<Longrightarrow> parse_items n (w @ py_join (js_item style @ line_start style level) (item_texts frep style level xs) @ w' @ CHR 0x5D # rest)
         = Some (xs, rest)"
  "style_ok style \<Longrightarrow> members_ok frep d \<Longrightarrow> fuel_for_members d \<le> n \<Longrightarrow> spaces w \<Longrightarrow> spaces w' \<Longrightarrow> d \<noteq> []
     \<Longrightarrow> parse_members n (w @ py_join (js_item style @ line_start style level) (member_texts frep style level d) @ w' @ CHR 0x7D # rest)
         = Some (d, rest)"
proof (induction frep style level v and frep style level xs and frep style level d
    arbitrary: n rest w and n rest w w' and n rest w w' rule: json_text_item_texts_member_texts.induct)
  case (3 frep style level k)
  obtain m where "n = Suc m" using "3.prems"(3) by (cases n) simp_all
  then show ?case using "3.prems" parse_text_number [of frep "JInt k"] by blast
next
  case (4 frep style level f)
  obtain m where "n = Suc m" using "4.prems"(3) by (cases n) simp_all
  then show ?case using "4.prems" parse_text_number [of frep "JFloat f"] by blast
next
  case (5 frep style level s)
  then show ?case by (simp add: parse_value_string del: parse_value.simps)
next
  case (6 frep style level xs)
  obtain m where m: "n = Suc m" using "6.prems"(3) by (cases n) simp_all
  show ?case unfolding m by (rule parse_text_array) (use "6.prems" "6.IH" m in simp_all)
next
  case (7 frep style level d)
  obtain m where m: "n = Suc m" using "7.prems"(3) by (cases n) simp_all
  show ?case unfolding m by (rule parse_text_object) (use "7.prems" "7.IH" m in simp_all)
next
  case (9 frep style level x xs)
  obtain m where m: "n = Suc m" using "9.prems"(3) by (cases n) simp_all
  show ?case unfolding m by (rule parse_text_items) (use "9.prems" "9.IH" m in simp_all)
next
  case (11 frep style level kv d)
  obtain m where m: "n = Suc m" using "11.prems"(3) by (cases n) simp_all
  show ?case unfolding m by (rule parse_text_members) (use "11.prems" "11.IH" m in simp_all)
qed (use parse_value_constants in auto)

subsection \<open>Fuel\<close>

lemma length_join: "rs \<noteq> [] \<Longrightarrow> sep \<noteq> [] \<Longrightarrow> sum_list (map length rs) + length rs \<le> Suc (length (py_join sep rs))"
proof (induction rs rule: list_nonempty_induct)
  case (cons r rs)
  have "1 \<le> length sep" using cons.prems by (cases sep) simp_all
  then show ?case using cons by (simp add: py_join_Cons)
qed simp

lemma fuel_suffices:
  "style_ok style \<Longrightarrow> doc_ok frep v \<Longrightarrow> fuel_for v \<le> length (json_text frep style level v)"
  "style_ok style \<Longrightarrow> items_ok frep xs \<Longrightarrow> fuel_for_items xs \<le> sum_list (map length (item_texts frep style level xs)) + length xs"
  "style_ok style \<Longrightarrow> members_ok frep d \<Longrightarrow> fuel_for_members d \<le> sum_list (map length (member_texts frep style level d)) + length d"
proof (induction frep style level v and frep style level xs and frep style level d rule: json_text_item_texts_member_texts.induct)
  case (3 frep style level n)
  then show ?case using text_first [of frep "JInt n" style level] by auto
next
  case (4 frep style level f)
  then show ?case using text_first [of frep "JFloat f" style level] by auto
next
  case (6 frep style level xs)
  have "js_item style \<noteq> []" using "6.prems"(1) by (auto simp: style_ok_def)
  moreover have "length (item_texts frep style (Suc level) xs) = length xs" by (induction xs) simp_all
  ultimately show ?case using 6 length_join [of "item_texts frep style (Suc level) xs" "js_item style @ line_start style (Suc level)"]
    by (cases "xs = []") (auto simp: bracketed_def)
next
  case (7 frep style level d)
  have "js_item style \<noteq> []" using "7.prems"(1) by (auto simp: style_ok_def)
  moreover have "length (member_texts frep style (Suc level) d) = length d" by (induction d) simp_all
  ultimately show ?case using 7 length_join [of "member_texts frep style (Suc level) d" "js_item style @ line_start style (Suc level)"]
    by (cases "d = []") (auto simp: bracketed_def)
qed (auto simp: json_string_def)

subsection \<open>Round trip\<close>

lemma sorted_items_map: "sorted_items xs = map sorted_json xs"
  by (induction xs) simp_all

lemma sorted_members_map: "sorted_members d = map (\<lambda>kv. (fst kv, sorted_json (snd kv))) d"
  by (induction d) simp_all

lemma items_ok_iff: "items_ok frep xs \<longleftrightarrow> (\<forall>x \<in> set xs. doc_ok frep x)"
  by (induction xs) auto

lemma members_ok_iff: "members_ok frep d \<longleftrightarrow> (\<forall>kv \<in> set d. doc_ok frep (snd kv))"
  by (induction d) auto

lemma wf_dict_sort: "wf_dict d \<Longrightarrow> wf_dict (sort_key fst d)"
  by (simp add: distinct_map)

lemma doc_ok_sorted:
  "doc_ok frep v \<Longrightarrow> doc_ok frep (sorted_json v)"
  "items_ok frep xs \<Longrightarrow> items_ok frep (sorted_items xs)"
  "members_ok frep d \<Longrightarrow> members_ok frep (sorted_members d)"
proof (induction frep v and frep xs and frep d rule: doc_ok_items_ok_members_ok.induct)
  case (3 frep d)
  have "map fst (sorted_members d) = map fst d" by (induction d) simp_all
  then have "wf_dict (sort_key fst (sorted_members d))" using "3.prems" by (intro wf_dict_sort) simp
  then show ?case using 3 by (simp add: members_ok_iff)
qed simp_all

text \<open>A document that was printed with sorted keys parses back with its keys sorted.\<close>

lemma json_loads_dumps:
  assumes "style_ok style" "doc_ok frep v" "spaces w"
  shows "json_loads (json_dumps frep style v @ w) = Inr (sorted_json v)"
proof -
  let ?t = "json_dumps frep style v"
  have ok: "doc_ok frep (sorted_json v)" using doc_ok_sorted(1) [OF assms(2)] .
  have "stops w" using assms(3) not_digits by (cases w) (auto simp: json_space_def)
  moreover have "fuel_for (sorted_json v) \<le> Suc (length (?t @ w))"
    using fuel_suffices(1) [OF assms(1) ok, of 0] by (simp add: json_dumps_def)
  ultimately have "parse_value (Suc (length (?t @ w))) (?t @ w) = Some (sorted_json v, w)"
    using parse_text(1) [OF assms(1) ok, of _ w "[]" 0] by (simp add: json_dumps_def del: parse_value.simps)
  then show ?thesis using assms(3) by (simp add: json_loads_def del: parse_value.simps)
qed

subsection \<open>Access does not see the sorting\<close>

lemma map_of_sorted_members: "map_of (sorted_members d) k = map_option sorted_json (map_of d k)"
  by (induction d) simp_all

lemma map_of_sort_key:
  assumes "wf_dict d"
  shows "map_of (sort_key fst d) = map_of d"
proof
  fix k
  have "map_of (sort_key fst d) k = Some v \<longleftrightarrow> map_of d k = Some v" for v
    using assms wf_dict_sort [OF assms] by simp
  then show "map_of (sort_key fst d) k = map_of d k" by (cases "map_of d k") (auto simp flip: not_None_eq)
qed

lemma map_of_sorted_dict:
  assumes "wf_dict d"
  shows "map_of (sort_key fst (sorted_members d)) k = map_option sorted_json (map_of d k)"
proof -
  have "map fst (sorted_members d) = map fst d" by (induction d) simp_all
  then show ?thesis using assms by (simp add: map_of_sort_key map_of_sorted_members)
qed

lemma jitem_sorted: "doc_ok frep v \<Longrightarrow> jitem (sorted_json v) k = map_sum id sorted_json (jitem v k)"
  by (cases v) (auto simp: jitem_def map_of_sorted_dict split: option.split)

lemma jget_sorted: "doc_ok frep v \<Longrightarrow> sorted_json x = x \<Longrightarrow> jget (sorted_json v) k x = map_sum id sorted_json (jget v k x)"
  by (cases v) (auto simp: jget_def get_default_def map_of_sorted_dict split: option.split)

lemma doc_ok_jitem: "doc_ok frep v \<Longrightarrow> jitem v k = Inr w \<Longrightarrow> doc_ok frep w"
  by (cases v) (auto simp: jitem_def members_ok_iff split: option.splits dest!: map_of_SomeD)

lemma sort_key_Nil_iff: "sort_key f xs = [] \<longleftrightarrow> xs = []"
  using length_sort [of f xs] by (cases xs; cases "sort_key f xs") (auto simp del: length_sort)

lemma sorted_json_scalar [simp]:
  "sorted_json v = JInt n \<longleftrightarrow> v = JInt n" "sorted_json v = JStr s \<longleftrightarrow> v = JStr s" "sorted_json v = JBool b \<longleftrightarrow> v = JBool b"
  "sorted_json v = JNull \<longleftrightarrow> v = JNull" "is_dict (sorted_json v) = is_dict v" "is_list (sorted_json v) = is_list v"
  "truthy (sorted_json v) = truthy v" "int_value (sorted_json v) = int_value v" "num_value (sorted_json v) = num_value v"
  by (cases v; simp add: sorted_items_map sorted_members_map sort_key_Nil_iff)+

subsection \<open>Bytes\<close>

lemma char_code_range: "0 \<le> (of_char c :: int)" "(of_char c :: int) < 256"
  using pos_mod_bound [of 256 "of_char c :: int"] pos_mod_sign [of 256 "of_char c :: int"] by simp_all

lemma uint_byte: "0 \<le> v \<Longrightarrow> v < 256 \<Longrightarrow> uint (word_of_int v :: byte) = v"
  by (simp add: uint_word_of_int)

lemma utf8_decode_char: "utf8_decode (utf8_char c @ bs) = map_option (Cons c) (utf8_decode bs)"
proof -
  define v where "v = (of_char c :: int)"
  have r: "0 \<le> v" "v < 256" and c: "char_of v = c" using char_code_range [of c] by (simp_all add: v_def)
  show ?thesis
  proof (cases "v < 128")
    case True
    then have "uint (word_of_int v :: byte) = v" using r by (intro uint_byte) simp_all
    then show ?thesis using True c by (simp add: utf8_char_def v_def [symmetric])
  next
    case False
    have d: "v div 64 = 2 \<or> v div 64 = 3" using False r by auto
    have m: "0 \<le> v mod 64" "v mod 64 < 64" by simp_all
    have "uint (word_of_int (192 + v div 64) :: byte) = 192 + v div 64" "uint (word_of_int (128 + v mod 64) :: byte) = 128 + v mod 64"
      using d m by (intro uint_byte; auto)+
    moreover have "v div 64 * 64 + v mod 64 = v" by simp
    ultimately show ?thesis using False d m c by (auto simp: utf8_char_def v_def [symmetric] simp del: of_int_add)
  qed
qed

lemma utf8_decode_encode: "utf8_decode (utf8_encode s) = Some s"
  by (induction s) (simp_all add: utf8_encode_def utf8_decode_char)

lemma json_loads_bytes_dumps:
  "style_ok style \<Longrightarrow> doc_ok frep v \<Longrightarrow> json_loads_bytes (utf8_encode (json_dumps frep style v)) = Inr (sorted_json v)"
  using json_loads_dumps [of style frep v "[]"] by (simp add: json_loads_bytes_def utf8_decode_encode)

end
