(* ===== verification/Backup_Props.thy ===== *)
theory Backup_Props
  imports Backup Json_Text_Props
begin

section \<open>Correctness of backup and restore\<close>

text \<open>
  A restore writes only content the manifest vouches for, below the destination, and fails without
  touching it when the archive is rejected; and it brings back what a backup took, for sets of files
  without the names the two scripts use themselves.
\<close>


subsection \<open>Paths\<close>

definition valid_part :: "string \<Rightarrow> bool" where
  "valid_part c \<longleftrightarrow> c \<noteq> [] \<and> c \<noteq> ''.'' \<and> c \<noteq> ''..'' \<and> CHR ''/'' \<notin> set c"

lemma split_join_slash:
  assumes "p \<noteq> []" and "\<forall>c \<in> set p. CHR ''/'' \<notin> set c"
  shows "split_on (CHR ''/'') (py_join ''/'' p) = p"
  using assms by (induction p rule: list_nonempty_induct) (simp_all add: py_join_Cons split_on_no_sep split_on_append)

lemma parse_as_posix:
  assumes "p \<noteq> []" and "\<forall>c \<in> set p. valid_part c"
  shows "parse_path (as_posix p) = p" and "\<not> is_absolute (as_posix p)" and "safe_relative (as_posix p) = Inr p"
proof -
  show pp: "parse_path (as_posix p) = p"
    using assms by (auto simp: parse_path_def as_posix_def split_join_slash valid_part_def filter_id_conv)
  obtain c cs where p: "p = c # cs" using assms(1) by (cases p) auto
  obtain x y where "c = x # y" "x \<noteq> CHR ''/''" using assms(2) p by (cases c) (auto simp: valid_part_def)
  then show abs: "\<not> is_absolute (as_posix p)"
    using p by (cases cs) (auto simp: is_absolute_def as_posix_def)
  show "safe_relative (as_posix p) = Inr p"
    using pp abs assms(2) by (auto simp: safe_relative_def valid_part_def)
qed

lemma split_on_parts: "c \<in> set (split_on sep s) \<Longrightarrow> sep \<notin> set c"
  by (induction s arbitrary: c) (auto split: if_splits list.splits)

lemma safe_relative_parts: "safe_relative s = Inr p \<Longrightarrow> \<forall>c \<in> set p. valid_part c"
  using split_on_parts [of _ "CHR ''/''" s]
  by (auto simp: safe_relative_def parse_path_def valid_part_def split: if_splits)

subsection \<open>Trees\<close>

text \<open>Paths of which none is a directory of another, in a tree that has room for all of them.\<close>

definition antichain :: "path set \<Rightarrow> bool" where
  "antichain P \<longleftrightarrow> (\<forall>p \<in> P. \<forall>q \<in> P. p \<notin> set (ancestors q))"

definition room_for :: "path set \<Rightarrow> tree \<Rightarrow> bool" where
  "room_for P t \<longleftrightarrow> (\<forall>p \<in> P. (\<forall>q \<in> set (ancestors p). \<not> has_key (tr_files t) q) \<and> p \<notin> set (tr_dirs t))"

lemma make_parents_ok:
  assumes "room_for P t" "antichain P" "p \<in> P"
  shows "make_parents p t = Inr (t\<lparr>tr_dirs := tr_dirs t @ ancestors p\<rparr>)"
    and "room_for P (t\<lparr>tr_dirs := tr_dirs t @ ancestors p\<rparr>)"
proof -
  show "make_parents p t = Inr (t\<lparr>tr_dirs := tr_dirs t @ ancestors p\<rparr>)"
    using assms by (auto simp: make_parents_def room_for_def)
  show "room_for P (t\<lparr>tr_dirs := tr_dirs t @ ancestors p\<rparr>)"
    using assms unfolding room_for_def antichain_def by auto
qed

lemma room_for_update:
  assumes "room_for P t" "antichain P" "p \<in> P" "map_of (tr_files t') = (map_of (tr_files t))(p \<mapsto> d)" "tr_dirs t' = tr_dirs t"
  shows "room_for P t'"
  using assms unfolding room_for_def antichain_def by auto

lemma room_for_delete:
  assumes "room_for P t" "map_of (tr_files t') = (map_of (tr_files t))(p := None)" "tr_dirs t' = tr_dirs t"
  shows "room_for P t'"
  using assms unfolding room_for_def by auto

lemma write_bytes_ok: "room_for P t \<Longrightarrow> p \<in> P \<Longrightarrow> write_bytes p d t = Inr (t\<lparr>tr_files := AList.update p d (tr_files t)\<rparr>)"
  by (simp add: write_bytes_def room_for_def)

lemma ancestors_temporary: "p \<noteq> [] \<Longrightarrow> ancestors (temporary_target p) = ancestors p"
  by (auto simp: ancestors_def temporary_target_def take_butlast intro!: map_cong)

lemma restore_file_ok:
  assumes "room_for P t" "antichain P" "p \<in> P" "temporary_target p \<in> P" "p \<noteq> temporary_target p"
  obtains t' where "restore_file p d t = (Inr (), t')" "room_for P t'"
    "map_of (tr_files t') = (map_of (tr_files t))(temporary_target p := None, p \<mapsto> d)"
proof -
  let ?t1 = "t\<lparr>tr_dirs := tr_dirs t @ ancestors p\<rparr>"
  let ?t2 = "?t1\<lparr>tr_files := AList.update (temporary_target p) d (tr_files t)\<rparr>"
  let ?t3 = "?t2\<lparr>tr_files := AList.update p d (AList.delete (temporary_target p) (tr_files ?t2))\<rparr>"
  note r1 = make_parents_ok [OF assms(1-3)]
  have r2: "room_for P ?t2" by (rule room_for_update [OF r1(2) assms(2,4)]) (simp_all add: update_conv')
  have m3: "map_of (tr_files ?t3) = (map_of (tr_files t))(temporary_target p := None, p \<mapsto> d)"
    by (rule ext) (simp add: dict_simps)
  have "restore_file p d t = (Inr (), ?t3)"
    using r1 r2 assms(3) write_bytes_ok [OF r1(2) assms(4), of d]
    by (simp add: restore_file_def replace_file_def room_for_def)
  moreover have "room_for P ?t3"
  proof (rule room_for_update [OF _ assms(2,3), where d = d])
    show "room_for P (t\<lparr>tr_dirs := tr_dirs t @ ancestors p, tr_files := AList.delete (temporary_target p) (tr_files t)\<rparr>)"
      by (rule room_for_delete [OF r1(2), of _ "temporary_target p"]) (simp_all add: delete_conv')
  qed (simp_all add: m3 [simplified] delete_conv')
  ultimately show thesis using m3 by (rule that)
qed


subsection \<open>Round trip\<close>

definition temporary_targets :: "path set \<Rightarrow> path set" where
  "temporary_targets P = temporary_target ` P"

text \<open>
  The collected files: distinct relative paths, none of them a directory of another, none called
  \<open>manifest.json\<close> at the top or the temporary name of another one.
\<close>

definition backup_ok :: "(path \<times> bytes) list \<Rightarrow> bool" where
  "backup_ok files \<longleftrightarrow> wf_dict files \<and> (\<forall>p \<in> fst ` set files. p \<noteq> [] \<and> (\<forall>c \<in> set p. valid_part c))
     \<and> [''manifest.json''] \<notin> fst ` set files \<and> antichain (insert [''manifest.json''] (fst ` set files))
     \<and> fst ` set files \<inter> temporary_targets (fst ` set files) = {}
     \<and> antichain (fst ` set files \<union> temporary_targets (fst ` set files))"

lemma manifest_name_ok: "\<forall>c \<in> set [''manifest.json'']. valid_part c"
  by (simp add: valid_part_def)

lemma as_posix_manifest: "as_posix [''manifest.json''] = ''manifest.json''"
  by (simp add: as_posix_def)

lemmas manifest_path = parse_as_posix [OF _ manifest_name_ok, unfolded as_posix_manifest, simplified]

definition file_member :: "path \<times> bytes \<Rightarrow> member" where
  "file_member = (\<lambda>(p, data). \<lparr>mb_name = as_posix p, mb_kind = Regular, mb_data = data\<rparr>)"

lemma file_member_simps [simp]:
  "mb_name (file_member f) = as_posix (fst f)" "mb_kind (file_member f) = Regular" "mb_data (file_member f) = snd f"
  by (simp_all add: file_member_def split_beta)

lemma verify_members_ok:
  "(\<And>m. m \<in> set ms \<Longrightarrow> mb_kind m = Regular \<and> (\<exists>p. safe_relative (mb_name m) = Inr p)) \<Longrightarrow> verify_members ms = Inr ()"
  by (induction ms) force+

lemma extract_all_ok:
  assumes "room_for P t" "antichain P" "fst ` set fs \<subseteq> P" "wf_dict fs"
    and "\<forall>p \<in> fst ` set fs. p \<noteq> [] \<and> (\<forall>c \<in> set p. valid_part c)"
  obtains t' where "extract_all (map file_member fs) t = Inr t'"
    "map_of (tr_files t') = map_of (tr_files t) ++ map_of fs"
  using assms
proof (induction fs arbitrary: t thesis)
  case (Cons f fs)
  let ?p = "fst f"
  let ?t1 = "t\<lparr>tr_dirs := tr_dirs t @ ancestors ?p\<rparr>"
  let ?t2 = "?t1\<lparr>tr_files := AList.update ?p (snd f) (tr_files t)\<rparr>"
  have p: "?p \<in> P" "parse_path (as_posix ?p) = ?p" using Cons.prems(4,6) by (auto simp: parse_as_posix)
  note r1 = make_parents_ok [OF Cons.prems(2,3) p(1)]
  have ex: "extract_member (file_member f) t = Inr ?t2"
    using r1 write_bytes_ok [OF r1(2) p(1), of "snd f"] p(2) by (simp add: extract_member_def)
  have r2: "room_for P ?t2" by (rule room_for_update [OF r1(2) Cons.prems(3) p(1)]) (simp_all add: update_conv')
  obtain t' where t': "extract_all (map file_member fs) ?t2 = Inr t'" "map_of (tr_files t') = map_of (tr_files ?t2) ++ map_of fs"
    using Cons.IH [OF _ r2 Cons.prems(3)] Cons.prems(4-6) by auto
  have "fst f \<notin> dom (map_of fs)" using Cons.prems(5) by (simp add: dom_map_of_conv_image_fst)
  then have "map_of (tr_files ?t2) ++ map_of fs = map_of (tr_files t) ++ map_of (f # fs)"
    by (auto simp: map_add_def update_conv' fun_eq_iff dom_def split: option.splits)
  then have "map_of (tr_files t') = map_of (tr_files t) ++ map_of (f # fs)" using t'(2) by (simp only:)
  moreover have "extract_all (map file_member (f # fs)) t = Inr t'" using t'(1) ex by simp
  ultimately show thesis using Cons.prems(1) by blast
qed simp

text \<open>An entry of the manifest as it is read back, with its keys sorted.\<close>

abbreviation read_entry :: "(bytes \<Rightarrow> string) \<Rightarrow> path \<times> bytes \<Rightarrow> json" where
  "read_entry sha f \<equiv> sorted_json (manifest_entry sha f)"

lemma manifest_doc_ok: "doc_ok frep (manifest sha rname files)" "doc_ok frep (manifest_entry sha f)"
  by (auto simp: manifest_def manifest_entry_def items_ok_iff split_beta)

lemma read_entry_items:
  "jitem (read_entry sha (p, d)) ''path'' = Inr (JStr (as_posix p))"
  "jitem (read_entry sha (p, d)) ''size'' = Inr (JInt (int (length d)))"
  "jitem (read_entry sha (p, d)) ''sha256'' = Inr (JStr (sha d))"
  unfolding jitem_sorted [OF manifest_doc_ok(2)] by (simp_all add: manifest_entry_def jitem_def)

lemma read_manifest_items:
  "jitem (sorted_json (manifest sha rname files)) ''files'' = Inr (JArr (map (read_entry sha) files))"
  "jitem (sorted_json (manifest sha rname files)) ''format'' = Inr (JInt 1)"
  unfolding jitem_sorted [OF manifest_doc_ok(1)] by (simp_all add: manifest_def jitem_def sorted_items_map)

lemma manifest_survives:
  "json_loads_bytes (manifest_dumps frep (manifest sha rname files)) = Inr (sorted_json (manifest sha rname files))"
  by (simp add: manifest_dumps_def json_loads_bytes_dumps manifest_doc_ok)

lemma manifest_files_read: "manifest_files (sorted_json (manifest sha rname files)) = Inr (map (read_entry sha) files)"
proof -
  have "jget (sorted_json (manifest sha rname files)) k JNull = map_sum id sorted_json (jget (manifest sha rname files) k JNull)" for k
    by (rule jget_sorted [OF manifest_doc_ok(1)]) simp
  then show ?thesis by (simp add: manifest_files_def manifest_def get_default_def json_eq_JInt sorted_items_map)
qed

lemma entry_path_manifest:
  assumes "p \<noteq> []" "\<forall>c \<in> set p. valid_part c"
  shows "entry_path rep (read_entry sha (p, d)) = Inr p"
  using parse_as_posix(3) [OF assms] by (simp add: entry_path_def read_entry_items)

lemma check_entry_manifest:
  assumes "p \<noteq> []" "\<forall>c \<in> set p. valid_part c" "map_of (tr_files st) p = Some d"
  shows "check_entry rep sha st (read_entry sha (p, d)) = Inr ()"
  using assms by (simp add: check_entry_def entry_path_manifest jitem_int_def read_entry_items json_eq_def)

lemma restore_entries_ok:
  assumes "room_for P t" "antichain P" "fst ` set fs \<union> temporary_targets (fst ` set fs) \<subseteq> P"
    and "wf_dict fs" "\<forall>p \<in> fst ` set fs. p \<noteq> [] \<and> (\<forall>c \<in> set p. valid_part c)"
    and "fst ` set fs \<inter> temporary_targets (fst ` set fs) = {}" "\<forall>f \<in> set fs. map_of (tr_files st) (fst f) = Some (snd f)"
  obtains t' where "restore_entries rep st (map (read_entry sha) fs) t = (Inr (), t')"
    "\<And>q. map_of (tr_files t') q = (case map_of fs q of Some d \<Rightarrow> Some d
       | None \<Rightarrow> if q \<in> temporary_targets (fst ` set fs) then None else map_of (tr_files t) q)"
  using assms
proof (induction fs arbitrary: t thesis)
  case (Cons f fs)
  obtain p d where f: "f = (p, d)" by fastforce
  have p: "p \<noteq> []" "\<forall>c \<in> set p. valid_part c" "p \<in> P" "temporary_target p \<in> P" "p \<noteq> temporary_target p"
    "map_of (tr_files st) p = Some d"
    using Cons.prems(4,6,7,8) by (auto simp: f temporary_targets_def)
  obtain t1 where t1: "restore_file p d t = (Inr (), t1)" "room_for P t1"
    "map_of (tr_files t1) = (map_of (tr_files t))(temporary_target p := None, p \<mapsto> d)"
    using restore_file_ok [OF Cons.prems(2,3) p(3,4,5)] by blast
  obtain t' where t': "restore_entries rep st (map (read_entry sha) fs) t1 = (Inr (), t')"
    "\<And>q. map_of (tr_files t') q = (case map_of fs q of Some d \<Rightarrow> Some d
       | None \<Rightarrow> if q \<in> temporary_targets (fst ` set fs) then None else map_of (tr_files t1) q)"
    using Cons.IH [OF _ t1(2) Cons.prems(3)] Cons.prems(4-8) by (auto simp: temporary_targets_def)
  have "map_of fs p = None" using Cons.prems(5) by (simp add: f map_of_eq_None_iff)
  then have "map_of (tr_files t') q = (case map_of (f # fs) q of Some d \<Rightarrow> Some d
       | None \<Rightarrow> if q \<in> temporary_targets (fst ` set (f # fs)) then None else map_of (tr_files t) q)" for q
    using Cons.prems(5,7) by (auto simp: t'(2) t1(3) f temporary_targets_def split: option.split dest: map_of_SomeD)
  moreover have "restore_entries rep st (map (read_entry sha) (f # fs)) t = (Inr (), t')"
    using t'(1) t1(1) p(6) by (simp add: f entry_path_manifest [OF p(1,2)])
  ultimately show thesis using Cons.prems(1) by blast
qed (simp add: temporary_targets_def)

lemma restored_names:
  assumes "backup_ok files"
  shows "get_member (backup dumps sha rname files) ''manifest.json''
     = Inr \<lparr>mb_name = ''manifest.json'', mb_kind = Regular, mb_data = dumps (manifest sha rname files)\<rparr>"
proof -
  have "as_posix (fst f) \<noteq> ''manifest.json''" if "f \<in> set files" for f
    using assms that parse_as_posix(1) [of "fst f"] manifest_path(1) unfolding backup_ok_def by force
  then have none: "find (\<lambda>m. mb_name m = ''manifest.json'') (rev (map file_member files)) = None"
    by (auto simp: find_None_iff)
  have find_snoc: "find P xs = None \<Longrightarrow> P x \<Longrightarrow> find P (xs @ [x]) = Some x" for P and x :: member and xs
    by (induction xs) (auto split: if_splits)
  show ?thesis
    unfolding get_member_def backup_def rev.simps(2) file_member_def [symmetric]
    by (subst find_snoc [OF none]) simp_all
qed

text \<open>
  Backup and restore round trip: restoring the archive of a well-formed set of files into a
  directory with room for them succeeds and afterwards every one of them has its content, and every
  other file is as before, except that temporary names of restored files are gone; provided the
  manifest survives serialization.
\<close>

lemma restore_of_backup:
  assumes "backup_ok files" and "loads (dumps (manifest sha rname files)) = Inr (sorted_json (manifest sha rname files))"
    and "room_for (fst ` set files \<union> temporary_targets (fst ` set files)) t"
  shows "\<exists>t'. restore rep loads sha (backup dumps sha rname files) t = (Inr (), t')
     \<and> (\<forall>q. map_of (tr_files t') q = (case map_of files q of Some d \<Rightarrow> Some d
          | None \<Rightarrow> if q \<in> temporary_targets (fst ` set files) then None else map_of (tr_files t) q))"
proof -
  let ?mf = "([''manifest.json''], dumps (manifest sha rname files))"
  let ?P = "insert [''manifest.json''] (fst ` set files)"
  have ok: "wf_dict files" "\<forall>p \<in> fst ` set files. p \<noteq> [] \<and> (\<forall>c \<in> set p. valid_part c)"
    "[''manifest.json''] \<notin> fst ` set files" "antichain ?P"
    "fst ` set files \<inter> temporary_targets (fst ` set files) = {}"
    "antichain (fst ` set files \<union> temporary_targets (fst ` set files))"
    using assms(1) by (simp_all add: backup_ok_def)
  have arch: "backup dumps sha rname files = map file_member (?mf # files)"
    by (simp add: backup_def file_member_def as_posix_manifest)
  have valid: "\<forall>p \<in> fst ` set (?mf # files). p \<noteq> [] \<and> (\<forall>c \<in> set p. valid_part c)"
    using ok(2) manifest_name_ok by simp
  have "verify_members (backup dumps sha rname files) = Inr ()"
    unfolding arch using valid parse_as_posix(3) by (intro verify_members_ok) fastforce
  moreover have "room_for ?P empty_tree" using valid by (auto simp: room_for_def empty_tree_def)
  then obtain st where st: "extract_all (backup dumps sha rname files) empty_tree = Inr st"
    "map_of (tr_files st) = map_of (tr_files empty_tree) ++ map_of (?mf # files)"
    unfolding arch using extract_all_ok [of ?P empty_tree "?mf # files"] ok valid by auto
  have staged: "\<forall>f \<in> set files. map_of (tr_files st) (fst f) = Some (snd f)"
    using ok(1,3) by (auto simp: st(2) empty_tree_def intro: rev_image_eqI)
  have "map_res (check_entry rep sha st) (map (read_entry sha) files) = Inr (map (\<lambda>_. ()) files)"
  proof -
    have "check_entry rep sha st (read_entry sha f) = Inr ()" if "f \<in> set files" for f
      using staged ok(2) that check_entry_manifest [of "fst f" st "snd f"] by auto
    then show ?thesis by (simp add: map_res_eq_Inr list_all2_map1 list_all2_map2 list_all2_same)
  qed
  moreover obtain t' where "restore_entries rep st (map (read_entry sha) files) t = (Inr (), t')"
    "\<And>q. map_of (tr_files t') q = (case map_of files q of Some d \<Rightarrow> Some d
       | None \<Rightarrow> if q \<in> temporary_targets (fst ` set files) then None else map_of (tr_files t) q)"
    using restore_entries_ok [OF assms(3) ok(6) subset_refl ok(1,2,5) staged] by blast
  ultimately show ?thesis
    using st(1) restored_names [OF assms(1), of dumps sha rname] assms(2) by (auto simp: restore_def manifest_files_read)
qed

subsection \<open>Safety\<close>

text \<open>A file content that an entry of the manifest vouches for.\<close>

definition vouched :: "(json \<Rightarrow> string) \<Rightarrow> (bytes \<Rightarrow> string) \<Rightarrow> json list \<Rightarrow> path \<Rightarrow> bytes \<Rightarrow> bool" where
  "vouched rep sha entries q d \<longleftrightarrow>
     (\<exists>e \<in> set entries. entry_path rep e = Inr q \<and> jitem_int e ''size'' = Inr (int (length d))
        \<and> jitem e ''sha256'' = Inr (JStr (sha d)))"

text \<open>What a restore may do to the file at \<open>p\<close>: leave it, or write vouched content to a listed path.\<close>

definition allowed_change :: "(path \<Rightarrow> bytes \<Rightarrow> bool) \<Rightarrow> tree \<Rightarrow> tree \<Rightarrow> bool" where
  "allowed_change V t t' \<longleftrightarrow> (\<forall>p. map_of (tr_files t') p = map_of (tr_files t) p
     \<or> (\<exists>q d. V q d \<and> (p = q \<or> p = temporary_target q)
          \<and> (map_of (tr_files t') p = Some d \<or> p = temporary_target q \<and> map_of (tr_files t') p = None)))"

lemma json_eq_JStr_left: "json_eq (JStr s) v \<longleftrightarrow> v = JStr s"
  by (auto simp: json_eq_def)

lemma check_entry_vouched:
  assumes "check_entry rep sha st e = Inr u"
  obtains q d where "entry_path rep e = Inr q" "map_of (tr_files st) q = Some d"
    "jitem_int e ''size'' = Inr (int (length d))" "jitem e ''sha256'' = Inr (JStr (sha d))"
  using assms
  by (auto simp: check_entry_def res_bind_eq_Inr Let_def json_eq_JStr_left split: option.splits if_splits)

lemma restore_file_change:
  assumes "restore_file p d t = (r, t')" and "V p d"
  shows "allowed_change V t t' \<and> (r = Inr () \<or> (\<exists>m. r = Inl (OSError m)))"
proof (cases "make_parents p t")
  case (Inl e)
  then show ?thesis using assms(1)
    by (auto simp: restore_file_def allowed_change_def make_parents_def split: if_splits)
next
  case (Inr t1)
  then have t1: "tr_files t1 = tr_files t" by (auto simp: make_parents_def split: if_splits)
  show ?thesis
  proof (cases "temporary_target p \<in> set (tr_dirs t1)")
    case True
    then show ?thesis using assms(1) Inr t1 by (auto simp: restore_file_def write_bytes_def allowed_change_def)
  next
    case False
    let ?t2 = "t1\<lparr>tr_files := AList.update (temporary_target p) d (tr_files t1)\<rparr>"
    have w: "write_bytes (temporary_target p) d t1 = Inr ?t2" using False by (simp add: write_bytes_def)
    show ?thesis
      using assms Inr w t1
      by (cases "p \<in> set (tr_dirs t1)")
        (force simp: restore_file_def replace_file_def allowed_change_def dict_simps)+
  qed
qed

lemma allowed_change_refl: "allowed_change V t t"
  by (simp add: allowed_change_def)

lemma allowed_change_trans: "allowed_change V t t1 \<Longrightarrow> allowed_change V t1 t2 \<Longrightarrow> allowed_change V t t2"
  unfolding allowed_change_def by metis

lemma restore_entries_change:
  assumes "\<forall>e \<in> set es. \<exists>q d. entry_path rep e = Inr q \<and> map_of (tr_files st) q = Some d \<and> V q d"
    and "restore_entries rep st es t = (r, t')"
  shows "allowed_change V t t' \<and> (r = Inr () \<or> (\<exists>m. r = Inl (OSError m)))"
  using assms
proof (induction es arbitrary: t)
  case (Cons e es)
  then obtain q d where e: "entry_path rep e = Inr q" "map_of (tr_files st) q = Some d" "V q d" by auto
  obtain x t1 where f: "restore_file q d t = (x, t1)" by fastforce
  note c = restore_file_change [OF f, of V, OF e(3)]
  show ?case
  proof (cases x)
    case (Inl err)
    then show ?thesis using Cons.prems(2) c e f by auto
  next
    case (Inr u)
    then have "restore_entries rep st es t1 = (r, t')" using Cons.prems(2) e f by simp
    from Cons.IH [OF _ this] Cons.prems(1) c show ?thesis by (auto intro: allowed_change_trans)
  qed
qed (simp add: allowed_change_refl)



subsection \<open>Where the round trip fails\<close>

text \<open>
  Two sets of files a backup accepts and a restore does not bring back: a file with the temporary
  name of its neighbour, and a file called \<open>manifest.json\<close> at the top, which hides the manifest.
  Manifests are passed on as they are: the single byte stands for the serialized manifest.
\<close>

lemma temporary_name_is_lost:
  "let files = [([''.a.restore''], [1]), ([''a''], [2])];
       loads = (\<lambda>_. Inr (manifest (\<lambda>_. ''d'') ''r'' files));
       (r, t) = restore (\<lambda>_. []) loads (\<lambda>_. ''d'') (backup (\<lambda>_. [0]) (\<lambda>_. ''d'') ''r'' files) empty_tree
   in r = Inr () \<and> tr_files t = [([''a''], [2])]"
  by code_simp

lemma top_level_manifest_hides_the_manifest:
  "let files = [([''manifest.json''], [7])];
       loads = (\<lambda>b. if b = [0] then Inr (manifest (\<lambda>_. ''d'') ''r'' files) else Inl (JSONDecodeError ''x''))
   in restore (\<lambda>_. []) loads (\<lambda>_. ''d'') (backup (\<lambda>_. [0]) (\<lambda>_. ''d'') ''r'' files) empty_tree
      = (Inl (JSONDecodeError ''x''), empty_tree)"
  by code_simp

end
