(* ===== verification/Config.thy ===== *)
theory Config
  imports Py_Json
begin

section \<open>Releases, evidence, bindings and the generated risk interface\<close>

text \<open>
  \<open>interfaces/deployment/release.py\<close>, \<open>interfaces/fpga/evidence.py\<close>,
  \<open>scripts/operations/verify_release_binding.py\<close>, \<open>scripts/operations/key_rotation_drill.py\<close> and
  \<open>scripts/generate_risk_interface.py\<close>. Files are what reading them gives. Parameters: \<open>sha\<close> for the
  hexadecimal SHA-256 of a content, \<open>rep\<close> for the text of floats and containers; the random keys are
  arguments.
\<close>

subsection \<open>Releases and evidence\<close>

datatype deployment_environment = Development | Staging | Production

record release =
  rl_release_id :: string
  rl_artifact_digest :: string
  rl_policy_version :: int
  rl_environment :: deployment_environment

definition validate_release :: "release \<Rightarrow> exn + unit" where
  "validate_release r =
     (if rl_release_id r = [] \<or> length (rl_artifact_digest r) \<noteq> 64 then Inl (ValueError ''release_identity_invalid'')
      else if rl_policy_version r \<le> 0 then Inl (ValueError ''policy_version_invalid'')
      else Inr ())"

definition deploy :: "release \<Rightarrow> exn + string" where
  "deploy r =
     res_bind (validate_release r) (\<lambda>_.
       if rl_environment r = Production then Inl (ValueError ''production_deployment_disabled'')
       else Inr (''dry-run-deployed:'' @ rl_release_id r))"

definition rollback :: "string \<Rightarrow> exn + string" where
  "rollback release_id =
     (if release_id = [] then Inl (ValueError ''release_id_invalid'') else Inr (''dry-run-rollback:'' @ release_id))"

record timing_evidence =
  te_clock_hz :: int
  te_latency_cycles :: int
  te_slack_ps :: int
  te_reset_verified :: bool
  te_cdc_verified :: bool

definition validate_timing :: "timing_evidence \<Rightarrow> exn + unit" where
  "validate_timing t =
     (if te_clock_hz t \<le> 0 \<or> te_latency_cycles t < 0 then Inl (ValueError ''timing_parameters_invalid'')
      else if \<not> te_reset_verified t \<or> \<not> te_cdc_verified t then Inl (ValueError ''hardware_safety_evidence_missing'')
      else Inr ())"

record frame_evidence =
  fe_frame_schema :: string
  fe_frame_digest :: string
  fe_timing :: timing_evidence

definition create_evidence :: "('b \<Rightarrow> string) \<Rightarrow> string \<Rightarrow> 'b \<Rightarrow> timing_evidence \<Rightarrow> exn + frame_evidence" where
  "create_evidence sha frame_schema frame timing =
     (if frame_schema = [] then Inl (ValueError ''frame_schema_invalid'')
      else res_bind (validate_timing timing) (\<lambda>_.
        Inr \<lparr>fe_frame_schema = frame_schema, fe_frame_digest = sha frame, fe_timing = timing\<rparr>))"

definition validate_evidence :: "frame_evidence \<Rightarrow> exn + unit" where
  "validate_evidence e =
     (if length (fe_frame_digest e) \<noteq> 64 then Inl (ValueError ''frame_digest_invalid'')
      else validate_timing (fe_timing e))"

subsection \<open>Release binding\<close>

definition binding_digest_ok :: "json \<Rightarrow> bool" where
  "binding_digest_ok expected =
     (case expected of JStr s \<Rightarrow> length s = 64 \<and> set s \<subseteq> set ''0123456789abcdef'' | _ \<Rightarrow> False)"

text \<open>A file is its content, or \<open>None\<close> if there is no such file.\<close>

fun verify_digests :: "('b \<Rightarrow> string) \<Rightarrow> json \<Rightarrow> (string \<times> 'b option) list \<Rightarrow> exn + unit" where
  "verify_digests sha binding [] = Inr ()"
| "verify_digests sha binding ((field, content) # files) =
     res_bind (jget binding field JNull) (\<lambda>expected.
       if \<not> binding_digest_ok expected then Inl (BindingError (''invalid_digest:'' @ field))
       else if (case content of None \<Rightarrow> True | Some b \<Rightarrow> JStr (sha b) \<noteq> expected)
       then Inl (BindingError (''digest_mismatch:'' @ field))
       else verify_digests sha binding files)"

definition verify_binding :: "('b \<Rightarrow> string) \<Rightarrow> exn + json \<Rightarrow> 'b option \<Rightarrow> 'b option \<Rightarrow> 'b option \<Rightarrow> exn + unit" where
  "verify_binding sha source policy rtl schema =
     (case source of
        Inl (OSError m) \<Rightarrow> Inl (BindingError (''invalid_binding:'' @ m))
      | Inl (JSONDecodeError m) \<Rightarrow> Inl (BindingError (''invalid_binding:'' @ m))
      | Inl e \<Rightarrow> Inl e
      | Inr binding \<Rightarrow>
          if \<not> is_dict binding
             \<or> (case map_of (case binding of JObj d \<Rightarrow> d | _ \<Rightarrow> []) ''policy_version'' of
                  None \<Rightarrow> True | Some v \<Rightarrow> (case int_value v of None \<Rightarrow> True | Some n \<Rightarrow> n \<le> 0))
          then Inl (BindingError ''invalid_policy_version'')
          else verify_digests sha binding
                 [(''artifact_digest'', policy), (''rtl_digest'', rtl), (''schema_digest'', schema)])"

subsection \<open>Key rotation drill\<close>

definition rotation_drill :: "('b \<Rightarrow> string) \<Rightarrow> 'b \<Rightarrow> 'b \<Rightarrow> exn + json" where
  "rotation_drill sha first_key second_key =
     (let first_fingerprint = sha first_key; second_fingerprint = sha second_key
      in if first_fingerprint = second_fingerprint then Inl (RotationError ''rotation_invariant_failed'')
         else Inr (JObj [(''format'', JInt 1), (''status'', JStr ''passed''), (''active_version'', JInt 2),
                (''retired_versions'', JArr [JInt 1]),
                (''key_fingerprints'', JArr [JStr first_fingerprint, JStr second_fingerprint])]))"

subsection \<open>Register map of the risk gate\<close>

record register =
  rg_name :: string
  rg_offset :: int
  rg_bytes :: int
  rg_access :: string
  rg_fields :: json

fun place_registers :: "(json \<Rightarrow> string) \<Rightarrow> int \<Rightarrow> int list \<Rightarrow> json list \<Rightarrow> exn + register list" where
  "place_registers rep frame_bytes occupied [] = Inr []"
| "place_registers rep frame_bytes occupied (item # items) =
     (if \<not> is_dict item then Inl (ValueError ''register_invalid'')
      else
        res_bind (jget item ''name'' (JStr [])) (\<lambda>name_value.
        res_bind (jget_int item ''offset'' (- 1)) (\<lambda>offset.
        res_bind (jget_int item ''bytes'' 0) (\<lambda>width.
          let name = py_str rep name_value; positions = [offset..offset + width - 1]
          in if name = [] \<or> offset < 0 \<or> width \<le> 0 \<or> offset + width > frame_bytes
             then Inl (ValueError (''register_bounds_invalid:'' @ name))
             else if set occupied \<inter> set positions \<noteq> {} then Inl (ValueError (''register_overlap:'' @ name))
             else
               res_bind (jget item ''access'' (JStr [])) (\<lambda>access.
               res_bind (jget item ''fields'' (JArr [])) (\<lambda>fields.
               res_bind (place_registers rep frame_bytes (occupied @ positions) items) (\<lambda>registers.
                 Inr (\<lparr>rg_name = name, rg_offset = offset, rg_bytes = width, rg_access = py_str rep access,
                       rg_fields = fields\<rparr> # registers))))))))"

definition register_items :: "json \<Rightarrow> exn + json list" where
  "register_items registers =
     (case registers of
        JArr items \<Rightarrow> if items = [] then Inl (ValueError ''registers_missing'') else Inr items
      | _ \<Rightarrow> Inl (ValueError ''registers_missing''))"

definition validate_registers :: "(json \<Rightarrow> string) \<Rightarrow> json \<Rightarrow> exn + int \<times> register list" where
  "validate_registers rep register_map =
     res_bind (jget_int register_map ''frame_bytes'' 0) (\<lambda>frame_bytes.
     res_bind (jget_int register_map ''frame_bits'' 0) (\<lambda>frame_bits.
       if frame_bytes \<le> 0 \<or> frame_bits \<noteq> frame_bytes * 8 then Inl (ValueError ''frame_dimensions_invalid'')
       else
         res_bind (jget register_map ''registers'' JNull) (\<lambda>registers.
         res_bind (register_items registers) (\<lambda>items.
         res_bind (place_registers rep frame_bytes [] items) (\<lambda>normalized. Inr (frame_bytes, normalized))))))"

text \<open>
  \<open>str.upper\<close>: two of the code points below 256, 181 and 255, have their upper case above 255 and are
  kept here; register names are ASCII.
\<close>

definition upper_char :: "char \<Rightarrow> string" where
  "upper_char c = (let v = (of_char c :: int) in
     if v = 223 then ''SS''
     else if 97 \<le> v \<and> v \<le> 122 \<or> 224 \<le> v \<and> v \<le> 254 \<and> v \<noteq> 247 then [char_of (v - 32)] else [c])"

definition py_upper :: "string \<Rightarrow> string" where
  "py_upper s = concat (map upper_char s)"

text \<open>The lines of the two generated sources.\<close>

definition rust_lines :: "int \<Rightarrow> int \<Rightarrow> register list \<Rightarrow> string list" where
  "rust_lines version frame_bytes registers =
     [''pub const REGISTER_MAP_VERSION: u64 = '' @ str_of_int version @ '';'',
      ''pub const FRAME_BYTES: usize = '' @ str_of_int frame_bytes @ '';'',
      ''pub const FRAME_BITS: usize = '' @ str_of_int (frame_bytes * 8) @ '';'']
     @ map (\<lambda>r. ''pub const OFFSET_'' @ py_upper (rg_name r) @ '': usize = '' @ str_of_int (rg_offset r) @ '';'') registers"

definition sv_lines :: "int \<Rightarrow> int \<Rightarrow> register list \<Rightarrow> string list" where
  "sv_lines version frame_bytes registers =
     [''package ito_risk_frame_pkg;'',
      ''localparam integer REGISTER_MAP_VERSION = '' @ str_of_int version @ '';'',
      ''localparam integer FRAME_BYTES = '' @ str_of_int frame_bytes @ '';'',
      ''localparam integer FRAME_BITS = '' @ str_of_int (frame_bytes * 8) @ '';'']
     @ map (\<lambda>r. ''localparam integer OFFSET_'' @ py_upper (rg_name r) @ '' = '' @ str_of_int (rg_offset r) @ '';'') registers
     @ [''endpackage'']"

definition register_json :: "register \<Rightarrow> json" where
  "register_json r = JObj [(''name'', JStr (rg_name r)), (''offset'', JInt (rg_offset r)), (''bytes'', JInt (rg_bytes r)),
     (''access'', JStr (rg_access r)), (''fields'', rg_fields r)]"

text \<open>\<open>main\<close>: the texts of the Rust and SystemVerilog files and the layout that is dumped.\<close>

definition generate_interface :: "(json \<Rightarrow> string) \<Rightarrow> json \<Rightarrow> exn + string \<times> string \<times> json" where
  "generate_interface rep register_map =
     res_bind (validate_registers rep register_map) (\<lambda>(frame_bytes, registers).
     res_bind (jitem_int register_map ''register_map_version'') (\<lambda>version.
       Inr (py_join newline (rust_lines version frame_bytes registers) @ newline,
            py_join newline (sv_lines version frame_bytes registers) @ newline,
            JObj [(''register_map_version'', JInt version), (''frame_bytes'', JInt frame_bytes),
                  (''frame_bits'', JInt (frame_bytes * 8)), (''registers'', JArr (map register_json registers))])))"

end
