(* ===== verification/Config_Props.thy ===== *)
theory Config_Props
  imports Config
begin

section \<open>Correctness of the risk interface, bindings and releases\<close>

text \<open>
  Accepted register maps are layouts without overlap, a release binding is accepted exactly when it
  binds the three artifacts, and nothing is deployed to production.
\<close>


subsection \<open>The register map\<close>

definition reg_span :: "register \<Rightarrow> int set" where
  "reg_span r = {rg_offset r..<rg_offset r + rg_bytes r}"

lemma place_registers_layout:
  assumes "place_registers rep n occupied items = Inr rs"
  shows "(\<forall>r \<in> set rs. rg_name r \<noteq> [] \<and> 0 \<le> rg_offset r \<and> 0 < rg_bytes r \<and> rg_offset r + rg_bytes r \<le> n
            \<and> reg_span r \<inter> set occupied = {})
     \<and> sorted_wrt (\<lambda>r s. reg_span r \<inter> reg_span s = {}) rs \<and> length rs = length items"
  using assms
proof (induction items arbitrary: occupied rs)
  case (Cons item items)
  obtain r rest where r: "rs = r # rest" "rg_name r \<noteq> []" "0 \<le> rg_offset r" "0 < rg_bytes r" "rg_offset r + rg_bytes r \<le> n"
    "set occupied \<inter> set [rg_offset r..rg_offset r + rg_bytes r - 1] = {}"
    "place_registers rep n (occupied @ [rg_offset r..rg_offset r + rg_bytes r - 1]) items = Inr rest"
    using Cons.prems by (auto simp: res_bind_eq_Inr Let_def split: if_splits)
  have span: "set [rg_offset r..rg_offset r + rg_bytes r - 1] = reg_span r" by (auto simp: reg_span_def)
  have "set (occupied @ [rg_offset r..rg_offset r + rg_bytes r - 1]) = set occupied \<union> reg_span r"
    unfolding set_append span ..
  with Cons.IH [OF r(7)] r(1-6) show ?case unfolding span by auto
qed simp

lemma card_span: "0 < rg_bytes r \<Longrightarrow> int (card (reg_span r)) = rg_bytes r"
  by (simp add: reg_span_def)

lemma spans_fit:
  assumes "\<forall>r \<in> set rs. 0 \<le> rg_offset r \<and> 0 < rg_bytes r \<and> rg_offset r + rg_bytes r \<le> n"
    and "sorted_wrt (\<lambda>r s. reg_span r \<inter> reg_span s = {}) rs" and "0 \<le> n"
  shows "sum_list (map rg_bytes rs) \<le> n"
proof -
  have "int (card (\<Union>r \<in> set rs. reg_span r)) = sum_list (map rg_bytes rs)"
    using assms(1,2)
  proof (induction rs)
    case (Cons r rs)
    have "card (reg_span r \<union> (\<Union>s \<in> set rs. reg_span s)) = card (reg_span r) + card (\<Union>s \<in> set rs. reg_span s)"
      using Cons.prems by (intro card_Un_disjoint) (auto simp: reg_span_def)
    then show ?case using Cons card_span [of r] by simp
  qed simp
  moreover have "card (\<Union>r \<in> set rs. reg_span r) \<le> card {0..<n}"
    using assms(1) by (intro card_mono) (auto simp: reg_span_def)
  ultimately show ?thesis using assms(3) by simp
qed

lemma register_items_nonempty: "register_items v = Inr items \<Longrightarrow> items \<noteq> []"
  by (auto simp: register_items_def split: json.splits if_splits)

text \<open>
  C32. The generated risk interface is a layout: an accepted register map has positive frame size and
  at least one register; every register has a name, lies within the frame, overlaps no other, so that
  together they need no more bytes than the frame has; and both generated sources declare each
  register's offset under the same constant.
\<close>

theorem registers_never_overlap:
  assumes "validate_registers rep m = Inr (n, rs)"
  shows "0 < n \<and> rs \<noteq> []
     \<and> (\<forall>r \<in> set rs. rg_name r \<noteq> [] \<and> 0 \<le> rg_offset r \<and> 0 < rg_bytes r \<and> rg_offset r + rg_bytes r \<le> n)
     \<and> sorted_wrt (\<lambda>r s. reg_span r \<inter> reg_span s = {}) rs \<and> sum_list (map rg_bytes rs) \<le> n
     \<and> (\<forall>r \<in> set rs.
          ''pub const OFFSET_'' @ py_upper (rg_name r) @ '': usize = '' @ str_of_int (rg_offset r) @ '';'' \<in> set (rust_lines v n rs)
        \<and> ''localparam integer OFFSET_'' @ py_upper (rg_name r) @ '' = '' @ str_of_int (rg_offset r) @ '';'' \<in> set (sv_lines v n rs))"
proof -
  obtain items where i: "0 < n" "items \<noteq> []" "place_registers rep n [] items = Inr rs"
    using assms by (auto simp: validate_registers_def res_bind_eq_Inr not_le dest: register_items_nonempty split: if_splits)
  note l = place_registers_layout [OF i(3)]
  have "sum_list (map rg_bytes rs) \<le> n" using l i(1) by (intro spans_fit) auto
  moreover have "rs \<noteq> []" using l i(2) by auto
  ultimately show ?thesis using l i(1) by (simp add: rust_lines_def sv_lines_def)
qed

subsection \<open>Release binding\<close>

text \<open>A digest of 64 lowercase hexadecimal digits.\<close>

definition hex_digest :: "string \<Rightarrow> bool" where
  "hex_digest s \<longleftrightarrow> length s = 64 \<and> set s \<subseteq> set ''0123456789abcdef''"

lemma verify_digests_iff:
  "verify_digests sha (JObj d) files = Inr () \<longleftrightarrow>
     (\<forall>(field, content) \<in> set files. \<exists>b. content = Some b \<and> hex_digest (sha b) \<and> map_of d field = Some (JStr (sha b)))"
proof (induction files)
  case (Cons f files)
  obtain field content where f: "f = (field, content)" by fastforce
  have g: "get_default d field JNull = JStr s \<longleftrightarrow> map_of d field = Some (JStr s)" for s
    by (auto simp: get_default_def split: option.splits)
  show ?case
    using Cons by (cases "get_default d field JNull"; cases content)
      (auto simp: f binding_digest_ok_def hex_digest_def g [symmetric])
qed simp

text \<open>
  A release binding is accepted exactly when it is an object with a positive integer policy
  version and, for the policy, the RTL and the schema, the digest of a file that exists, written as
  64 lowercase hexadecimal digits; every other readable binding is refused with a \<open>BindingError\<close>.
\<close>

theorem release_binding_verified_iff:
  assumes "source = Inr v"
  shows "(verify_binding sha source policy rtl schema = Inr () \<longleftrightarrow>
       (\<exists>d p n. v = JObj d \<and> map_of d ''policy_version'' = Some p \<and> int_value p = Some n \<and> 0 < n
          \<and> (\<forall>(field, content) \<in> {(''artifact_digest'', policy), (''rtl_digest'', rtl), (''schema_digest'', schema)}.
               \<exists>b. content = Some b \<and> hex_digest (sha b) \<and> map_of d field = Some (JStr (sha b)))))
     \<and> (\<forall>e. verify_binding sha source policy rtl schema = Inl e \<longrightarrow> (\<exists>m. e = BindingError m))"
proof -
  have err: "verify_digests sha (JObj d) files = Inl e \<Longrightarrow> \<exists>m. e = BindingError m" for d files e
    by (induction files) (auto split: if_splits)
  show ?thesis
  proof (cases "\<exists>d p n. v = JObj d \<and> map_of d ''policy_version'' = Some p \<and> int_value p = Some n \<and> 0 < n")
    case True
    then obtain d p n where v: "v = JObj d" "map_of d ''policy_version'' = Some p" "int_value p = Some n" "0 < n" by blast
    then have "verify_binding sha source policy rtl schema = verify_digests sha (JObj d)
        [(''artifact_digest'', policy), (''rtl_digest'', rtl), (''schema_digest'', schema)]"
      by (simp add: verify_binding_def assms)
    then show ?thesis using v err by (auto simp: verify_digests_iff simp del: verify_digests.simps)
  next
    case False
    then have "verify_binding sha source policy rtl schema = Inl (BindingError ''invalid_policy_version'')"
      by (cases v) (auto simp: verify_binding_def assms split: option.splits)
    with False show ?thesis by auto
  qed
qed

text \<open>
  Nothing is deployed to production: a dry run deploys exactly the valid releases of the other
  environments, and the reply names the release.
\<close>

theorem production_never_deployed:
  "deploy r = Inr s \<longleftrightarrow> rl_release_id r \<noteq> [] \<and> length (rl_artifact_digest r) = 64 \<and> 0 < rl_policy_version r
     \<and> rl_environment r \<noteq> Production \<and> s = ''dry-run-deployed:'' @ rl_release_id r"
  by (auto simp: deploy_def validate_release_def)

end
