(* ===== verification/Deploy.thy ===== *)
theory Deploy
  imports Portfolio Py_Json
begin

section \<open>Profiles, deployment and the portfolio snapshot script\<close>

text \<open>
  \<open>python/connectivity/config_linter.py\<close>, \<open>scripts/deploy_ito.py\<close> and
  \<open>scripts/operations/portfolio_snapshot.py\<close>. Files are what reading them gives. A deployment is the
  list of its effects: lines printed and commands started (with the variables added to
  their environment); the exit code of a command is a parameter. Further parameters: \<open>rep\<close> for the text of floats and containers, \<open>below\<close> for the text of
  a path below the repository root.
\<close>

definition plain_text :: "json \<Rightarrow> string" where
  "plain_text v = py_str (\<lambda>_. []) v"

subsection \<open>Connectivity profiles\<close>

fun lint_error_name :: "exn \<Rightarrow> string option" where
  "lint_error_name (OSError m) = Some ''OSError''"
| "lint_error_name (JSONDecodeError m) = Some ''JSONDecodeError''"
| "lint_error_name (UnicodeError m) = Some ''UnicodeDecodeError''"
| "lint_error_name (ValueError m) = Some ''ValueError''"
| "lint_error_name _ = None"

definition load_profile :: "string \<Rightarrow> exn + json \<Rightarrow> exn + (string, json) dict" where
  "load_profile path content =
     res_bind content (\<lambda>v. case v of JObj d \<Rightarrow> Inr d | _ \<Rightarrow> Inl (ValueError (''object_required:'' @ path)))"

record lint_state =
  li_errors :: "string list"
  li_venue_ids :: "int list"
  li_broker_ids :: "int list"

definition lint_identifier :: "string \<Rightarrow> (string, json) dict \<Rightarrow> string list" where
  "lint_identifier path d =
     (case int_value (get_default d ''venue_id'' (get_default d ''broker_id'' JNull)) of
        Some n \<Rightarrow> if n \<le> 0 then [''identifier_invalid:'' @ path] else []
      | None \<Rightarrow> [''identifier_invalid:'' @ path])"

text \<open>The id a profile claims among the venues, and among the brokers if it is not a venue.\<close>

definition venue_claim :: "(string, json) dict \<Rightarrow> int option" where
  "venue_claim d = Option.bind (map_of d ''venue_id'') int_value"

definition broker_claim :: "(string, json) dict \<Rightarrow> int option" where
  "broker_claim d = (if has_key d ''venue_id'' then None else Option.bind (map_of d ''broker_id'') int_value)"

definition lint_claim :: "string \<Rightarrow> int option \<Rightarrow> int list \<Rightarrow> string list" where
  "lint_claim message claim seen = (case claim of Some n \<Rightarrow> if n \<in> set seen then [message] else [] | None \<Rightarrow> [])"

definition add_claim :: "int option \<Rightarrow> int list \<Rightarrow> int list" where
  "add_claim claim seen = (case claim of Some n \<Rightarrow> n # seen | None \<Rightarrow> seen)"

definition lint_field :: "string \<Rightarrow> (string, json) dict \<Rightarrow> string \<Rightarrow> string list" where
  "lint_field path d field =
     (case get_default d field JNull of
        JStr t \<Rightarrow> if t = [] then [''field_invalid:'' @ path @ '':'' @ field] else []
      | _ \<Rightarrow> [''field_invalid:'' @ path @ '':'' @ field])"

definition lint_profile :: "string \<Rightarrow> (string, json) dict \<Rightarrow> lint_state \<Rightarrow> lint_state" where
  "lint_profile path d s =
     \<lparr>li_errors = li_errors s
        @ lint_identifier path d
        @ lint_claim (''duplicate_venue:'' @ plain_text (get_default d ''venue_id'' JNull)) (venue_claim d) (li_venue_ids s)
        @ lint_claim (''duplicate_broker:'' @ plain_text (get_default d ''broker_id'' JNull)) (broker_claim d) (li_broker_ids s)
        @ concat (map (lint_field path d) [''name'', ''protocol'', ''endpoint''])
        @ (if get_default d ''live_enabled'' JNull = JBool False then [] else [''live_must_be_disabled:'' @ path])
        @ (if get_default d ''tls_required'' JNull = JBool True then [] else [''tls_required:'' @ path]),
      li_venue_ids = add_claim (venue_claim d) (li_venue_ids s),
      li_broker_ids = add_claim (broker_claim d) (li_broker_ids s)\<rparr>"

fun lint_loop :: "(string \<times> (exn + json)) list \<Rightarrow> lint_state \<Rightarrow> exn + lint_state" where
  "lint_loop [] s = Inr s"
| "lint_loop ((path, content) # profiles) s =
     (case load_profile path content of
        Inl e \<Rightarrow>
          (case lint_error_name e of
             Some name \<Rightarrow> lint_loop profiles
               (s\<lparr>li_errors := li_errors s @ [''profile_invalid:'' @ path @ '':'' @ name]\<rparr>)
           | None \<Rightarrow> Inl e)
      | Inr d \<Rightarrow> lint_loop profiles (lint_profile path d s))"

definition validate_profiles :: "(string \<times> (exn + json)) list \<Rightarrow> exn + string list" where
  "validate_profiles profiles =
     res_bind (lint_loop profiles \<lparr>li_errors = [], li_venue_ids = [], li_broker_ids = []\<rparr>) (\<lambda>s. Inr (li_errors s))"

text \<open>The adapter matrix, in \<open>main\<close>.\<close>

fun mapping_items :: "string \<Rightarrow> int \<Rightarrow> json list \<Rightarrow> (string, json) dict list \<times> string list" where
  "mapping_items field n [] = ([], [])"
| "mapping_items field n (item # items) =
     (let (ds, errors) = mapping_items field (n + 1) items
      in case item of
           JObj d \<Rightarrow> (d # ds, errors)
         | _ \<Rightarrow> (ds, (field @ ''_item_invalid:'' @ str_of_int n) # errors))"

definition mapping_list :: "json \<Rightarrow> string \<Rightarrow> (string, json) dict list \<times> string list" where
  "mapping_list v field =
     (case v of JArr items \<Rightarrow> mapping_items field 0 items | _ \<Rightarrow> ([], [field @ ''_list_invalid'']))"

definition nonempty_str :: "json \<Rightarrow> bool" where
  "nonempty_str v = (case v of JStr t \<Rightarrow> t \<noteq> [] | _ \<Rightarrow> False)"

definition str_items :: "json list \<Rightarrow> string list" where
  "str_items vs = concat (map (\<lambda>v. case v of JStr t \<Rightarrow> [t] | _ \<Rightarrow> []) vs)"

definition int_items :: "json list \<Rightarrow> int list" where
  "int_items vs = concat (map (\<lambda>v. case int_value v of Some n \<Rightarrow> [n] | None \<Rightarrow> []) vs)"

definition lint_matrix :: "(string, json) dict \<Rightarrow> exn + string list" where
  "lint_matrix matrix =
     (let (adapters, errors) = mapping_list (get_default matrix ''adapters'' (JArr [])) ''adapter'';
          ids = map (\<lambda>d. get_default d ''adapter_id'' JNull) adapters;
          venues = map (\<lambda>d. get_default d ''venue_id'' JNull) adapters
      in res_bind (iter_items (get_default matrix ''language_ownership'' (JObj []))) (\<lambda>owners.
         if \<exists>v \<in> set owners. is_list v \<or> is_dict v then Inl (TypeError ''unhashable type'')
         else Inr (errors
             @ (if \<exists>v \<in> set ids. \<not> nonempty_str v then [''adapter_id_invalid''] else [])
             @ (if \<not> distinct (str_items ids) then [''duplicate_adapter_id''] else [])
             @ (if \<exists>v \<in> set venues. (case int_value v of None \<Rightarrow> True | Some n \<Rightarrow> n \<le> 0) then [''adapter_venue_invalid''] else [])
             @ (if \<not> distinct (int_items venues) then [''duplicate_adapter_venue_id''] else [])
             @ (if \<exists>d \<in> set adapters. get_default d ''live_enabled'' JNull \<noteq> JBool False
                then [''adapter_live_must_be_disabled''] else [])
             @ (if set owners \<noteq> set (map JStr [''cpp'', ''rust'', ''ocaml'', ''systemverilog'', ''python''])
                then [''language_ownership_incomplete''] else []))))"

text \<open>The lines printed and the exit status of the linter.\<close>

definition lint_main :: "(string \<times> (exn + json)) list \<Rightarrow> string \<Rightarrow> exn + json \<Rightarrow> exn + string list \<times> int" where
  "lint_main profiles matrix_path matrix_content =
     res_bind (validate_profiles profiles) (\<lambda>errors.
     res_bind (load_profile matrix_path matrix_content) (\<lambda>matrix.
     res_bind (lint_matrix matrix) (\<lambda>matrix_errors.
       let errors = errors @ matrix_errors
       in Inr (if errors \<noteq> [] then (errors, 1)
               else ([''connectivity_profiles_valid:'' @ str_of_int (int (length profiles))], 0)))))"

subsection \<open>Deployment\<close>

datatype effect =
    Printed string
  | Started "string list" "(string \<times> string) list"

record deploy_args =
  da_action :: string
  da_nodes :: "string list"
  da_execute :: bool
  da_tag :: "string option"

definition inventory :: "exn + json \<Rightarrow> exn + (string, json) dict \<times> json list" where
  "inventory content =
     res_bind content (\<lambda>v. case v of
        JObj d \<Rightarrow> (case get_default d ''nodes'' JNull of
                      JArr nodes \<Rightarrow> Inr (d, nodes) | _ \<Rightarrow> Inl (DeploymentError ''invalid_inventory''))
      | _ \<Rightarrow> Inl (DeploymentError ''invalid_inventory''))"

definition compose_command :: "string \<Rightarrow> string \<Rightarrow> string \<Rightarrow> string \<Rightarrow> exn + string list" where
  "compose_command context compose_file project action =
     (let base = [''docker'', ''--context'', context, ''compose'', ''-p'', project, ''-f'', compose_file]
      in if action = ''up'' then Inr (base @ [''up'', ''-d'', ''--remove-orphans''])
         else if action = ''down'' then Inr (base @ [''down'', ''--remove-orphans''])
         else if action = ''status'' then Inr (base @ [''ps''])
         else Inl (DeploymentError (''unsupported_action:'' @ action)))"

text \<open>\<open>run\<close>: print the command, and start it if asked to.\<close>

definition run_command :: "(string list \<Rightarrow> int) \<Rightarrow> string list \<Rightarrow> bool \<Rightarrow> effect list \<Rightarrow> (effect list, unit) outcome" where
  "run_command code command execute trace =
     (let trace = trace @ [Printed (''$ '' @ py_join '' '' command)]
      in if \<not> execute then (Inr (), trace)
         else if code command \<noteq> 0
         then (Inl (DeploymentError (''command_failed:'' @ str_of_int (code command))), trace @ [Started command []])
         else (Inr (), trace @ [Started command []]))"

definition node_invalid :: "json \<Rightarrow> exn + bool" where
  "node_invalid node =
     (case node of
        JObj d \<Rightarrow>
          if \<not> is_str (get_default d ''node_id'' JNull) then Inr True
          else (case (int_value (get_default d ''branch_id'' JNull), int_value (get_default d ''entity_id'' JNull)) of
                  (Some branch, Some entity) \<Rightarrow>
                    if branch \<le> 0 \<or> entity \<le> 0 then Inr True
                    else map_sum id Not (in_names (get_default d ''mode'' (JStr ''restricted'')) [''restricted'', ''lab''])
                | _ \<Rightarrow> Inr True)
      | _ \<Rightarrow> Inr True)"

definition node_action :: "string \<Rightarrow> string" where
  "node_action action =
     (if action = ''deploy'' then ''up'' else if action = ''status'' then ''status''
      else if action = ''down'' then ''down'' else ''status'')"

text \<open>What the loop body reads of a selected node, which has passed \<open>node_invalid\<close>.\<close>

definition node_settings :: "(json \<Rightarrow> string) \<Rightarrow> json \<Rightarrow> exn + string \<times> string \<times> string \<times> string \<times> string" where
  "node_settings rep node =
     res_bind (jitem node ''node_id'') (\<lambda>node_id.
     res_bind (jitem node ''docker_context'') (\<lambda>context.
     res_bind (jitem node ''branch_id'') (\<lambda>branch.
     res_bind (jitem node ''entity_id'') (\<lambda>entity.
     res_bind (jget node ''mode'' (JStr ''restricted'')) (\<lambda>mode.
       if py_str rep mode \<notin> {''restricted'', ''lab''}
       then Inl (DeploymentError (''unsupported_mode:'' @ py_str rep node_id))
       else Inr (py_str rep node_id, py_str rep context, py_str rep branch, py_str rep entity, py_str rep mode))))))"

definition start_node :: "(string list \<Rightarrow> int) \<Rightarrow> string \<Rightarrow> string list \<Rightarrow> (string \<times> string) list \<Rightarrow> bool \<Rightarrow> effect list
    \<Rightarrow> (effect list, unit) outcome" where
  "start_node code node_id command environment execute trace =
     (if \<not> execute then (Inr (), trace @ [Printed (''$ '' @ py_join '' '' command)])
      else if code command \<noteq> 0
      then (Inl (DeploymentError (''command_failed:'' @ node_id @ '':'' @ str_of_int (code command))),
            trace @ [Started command environment])
      else (Inr (), trace @ [Started command environment]))"

definition deploy_node :: "(json \<Rightarrow> string) \<Rightarrow> (string list \<Rightarrow> int) \<Rightarrow> string \<Rightarrow> string \<Rightarrow> bool \<Rightarrow> json \<Rightarrow> effect list
    \<Rightarrow> (effect list, unit) outcome" where
  "deploy_node rep code compose_file action execute node trace =
     (case node_settings rep node of
        Inl e \<Rightarrow> (Inl e, trace)
      | Inr (node_id, context, branch, entity, mode) \<Rightarrow>
          let trace = trace @ [Printed (''node='' @ node_id @ '' branch='' @ branch @ '' mode='' @ mode)]
          in case compose_command context compose_file (''ito-'' @ node_id) (node_action action) of
               Inl e \<Rightarrow> (Inl e, trace)
             | Inr command \<Rightarrow> start_node code node_id command
                 [(''ITO_BRANCH_ID'', branch), (''ITO_ENTITY_ID'', entity), (''ITO_MODE'', mode)] execute trace)"

fun deploy_nodes :: "(json \<Rightarrow> string) \<Rightarrow> (string list \<Rightarrow> int) \<Rightarrow> string \<Rightarrow> string \<Rightarrow> bool \<Rightarrow> json list \<Rightarrow> effect list
    \<Rightarrow> (effect list, unit) outcome" where
  "deploy_nodes rep code compose_file action execute [] trace = (Inr (), trace)"
| "deploy_nodes rep code compose_file action execute (node # nodes) trace =
     (case deploy_node rep code compose_file action execute node trace of
        (Inl e, trace) \<Rightarrow> (Inl e, trace)
      | (Inr _, trace) \<Rightarrow> deploy_nodes rep code compose_file action execute nodes trace)"

definition select_nodes :: "string list \<Rightarrow> json list \<Rightarrow> exn + json list" where
  "select_nodes wanted nodes =
     filter_res (\<lambda>node. if wanted = [] then Inr True
       else res_bind (jget node ''node_id'' JNull) (\<lambda>v. Inr (\<exists>w \<in> set wanted. v = JStr w))) nodes"

text \<open>\<open>main\<close> up to the first effect: the compose file, the image and the selected nodes.\<close>

definition deploy_plan :: "(json \<Rightarrow> string) \<Rightarrow> (string \<Rightarrow> string) \<Rightarrow> deploy_args \<Rightarrow> exn + json
    \<Rightarrow> exn + string \<times> string \<times> json list" where
  "deploy_plan rep below args content =
     res_bind (inventory content) (\<lambda>(data, nodes).
     res_bind (jitem (JObj data) ''compose_file'') (\<lambda>compose.
     res_bind (any_res node_invalid nodes) (\<lambda>invalid.
       if invalid then Inl (DeploymentError ''inventory_node_invalid'')
       else res_bind (select_nodes (da_nodes args) nodes) (\<lambda>selected.
         if selected = [] then Inl (DeploymentError ''no_nodes_selected'')
         else Inr (below (py_str rep compose),
                   case da_tag args of
                     Some t \<Rightarrow> if t \<noteq> [] then t else py_str rep (get_default data ''image'' (JStr ''ito:local''))
                   | None \<Rightarrow> py_str rep (get_default data ''image'' (JStr ''ito:local'')),
                   selected)))))"

definition build_image :: "(string \<Rightarrow> string) \<Rightarrow> string \<Rightarrow> (string list \<Rightarrow> int) \<Rightarrow> deploy_args \<Rightarrow> string
    \<Rightarrow> (effect list, unit) outcome" where
  "build_image below root_text code args image_tag =
     (if da_action args \<in> {''plan'', ''build''}
      then run_command code
        [''docker'', ''build'', ''-t'', image_tag, ''-f'', below ''infra/docker/Dockerfile'', root_text]
        (da_execute args) []
      else (Inr (), []))"

definition deploy_main :: "(json \<Rightarrow> string) \<Rightarrow> (string \<Rightarrow> string) \<Rightarrow> string \<Rightarrow> (string list \<Rightarrow> int) \<Rightarrow> deploy_args \<Rightarrow> exn + json
    \<Rightarrow> (effect list, unit) outcome" where
  "deploy_main rep below root_text code args content =
     (case deploy_plan rep below args content of
        Inl e \<Rightarrow> (Inl e, [])
      | Inr (compose_file, image_tag, selected) \<Rightarrow>
          (case build_image below root_text code args image_tag of
             (Inl e, trace) \<Rightarrow> (Inl e, trace)
           | (Inr _, trace) \<Rightarrow>
               if da_action args = ''build'' then (Inr (), trace)
               else deploy_nodes rep code compose_file (da_action args) (da_execute args) selected trace))"

subsection \<open>Portfolio snapshot script\<close>

definition limit_names :: "string list" where
  "limit_names = [''max_net_position'', ''max_gross_position'', ''max_gross_notional_ticks'', ''max_concentration_ticks'', ''max_loss_ticks'']"

definition limits_of :: "int list \<Rightarrow> portfolio_limits" where
  "limits_of ns =
     \<lparr>max_net_position = ns ! 0, max_gross_position = ns ! 1, max_gross_notional_ticks = ns ! 2,
      max_concentration_ticks = ns ! 3, max_loss_ticks = ns ! 4, allow_short = False, max_gross_notional_cash = None,
      max_net_notional_cash = None, max_concentration_cash = None, max_loss_cash = None, require_locates = False,
      max_expected_shortfall_cash = None, max_parametric_var_cash = None\<rparr>"

fun apply_fills :: "json list \<Rightarrow> portfolio \<Rightarrow> exn + portfolio" where
  "apply_fills [] s = Inr s"
| "apply_fills (f # fs) s =
     (if \<not> is_dict f then Inl (ValueError ''fill_invalid'')
      else
        res_bind (jitem_int f ''instrument_id'') (\<lambda>iid.
        res_bind (jitem_int f ''side'') (\<lambda>side.
        res_bind (jitem_int f ''quantity'') (\<lambda>quantity.
        res_bind (jitem_int f ''price_ticks'') (\<lambda>price.
          case apply_fill iid side quantity price True s of
            (Inl e, _) \<Rightarrow> Inl e
          | (Inr _, s) \<Rightarrow> apply_fills fs s)))))"

fun read_marks :: "(string, json) dict \<Rightarrow> (int, price_input) dict \<Rightarrow> exn + (int, price_input) dict" where
  "read_marks [] marks = Inr marks"
| "read_marks ((k, v) # kvs) marks =
     res_bind (py_int (JStr k)) (\<lambda>iid. res_bind (py_int v) (\<lambda>price.
       read_marks kvs (AList.update iid (PriceTicks price) marks)))"

definition build_snapshot :: "(string, json) dict \<Rightarrow> exn + snapshot" where
  "build_snapshot d =
     (case (get_default d ''limits'' JNull, get_default d ''fills'' JNull, get_default d ''marks'' (JObj [])) of
        (JObj limits, JArr fills, JObj marks) \<Rightarrow>
          res_bind (map_res (\<lambda>name. jitem_int (JObj limits) name) limit_names) (\<lambda>ns.
          res_bind (portfolio_init (limits_of ns) [] [] None) (\<lambda>s.
          res_bind (apply_fills fills s) (\<lambda>s.
          res_bind (read_marks marks []) (\<lambda>marks.
            snapshot s marks ''last'' None None))))
      | _ \<Rightarrow> Inl (ValueError ''input_invalid''))"

text \<open>
  The dict \<open>snapshot\<close> returns, which the script writes: an average price and a realized profit that are
  whole numbers are ints.
\<close>

definition whole_json :: "rat \<Rightarrow> json" where
  "whole_json x = (if is_integer x then JInt (py_round x) else JFloat (Fin x))"

definition position_json :: "position \<Rightarrow> json" where
  "position_json p = JObj
     [(''quantity'', JInt (pos_quantity p)), (''average_price_ticks'', whole_json (pos_average_price_ticks p)),
      (''realized_pnl_ticks'', whole_json (pos_realized_pnl_ticks p)), (''last_price_ticks'', JInt (pos_last_price_ticks p)),
      (''fees_paid_ticks'', JFloat (Fin (pos_fees_paid_ticks p))), (''fees_paid_cash'', JFloat (Fin (pos_fees_paid_cash p))),
      (''realized_pnl_cash'', JFloat (Fin (pos_realized_pnl_cash p))), (''borrowed_quantity'', JInt (pos_borrowed_quantity p))]"

definition breached_json :: "limits_breached \<Rightarrow> (string, json) dict" where
  "breached_json b =
     [(''net_position'', JBool (net_position_breached b)), (''gross_position'', JBool (gross_position_breached b)),
      (''gross_notional'', JBool (gross_notional_breached b)), (''concentration'', JBool (concentration_breached b)),
      (''loss'', JBool (loss_breached b))]
     @ (case expected_shortfall_breached b of None \<Rightarrow> [] | Some v \<Rightarrow> [(''expected_shortfall'', JBool v)])
     @ (case parametric_var_breached b of None \<Rightarrow> [] | Some v \<Rightarrow> [(''parametric_var'', JBool v)])"

definition snapshot_json :: "snapshot \<Rightarrow> json" where
  "snapshot_json sn = JObj
     ([(''net_position'', JInt (sn_net_position sn)), (''gross_position'', JInt (sn_gross_position sn)),
       (''gross_notional_ticks'', JInt (sn_gross_notional_ticks sn)), (''realized_pnl_ticks'', JInt (sn_realized_pnl_ticks sn)),
       (''unrealized_pnl_ticks'', JInt (sn_unrealized_pnl_ticks sn)), (''loss_ticks'', JInt (sn_loss_ticks sn)),
       (''gross_notional_cash'', JFloat (Fin (sn_gross_notional_cash sn))),
       (''net_notional_cash'', JFloat (Fin (sn_net_notional_cash sn))),
       (''realized_pnl_cash'', JFloat (Fin (sn_realized_pnl_cash sn))),
       (''unrealized_pnl_cash'', JFloat (Fin (sn_unrealized_pnl_cash sn))),
       (''total_fees_paid_cash'', JFloat (Fin (sn_total_fees_paid_cash sn))),
       (''net_pnl_cash'', JFloat (Fin (sn_net_pnl_cash sn))),
       (''stale_positions'', JArr (map JInt (sn_stale_positions sn))),
       (''limits_breached'', JObj (breached_json (sn_limits_breached sn))),
       (''positions'', JObj (map (\<lambda>(k, p). (k, position_json p)) (sn_positions sn)))]
      @ (case sn_factor_metrics sn of None \<Rightarrow> []
         | Some f \<Rightarrow> [(''factor_metrics'', JObj
              [(''portfolio_variance'', JFloat (Fin (portfolio_variance f))), (''parametric_var_cash'', JFloat (Fin (parametric_var_cash f))),
               (''expected_shortfall_cash'', JFloat (Fin (expected_shortfall_cash f)))])]))"

end
