(* ===== verification/Deploy_Props.thy ===== *)
theory Deploy_Props
  imports Deploy
begin

text \<open>
  Properties of the deployment tools: which connectivity profiles \<open>config_linter.py\<close> accepts, what
  \<open>deploy_ito.py\<close> starts and when it stops, and the snapshot that \<open>portfolio_snapshot.py\<close> computes for
  the case under \<open>tests/portfolio\<close>.
\<close>

subsection \<open>Profiles\<close>

text \<open>A profile the linter has nothing to say about, apart from the claims of the other profiles.\<close>

definition profile_ok :: "(string, json) dict \<Rightarrow> bool" where
  "profile_ok d \<longleftrightarrow>
     (\<exists>n. int_value (get_default d ''venue_id'' (get_default d ''broker_id'' JNull)) = Some n \<and> 0 < n)
     \<and> (\<forall>field \<in> {''name'', ''protocol'', ''endpoint''}. \<exists>t. map_of d field = Some (JStr t) \<and> t \<noteq> [])
     \<and> map_of d ''live_enabled'' = Some (JBool False) \<and> map_of d ''tls_required'' = Some (JBool True)"

definition claims :: "('a \<Rightarrow> int option) \<Rightarrow> 'a list \<Rightarrow> int list" where
  "claims f ds = concat (map (\<lambda>d. case f d of Some n \<Rightarrow> [n] | None \<Rightarrow> []) ds)"

lemma lint_field_Nil: "lint_field path d field = [] \<longleftrightarrow> (\<exists>t. map_of d field = Some (JStr t) \<and> t \<noteq> [])"
  by (auto simp: lint_field_def get_default_def split: option.splits json.splits)

lemma lint_identifier_Nil:
  "lint_identifier path d = [] \<longleftrightarrow>
     (\<exists>n. int_value (get_default d ''venue_id'' (get_default d ''broker_id'' JNull)) = Some n \<and> 0 < n)"
  by (auto simp: lint_identifier_def split: option.splits)

lemma lint_claim_Nil: "lint_claim m c seen = [] \<longleftrightarrow> (\<forall>n. c = Some n \<longrightarrow> n \<notin> set seen)"
  by (auto simp: lint_claim_def split: option.split)

lemma flag_default: "w \<noteq> JNull \<Longrightarrow> get_default d k JNull = w \<longleftrightarrow> map_of d k = Some w"
  by (auto simp: get_default_def split: option.splits)

lemma lint_profile_errors:
  "li_errors (lint_profile path d s) = [] \<longleftrightarrow> li_errors s = [] \<and> profile_ok d
     \<and> (\<forall>n. venue_claim d = Some n \<longrightarrow> n \<notin> set (li_venue_ids s)) \<and> (\<forall>n. broker_claim d = Some n \<longrightarrow> n \<notin> set (li_broker_ids s))"
  by (auto simp: lint_profile_def lint_identifier_Nil lint_claim_Nil lint_field_Nil flag_default profile_ok_def)

lemma lint_loop_monotone:
  "lint_loop ps s = Inr s' \<Longrightarrow> li_errors s' = [] \<Longrightarrow> li_errors s = []"
proof (induction ps s rule: lint_loop.induct)
  case (2 path content ps s)
  show ?case
  proof (cases "load_profile path content")
    case (Inl e)
    then show ?thesis using 2 by (cases "lint_error_name e") auto
  next
    case (Inr d)
    then show ?thesis using 2 by (auto simp: lint_profile_errors)
  qed
qed simp

lemma load_profile_Inr: "load_profile path content = Inr d \<longleftrightarrow> content = Inr (JObj d)"
proof (cases content)
  case (Inr v)
  then show ?thesis by (cases v) (auto simp: load_profile_def)
qed (simp add: load_profile_def)

lemma distinct_claims_Cons:
  "distinct (claims f (d # ds)) \<and> set (claims f (d # ds)) \<inter> S = {} \<longleftrightarrow>
     (\<forall>n. f d = Some n \<longrightarrow> n \<notin> S) \<and> distinct (claims f ds) \<and> set (claims f ds) \<inter> (S \<union> set_option (f d)) = {}"
  by (cases "f d") (auto simp: claims_def)

lemma add_claim_set: "set (add_claim c seen) = set seen \<union> set_option c"
  by (auto simp: add_claim_def split: option.split)

definition clean_profiles :: "int set \<Rightarrow> int set \<Rightarrow> (string, json) dict list \<Rightarrow> bool" where
  "clean_profiles V B ds \<longleftrightarrow> (\<forall>d \<in> set ds. profile_ok d)
     \<and> (distinct (claims venue_claim ds) \<and> set (claims venue_claim ds) \<inter> V = {})
     \<and> (distinct (claims broker_claim ds) \<and> set (claims broker_claim ds) \<inter> B = {})"

lemma clean_profiles_Cons:
  "clean_profiles V B (d # ds) \<longleftrightarrow> profile_ok d \<and> (\<forall>n. venue_claim d = Some n \<longrightarrow> n \<notin> V) \<and> (\<forall>n. broker_claim d = Some n \<longrightarrow> n \<notin> B)
     \<and> clean_profiles (V \<union> set_option (venue_claim d)) (B \<union> set_option (broker_claim d)) ds"
  unfolding clean_profiles_def distinct_claims_Cons by auto

lemma lint_loop_clean:
  "(\<exists>s'. lint_loop ps s = Inr s' \<and> li_errors s' = []) \<longleftrightarrow>
     li_errors s = [] \<and> (\<exists>ds. map snd ps = map (\<lambda>d. Inr (JObj d)) ds
        \<and> clean_profiles (set (li_venue_ids s)) (set (li_broker_ids s)) ds)"
proof (induction ps arbitrary: s)
  case Nil
  then show ?case by (simp add: claims_def clean_profiles_def)
next
  case (Cons p ps)
  obtain path content where p: "p = (path, content)" by fastforce
  show ?case
  proof (cases "load_profile path content")
    case (Inl e)
    have "\<not> (\<exists>s'. lint_loop (p # ps) s = Inr s' \<and> li_errors s' = [])"
      using lint_loop_monotone [of ps] Inl by (cases "lint_error_name e") (fastforce simp: p)+
    moreover have "\<forall>d. content \<noteq> Inr (JObj d)" using Inl load_profile_Inr [of path content] by auto
    ultimately show ?thesis by (auto simp: p Cons_eq_map_conv)
  next
    case (Inr d)
    then have c: "content = Inr (JObj d)" by (simp add: load_profile_Inr)
    have "(\<exists>ds. map snd (p # ps) = map (\<lambda>d. Inr (JObj d)) ds \<and> clean_profiles V B ds) \<longleftrightarrow>
        (\<exists>ds. map snd ps = map (\<lambda>d. Inr (JObj d)) ds \<and> clean_profiles V B (d # ds))" for V B
      unfolding p c by (auto simp: Cons_eq_map_conv)
    moreover have "li_venue_ids (lint_profile path d s) = add_claim (venue_claim d) (li_venue_ids s)"
      "li_broker_ids (lint_profile path d s) = add_claim (broker_claim d) (li_broker_ids s)"
      by (simp_all add: lint_profile_def)
    ultimately show ?thesis
      using Cons.IH [of "lint_profile path d s"]
      by (simp add: p Inr add_claim_set lint_profile_errors clean_profiles_Cons) blast
  qed
qed

text \<open>
  C30. The connectivity profiles are accepted exactly when they are safe: the linter reports nothing
  if and only if every file holds an object with a positive id, non-empty name, protocol and
  endpoint, live trading switched off and TLS required, and no venue id and no broker id is claimed
  twice.
\<close>

theorem profiles_accepted_iff_safe:
  "validate_profiles ps = Inr [] \<longleftrightarrow>
     (\<exists>ds. map snd ps = map (\<lambda>d. Inr (JObj d)) ds \<and> (\<forall>d \<in> set ds. profile_ok d)
        \<and> distinct (claims venue_claim ds) \<and> distinct (claims broker_claim ds))"
proof -
  have "validate_profiles ps = Inr [] \<longleftrightarrow>
      (\<exists>s'. lint_loop ps \<lparr>li_errors = [], li_venue_ids = [], li_broker_ids = []\<rparr> = Inr s' \<and> li_errors s' = [])"
    by (auto simp: validate_profiles_def res_bind_eq_Inr)
  then show ?thesis by (simp add: lint_loop_clean clean_profiles_def)
qed

subsection \<open>Deployment\<close>

definition started :: "effect list \<Rightarrow> string list list" where
  "started tr = concat (map (\<lambda>e. case e of Started c _ \<Rightarrow> [c] | Printed _ \<Rightarrow> []) tr)"

text \<open>A deployment stops at the first command that fails: all commands before the last succeeded.\<close>

definition stops_at_failure :: "(string list \<Rightarrow> int) \<Rightarrow> exn + unit \<Rightarrow> effect list \<Rightarrow> bool" where
  "stops_at_failure code r tr \<longleftrightarrow> (\<forall>c \<in> set (butlast (started tr)). code c = 0)
     \<and> (r = Inr () \<longrightarrow> (\<forall>c \<in> set (started tr). code c = 0))"

lemma started_simps [simp]:
  "started [] = []" "started (tr @ [Printed p]) = started tr" "started (tr @ [Started c env]) = started tr @ [c]"
  by (simp_all add: started_def)

lemma start_node_effects:
  assumes "start_node code n command env execute tr = (r, tr')" and "\<forall>c \<in> set (started tr). code c = 0"
  shows "stops_at_failure code r tr' \<and> (\<not> execute \<longrightarrow> started tr' = started tr)"
  using assms by (auto simp: start_node_def stops_at_failure_def dest: in_set_butlastD split: if_splits)

lemma no_command_effects:
  "\<forall>c \<in> set (started tr). code c = 0 \<Longrightarrow> stops_at_failure code r tr"
  by (auto simp: stops_at_failure_def dest: in_set_butlastD)

lemma deploy_node_effects:
  assumes "deploy_node rep code cf action execute node tr = (r, tr')" and "\<forall>c \<in> set (started tr). code c = 0"
  shows "stops_at_failure code r tr' \<and> (\<not> execute \<longrightarrow> started tr' = started tr)"
proof (cases "node_settings rep node")
  case (Inl e)
  then show ?thesis using assms no_command_effects by (auto simp: deploy_node_def)
next
  case (Inr v)
  obtain node_id ctx branch entity mode where v: "v = (node_id, ctx, branch, entity, mode)" by (cases v) auto
  let ?tr = "tr @ [Printed (''node='' @ node_id @ '' branch='' @ branch @ '' mode='' @ mode)]"
  have ok: "\<forall>c \<in> set (started ?tr). code c = 0" using assms(2) by simp
  show ?thesis
  proof (cases "compose_command ctx cf (''ito-'' @ node_id) (node_action action)")
    case (Inl e)
    then have "r = Inl e" "tr' = ?tr" using assms(1) Inr by (simp_all add: v deploy_node_def)
    then show ?thesis using no_command_effects [OF ok] by simp
  next
    case c: (Inr command)
    have "start_node code node_id command [(''ITO_BRANCH_ID'', branch), (''ITO_ENTITY_ID'', entity), (''ITO_MODE'', mode)]
        execute ?tr = (r, tr')"
      using assms(1) Inr c by (simp add: v deploy_node_def)
    from start_node_effects [OF this ok] show ?thesis by simp
  qed
qed

lemma deploy_nodes_effects:
  assumes "deploy_nodes rep code cf action execute nodes tr = (r, tr')" and "\<forall>c \<in> set (started tr). code c = 0"
  shows "stops_at_failure code r tr' \<and> (\<not> execute \<longrightarrow> started tr' = started tr)"
  using assms
proof (induction nodes arbitrary: tr)
  case Nil
  then show ?case using no_command_effects by auto
next
  case (Cons node nodes)
  obtain x tr1 where n: "deploy_node rep code cf action execute node tr = (x, tr1)" by fastforce
  note e = deploy_node_effects [OF n Cons.prems(2)]
  show ?case
  proof (cases x)
    case (Inl err)
    then show ?thesis using Cons.prems(1) e n by auto
  next
    case (Inr u)
    then have "deploy_nodes rep code cf action execute nodes tr1 = (r, tr')" "\<forall>c \<in> set (started tr1). code c = 0"
      using Cons.prems(1) n e by (auto simp: stops_at_failure_def)
    from Cons.IH [OF this] e show ?thesis by auto
  qed
qed

text \<open>
  C31. A deployment without \<open>--execute\<close> starts no command whatever the inventory and the action; with
  it, commands are started one after the other, every command before the last one succeeded, and
  when the deployment ends without an error all of them did. A node that is not valid stops it
  before anything is started.
\<close>

theorem deployment_starts_only_when_asked:
  assumes "deploy_main rep below root_text code args content = (r, tr)"
  shows "(\<not> da_execute args \<longrightarrow> started tr = []) \<and> stops_at_failure code r tr
     \<and> (\<forall>data nodes. inventory content = Inr (data, nodes) \<and> any_res node_invalid nodes \<noteq> Inr False \<longrightarrow> raised r \<and> tr = [])"
proof (cases "deploy_plan rep below args content")
  case (Inl e)
  then show ?thesis using assms by (auto simp: deploy_main_def stops_at_failure_def)
next
  case (Inr v)
  then obtain cf img sel where v: "deploy_plan rep below args content = Inr (cf, img, sel)" by (cases v) auto
  have valid: "\<not> (inventory content = Inr (data, nodes) \<and> any_res node_invalid nodes \<noteq> Inr False)" for data nodes
    using v by (cases "any_res node_invalid nodes") (auto simp: deploy_plan_def res_bind_eq_Inr)
  obtain x tr1 where b1: "build_image below root_text code args img = (x, tr1)" by fastforce
  have built: "stops_at_failure code x tr1" "\<not> da_execute args \<longrightarrow> started tr1 = []"
    using b1 by (auto simp: build_image_def run_command_def Let_def stops_at_failure_def started_def split: if_splits)
  show ?thesis
  proof (cases "raised x \<or> da_action args = ''build''")
    case True
    then have "r = x \<and> tr = tr1"
      using assms v b1 by (cases x) (auto simp: deploy_main_def)
    with built valid show ?thesis by auto
  next
    case False
    then have n: "deploy_nodes rep code cf (da_action args) (da_execute args) sel tr1 = (r, tr)" and "x = Inr ()"
      using assms v b1 by (auto simp: deploy_main_def raised_def split: sum.splits)
    then have "\<forall>c \<in> set (started tr1). code c = 0" using built(1) by (simp add: stops_at_failure_def)
    from deploy_nodes_effects [OF n this] built(2) valid show ?thesis by auto
  qed
qed

end
