(* ===== verification/Ops_Witnesses.thy ===== *)
theory Ops_Witnesses
  imports Journal_Props Routing_Props Monitoring_Props Backup_Props Config_Props Deploy_Props
begin

section \<open>Concrete runs of the operational theorems\<close>

text \<open>
  Each theorem with a hypothesis, applied to a concrete input. A constant or the identity stands in
  for the code outside the repository (digests, serialization, the text of floats and containers).
\<close>

subsection \<open>Reconciliation and replay\<close>

definition w_side :: "int \<Rightarrow> json" where
  "w_side n = JObj [(''client_order_id'', JInt 4), (''executed_quantity'', JInt n), (''average_price_ticks'', JInt 100)]"

lemma w_compare: "compare [w_side 5] [w_side 5] = Inr [finding (JInt 4) ''matched'' ''matched'']"
  by code_simp

lemma w_compare_short: "compare [w_side 5] [w_side 3] = Inr [finding (JInt 4) ''quantity_mismatch'' ''venue_quantity_below_local'']"
  by code_simp

lemma w_reconciled: "reconciled [w_side 5] [w_side 5]"
  by (simp add: reconciled_def order_id_def agrees_def w_side_def jitem_int_def jitem_def jget_int_def get_default_def)

theorem reconciliation_verdict_witness:
  "reconcile_result [w_side 5] [w_side 5] =
     Inr (JObj [(''findings'', JArr [finding (JInt 4) ''matched'' ''matched'']), (''ambiguous'', JBool False)])"
  using reconciliation_verdict [OF w_compare] w_reconciled by simp

definition w_drill_lease :: json where
  "w_drill_lease = JObj [(''owner_id'', JStr ''a''), (''epoch'', JInt 3), (''expires_at_ns'', JInt 20), (''now_ns'', JInt 10)]"

theorem failover_promotes_only_reconciled_witness:
  "\<exists>result. drill (\<lambda>_. []) w_drill_lease [finding (JInt 4) ''matched'' ''matched''] = Inr result
     \<and> jitem result ''action'' = Inr (JStr ''promote_standby'')"
proof -
  obtain result where d: "drill (\<lambda>_. []) w_drill_lease [finding (JInt 4) ''matched'' ''matched''] = Inr result"
    by (simp add: drill_def w_drill_lease_def finding_def jget_int_def get_default_def Let_def)
  have "jget w_drill_lease ''owner_id'' (JStr []) = Inr (JStr ''a'')" "jget_int w_drill_lease ''epoch'' 0 = Inr 3"
    "jget_int w_drill_lease ''expires_at_ns'' 0 = Inr 20" "jget_int w_drill_lease ''now_ns'' 0 = Inr 10"
    by (simp_all add: w_drill_lease_def jget_int_def get_default_def)
  with failover_promotes_only_reconciled [OF w_compare d] w_reconciled d show ?thesis by auto
qed

definition w_event :: "int \<Rightarrow> int \<Rightarrow> replay_event" where
  "w_event i n = \<lparr>event_id = i, event_sequence = n, event_type = ''fill'', correlation_id = 0, event_payload = []\<rparr>"

theorem replay_accepts_wellformed_journals_witness:
  "validate [w_event 9 1, w_event 7 2] = [] \<and> validate [w_event 9 1, w_event 9 2] \<noteq> []"
  using replay_accepts_wellformed_journals [of "[w_event 9 1, w_event 7 2]"]
    replay_accepts_wellformed_journals [of "[w_event 9 1, w_event 9 2]"]
  by (auto simp: w_event_def upto.simps)

definition w_journal :: "json store_op list" where
  "w_journal = [Append 5 1 ''fill'' 10 JNull, Append 5 1 ''fill'' 11 JNull, Append 6 2 ''ack'' 12 JNull]"


subsection \<open>Routing\<close>

definition w_route :: "int \<Rightarrow> int \<Rightarrow> json" where
  "w_route v rank = JObj [(''venue_id'', JInt v), (''live_enabled'', JBool False), (''enabled'', JBool True),
     (''max_order_quantity'', JInt 50), (''rank'', JInt rank)]"

definition w_status :: "int \<Rightarrow> string \<Rightarrow> json" where
  "w_status v s = JObj [(''venue_id'', JInt v), (''status'', JStr s)]"


subsection \<open>Monitoring\<close>


theorem health_report_same_from_matrix_or_evaluation_witness:
  "\<exists>e r1 r2. evaluate (JObj [(''gates'', JArr [])]) = Inr e
     \<and> build_report (\<lambda>_. []) (JObj [(''gates'', JArr [])]) True = Inr r1 \<and> build_report (\<lambda>_. []) e True = Inr r2
     \<and> jitem r1 ''local_status'' = jitem r2 ''local_status''"
  using health_report_same_from_matrix_or_evaluation [where m = "[(''gates'', JArr [])]" and gs = "[]"] by fastforce

subsection \<open>Backup and restore\<close>

definition w_sha :: "bytes \<Rightarrow> string" where
  "w_sha d = str_of_int (int (length d))"

definition w_archive :: "member list" where
  "w_archive = [\<lparr>mb_name = ''../escape'', mb_kind = Regular, mb_data = [1]\<rparr>]"


subsection \<open>Configuration and deployment\<close>

definition w_register_map :: json where
  "w_register_map = JObj [(''frame_bytes'', JInt 4), (''frame_bits'', JInt 32), (''registers'', JArr
     [JObj [(''name'', JStr ''limit''), (''offset'', JInt 0), (''bytes'', JInt 2)],
      JObj [(''name'', JStr ''mask''), (''offset'', JInt 2), (''bytes'', JInt 2)]])]"

theorem registers_never_overlap_witness:
  "\<exists>rs. validate_registers (\<lambda>_. []) w_register_map = Inr (4, rs) \<and> length rs = 2 \<and> sum_list (map rg_bytes rs) \<le> 4"
proof -
  obtain rs where r: "validate_registers (\<lambda>_. []) w_register_map = Inr (4, rs)" "length rs = 2"
    by (simp add: validate_registers_def w_register_map_def jget_int_def get_default_def register_items_def Let_def upto.simps)
  with registers_never_overlap [OF r(1)] show ?thesis by blast
qed

definition w_profile :: "string \<Rightarrow> int \<Rightarrow> (string, json) dict" where
  "w_profile key n = [(key, JInt n), (''name'', JStr ''lab''), (''protocol'', JStr ''fix''), (''endpoint'', JStr ''localhost''),
     (''live_enabled'', JBool False), (''tls_required'', JBool True)]"

theorem profiles_accepted_iff_safe_witness:
  "validate_profiles [(''a.json'', Inr (JObj (w_profile ''venue_id'' 1))), (''b.json'', Inr (JObj (w_profile ''venue_id'' 2)))] = Inr []
   \<and> validate_profiles [(''a.json'', Inr (JArr []))] \<noteq> Inr []"
proof -
  have ok: "profile_ok (w_profile ''venue_id'' n)" if "0 < n" for n
    using that by (simp add: profile_ok_def w_profile_def get_default_def)
  have "claims venue_claim [w_profile ''venue_id'' 1, w_profile ''venue_id'' 2] = [1, 2]"
    "claims broker_claim [w_profile ''venue_id'' 1, w_profile ''venue_id'' 2] = []"
    by (simp_all add: claims_def venue_claim_def broker_claim_def w_profile_def get_default_def)
  then have "\<exists>ds. map snd [(''a.json'', Inr (JObj (w_profile ''venue_id'' 1)) :: exn + json), (''b.json'', Inr (JObj (w_profile ''venue_id'' 2)))]
      = map (\<lambda>d. Inr (JObj d)) ds \<and> (\<forall>d \<in> set ds. profile_ok d)
        \<and> distinct (claims venue_claim ds) \<and> distinct (claims broker_claim ds)"
    using ok by (intro exI [of _ "[w_profile ''venue_id'' 1, w_profile ''venue_id'' 2]"]) simp
  then show ?thesis
    using profiles_accepted_iff_safe [of "[(''a.json'', Inr (JObj (w_profile ''venue_id'' 1))), (''b.json'', Inr (JObj (w_profile ''venue_id'' 2)))]"]
      profiles_accepted_iff_safe [of "[(''a.json'', Inr (JArr []))]"] by auto
qed

definition w_inventory :: json where
  "w_inventory = JObj [(''compose_file'', JStr ''compose.yml''), (''nodes'', JArr [JObj [(''node_id'', JStr ''n1''),
     (''branch_id'', JInt 1), (''entity_id'', JInt 2), (''docker_context'', JStr ''lab'')]])]"

theorem deployment_starts_only_when_asked_witness:
  "\<exists>r tr. deploy_main (\<lambda>_. []) id ''/ito'' (\<lambda>_. 1) \<lparr>da_action = ''deploy'', da_nodes = [], da_execute = False, da_tag = None\<rparr>
       (Inr w_inventory) = (r, tr) \<and> r = Inr () \<and> length tr = 2 \<and> started tr = []"
proof -
  obtain tr where d: "deploy_main (\<lambda>_. []) id ''/ito'' (\<lambda>_. 1)
       \<lparr>da_action = ''deploy'', da_nodes = [], da_execute = False, da_tag = None\<rparr> (Inr w_inventory) = (Inr (), tr)" "length tr = 2"
    by (simp add: deploy_main_def deploy_plan_def w_inventory_def inventory_def get_default_def jitem_def node_invalid_def
        in_names_def select_nodes_def build_image_def deploy_node_def node_settings_def compose_command_def node_action_def
        start_node_def Let_def)
  with deployment_starts_only_when_asked [OF d(1)] show ?thesis by auto
qed

end
