(* ===== verification/Benchmark.thy ===== *)
theory Benchmark
  imports Py_Json "HOL-Library.List_Lexorder" "HOL-Library.Char_ord"
begin

section \<open>Benchmarks: samples, statistics, suite and reports\<close>

text \<open>
  \<open>scripts/benchmark_multibranch.py\<close>, \<open>scripts/run_benchmark_suite.py\<close>,
  \<open>scripts/render_benchmark_report.py\<close> and \<open>scripts/render_benchmark_suite.py\<close>. The random generator
  is a state of any type with the three operations the sampling calls, passed from draw to draw.
  Running the exchange simulator gives its return code and output, or \<open>None\<close> when there is no binary;
  the suite runs it once per scenario.
  The two renderers return what they hand to the plotting library, which is not modelled, and the
  lines of the report. Parameters: \<open>rep\<close> for the text of floats and containers; the wall time and
  the clock are arguments.
\<close>

subsection \<open>Sampling\<close>

record 'r rng =
  rng_gauss :: "int \<Rightarrow> int \<Rightarrow> 'r \<Rightarrow> rat \<times> 'r"
  rng_random :: "'r \<Rightarrow> rat \<times> 'r"
  rng_uniform :: "int \<Rightarrow> int \<Rightarrow> 'r \<Rightarrow> rat \<times> 'r"

record sample =
  sm_branch_id :: string
  sm_message_id :: int
  sm_send_ns :: int
  sm_receive_ns :: int
  sm_acknowledge_ns :: int
  sm_latency_ns :: int
  sm_jitter_ns :: int
  sm_venue_id :: string

text \<open>The tail: the generator is asked only when there is jitter.\<close>

definition draw_tail :: "'r rng \<Rightarrow> int \<Rightarrow> 'r \<Rightarrow> int \<times> 'r" where
  "draw_tail ops jitter_ns g =
     (if jitter_ns = 0 then (0, g)
      else let (x, g) = rng_random ops g in (if x < fl (1 / 1000) then jitter_ns * 5 else 0, g))"

definition draw_sample :: "'r rng \<Rightarrow> string \<Rightarrow> int \<Rightarrow> int \<Rightarrow> int \<Rightarrow> string \<Rightarrow> int \<Rightarrow> int \<Rightarrow> 'r \<Rightarrow> sample \<times> 'r" where
  "draw_sample ops branch_id interval_ns base_latency_ns jitter_ns venue_id start_offset_ns message_id g =
     (let send_ns = start_offset_ns + message_id * interval_ns;
          (x, g) = rng_gauss ops 0 jitter_ns g;
          signed_jitter = py_trunc x;
          (tail, g) = draw_tail ops jitter_ns g;
          network = max 100 (base_latency_ns + signed_jitter + tail);
          receive_ns = send_ns + network;
          (u, g) = rng_uniform ops 0 500 g;
          processing = 1200 + py_trunc u;
          acknowledge_ns = receive_ns + processing + network
      in (\<lparr>sm_branch_id = branch_id, sm_message_id = message_id, sm_send_ns = send_ns, sm_receive_ns = receive_ns,
           sm_acknowledge_ns = acknowledge_ns, sm_latency_ns = acknowledge_ns - send_ns,
           sm_jitter_ns = network - base_latency_ns, sm_venue_id = venue_id\<rparr>, g))"

fun sample_loop :: "'r rng \<Rightarrow> string \<Rightarrow> int \<Rightarrow> int \<Rightarrow> int \<Rightarrow> string \<Rightarrow> int \<Rightarrow> int list \<Rightarrow> 'r \<Rightarrow> sample list \<times> 'r" where
  "sample_loop ops branch_id interval_ns base_latency_ns jitter_ns venue_id start_offset_ns [] g = ([], g)"
| "sample_loop ops branch_id interval_ns base_latency_ns jitter_ns venue_id start_offset_ns (i # ids) g =
     (let (s, g) = draw_sample ops branch_id interval_ns base_latency_ns jitter_ns venue_id start_offset_ns i g;
          (ss, g) = sample_loop ops branch_id interval_ns base_latency_ns jitter_ns venue_id start_offset_ns ids g
      in (s # ss, g))"

definition branch_samples :: "'r rng \<Rightarrow> string \<Rightarrow> int \<Rightarrow> int \<Rightarrow> int \<Rightarrow> int \<Rightarrow> string \<Rightarrow> int \<Rightarrow> 'r \<Rightarrow> sample list \<times> 'r" where
  "branch_samples ops branch_id messages interval_ns base_latency_ns jitter_ns venue_id start_offset_ns g =
     sample_loop ops branch_id interval_ns base_latency_ns jitter_ns venue_id start_offset_ns [0..messages - 1] g"

text \<open>\<open>{n:02d}\<close> for a positive number.\<close>

definition two_digits :: "int \<Rightarrow> string" where
  "two_digits n = (if n < 10 then ''0'' else []) @ str_of_int n"

text \<open>The two nested loops over branches and venues, in the order of the source.\<close>

fun cell_loop :: "'r rng \<Rightarrow> int \<Rightarrow> int \<Rightarrow> int \<Rightarrow> int \<Rightarrow> int \<Rightarrow> (int \<times> int \<times> string) list \<Rightarrow> 'r \<Rightarrow> sample list \<times> 'r" where
  "cell_loop ops messages interval_ns base_latency_ns jitter_ns venue_count [] g = ([], g)"
| "cell_loop ops messages interval_ns base_latency_ns jitter_ns venue_count ((b, v, venue_id) # cells) g =
     (let (ss, g) = branch_samples ops (''branch-'' @ two_digits (b + 1)) messages interval_ns
            (base_latency_ns + b * 250 + v * 1000) (jitter_ns + v * 200) venue_id
            ((b * venue_count + v) * (messages * interval_ns)) g;
          (rest, g) = cell_loop ops messages interval_ns base_latency_ns jitter_ns venue_count cells g
      in (ss @ rest, g))"

definition cells :: "int \<Rightarrow> string list \<Rightarrow> (int \<times> int \<times> string) list" where
  "cells branches venues =
     concat (map (\<lambda>b. map (\<lambda>(v, venue). (b, int v, venue)) (enumerate 0 venues)) [0..branches - 1])"

definition all_samples :: "'r rng \<Rightarrow> int \<Rightarrow> int \<Rightarrow> int \<Rightarrow> int \<Rightarrow> int \<Rightarrow> string list \<Rightarrow> 'r \<Rightarrow> sample list" where
  "all_samples ops branches messages interval_ns base_latency_ns jitter_ns venues g =
     fst (cell_loop ops messages interval_ns base_latency_ns jitter_ns (int (length venues)) (cells branches venues) g)"

definition run_exchange :: "(int \<times> string) option \<Rightarrow> exn + string" where
  "run_exchange outcome =
     (case outcome of
        None \<Rightarrow> Inr ''not_run''
      | Some (returncode, out) \<Rightarrow>
          if returncode \<noteq> 0 then Inl (RuntimeError (''exchange_simulator_failed:'' @ str_of_int returncode))
          else Inr (py_strip out))"

subsection \<open>Statistics\<close>

definition percentile_index :: "int \<Rightarrow> rat \<Rightarrow> int" where
  "percentile_index n fraction = min (n - 1) (max 0 (py_round (fmul (fint (n - 1)) fraction)))"

definition percentile :: "int list \<Rightarrow> rat \<Rightarrow> int" where
  "percentile values fraction =
     (if values = [] then 0 else sort values ! nat (percentile_index (int (length values)) fraction))"

text \<open>\<open>statistics.fmean\<close>: the correctly rounded sum of the values as floats, divided by their number.\<close>

definition fmean :: "int list \<Rightarrow> rat" where
  "fmean values = fdiv (fl (sum_list (map fint values))) (fint (int (length values)))"

definition max_or_zero :: "int list \<Rightarrow> int" where
  "max_or_zero values = (if values = [] then 0 else Max (set values))"

definition min_or_zero :: "int list \<Rightarrow> int" where
  "min_or_zero values = (if values = [] then 0 else Min (set values))"

definition stats :: "int list \<Rightarrow> json" where
  "stats values = JObj
     [(''messages'', JInt (int (length values))),
      (''p50_ns'', JInt (percentile values (fl (1 / 2)))),
      (''p95_ns'', JInt (percentile values (fl (95 / 100)))),
      (''p99_ns'', JInt (percentile values (fl (99 / 100)))),
      (''max_ns'', JInt (max_or_zero values)),
      (''mean_ns'', JFloat (Fin (if values \<noteq> [] then round_digits (fmean values) 2 else 0)))]"

text \<open>The dict comprehensions over the sorted set of ids.\<close>

definition grouped_stats :: "(sample \<Rightarrow> string) \<Rightarrow> sample list \<Rightarrow> (string, json) dict" where
  "grouped_stats key samples =
     map (\<lambda>k. (k, stats (map sm_latency_ns (filter (\<lambda>s. key s = k) samples)))) (sort (remdups (map key samples)))"

definition throughput :: "int \<Rightarrow> int \<Rightarrow> rat" where
  "throughput messages duration_ns =
     (if duration_ns \<noteq> 0 then round_digits (fl (of_int (messages * 1000000000) / of_int duration_ns)) 2 else 0)"

definition summarize :: "sample list \<Rightarrow> rat \<Rightarrow> string \<Rightarrow> (string, json) dict" where
  "summarize samples wall_seconds exchange_status =
     (let duration_ns = max_or_zero (map sm_acknowledge_ns samples) - min_or_zero (map sm_send_ns samples);
          branch_stats = grouped_stats sm_branch_id samples;
          venue_stats = grouped_stats sm_venue_id samples
      in [(''messages'', JInt (int (length samples))),
          (''branches'', JInt (int (length branch_stats))),
          (''venues'', JInt (int (length venue_stats))),
          (''virtual_duration_ns'', JInt duration_ns),
          (''throughput_messages_per_second'', JFloat (Fin (throughput (int (length samples)) duration_ns))),
          (''wall_seconds'', JFloat (Fin (round_digits wall_seconds 6))),
          (''aggregate'', stats (map sm_latency_ns samples)),
          (''branches_detail'', JObj branch_stats),
          (''venues_detail'', JObj venue_stats),
          (''exchange_simulator'', JStr exchange_status)])"

subsection \<open>The two benchmark scripts\<close>

definition comma_list :: "string \<Rightarrow> string list" where
  "comma_list s = filter (\<lambda>v. v \<noteq> []) (map py_strip (split_on (CHR '','') s))"

record bench_args =
  ba_branches :: int
  ba_messages_per_branch :: int
  ba_interval_ns :: int
  ba_base_latency_ns :: int
  ba_jitter_ns :: int
  ba_venue_adapters :: string
  ba_seed :: int

text \<open>\<open>result["parameters"] = ...\<close> appends a key the summary does not have.\<close>

definition benchmark_main :: "'r rng \<Rightarrow> (int \<Rightarrow> 'r) \<Rightarrow> bench_args \<Rightarrow> rat \<Rightarrow> (int \<times> string) option \<Rightarrow> exn + json" where
  "benchmark_main ops seeded args wall_seconds exchange =
     (let venues = comma_list (ba_venue_adapters args)
      in if ba_branches args \<le> 0 \<or> ba_messages_per_branch args \<le> 0 \<or> ba_interval_ns args \<le> 0
            \<or> ba_base_latency_ns args \<le> 0 \<or> ba_jitter_ns args < 0 \<or> venues = []
         then Inl (SystemExit ''benchmark_parameters_invalid'')
         else
           let samples = all_samples ops (ba_branches args) (ba_messages_per_branch args) (ba_interval_ns args)
                 (ba_base_latency_ns args) (ba_jitter_ns args) venues (seeded (ba_seed args))
           in res_bind (run_exchange exchange) (\<lambda>status.
                Inr (JObj (AList.update ''parameters'' (JObj
                  [(''branches'', JInt (ba_branches args)),
                   (''messages_per_branch'', JInt (ba_messages_per_branch args)),
                   (''interval_ns'', JInt (ba_interval_ns args)),
                   (''base_latency_ns'', JInt (ba_base_latency_ns args)),
                   (''jitter_ns'', JInt (ba_jitter_ns args)),
                   (''venue_adapters'', JArr (map JStr venues)),
                   (''seed'', JInt (ba_seed args))])
                  (summarize samples wall_seconds status)))))"

text \<open>One scenario of the suite: a generator of its own, no wall time, the jitter level added.\<close>

definition run_scenario :: "'r rng \<Rightarrow> (int \<Rightarrow> 'r) \<Rightarrow> int \<Rightarrow> int \<Rightarrow> int \<Rightarrow> int \<Rightarrow> string list \<Rightarrow> int
    \<Rightarrow> (nat \<Rightarrow> (int \<times> string) option) \<Rightarrow> nat \<times> int \<Rightarrow> exn + json" where
  "run_scenario ops seeded branches messages interval_ns base_latency_ns venues seed exchange = (\<lambda>(level, jitter_ns).
     let samples = all_samples ops branches messages interval_ns base_latency_ns jitter_ns venues (seeded (seed + int level))
     in res_bind (run_exchange (exchange level)) (\<lambda>status.
          Inr (JObj (AList.update ''jitter_ns'' (JInt jitter_ns) (summarize samples 0 status)))))"

definition run_suite :: "'r rng \<Rightarrow> (int \<Rightarrow> 'r) \<Rightarrow> int \<Rightarrow> int \<Rightarrow> int \<Rightarrow> int \<Rightarrow> int list \<Rightarrow> string list \<Rightarrow> int
    \<Rightarrow> (nat \<Rightarrow> (int \<times> string) option) \<Rightarrow> int \<Rightarrow> exn + json" where
  "run_suite ops seeded branches messages interval_ns base_latency_ns jitter_levels venues seed exchange now =
     res_bind (map_res (run_scenario ops seeded branches messages interval_ns base_latency_ns venues seed exchange)
                 (enumerate 0 jitter_levels)) (\<lambda>scenarios.
       Inr (JObj
         [(''parameters'', JObj
            [(''branches'', JInt branches), (''messages_per_branch'', JInt messages), (''interval_ns'', JInt interval_ns),
             (''base_latency_ns'', JInt base_latency_ns), (''jitter_levels_ns'', JArr (map JInt jitter_levels)),
             (''venue_adapters'', JArr (map JStr venues)), (''seed'', JInt seed)]),
          (''scenarios'', JArr scenarios), (''generated_at_ns'', JInt now)]))"

record suite_args =
  su_branches :: int
  su_messages_per_branch :: int
  su_interval_ns :: int
  su_base_latency_ns :: int
  su_jitter_levels_ns :: string
  su_venue_adapters :: string
  su_seed :: int

definition jitter_levels_of :: "string \<Rightarrow> exn + int list" where
  "jitter_levels_of s = map_res (\<lambda>v. py_int (JStr v)) (filter (\<lambda>v. py_strip v \<noteq> []) (split_on (CHR '','') s))"

definition suite_main :: "'r rng \<Rightarrow> (int \<Rightarrow> 'r) \<Rightarrow> suite_args \<Rightarrow> (nat \<Rightarrow> (int \<times> string) option) \<Rightarrow> int \<Rightarrow> exn + json" where
  "suite_main ops seeded args exchange now =
     res_bind (jitter_levels_of (su_jitter_levels_ns args)) (\<lambda>jitter_levels.
       let venues = comma_list (su_venue_adapters args)
       in if su_branches args \<le> 0 \<or> su_messages_per_branch args \<le> 0 \<or> su_interval_ns args \<le> 0
             \<or> su_base_latency_ns args \<le> 0 \<or> jitter_levels = [] \<or> venues = []
          then Inl (SystemExit ''benchmark_suite_parameters_invalid'')
          else run_suite ops seeded (su_branches args) (su_messages_per_branch args) (su_interval_ns args)
                 (su_base_latency_ns args) jitter_levels venues (su_seed args) exchange now)"

end
