(* ===== verification/Benchmark_Report.thy ===== *)
theory Benchmark_Report
  imports Benchmark
begin

section \<open>Benchmark reports\<close>

text \<open>
  \<open>scripts/render_benchmark_report.py\<close> and \<open>scripts/render_benchmark_suite.py\<close> on JSON values of any
  shape: a missing field, a value that cannot be indexed or joined raises as in Python. The result is
  what is handed to the plotting library (bars or lines) and the lines of the Markdown report.
\<close>

subsection \<open>Arithmetic on numbers of any type\<close>

fun jf_sub :: "jfloat \<Rightarrow> jfloat \<Rightarrow> jfloat" where
  "jf_sub (Fin x) (Fin y) = Fin (fsub x y)"
| "jf_sub NaN _ = NaN"
| "jf_sub _ NaN = NaN"
| "jf_sub PosInf PosInf = NaN"
| "jf_sub NegInf NegInf = NaN"
| "jf_sub PosInf _ = PosInf"
| "jf_sub NegInf _ = NegInf"
| "jf_sub (Fin _) PosInf = NegInf"
| "jf_sub (Fin _) NegInf = PosInf"

fun jf_div :: "jfloat \<Rightarrow> jfloat \<Rightarrow> jfloat" where
  "jf_div (Fin x) (Fin y) = Fin (fdiv x y)"
| "jf_div NaN _ = NaN"
| "jf_div _ NaN = NaN"
| "jf_div (Fin _) _ = Fin 0"
| "jf_div PosInf (Fin y) = (if 0 \<le> y then PosInf else NegInf)"
| "jf_div NegInf (Fin y) = (if 0 \<le> y then NegInf else PosInf)"
| "jf_div _ _ = NaN"

fun jf_scale :: "rat \<Rightarrow> jfloat \<Rightarrow> jfloat" where
  "jf_scale c (Fin x) = Fin (fmul x c)"
| "jf_scale c f = f"

fun jf_round :: "nat \<Rightarrow> jfloat \<Rightarrow> jfloat" where
  "jf_round n (Fin x) = Fin (round_digits x n)"
| "jf_round n f = f"

text \<open>A number as a float operand.\<close>

fun float_value :: "json \<Rightarrow> jfloat option" where
  "float_value (JBool b) = Some (Fin (of_bool b))"
| "float_value (JInt n) = Some (Fin (fint n))"
| "float_value (JFloat f) = Some f"
| "float_value _ = None"

definition jsub :: "json \<Rightarrow> json \<Rightarrow> exn + json" where
  "jsub v w =
     (case (int_value v, int_value w) of
        (Some m, Some n) \<Rightarrow> Inr (JInt (m - n))
      | _ \<Rightarrow> (case (float_value v, float_value w) of
                (Some f, Some g) \<Rightarrow> Inr (JFloat (jf_sub f g))
              | _ \<Rightarrow> Inl (TypeError ''unsupported operand'')))"

text \<open>\<open>round(v * 100 / w, 2)\<close> for a \<open>w\<close> that is not zero.\<close>

definition percent :: "json \<Rightarrow> json \<Rightarrow> exn + json" where
  "percent v w =
     (case (int_value v, int_value w) of
        (Some m, Some n) \<Rightarrow> Inr (JFloat (Fin (round_digits (fl (of_int (m * 100) / of_int n)) 2)))
      | _ \<Rightarrow> (case (int_value v, float_value v, float_value w) of
                (Some m, _, Some g) \<Rightarrow> Inr (JFloat (jf_round 2 (jf_div (Fin (fint (m * 100))) g)))
              | (None, Some f, Some g) \<Rightarrow> Inr (JFloat (jf_round 2 (jf_div (jf_scale 100 f) g)))
              | _ \<Rightarrow> Inl (TypeError ''unsupported operand'')))"

subsection \<open>Report of one benchmark\<close>

record bars =
  br_labels :: "json list"
  br_positions :: "rat list"
  br_p50 :: "json list"
  br_p95 :: "json list"
  br_p99 :: "json list"

definition bar_heights :: "json \<Rightarrow> json list \<Rightarrow> string \<Rightarrow> exn + json list" where
  "bar_heights detail labels field =
     map_res (\<lambda>label. res_bind (jindex detail label) (\<lambda>v. jitem v field)) labels"

definition bar_width :: rat where
  "bar_width = fl (24 / 100)"

definition bar_positions :: "rat \<Rightarrow> nat \<Rightarrow> rat list" where
  "bar_positions shift n = map (\<lambda>i. fadd (fint (int i)) shift) [0..<n]"

text \<open>The middle bars are at the positions themselves, the others \<open>bar_width\<close> to the left and right.\<close>

definition grouped_bars :: "json list \<Rightarrow> json \<Rightarrow> exn + bars" where
  "grouped_bars labels detail =
     res_bind (bar_heights detail labels ''p50_ns'') (\<lambda>p50.
     res_bind (bar_heights detail labels ''p95_ns'') (\<lambda>p95.
     res_bind (bar_heights detail labels ''p99_ns'') (\<lambda>p99.
       let n = length labels
       in Inr \<lparr>br_labels = labels,
               br_positions = bar_positions (- bar_width) n @ map (\<lambda>i. of_nat i) [0..<n] @ bar_positions bar_width n,
               br_p50 = p50, br_p95 = p95, br_p99 = p99\<rparr>)))"

text \<open>\<open>v.items()\<close>.\<close>

definition jitems :: "json \<Rightarrow> exn + (string \<times> json) list" where
  "jitems v = (case v of JObj d \<Rightarrow> Inr d | _ \<Rightarrow> Inl (AttributeError ''items''))"

definition profile_row :: "(json \<Rightarrow> string) \<Rightarrow> string \<times> json \<Rightarrow> exn + string" where
  "profile_row rep = (\<lambda>(label, value).
     res_bind (map_res (jitem value) [''messages'', ''mean_ns'', ''p50_ns'', ''p95_ns'', ''p99_ns'', ''max_ns'']) (\<lambda>vs.
       let t = map (py_str rep) vs
       in Inr (''| '' @ label @ '' | '' @ t ! 0 @ '' | '' @ t ! 1 @ '' ns | '' @ t ! 2 @ '' ns | '' @ t ! 3 @ '' ns | ''
            @ t ! 4 @ '' ns | '' @ t ! 5 @ '' ns |'')))"

definition report_head :: "(json \<Rightarrow> string) \<Rightarrow> json \<Rightarrow> exn + string list" where
  "report_head rep data =
     res_bind (map_res (jitem data) [''messages'', ''branches'', ''venues'', ''exchange_simulator'',
                 ''throughput_messages_per_second'']) (\<lambda>vs.
     res_bind (jitem data ''aggregate'') (\<lambda>aggregate.
     res_bind (map_res (jitem aggregate) [''p50_ns'', ''p95_ns'', ''p99_ns'', ''max_ns'']) (\<lambda>ps.
       let t = map (py_str rep) vs; p = map (py_str rep) ps
       in Inr [''# Ito Multi-Branch Multi-Venue Benchmark Report'', [],
            ''The benchmark processed **'' @ t ! 0 @ ''** messages across **'' @ t ! 1 @ ''** branches and **'' @ t ! 2
              @ ''** venue adapters under deterministic simulated network jitter. The exchange simulator status was `''
              @ t ! 3 @ ''`.'', [],
            ''## Aggregate results'', [], ''| Metric | Value |'', ''| --- | ---: |'',
            ''| Messages | '' @ t ! 0 @ '' |'', ''| Throughput | '' @ t ! 4 @ '' messages/second |'',
            ''| p50 | '' @ p ! 0 @ '' ns |'', ''| p95 | '' @ p ! 1 @ '' ns |'', ''| p99 | '' @ p ! 2 @ '' ns |'',
            ''| Maximum | '' @ p ! 3 @ '' ns |'', [],
            ''## Venue-adapter p99 profile'', [],
            ''| Adapter | Messages | Mean | p50 | p95 | p99 | Maximum |'',
            ''| --- | ---: | ---: | ---: | ---: | ---: | ---: |'']))) "

definition report_tail :: "string list" where
  "report_tail = [[], ''![Latency chart](multibranch_latency.png)'', [], ''## Interpretation'', [],
     ''The benchmark is a deterministic software model of transport jitter and processing delay. It is useful for regression and capacity comparisons, but it is not a substitute for hardware timestamping, venue certification, production network measurements, or hardware-in-the-loop testing.'',
     []]"

definition render_report :: "(json \<Rightarrow> string) \<Rightarrow> json \<Rightarrow> exn + bars list \<times> string list" where
  "render_report rep data =
     res_bind (jitem data ''branches_detail'') (\<lambda>branches.
     res_bind (jget data ''venues_detail'' (JObj [])) (\<lambda>venues.
     res_bind (iter_items branches) (\<lambda>branch_labels.
     res_bind (grouped_bars branch_labels branches) (\<lambda>branch_bars.
     res_bind (if truthy venues
               then res_bind (iter_items venues) (\<lambda>labels. map_sum id (\<lambda>b. [b]) (grouped_bars labels venues))
               else Inr []) (\<lambda>venue_bars.
     res_bind (report_head rep data) (\<lambda>head_lines.
     res_bind (jitems venues) (\<lambda>venue_items.
     res_bind (map_res (profile_row rep) venue_items) (\<lambda>venue_rows.
     res_bind (jitems branches) (\<lambda>branch_items.
     res_bind (map_res (profile_row rep) branch_items) (\<lambda>branch_rows.
       Inr (branch_bars # venue_bars,
            head_lines @ venue_rows
            @ [[], ''## Branch profile'', [], ''| Branch | Messages | Mean | p50 | p95 | p99 | Maximum |'',
               ''| --- | ---: | ---: | ---: | ---: | ---: | ---: |'']
            @ branch_rows @ report_tail)))))))))))"

subsection \<open>Report of a suite\<close>

record chart =
  ch_jitter :: "json list"
  ch_series :: "(json \<times> json list) list"

definition venue_p99 :: "json \<Rightarrow> json \<Rightarrow> exn + json" where
  "venue_p99 venue scenario =
     res_bind (jitem scenario ''venues_detail'') (\<lambda>detail.
     res_bind (jindex detail venue) (\<lambda>v. jitem v ''p99_ns''))"

definition suite_chart :: "json list \<Rightarrow> json list \<Rightarrow> exn + chart" where
  "suite_chart scenarios venues =
     res_bind (map_res (\<lambda>s. jitem s ''jitter_ns'') scenarios) (\<lambda>jitter.
     res_bind (map_res (\<lambda>venue. map_sum id (\<lambda>ps. (venue, ps)) (map_res (venue_p99 venue) scenarios)) venues) (\<lambda>series.
       Inr \<lparr>ch_jitter = jitter, ch_series = series\<rparr>))"

text \<open>\<open>sep.join(items)\<close> takes strings only.\<close>

definition str_item :: "json \<Rightarrow> exn + string" where
  "str_item v = (case v of JStr s \<Rightarrow> Inr s | _ \<Rightarrow> Inl (TypeError ''expected str instance''))"

definition suite_head :: "(json \<Rightarrow> string) \<Rightarrow> json \<Rightarrow> json list \<Rightarrow> json list \<Rightarrow> exn + string list" where
  "suite_head rep suite venues jitter =
     res_bind (jitem suite ''parameters'') (\<lambda>parameters.
     res_bind (jitem parameters ''branches'') (\<lambda>branches.
     res_bind (jitem parameters ''messages_per_branch'') (\<lambda>messages.
     res_bind (map_res str_item venues) (\<lambda>names.
       Inr [''# Ito Multi-Branch P99 Benchmark Suite'', [],
         ''The suite evaluated **'' @ py_str rep branches @ ''** branches, **'' @ py_str rep messages
           @ ''** messages per branch and adapter per scenario, and **'' @ str_of_int (int (length venues))
           @ ''** venue adapters across jitter levels of '' @ py_join '', '' (map (\<lambda>v. py_str rep v @ '' ns'') jitter) @ ''.'', [],
         ''## Venue p99 latency by jitter'', [],
         ''| Jitter | '' @ py_join '' | '' names @ '' | Aggregate |'',
         ''| ---: | '' @ py_join '' | '' (map (\<lambda>_. ''---:'') venues) @ '' | ---: |'']))))"

definition scenario_row :: "(json \<Rightarrow> string) \<Rightarrow> json list \<Rightarrow> json \<Rightarrow> exn + string" where
  "scenario_row rep venues scenario =
     res_bind (jitem scenario ''jitter_ns'') (\<lambda>jitter.
     res_bind (map_res (\<lambda>venue. map_sum id (\<lambda>v. py_str rep v @ '' ns'') (venue_p99 venue scenario)) venues) (\<lambda>ps.
     res_bind (jitem scenario ''aggregate'') (\<lambda>aggregate.
     res_bind (jitem aggregate ''p99_ns'') (\<lambda>p99.
       Inr (''| '' @ py_str rep jitter @ '' ns | '' @ py_join '' | '' ps @ '' | '' @ py_str rep p99 @ '' ns |'')))))"

text \<open>The text of a string in an f-string is the string, so the venue is rendered with \<open>py_str\<close>.\<close>

definition change_row :: "(json \<Rightarrow> string) \<Rightarrow> json \<Rightarrow> json \<Rightarrow> json \<Rightarrow> exn + string" where
  "change_row rep baseline worst venue =
     res_bind (venue_p99 venue baseline) (\<lambda>start.
     res_bind (venue_p99 venue worst) (\<lambda>end_value.
     res_bind (jsub end_value start) (\<lambda>increase.
     res_bind (if truthy start then percent increase start else Inr (JFloat (Fin 0))) (\<lambda>percentage.
       Inr (''| '' @ py_str rep venue @ '' | '' @ py_str rep start @ '' ns | '' @ py_str rep end_value @ '' ns | ''
            @ py_str rep increase @ '' ns | '' @ py_str rep percentage @ ''% |'')))))"

definition suite_tail :: "string list" where
  "suite_tail = [[], ''![P99 chart](multibranch_suite_p99.png)'', [], ''## Interpretation'', [],
     ''The deterministic model shows monotonic tail-latency growth as jitter increases. The broker-b-sim route has the highest p99 in the tested scenarios, while exchange-a-sim has the lowest. Throughput remains close to one million modeled messages per second because the benchmark uses virtual timestamps rather than sleeping for network delay. These results are regression evidence, not a production-network or venue-certification claim.'',
     []]"

definition render_suite :: "(json \<Rightarrow> string) \<Rightarrow> json \<Rightarrow> exn + chart \<times> string list" where
  "render_suite rep suite =
     res_bind (jitem suite ''scenarios'') (\<lambda>scenario_value.
     res_bind (jitem suite ''parameters'') (\<lambda>parameters.
     res_bind (jitem parameters ''venue_adapters'') (\<lambda>venue_names.
     res_bind (iter_items scenario_value) (\<lambda>scenarios.
     res_bind (map_res (\<lambda>s. jitem s ''jitter_ns'') scenarios) (\<lambda>jitter.
     res_bind (iter_items venue_names) (\<lambda>venues.
     res_bind (suite_chart scenarios venues) (\<lambda>plotted.
     res_bind (suite_head rep suite venues jitter) (\<lambda>head_lines.
     res_bind (map_res (scenario_row rep venues) scenarios) (\<lambda>rows.
     res_bind (jindex scenario_value (JInt 0)) (\<lambda>baseline.
     res_bind (jindex scenario_value (JInt (- 1))) (\<lambda>worst.
     res_bind (map_res (change_row rep baseline worst) venues) (\<lambda>changes.
       Inr (plotted,
            head_lines @ rows
            @ [[], ''## P99 change from baseline to highest-jitter scenario'', [],
               ''| Adapter | Baseline p99 | Highest-jitter p99 | Increase | Increase percent |'',
               ''| --- | ---: | ---: | ---: | ---: |'']
            @ changes @ suite_tail)))))))))))))"

end
