(* ===== verification/Benchmark_Props.thy ===== *)
theory Benchmark_Props
  imports Benchmark_Report "HOL-Library.Multiset"
begin

section \<open>Correctness of the benchmarks\<close>

text \<open>
  What the statistics say about the values they are computed from, the virtual timeline of the
  samples, and that both reports render for whatever the benchmark scripts write.
\<close>

subsection \<open>Percentiles\<close>

lemma percentile_index_bounds:
  assumes "0 < n"
  shows "0 \<le> percentile_index n f" and "percentile_index n f < n"
  using assms by (auto simp: percentile_index_def)

lemma fint_nonneg: "0 \<le> n \<Longrightarrow> 0 \<le> fint n"
  by (simp add: fint_def dbl.rnd_nonneg)

lemma percentile_index_mono: "0 < n \<Longrightarrow> f \<le> g \<Longrightarrow> percentile_index n f \<le> percentile_index n g"
  unfolding percentile_index_def fmul_def
  by (intro min.mono max.mono py_round_mono fl_mono mult_left_mono order_refl) (simp_all add: fint_nonneg)

lemma percentile_eq_nth:
  assumes "vs \<noteq> []"
  obtains i where "i < length vs" "int i = percentile_index (int (length vs)) f" "percentile vs f = sort vs ! i"
  using percentile_index_bounds [of "int (length vs)" f] assms
  by (intro that [of "nat (percentile_index (int (length vs)) f)"]) (auto simp: percentile_def)

lemma percentile_member: "vs \<noteq> [] \<Longrightarrow> percentile vs f \<in> set vs"
  by (metis percentile_eq_nth nth_mem length_sort set_sort)

lemma percentile_mono:
  assumes "f \<le> g"
  shows "percentile vs f \<le> percentile vs g"
proof (cases "vs = []")
  case False
  from percentile_eq_nth [OF False, of f] obtain i where i: "i < length vs"
    "int i = percentile_index (int (length vs)) f" "percentile vs f = sort vs ! i" .
  from percentile_eq_nth [OF False, of g] obtain j where j: "j < length vs"
    "int j = percentile_index (int (length vs)) g" "percentile vs g = sort vs ! j" .
  have "i \<le> j" using percentile_index_mono [OF _ assms, of "int (length vs)"] i(2) j(2) False by simp
  then show ?thesis using i j by (simp add: sorted_nth_mono)
qed (simp add: percentile_def)

text \<open>The index lies between the two integers around the exact position, in spite of the float product.\<close>

lemma percentile_index_near:
  assumes "0 < n" "n \<le> 2 ^ 53" "0 \<le> f" "f \<le> 1"
  shows "\<lfloor>of_int (n - 1) * f\<rfloor> \<le> percentile_index n f" and "percentile_index n f \<le> \<lceil>of_int (n - 1) * f\<rceil>"
proof -
  let ?x = "of_int (n - 1) * f"
  have x: "0 \<le> ?x" "?x \<le> of_int (n - 1)"
    using assms mult_left_mono [of f 1 "of_int (n - 1)"] by auto
  have fl: "0 \<le> \<lfloor>?x\<rfloor>" "\<lfloor>?x\<rfloor> \<le> n - 1" "0 \<le> \<lceil>?x\<rceil>" "\<lceil>?x\<rceil> \<le> n - 1"
    using x floor_mono [OF x(2)] ceiling_mono [OF x(2)] floor_mono [OF x(1)] ceiling_mono [OF x(1)] by simp_all
  have "\<bar>\<lfloor>?x\<rfloor>\<bar> \<le> 2 ^ 53" "\<bar>\<lceil>?x\<rceil>\<bar> \<le> 2 ^ 53" using fl assms(2) by linarith+
  then have "of_int \<lfloor>?x\<rfloor> \<le> fl ?x" and "fl ?x \<le> of_int \<lceil>?x\<rceil>"
    by (simp_all only: dbl.rnd_ge_int dbl.rnd_le_int of_int_floor_le le_of_int_ceiling)
  then have "\<lfloor>?x\<rfloor> \<le> py_round (fl ?x)" "py_round (fl ?x) \<le> \<lceil>?x\<rceil>"
    using py_round_mono [of "of_int \<lfloor>?x\<rfloor>" "fl ?x"] py_round_mono [of "fl ?x" "of_int \<lceil>?x\<rceil>"] by auto
  moreover have "percentile_index n f = min (n - 1) (max 0 (py_round (fl ?x)))"
    using assms by (simp add: percentile_index_def fmul_def fint_small)
  ultimately show "\<lfloor>?x\<rfloor> \<le> percentile_index n f" "percentile_index n f \<le> \<lceil>?x\<rceil>" using fl by linarith+
qed

lemma length_filter_sort: "length (filter p (sort vs)) = length (filter p vs)"
  by (metis mset_filter mset_sort size_mset)

lemma sorted_rank:
  assumes "sorted ys" "i < length ys"
  shows "i < length (filter (\<lambda>y. y \<le> ys ! i) ys)" and "length ys - i \<le> length (filter (\<lambda>y. ys ! i \<le> y) ys)"
proof -
  have "filter (\<lambda>y. y \<le> ys ! i) (take (Suc i) ys) = take (Suc i) ys"
    using assms by (auto simp: filter_id_conv in_set_conv_nth less_Suc_eq_le intro!: sorted_nth_mono)
  then have "length (take (Suc i) ys) \<le> length (filter (\<lambda>y. y \<le> ys ! i) (take (Suc i) ys @ drop (Suc i) ys))"
    by (simp only: filter_append length_append)
  then show "i < length (filter (\<lambda>y. y \<le> ys ! i) ys)" using assms by simp
  have "filter (\<lambda>y. ys ! i \<le> y) (drop i ys) = drop i ys"
    using assms by (auto simp: filter_id_conv in_set_conv_nth intro!: sorted_nth_mono)
  then have "length (drop i ys) \<le> length (filter (\<lambda>y. ys ! i \<le> y) (take i ys @ drop i ys))"
    by (simp only: filter_append length_append)
  then show "length ys - i \<le> length (filter (\<lambda>y. ys ! i \<le> y) ys)" by simp
qed

lemma percentile_rank:
  assumes "vs \<noteq> []" "int (length vs) \<le> 2 ^ 53" "0 \<le> f" "f \<le> 1"
  shows "\<lfloor>of_int (int (length vs) - 1) * f\<rfloor> < int (length (filter (\<lambda>v. v \<le> percentile vs f) vs))"
    and "int (length vs) - \<lceil>of_int (int (length vs) - 1) * f\<rceil> \<le> int (length (filter (\<lambda>v. percentile vs f \<le> v) vs))"
proof -
  from percentile_eq_nth [OF assms(1), of f] obtain i where i: "i < length vs"
    "int i = percentile_index (int (length vs)) f" "percentile vs f = sort vs ! i" .
  note r = sorted_rank [of "sort vs" i, simplified, OF i(1), unfolded length_filter_sort, folded i(3)]
  have n: "0 < int (length vs)" using assms(1) by simp
  note near = percentile_index_near [OF n assms(2-4)]
  show "\<lfloor>of_int (int (length vs) - 1) * f\<rfloor> < int (length (filter (\<lambda>v. v \<le> percentile vs f) vs))"
    using r(1) near(1) i(2) by linarith
  show "int (length vs) - \<lceil>of_int (int (length vs) - 1) * f\<rceil> \<le> int (length (filter (\<lambda>v. percentile vs f \<le> v) vs))"
    using r(2) near(2) i by linarith
qed

subsection \<open>Mean\<close>

lemma round_digits_between:
  assumes "of_int a \<le> x" "x \<le> of_int b" "\<bar>a\<bar> \<le> 2 ^ 53" "\<bar>b\<bar> \<le> 2 ^ 53"
  shows "of_int a \<le> round_digits x n" and "round_digits x n \<le> of_int b"
proof -
  have p: "(0::rat) < 10 ^ n" by simp
  have "of_int (a * 10 ^ n) \<le> x * 10 ^ n" "x * 10 ^ n \<le> of_int (b * 10 ^ n)"
    using assms by (simp_all add: mult_right_mono)
  then have "a * 10 ^ n \<le> py_round (x * 10 ^ n)" "py_round (x * 10 ^ n) \<le> b * 10 ^ n"
    using py_round_mono py_round_of_int by metis+
  then have "of_int (a * 10 ^ n) \<le> (of_int (py_round (x * 10 ^ n)) :: rat)"
    "(of_int (py_round (x * 10 ^ n)) :: rat) \<le> of_int (b * 10 ^ n)" by (simp_all only: of_int_le_iff)
  then have "of_int a \<le> (of_int (py_round (x * 10 ^ n)) :: rat) / 10 ^ n"
    "(of_int (py_round (x * 10 ^ n)) :: rat) / 10 ^ n \<le> of_int b"
    using p by (simp_all add: pos_le_divide_eq pos_divide_le_eq)
  then show "of_int a \<le> round_digits x n" "round_digits x n \<le> of_int b"
    using assms unfolding round_digits_def by (auto intro: dbl.rnd_ge_int dbl.rnd_le_int)
qed

lemma fmean_between:
  assumes "vs \<noteq> []" and "\<forall>v \<in> set vs. a \<le> v \<and> v \<le> b" and "0 \<le> a" and "int (length vs) * b \<le> 2 ^ 53" "int (length vs) \<le> 2 ^ 53"
  shows "of_int a \<le> fmean vs" and "fmean vs \<le> of_int b"
proof -
  have len: "1 \<le> int (length vs)" using assms(1) by (cases vs) auto
  have ab: "0 \<le> b" "a \<le> b" using assms(1-3) by (cases vs; force)+
  then have b: "b \<le> 2 ^ 53" using assms(4) len mult_right_mono [of 1 "int (length vs)" b] by linarith
  have eq: "map fint vs = map of_int vs" using assms(2,3) b by (auto intro!: fint_small)
  have s: "int (length vs) * a \<le> sum_list vs" "sum_list vs \<le> int (length vs) * b"
    using assms(2) by (induction vs) (auto simp: distrib_right)
  have la: "0 \<le> int (length vs) * a" "int (length vs) * a \<le> int (length vs) * b" using assms(3) ab by (auto intro: mult_left_mono)
  have "fl (sum_list (map fint vs)) = of_int (sum_list vs)"
    using dbl.rnd_int [of "sum_list vs"] s la assms(4) by (simp add: eq sum_list_of_int)
  moreover have "(of_int (int (length vs) * a) :: rat) \<le> of_int (sum_list vs)" "(of_int (sum_list vs) :: rat) \<le> of_int (int (length vs) * b)"
    using s by (simp_all only: of_int_le_iff)
  ultimately show "of_int a \<le> fmean vs" "fmean vs \<le> of_int b"
    unfolding fmean_def fdiv_def using len ab assms b
    by (auto intro!: dbl.rnd_ge_int dbl.rnd_le_int simp: fint_small pos_le_divide_eq pos_divide_le_eq mult.commute)
qed

lemma fl_unit: "0 \<le> x \<Longrightarrow> x \<le> 1 \<Longrightarrow> 0 \<le> fl x \<and> fl x \<le> 1"
  using dbl.rnd_ge_int [of 0 x] dbl.rnd_le_int [of 1 x] by simp

definition percentile_sound :: "int list \<Rightarrow> rat \<Rightarrow> int \<Rightarrow> bool" where
  "percentile_sound vs f p \<longleftrightarrow> p \<in> set vs
     \<and> \<lfloor>of_int (int (length vs) - 1) * f\<rfloor> < int (length (filter (\<lambda>v. v \<le> p) vs))
     \<and> int (length vs) - \<lceil>of_int (int (length vs) - 1) * f\<rceil> \<le> int (length (filter (\<lambda>v. p \<le> v) vs))"

lemma percentile_soundI:
  assumes "vs \<noteq> []" "int (length vs) \<le> 2 ^ 53" "0 \<le> x" "x \<le> 1"
  shows "percentile_sound vs (fl x) (percentile vs (fl x))"
  using percentile_rank [OF assms(1,2)] fl_unit [OF assms(3,4)] percentile_member [OF assms(1)]
  by (simp add: percentile_sound_def)

text \<open>
  The latency statistics say what they claim: for values that are not negative and whose number
  times their maximum stays within 2^53, the three percentiles are values of the list in increasing
  order, the value at fraction \<open>f\<close> has more than \<open>\<lfloor>(n - 1) f\<rfloor>\<close> values at or below it and at least
  \<open>n - \<lceil>(n - 1) f\<rceil>\<close> at or above it (in spite of the float product that selects it), and the rounded
  mean lies between the least and the greatest value.
\<close>

theorem latency_statistics_sound:
  assumes "vs \<noteq> []" and "\<forall>v \<in> set vs. 0 \<le> v" and "int (length vs) * Max (set vs) \<le> 2 ^ 53" "int (length vs) \<le> 2 ^ 53"
  shows "\<exists>p50 p95 p99 mean. stats vs = JObj [(''messages'', JInt (int (length vs))), (''p50_ns'', JInt p50),
        (''p95_ns'', JInt p95), (''p99_ns'', JInt p99), (''max_ns'', JInt (Max (set vs))), (''mean_ns'', JFloat (Fin mean))]
     \<and> p50 \<le> p95 \<and> p95 \<le> p99 \<and> p99 \<le> Max (set vs)
     \<and> percentile_sound vs (fl (1 / 2)) p50 \<and> percentile_sound vs (fl (95 / 100)) p95 \<and> percentile_sound vs (fl (99 / 100)) p99
     \<and> of_int (Min (set vs)) \<le> mean \<and> mean \<le> of_int (Max (set vs))"
proof -
  have lohi: "\<forall>v \<in> set vs. Min (set vs) \<le> v \<and> v \<le> Max (set vs)" by simp
  have lo: "0 \<le> Min (set vs)" using assms(1,2) by simp
  have hi: "Max (set vs) \<le> 2 ^ 53" "Min (set vs) \<le> Max (set vs)"
  proof -
    have "1 \<le> int (length vs)" using assms(1) by (cases vs) auto
    moreover show "Min (set vs) \<le> Max (set vs)" using bspec [OF lohi hd_in_set [OF assms(1)]] by linarith
    ultimately show "Max (set vs) \<le> 2 ^ 53"
      using assms(3) lo mult_right_mono [of 1 "int (length vs)" "Max (set vs)"] by linarith
  qed
  note mean = round_digits_between [OF fmean_between [OF assms(1) lohi lo assms(3,4)], of 2]
  show ?thesis
    using assms(1,4) percentile_mono [of "fl (1 / 2)" "fl (95 / 100)"] percentile_mono [of "fl (95 / 100)" "fl (99 / 100)"]
      percentile_member [OF assms(1), of "fl (99 / 100)"] mean lo hi
    by (auto simp: stats_def max_or_zero_def fl_mono percentile_soundI)
qed

subsection \<open>The virtual timeline\<close>

definition sample_ok :: "sample \<Rightarrow> bool" where
  "sample_ok s \<longleftrightarrow> sm_send_ns s + 100 \<le> sm_receive_ns s \<and> sm_receive_ns s + 1300 \<le> sm_acknowledge_ns s
     \<and> sm_latency_ns s = sm_acknowledge_ns s - sm_send_ns s"

definition uniform_ok :: "'r rng \<Rightarrow> bool" where
  "uniform_ok ops \<longleftrightarrow> (\<forall>g. 0 \<le> fst (rng_uniform ops 0 500 g))"

lemma draw_sample_fields:
  "sm_branch_id (fst (draw_sample ops b interval base jitter v start i g)) = b"
  "sm_venue_id (fst (draw_sample ops b interval base jitter v start i g)) = v"
  "sm_send_ns (fst (draw_sample ops b interval base jitter v start i g)) = start + i * interval"
  by (simp_all add: draw_sample_def Let_def split_beta)

lemma draw_sample_ok: "uniform_ok ops \<Longrightarrow> sample_ok (fst (draw_sample ops b interval base jitter v start i g))"
  by (auto simp: draw_sample_def Let_def split_beta sample_ok_def uniform_ok_def intro!: add_increasing2 py_trunc_bounds [THEN conjunct1])

lemma sample_loop_fields:
  "map sm_send_ns (fst (sample_loop ops b interval base jitter v start ids g)) = map (\<lambda>i. start + i * interval) ids"
  "map sm_venue_id (fst (sample_loop ops b interval base jitter v start ids g)) = map (\<lambda>_. v) ids"
  "map sm_branch_id (fst (sample_loop ops b interval base jitter v start ids g)) = map (\<lambda>_. b) ids"
  by (induction ids arbitrary: g) (simp_all add: split_beta Let_def draw_sample_fields)

lemma sample_loop_ok: "uniform_ok ops \<Longrightarrow> \<forall>s \<in> set (fst (sample_loop ops b interval base jitter v start ids g)). sample_ok s"
  by (induction ids arbitrary: g) (simp_all add: split_beta Let_def draw_sample_ok)

lemma cell_loop_fields:
  "map sm_send_ns (fst (cell_loop ops n interval base jitter vcount cs g)) =
     concat (map (\<lambda>(b, v, _). map (\<lambda>i. (b * vcount + v) * (n * interval) + i * interval) [0..n - 1]) cs)"
  "map sm_venue_id (fst (cell_loop ops n interval base jitter vcount cs g)) =
     concat (map (\<lambda>(_, _, venue). map (\<lambda>_. venue) [0..n - 1]) cs)"
  "map sm_branch_id (fst (cell_loop ops n interval base jitter vcount cs g)) =
     concat (map (\<lambda>(b, _, _). map (\<lambda>_. ''branch-'' @ two_digits (b + 1)) [0..n - 1]) cs)"
  by (induction cs arbitrary: g) (auto simp: split_beta Let_def branch_samples_def sample_loop_fields)

lemma cell_loop_ok: "uniform_ok ops \<Longrightarrow> \<forall>s \<in> set (fst (cell_loop ops n interval base jitter vcount cs g)). sample_ok s"
  by (induction cs arbitrary: g) (auto simp: split_beta Let_def branch_samples_def intro: sample_loop_ok [THEN bspec])

text \<open>Blocks of \<open>n\<close> consecutive numbers, one after the other.\<close>

lemma upto_blocks:
  assumes "0 \<le> n" "0 \<le> m"
  shows "concat (map (\<lambda>k. map (\<lambda>i. k * n + i) [0..n - 1]) [0..m - 1]) = [0..m * n - 1]"
  using assms(2)
proof (induction m rule: int_ge_induct)
  case (step m)
  have shift: "map (\<lambda>i. m * n + i) [0..n - 1] = [m * n..m * n + n - 1]"
    using assms(1) by (intro nth_equalityI) auto
  have "[0..m] = [0..m - 1] @ [m]" using step.hyps upto_rec2 [of 0 m] by simp
  moreover have "[0..m * n + n - 1] = [0..m * n - 1] @ [m * n..m * n + n - 1]"
    using assms(1) step.hyps by (cases "n = 0") (auto intro!: upto_split1)
  ultimately show ?case using step.IH by (simp add: shift distrib_right)
qed simp

lemma cells_numbered:
  assumes "0 \<le> branches"
  shows "map (\<lambda>(b, v, _). b * int (length venues) + v) (cells branches venues) = [0..branches * int (length venues) - 1]"
proof -
  have "map (\<lambda>x. b * int (length venues) + int (fst x)) (enumerate 0 venues) = map (\<lambda>i. b * int (length venues) + i) [0..int (length venues) - 1]" for b
    by (intro nth_equalityI) (auto simp: nth_enumerate_eq)
  then have "map (\<lambda>(b, v, _). b * int (length venues) + v) (cells branches venues) =
      concat (map (\<lambda>b. map (\<lambda>i. b * int (length venues) + i) [0..int (length venues) - 1]) [0..branches - 1])"
    by (simp add: cells_def map_concat comp_def split_beta)
  then show ?thesis using assms upto_blocks [of "int (length venues)" branches] by simp
qed

lemma all_samples_sends:
  assumes "0 \<le> branches" "0 \<le> n"
  shows "map sm_send_ns (all_samples ops branches n interval base jitter venues g) =
     map (\<lambda>k. k * interval) [0..branches * int (length venues) * n - 1]" (is "?lhs = _")
proof -
  have "?lhs = concat (map (\<lambda>k. map (\<lambda>i. (k * n + i) * interval) [0..n - 1])
      (map (\<lambda>(b, v, _). b * int (length venues) + v) (cells branches venues)))"
    by (auto simp: all_samples_def cell_loop_fields algebra_simps intro!: arg_cong [where f = concat] map_cong)
  also have "\<dots> = map (\<lambda>k. k * interval) (concat (map (\<lambda>k. map (\<lambda>i. k * n + i) [0..n - 1]) [0..branches * int (length venues) - 1]))"
    using assms(1) by (simp add: cells_numbered map_concat comp_def)
  also have "\<dots> = map (\<lambda>k. k * interval) [0..branches * int (length venues) * n - 1]"
    using assms by (simp add: upto_blocks)
  finally show ?thesis .
qed

lemma all_samples_length:
  assumes "0 \<le> branches" "0 \<le> n"
  shows "int (length (all_samples ops branches n interval base jitter venues g)) = branches * int (length venues) * n"
  using arg_cong [OF all_samples_sends [OF assms], of length ops interval base jitter venues g] assms by simp

text \<open>
  The virtual timeline: in the order of the samples one message is sent every interval, without
  a gap between branches and venues, so that there are branches times venues times messages samples;
  every message takes at least 100 ns to arrive and 1300 more to be acknowledged (for a generator
  whose uniform numbers are not negative), and the latency is the time from send to acknowledgment.
\<close>

theorem benchmark_timeline:
  assumes "uniform_ok ops" and "0 \<le> branches" "0 \<le> n" and "ss = all_samples ops branches n interval base jitter venues g"
  shows "map sm_send_ns ss = map (\<lambda>k. k * interval) [0..branches * int (length venues) * n - 1]
     \<and> (\<forall>s \<in> set ss. sample_ok s)"
  using cell_loop_ok [OF assms(1)] all_samples_sends [OF assms(2,3)] by (simp add: assms(4) all_samples_def)

subsection \<open>Rendering a suite\<close>

lemma map_res_ballI: "\<forall>x \<in> set xs. f x = Inr (g x) \<Longrightarrow> map_res f xs = Inr (map g xs)"
  by (rule map_res_total) simp

lemma map_res_map: "map_res f (map h xs) = map_res (\<lambda>x. f (h x)) xs"
  by (induction xs) simp_all

lemma change_row_total:
  assumes "venue_p99 venue x = Inr (JInt m)" "venue_p99 venue y = Inr (JInt n)"
  shows "\<exists>t. change_row rep x y venue = Inr t"
  using assms by (simp add: change_row_def jsub_def percent_def)

lemma map_res_exists:
  assumes "\<forall>x \<in> set xs. \<exists>y. f x = Inr y"
  shows "\<exists>ys. map_res f xs = Inr ys \<and> length ys = length xs"
proof -
  obtain g where "\<forall>x \<in> set xs. f x = Inr (g x)" using assms by metis
  from map_res_ballI [OF this] show ?thesis by simp
qed

definition scenario_readable :: "string list \<Rightarrow> (string \<Rightarrow> int) \<Rightarrow> json \<Rightarrow> bool" where
  "scenario_readable venues p99 x \<longleftrightarrow> (\<exists>j. jitem x ''jitter_ns'' = Inr j)
     \<and> (\<exists>a q. jitem x ''aggregate'' = Inr a \<and> jitem a ''p99_ns'' = Inr q)
     \<and> (\<forall>v \<in> set venues. venue_p99 (JStr v) x = Inr (JInt (p99 v)))"

lemma scenario_row_total:
  assumes "scenario_readable venues p99 x"
  shows "\<exists>t. scenario_row rep (map JStr venues) x = Inr t"
proof -
  have "\<forall>v \<in> set (map JStr venues). \<exists>y. map_sum id (\<lambda>v. py_str rep v @ '' ns'') (venue_p99 v x) = Inr y"
    using assms by (auto simp: scenario_readable_def)
  from map_res_exists [OF this] obtain ps where
    "map_res (\<lambda>venue. map_sum id (\<lambda>v. py_str rep v @ '' ns'') (venue_p99 venue x)) (map JStr venues) = Inr ps" by blast
  then show ?thesis using assms unfolding scenario_row_def scenario_readable_def by (elim conjE exE) (simp)
qed

lemma suite_chart_total:
  assumes "\<forall>c \<in> set cs. scenario_readable venues (\<lambda>v. p99 v c) (scen c)"
  obtains js where "map_res (\<lambda>s. jitem s ''jitter_ns'') (map scen cs) = Inr js"
    "suite_chart (map scen cs) (map JStr venues) = Inr \<lparr>ch_jitter = js, ch_series = map (\<lambda>v. (JStr v, map (\<lambda>c. JInt (p99 v c)) cs)) venues\<rparr>"
proof -
  obtain js where js: "map_res (\<lambda>s. jitem s ''jitter_ns'') (map scen cs) = Inr js"
    using assms map_res_exists [of "map scen cs" "\<lambda>s. jitem s ''jitter_ns''"] by (auto simp: scenario_readable_def)
  have m: "map_res (venue_p99 (JStr v)) (map scen cs) = Inr (map (\<lambda>c. JInt (p99 v c)) cs)" if "v \<in> set venues" for v
    unfolding map_res_map using assms that by (intro map_res_ballI) (auto simp: scenario_readable_def)
  have "map_res (\<lambda>venue. map_sum id (\<lambda>ps. (venue, ps)) (map_res (venue_p99 venue) (map scen cs))) (map JStr venues)
      = Inr (map (\<lambda>v. (JStr v, map (\<lambda>c. JInt (p99 v c)) cs)) venues)"
    using m by (subst map_res_map) (intro map_res_ballI, simp)
  with js show thesis by (auto simp: suite_chart_def intro!: that)
qed

lemma render_suite_total:
  assumes "jitem suite ''scenarios'' = Inr (JArr xs)" "xs \<noteq> []" "jitem suite ''parameters'' = Inr p"
    and "jitem p ''venue_adapters'' = Inr (JArr (map JStr venues))" "jitem p ''branches'' = Inr b" "jitem p ''messages_per_branch'' = Inr m"
    and xs: "xs = map scen cs" and ok: "\<forall>c \<in> set cs. scenario_readable venues (\<lambda>v. p99 v c) (scen c)"
  shows "\<exists>plotted txt. render_suite rep suite = Inr (plotted, txt)
     \<and> ch_series plotted = map (\<lambda>v. (JStr v, map (\<lambda>c. JInt (p99 v c)) cs)) venues
     \<and> length txt = length xs + length venues + 20"
proof -
  from suite_chart_total [OF ok, folded xs] obtain js where js: "map_res (\<lambda>s. jitem s ''jitter_ns'') xs = Inr js"
    "suite_chart xs (map JStr venues) = Inr \<lparr>ch_jitter = js, ch_series = map (\<lambda>v. (JStr v, map (\<lambda>c. JInt (p99 v c)) cs)) venues\<rparr>" .
  have names: "map_res str_item (map JStr venues) = Inr venues"
    by (auto simp: map_res_eq_Inr list_all2_map1 str_item_def list_all2_same)
  have "\<forall>x \<in> set xs. \<exists>t. scenario_row rep (map JStr venues) x = Inr t"
    using ok scenario_row_total unfolding xs by fastforce
  from map_res_exists [OF this] obtain rows where rows: "map_res (scenario_row rep (map JStr venues)) xs = Inr rows" "length rows = length xs"
    by blast
  have "nat (int (length xs) - 1) = length xs - 1" by arith
  then have ends: "jindex (JArr xs) (JInt 0) = Inr (hd xs)" "jindex (JArr xs) (JInt (- 1)) = Inr (last xs)" "hd xs \<in> set xs" "last xs \<in> set xs"
    using assms(2) by (simp_all add: jindex_def list_item_def hd_conv_nth last_conv_nth)
  have "\<forall>v \<in> set (map JStr venues). \<exists>t. change_row rep (hd xs) (last xs) v = Inr t"
    using ok ends(3,4) unfolding xs by (force simp: scenario_readable_def intro: change_row_total)
  from map_res_exists [OF this] obtain changes where c: "map_res (change_row rep (hd xs) (last xs)) (map JStr venues) = Inr changes" "length changes = length venues"
    by auto
  show ?thesis
    using assms(1,3-6) js names rows ends c by (simp add: render_suite_def suite_head_def suite_tail_def)
qed

subsection \<open>What the scripts write\<close>

definition venue_latencies :: "sample list \<Rightarrow> string \<Rightarrow> int list" where
  "venue_latencies ss v = map sm_latency_ns (filter (\<lambda>s. sm_venue_id s = v) ss)"

lemma cells_venues: "0 < branches \<Longrightarrow> (\<lambda>c. snd (snd c)) ` set (cells branches venues) = set venues"
proof -
  assume "0 < branches"
  moreover have "snd ` set (enumerate 0 venues) = set venues" by (metis list.set_map map_snd_enumerate)
  ultimately show ?thesis by (auto simp: cells_def image_UN image_image split_beta)
qed

lemma all_samples_venues:
  assumes "0 < branches" "0 < n"
  shows "sm_venue_id ` set (all_samples ops branches n interval base jitter venues g) = set venues"
proof -
  have "set (concat (map (\<lambda>(_, _, venue). map (\<lambda>_. venue) [0..n - 1]) cs)) = (\<lambda>c. snd (snd c)) ` set cs" for cs :: "(int \<times> int \<times> string) list"
    using assms(2) by (induction cs) (auto simp: image_constant_conv)
  then have "set (map sm_venue_id (all_samples ops branches n interval base jitter venues g)) = (\<lambda>c. snd (snd c)) ` set (cells branches venues)"
    unfolding all_samples_def cell_loop_fields .
  then show ?thesis using cells_venues [OF assms(1)] by simp
qed

lemma grouped_stats_lookup:
  "map_of (grouped_stats key ss) k = (if k \<in> key ` set ss then Some (stats (map sm_latency_ns (filter (\<lambda>s. key s = k) ss))) else None)"
  by (simp add: grouped_stats_def map_of_map_restrict restrict_map_def)

lemma stats_items:
  "jitem (stats vs) ''messages'' = Inr (JInt (int (length vs)))"
  "jitem (stats vs) ''p50_ns'' = Inr (JInt (percentile vs (fl (1 / 2))))"
  "jitem (stats vs) ''p95_ns'' = Inr (JInt (percentile vs (fl (95 / 100))))"
  "jitem (stats vs) ''p99_ns'' = Inr (JInt (percentile vs (fl (99 / 100))))"
  "jitem (stats vs) ''max_ns'' = Inr (JInt (max_or_zero vs))"
  "jitem (stats vs) ''mean_ns'' = Inr (JFloat (Fin (if vs \<noteq> [] then round_digits (fmean vs) 2 else 0)))"
  by (simp_all add: stats_def jitem_def)

lemma scenario_readable_summary:
  assumes "set venues \<subseteq> sm_venue_id ` set ss"
    and "x = JObj (AList.update ''jitter_ns'' (JInt j) (summarize ss w st))"
  shows "scenario_readable venues (\<lambda>v. percentile (venue_latencies ss v) (fl (99 / 100))) x"
proof -
  have "jitem x ''jitter_ns'' = Inr (JInt j)" "jitem x ''aggregate'' = Inr (stats (map sm_latency_ns ss))"
    "jitem x ''venues_detail'' = Inr (JObj (grouped_stats sm_venue_id ss))"
    by (simp_all add: assms(2) jitem_def dict_simps summarize_def Let_def)
  then show ?thesis
    using assms(1) by (auto simp: scenario_readable_def venue_p99_def stats_items jitem_def [of "JObj _"] grouped_stats_lookup venue_latencies_def)
qed

text \<open>The samples of the scenario with a level number and a jitter level.\<close>

definition suite_samples :: "'r rng \<Rightarrow> (int \<Rightarrow> 'r) \<Rightarrow> suite_args \<Rightarrow> nat \<times> int \<Rightarrow> sample list" where
  "suite_samples ops seeded args = (\<lambda>(level, jitter). all_samples ops (su_branches args) (su_messages_per_branch args)
     (su_interval_ns args) (su_base_latency_ns args) jitter (comma_list (su_venue_adapters args)) (seeded (su_seed args + int level)))"

lemma suite_main_Inr:
  assumes "suite_main ops seeded args exchange now = Inr doc"
  obtains levels scen p where "jitter_levels_of (su_jitter_levels_ns args) = Inr levels" "levels \<noteq> []" "0 < su_branches args" "0 < su_messages_per_branch args"
    "jitem doc ''scenarios'' = Inr (JArr (map scen (enumerate 0 levels)))"
    "jitem doc ''parameters'' = Inr p" "jitem p ''venue_adapters'' = Inr (JArr (map JStr (comma_list (su_venue_adapters args))))"
    "jitem p ''branches'' = Inr (JInt (su_branches args))" "jitem p ''messages_per_branch'' = Inr (JInt (su_messages_per_branch args))"
    "\<forall>c \<in> set (enumerate 0 levels). scenario_readable (comma_list (su_venue_adapters args))
       (\<lambda>v. percentile (venue_latencies (suite_samples ops seeded args c) v) (fl (99 / 100))) (scen c)"
proof -
  obtain levels where l: "jitter_levels_of (su_jitter_levels_ns args) = Inr levels" "levels \<noteq> []" "0 < su_branches args" "0 < su_messages_per_branch args"
    and r: "run_suite ops seeded (su_branches args) (su_messages_per_branch args) (su_interval_ns args) (su_base_latency_ns args) levels
      (comma_list (su_venue_adapters args)) (su_seed args) exchange now = Inr doc"
    using assms by (auto simp: suite_main_def res_bind_eq_Inr Let_def split: if_splits)
  from r obtain xs where xs: "list_all2 (\<lambda>c x. run_scenario ops seeded (su_branches args) (su_messages_per_branch args) (su_interval_ns args)
      (su_base_latency_ns args) (comma_list (su_venue_adapters args)) (su_seed args) exchange c = Inr x) (enumerate 0 levels) xs"
    and doc: "jitem doc ''scenarios'' = Inr (JArr xs)"
      "jitem doc ''parameters'' = Inr (JObj [(''branches'', JInt (su_branches args)), (''messages_per_branch'', JInt (su_messages_per_branch args)),
         (''interval_ns'', JInt (su_interval_ns args)), (''base_latency_ns'', JInt (su_base_latency_ns args)),
         (''jitter_levels_ns'', JArr (map JInt levels)), (''venue_adapters'', JArr (map JStr (comma_list (su_venue_adapters args)))),
         (''seed'', JInt (su_seed args))])"
    by (auto simp: run_suite_def res_bind_eq_Inr map_res_eq_Inr jitem_def)
  define scen where "scen c = projr (run_scenario ops seeded (su_branches args) (su_messages_per_branch args) (su_interval_ns args)
      (su_base_latency_ns args) (comma_list (su_venue_adapters args)) (su_seed args) exchange c)" for c
  have xs_eq: "xs = map scen (enumerate 0 levels)"
    using xs by (auto simp: list_all2_conv_all_nth scen_def intro!: nth_equalityI)
  have "\<forall>c \<in> set (enumerate 0 levels). \<exists>x. run_scenario ops seeded (su_branches args) (su_messages_per_branch args) (su_interval_ns args)
      (su_base_latency_ns args) (comma_list (su_venue_adapters args)) (su_seed args) exchange c = Inr x"
    using xs unfolding list_all2_conv_all_nth Ball_def in_set_conv_nth by metis
  then have "\<forall>c \<in> set (enumerate 0 levels). \<exists>st. scen c = JObj (AList.update ''jitter_ns'' (JInt (snd c)) (summarize (suite_samples ops seeded args c) 0 st))"
    by (fastforce simp: run_scenario_def scen_def suite_samples_def Let_def res_bind_eq_Inr split_beta)
  moreover have "set (comma_list (su_venue_adapters args)) \<subseteq> sm_venue_id ` set (suite_samples ops seeded args c)" for c
    by (simp add: suite_samples_def split_beta all_samples_venues [OF l(3,4)])
  ultimately have "\<forall>c \<in> set (enumerate 0 levels). scenario_readable (comma_list (su_venue_adapters args))
      (\<lambda>v. percentile (venue_latencies (suite_samples ops seeded args c) v) (fl (99 / 100))) (scen c)"
    using scenario_readable_summary by blast
  with xs_eq l doc show thesis by (intro that [where scen = scen]) (auto simp: jitem_def)
qed

text \<open>
  C39. Whatever the suite script writes, the suite report renders: the chart has one series per venue
  adapter, whose points are the 99th percentiles of the round-trip latencies the venue has in the
  samples of the scenarios, and the text has a row per scenario and per venue.
\<close>

theorem suite_report_renders:
  assumes "suite_main ops seeded args exchange now = Inr doc"
  shows "\<exists>levels plotted txt. jitter_levels_of (su_jitter_levels_ns args) = Inr levels \<and> render_suite rep doc = Inr (plotted, txt)
     \<and> ch_series plotted = map (\<lambda>v. (JStr v, map (\<lambda>c. JInt (percentile (venue_latencies (suite_samples ops seeded args c) v) (fl (99 / 100))))
          (enumerate 0 levels))) (comma_list (su_venue_adapters args))
     \<and> length txt = length levels + length (comma_list (su_venue_adapters args)) + 20"
proof -
  let ?venues = "comma_list (su_venue_adapters args)"
  from suite_main_Inr [OF assms] obtain levels scen p where l: "jitter_levels_of (su_jitter_levels_ns args) = Inr levels" "levels \<noteq> []"
      "0 < su_branches args" "0 < su_messages_per_branch args"
    and d: "jitem doc ''scenarios'' = Inr (JArr (map scen (enumerate 0 levels)))" "jitem doc ''parameters'' = Inr p"
      "jitem p ''venue_adapters'' = Inr (JArr (map JStr ?venues))" "jitem p ''branches'' = Inr (JInt (su_branches args))"
      "jitem p ''messages_per_branch'' = Inr (JInt (su_messages_per_branch args))"
    and ok: "\<forall>c \<in> set (enumerate 0 levels). scenario_readable ?venues
       (\<lambda>v. percentile (venue_latencies (suite_samples ops seeded args c) v) (fl (99 / 100))) (scen c)" .
  have "map scen (enumerate 0 levels) \<noteq> []" using l(2) by (cases levels) simp_all
  from render_suite_total [OF d(1) this d(2-5) refl ok, of rep] l(1) show ?thesis by simp
qed

subsection \<open>Rendering one benchmark\<close>

definition counted :: "(string, json) dict \<Rightarrow> int" where
  "counted d = sum_list (map (\<lambda>kv. case jitem (snd kv) ''messages'' of Inr (JInt n) \<Rightarrow> n | _ \<Rightarrow> 0) d)"

lemma sum_filter_classes:
  "distinct ks \<Longrightarrow> f ` set xs \<subseteq> set ks \<Longrightarrow> sum_list (map (\<lambda>k. int (length (filter (\<lambda>x. f x = k) xs))) ks) = int (length xs)"
proof (induction xs)
  case (Cons x xs)
  have "sum_list (map (\<lambda>k. int (length (filter (\<lambda>y. f y = k) (x # xs)))) ks)
      = sum_list (map (\<lambda>k. (if k = f x then 1 else 0) + int (length (filter (\<lambda>y. f y = k) xs))) ks)"
    by (intro arg_cong [where f = sum_list] map_cong) auto
  moreover have "sum_list (map (\<lambda>k. if k = f x then 1 else 0 :: int) ks) = 1"
    using Cons.prems by (simp add: sum_list_distinct_conv_sum_set)
  ultimately show ?case using Cons by (simp add: sum_list_addf)
qed simp

lemma counted_grouped: "counted (grouped_stats key ss) = int (length ss)"
  using sum_filter_classes [of "sort (remdups (map key ss))" key ss]
  by (simp add: counted_def grouped_stats_def comp_def stats_items)

lemma grouped_bars_total:
  assumes "d = grouped_stats key ss"
  shows "\<exists>b. grouped_bars (map (\<lambda>kv. JStr (fst kv)) d) (JObj d) = Inr b \<and> br_labels b = map (\<lambda>kv. JStr (fst kv)) d"
proof -
  have h: "\<exists>ys. bar_heights (JObj d) (map (\<lambda>kv. JStr (fst kv)) d) field = Inr ys" if "field \<in> {''p50_ns'', ''p95_ns'', ''p99_ns''}" for field
  proof -
    have "\<exists>w. res_bind (jindex (JObj d) x) (\<lambda>v. jitem v field) = Inr w" if x: "x \<in> set (map (\<lambda>kv. JStr (fst kv)) d)" for x
    proof -
      obtain k where "x = JStr k" "k \<in> key ` set ss" using x assms by (auto simp: grouped_stats_def)
      then show ?thesis using \<open>field \<in> _\<close> by (auto simp: jitem_def [of "JObj _"] assms grouped_stats_lookup stats_items)
    qed
    then have "\<forall>x \<in> set (map (\<lambda>kv. JStr (fst kv)) d). \<exists>w. res_bind (jindex (JObj d) x) (\<lambda>v. jitem v field) = Inr w" by blast
    from map_res_exists [OF this] show ?thesis unfolding bar_heights_def by blast
  qed
  show ?thesis using h [of "''p50_ns''"] h [of "''p95_ns''"] h [of "''p99_ns''"] by (auto simp: grouped_bars_def Let_def)
qed

lemma profile_rows_total:
  "\<exists>rows. map_res (profile_row rep) (grouped_stats key ss) = Inr rows \<and> length rows = length (grouped_stats key ss)"
  by (rule map_res_exists) (auto simp: grouped_stats_def profile_row_def stats_items)

lemma grouped_stats_keys:
  "sorted (map fst (grouped_stats key ss))" "distinct (map fst (grouped_stats key ss))" "set (map fst (grouped_stats key ss)) = key ` set ss"
  by (simp_all add: grouped_stats_def comp_def)

text \<open>
  Whatever the benchmark script writes, the benchmark report renders, with a row and a group of
  bars for every branch and every venue: the venues of the summary are exactly the configured
  adapters, in sorted order and each once, and every message is counted in exactly one branch and
  one venue.
\<close>

theorem benchmark_report_renders:
  assumes "benchmark_main ops seeded args wall exchange = Inr doc"
  shows "\<exists>b v bb vb txt. jitem doc ''branches_detail'' = Inr (JObj b) \<and> jitem doc ''venues_detail'' = Inr (JObj v)
     \<and> sorted (map fst v) \<and> distinct (map fst v) \<and> set (map fst v) = set (comma_list (ba_venue_adapters args))
     \<and> jitem doc ''messages'' = Inr (JInt (ba_branches args * int (length (comma_list (ba_venue_adapters args))) * ba_messages_per_branch args))
     \<and> jitem doc ''messages'' = Inr (JInt (counted b)) \<and> counted b = counted v
     \<and> render_report rep doc = Inr ([bb, vb], txt) \<and> br_labels bb = map (\<lambda>kv. JStr (fst kv)) b \<and> br_labels vb = map (\<lambda>kv. JStr (fst kv)) v
     \<and> length txt = 31 + length b + length v"
proof -
  let ?venues = "comma_list (ba_venue_adapters args)"
  define ss where "ss = all_samples ops (ba_branches args) (ba_messages_per_branch args) (ba_interval_ns args)
    (ba_base_latency_ns args) (ba_jitter_ns args) ?venues (seeded (ba_seed args))"
  obtain st P where pos: "0 < ba_branches args" "0 < ba_messages_per_branch args" "?venues \<noteq> []"
    and doc: "doc = JObj (AList.update ''parameters'' P (summarize ss wall st))"
    using assms by (auto simp: benchmark_main_def Let_def res_bind_eq_Inr ss_def split: if_splits)
  define b v where "b = grouped_stats sm_branch_id ss" and "v = grouped_stats sm_venue_id ss"
  have items: "jitem doc ''branches_detail'' = Inr (JObj b)" "jitem doc ''venues_detail'' = Inr (JObj v)"
    "jget doc ''venues_detail'' (JObj []) = Inr (JObj v)" "jitem doc ''messages'' = Inr (JInt (int (length ss)))"
    "jitem doc ''aggregate'' = Inr (stats (map sm_latency_ns ss))" "\<exists>x. jitem doc ''branches'' = Inr x" "\<exists>x. jitem doc ''venues'' = Inr x"
    "\<exists>x. jitem doc ''exchange_simulator'' = Inr x" "\<exists>x. jitem doc ''throughput_messages_per_second'' = Inr x"
    by (simp_all add: doc jitem_def dict_simps get_default_def summarize_def Let_def b_def v_def)
  have head: "\<exists>hl. report_head rep doc = Inr hl \<and> length hl = 19"
    using items(4-9) by (auto simp: report_head_def stats_items Let_def)
  have len: "int (length ss) = ba_branches args * int (length ?venues) * ba_messages_per_branch args"
    using pos(1,2) by (simp add: ss_def all_samples_length)
  have ids: "sm_venue_id ` set ss = set ?venues" unfolding ss_def by (rule all_samples_venues [OF pos(1,2)])
  then have v0: "v \<noteq> []" using pos(3) grouped_stats_keys(3) [of sm_venue_id ss] by (auto simp: v_def)
  obtain bb vb where bars: "grouped_bars (map (\<lambda>kv. JStr (fst kv)) b) (JObj b) = Inr bb" "br_labels bb = map (\<lambda>kv. JStr (fst kv)) b"
      "grouped_bars (map (\<lambda>kv. JStr (fst kv)) v) (JObj v) = Inr vb" "br_labels vb = map (\<lambda>kv. JStr (fst kv)) v"
    using grouped_bars_total [OF b_def] grouped_bars_total [OF v_def] by blast
  obtain brows vrows where rows: "map_res (profile_row rep) b = Inr brows" "length brows = length b"
      "map_res (profile_row rep) v = Inr vrows" "length vrows = length v"
    using profile_rows_total [of rep sm_branch_id ss] profile_rows_total [of rep sm_venue_id ss] by (auto simp: b_def v_def)
  obtain hl where hl: "report_head rep doc = Inr hl" "length hl = 19" using head by blast
  have "\<exists>txt. render_report rep doc = Inr ([bb, vb], txt) \<and> length txt = 31 + length b + length v"
    using items(1-3) bars rows hl v0 by (simp add: render_report_def jitems_def report_tail_def)
  then show ?thesis
    using items(1,2,4) len bars(2,4) counted_grouped [of _ ss] grouped_stats_keys [of sm_venue_id ss] ids
    by (simp add: b_def v_def) blast
qed

end
