(* ===== verification/Provenance.thy ===== *)
theory Provenance
  imports Backup Deploy Gate_Sim Reconcile "HOL-Library.List_Lexorder" "HOL-Library.Char_ord" "HOL-Library.Product_Lexorder"
begin

section \<open>Provenance, evidence inspection and source policy\<close>

text \<open>
  \<open>scripts/operations/generate_sbom.py\<close>, \<open>scripts/operations/inspect_evidence.py\<close>,
  \<open>scripts/check_no_comments.py\<close>, \<open>scripts/check_hardware_response.py\<close> and \<open>sitecustomize.py\<close>. A
  directory walk is the list of the regular files it finds, in any order, as relative path and
  content; the decoded lock file is a value of the same shape as JSON. Parameters: \<open>sha\<close> for the
  hexadecimal SHA-256 of a content, \<open>loads\<close> for \<open>json.loads\<close>, \<open>rep\<close> for the text of floats and
  containers.
\<close>

subsection \<open>Source digest\<close>

text \<open>\<open>n.to_bytes(w, "big")\<close> of a number that is not negative.\<close>

definition to_bytes :: "int \<Rightarrow> nat \<Rightarrow> exn + bytes" where
  "to_bytes n w = (if n < 256 ^ w then Inr (be_bytes w n) else Inl (OverflowError ''int too big to convert''))"

definition excluded_parts :: "string list" where
  "excluded_parts = [''build'', ''target'', ''_build'', ''.git'', ''__pycache__'']"

text \<open>The parts of a file's path are those of the (absolute) root followed by the relative ones.\<close>

definition included :: "path \<Rightarrow> path \<Rightarrow> bool" where
  "included root_parts relative \<longleftrightarrow> \<not> (\<exists>part \<in> set (root_parts @ relative). part \<in> set excluded_parts)"

definition file_frame :: "path \<times> bytes \<Rightarrow> exn + bytes" where
  "file_frame = (\<lambda>(p, payload).
     let relative = utf8_encode (as_posix p)
     in res_bind (to_bytes (int (length relative)) 4) (\<lambda>path_size.
        res_bind (to_bytes (int (length payload)) 8) (\<lambda>payload_size.
          Inr (path_size @ relative @ payload_size @ payload))))"

text \<open>Everything the hash is updated with, in order.\<close>

definition source_stream :: "path \<Rightarrow> (path \<times> bytes) list \<Rightarrow> exn + bytes" where
  "source_stream root_parts files =
     map_sum id concat (map_res file_frame
       (sort_key fst (filter (\<lambda>f. included root_parts (fst f)) files)))"

definition source_digest :: "(bytes \<Rightarrow> string) \<Rightarrow> path \<Rightarrow> (path \<times> bytes) list \<Rightarrow> exn + string" where
  "source_digest sha root_parts files = map_sum id sha (source_stream root_parts files)"

subsection \<open>Components\<close>

definition str_field :: "(string, json) dict \<Rightarrow> string \<Rightarrow> (string \<times> json) list" where
  "str_field d k = (case get_default d k JNull of JStr s \<Rightarrow> [(k, JStr s)] | _ \<Rightarrow> [])"

definition component_of :: "json \<Rightarrow> exn + json" where
  "component_of package =
     (case package of
        JObj d \<Rightarrow>
          if str_field d ''name'' = [] \<or> str_field d ''version'' = [] then Inl (ProvenanceError ''package_invalid'')
          else Inr (JObj (str_field d ''name'' @ str_field d ''version'' @ str_field d ''source'' @ str_field d ''checksum''))
      | _ \<Rightarrow> Inl (ProvenanceError ''package_invalid''))"

definition component_key :: "json \<Rightarrow> string \<times> string" where
  "component_key c =
     (case c of
        JObj d \<Rightarrow> (py_str (\<lambda>_. []) (get_default d ''name'' JNull), py_str (\<lambda>_. []) (get_default d ''version'' JNull))
      | _ \<Rightarrow> ([], []))"

definition rust_components :: "exn + json \<Rightarrow> exn + json list" where
  "rust_components lockfile =
     (case lockfile of
        Inl (OSError m) \<Rightarrow> Inl (ProvenanceError (''lockfile_invalid:'' @ m))
      | Inl (TOMLDecodeError m) \<Rightarrow> Inl (ProvenanceError (''lockfile_invalid:'' @ m))
      | Inl e \<Rightarrow> Inl e
      | Inr data \<Rightarrow>
          res_bind (jget data ''package'' (JArr [])) (\<lambda>packages.
          res_bind (iter_items packages) (\<lambda>items.
          res_bind (map_res component_of items) (\<lambda>components. Inr (sort_key component_key components)))))"

definition build_document :: "(bytes \<Rightarrow> string) \<Rightarrow> path \<Rightarrow> (path \<times> bytes) list \<Rightarrow> (exn + json) option \<Rightarrow> exn + json" where
  "build_document sha root_parts files lockfile =
     (case lockfile of
        None \<Rightarrow> Inl (ProvenanceError ''lockfile_missing'')
      | Some content \<Rightarrow>
          res_bind (source_digest sha root_parts files) (\<lambda>digest.
          res_bind (rust_components content) (\<lambda>components.
            Inr (JObj
              [(''format'', JInt 1), (''type'', JStr ''ito-release-provenance''), (''source_sha256'', JStr digest),
               (''components'', JArr components),
               (''system_dependencies'', JArr (map JStr [''c++20'', ''openssl'', ''ocaml'', ''iverilog'', ''python3'']))]))))"

subsection \<open>Evidence inspection\<close>

definition expected_pnl :: "(string \<times> int) list" where
  "expected_pnl = [(''net_position'', 6), (''gross_position'', 6), (''gross_notional_ticks'', 690),
     (''realized_pnl_ticks'', 80), (''unrealized_pnl_ticks'', 90), (''loss_ticks'', - 170)]"

definition dict_values :: "json \<Rightarrow> exn + json list" where
  "dict_values v = (case v of JObj d \<Rightarrow> Inr (map snd d) | _ \<Rightarrow> Inl (AttributeError ''values''))"

text \<open>\<open>str(Path(s))\<close>.\<close>

definition path_text :: "string \<Rightarrow> string" where
  "path_text s =
     (if \<not> is_absolute s then as_posix (parse_path s)
      else (if take 2 s = ''//'' \<and> take 3 s \<noteq> ''///'' then ''//'' else ''/'') @ py_join ''/'' (parse_path s))"

text \<open>
  One file of the manifest: \<open>source\<close> and \<open>restored\<close> read the file of that path below the root and below
  the restored directory.
\<close>

definition recovery_check :: "(bytes \<Rightarrow> string) \<Rightarrow> (string \<Rightarrow> exn + bytes) \<Rightarrow> (string \<Rightarrow> exn + bytes) \<Rightarrow> json \<Rightarrow> exn + string \<times> bool" where
  "recovery_check sha source restored item =
     res_bind (jitem item ''path'') (\<lambda>path_value. case path_value of
        JStr s \<Rightarrow>
          res_bind (source s) (\<lambda>source_data.
          res_bind (restored s) (\<lambda>restored_data.
          res_bind (jitem item ''sha256'') (\<lambda>sha256.
            if \<not> (json_eq (JStr (sha source_data)) sha256 \<and> json_eq sha256 (JStr (sha restored_data)))
            then Inr (path_text s, False)
            else res_bind (jitem item ''size'') (\<lambda>size.
              Inr (path_text s, json_eq (JInt (int (length source_data))) size
                                \<and> json_eq (JInt (int (length restored_data))) size)))))
      | _ \<Rightarrow> Inl (TypeError ''argument should be a str''))"

fun recovery_checks :: "(json \<Rightarrow> exn + string \<times> bool) \<Rightarrow> json list \<Rightarrow> (string, bool) dict \<Rightarrow> exn + (string, bool) dict" where
  "recovery_checks check [] d = Inr d"
| "recovery_checks check (item # items) d =
     res_bind (check item) (\<lambda>(k, b). recovery_checks check items (AList.update k b d))"

definition flags_json :: "(string, bool) dict \<Rightarrow> json" where
  "flags_json d = JObj (map (\<lambda>(k, b). (k, JBool b)) d)"

definition inspect_portfolio :: "json \<Rightarrow> exn + json \<times> (string, bool) dict" where
  "inspect_portfolio snap =
     res_bind (map_res (\<lambda>(name, value). res_bind (jget snap name JNull) (\<lambda>v. Inr (name, json_eq v (JInt value)))) expected_pnl)
       (\<lambda>checks.
        if \<not> (\<forall>c \<in> set checks. snd c) then Inl (EvidenceError ''portfolio_pnl_mismatch'')
        else res_bind (jitem snap ''limits_breached'') (\<lambda>limits.
             res_bind (dict_values limits) (\<lambda>flags.
               if \<exists>v \<in> set flags. truthy v then Inl (EvidenceError ''portfolio_limit_breach'') else Inr (limits, checks))))"

text \<open>
  \<open>extractfile\<close> of a member: \<open>None\<close> for a directory or a device, which has no \<open>read\<close>; the data of a
  link are those of the member it points to.
\<close>

definition read_member :: "member \<Rightarrow> exn + bytes" where
  "read_member m = (if mb_kind m = OtherKind then Inl (AttributeError ''read'') else Inr (mb_data m))"

definition inspect :: "(bytes \<Rightarrow> exn + json) \<Rightarrow> (bytes \<Rightarrow> string) \<Rightarrow> exn + json \<Rightarrow> exn + member list
    \<Rightarrow> (string \<Rightarrow> exn + bytes) \<Rightarrow> (string \<Rightarrow> exn + bytes) \<Rightarrow> exn + json" where
  "inspect loads sha snapshot_source archive_source source restored =
     res_bind snapshot_source (\<lambda>snap.
     res_bind (inspect_portfolio snap) (\<lambda>(limits, pnl_checks).
     res_bind archive_source (\<lambda>archive.
     res_bind (get_member archive ''manifest.json'') (\<lambda>m.
     res_bind (read_member m) (\<lambda>data.
     res_bind (loads data) (\<lambda>manifest_value.
     res_bind (jitem manifest_value ''files'') (\<lambda>files_value.
     res_bind (iter_items files_value) (\<lambda>items.
     res_bind (recovery_checks (recovery_check sha source restored) items []) (\<lambda>checks.
       if \<not> (\<forall>c \<in> set checks. snd c) then Inl (EvidenceError ''recovery_manifest_mismatch'')
       else res_bind (jitem manifest_value ''format'') (\<lambda>format.
         Inr (JObj
           [(''portfolio'', JObj [(''checks'', flags_json pnl_checks), (''limits_breached'', limits), (''status'', JStr ''passed'')]),
            (''recovery'', JObj [(''manifest_format'', format), (''files'', flags_json checks), (''status'', JStr ''passed'')])])))))))))))"

subsection \<open>Source policy\<close>

text \<open>\<open>Path.suffix\<close>: from the last dot of the name, unless it is the first or last character.\<close>

definition path_suffix :: "path \<Rightarrow> string" where
  "path_suffix p =
     (if p = [] then []
      else let name = last p; ext = takeWhile (\<lambda>c. c \<noteq> CHR ''.'') (rev name)
           in if CHR ''.'' \<in> set name \<and> ext \<noteq> [] \<and> length ext + 1 < length name then CHR ''.'' # rev ext else [])"

definition policy_roots :: "string list" where
  "policy_roots = [''apps'', ''cpp'', ''rust'', ''ocaml'', ''rtl'', ''python'', ''interfaces'', ''tests'']"

definition comment_in :: "string \<Rightarrow> string \<Rightarrow> bool" where
  "comment_in ext line \<longleftrightarrow>
     (if ext \<in> {''.ml'', ''.mli''} then occurs_in ''(*'' line \<or> occurs_in ''*)'' line
      else if ext = ''.py'' then (case dropWhile is_space line of c # _ \<Rightarrow> c = CHR ''#'' | [] \<Rightarrow> False)
      else occurs_in ''//'' line \<or> occurs_in ''/*'' line \<or> occurs_in ''*/'' line)"

definition policy_extensions :: "string list" where
  "policy_extensions = [''.cpp'', ''.hpp'', ''.h'', ''.rs'', ''.ml'', ''.mli'', ''.sv'', ''.v'', ''.py'']"

definition scanned :: "path \<Rightarrow> bool" where
  "scanned p \<longleftrightarrow> path_suffix p \<in> set policy_extensions \<and> ''_build'' \<notin> set p \<and> ''build'' \<notin> set p"

definition file_failures :: "path \<Rightarrow> string \<Rightarrow> string list" where
  "file_failures p text =
     map (\<lambda>(n, _). as_posix p @ '':'' @ str_of_int (int n))
       (filter (\<lambda>(_, line). comment_in (path_suffix p) line) (enumerate 1 (py_splitlines text)))"

text \<open>The files found below the existing roots, in the order of the walk; a file may be unreadable.\<close>

fun policy_failures :: "(path \<times> (exn + string)) list \<Rightarrow> exn + string list" where
  "policy_failures [] = Inr []"
| "policy_failures ((p, content) # files) =
     (if \<not> scanned p then policy_failures files
      else res_bind content (\<lambda>text. map_sum id (\<lambda>fs. file_failures p text @ fs) (policy_failures files)))"

definition check_no_comments :: "(path \<times> (exn + string)) list \<Rightarrow> exn + string list \<times> int" where
  "check_no_comments files =
     res_bind (policy_failures (filter (\<lambda>f. fst f \<noteq> [] \<and> hd (fst f) \<in> set policy_roots) files)) (\<lambda>failures.
       Inr (if failures \<noteq> [] then (''source_comments_found'' # [py_join newline failures], 1)
            else ([''no_source_comments''], 0)))"

subsection \<open>Hardware response and import paths\<close>

definition check_hardware_response :: "(json \<Rightarrow> string) \<Rightarrow> exn + json \<Rightarrow> exn + string \<times> int" where
  "check_hardware_response rep content =
     res_bind content (\<lambda>response.
     res_bind (jitem response ''frame_hex'') (\<lambda>frame.
     res_bind (jitem response ''response'') (\<lambda>inner.
     res_bind (jitem inner ''decision'') (\<lambda>decision.
       let frame_hex = py_str rep frame
       in Inr (if length frame_hex \<noteq> 128 \<or> odd (length frame_hex) then (''frame_size_invalid'', 1)
               else if \<not> json_eq decision (JStr ''Approved'') then (''decision_invalid'', 1)
               else (''hardware_response_valid'', 0))))))"

fun add_paths :: "string list \<Rightarrow> string list \<Rightarrow> string list" where
  "add_paths [] sys_path = sys_path"
| "add_paths (p # ps) sys_path = add_paths ps (if p \<notin> set sys_path then p # sys_path else sys_path)"

definition source_dirs :: "string \<Rightarrow> string list" where
  "source_dirs repo = map (\<lambda>d. repo @ ''/'' @ d)
     [''python/connectivity'', ''python/operations'', ''python/ops_tools'', ''python/reconciliation'', ''python/replay'',
      ''python/backtest'', ''python/portfolio'', ''scripts'', ''scripts/operations'']"

end
