(* ===== verification/Provenance_Props.thy ===== *)
theory Provenance_Props
  imports Provenance Backup_Props "HOL-Library.Multiset"
begin

section \<open>Correctness of provenance and evidence inspection\<close>

text \<open>
  The hashed stream of the source digest determines the files it was made from, because every file
  is framed with the lengths of its path and content; and the evidence inspection accepts what backup
  and restore leave.
\<close>

subsection \<open>Framed sequences\<close>

text \<open>
  An encoder whose results can be told apart when something follows them: then a sequence of encoded
  items determines the items.
\<close>

locale framed =
  fixes enc :: "'a \<Rightarrow> exn + 'b list" and good :: "'a \<Rightarrow> bool"
  assumes enc_prefix: "good x \<Longrightarrow> good y \<Longrightarrow> enc x = Inr a \<Longrightarrow> enc y = Inr b \<Longrightarrow> a @ s = b @ t \<Longrightarrow> x = y \<and> s = t"
    and enc_nonempty: "enc x = Inr a \<Longrightarrow> a \<noteq> []"
begin

lemma concat_inj:
  assumes "\<forall>x \<in> set xs. good x" "\<forall>y \<in> set ys. good y"
    and "map_res enc xs = Inr as" "map_res enc ys = Inr bs" "concat as = concat bs"
  shows "xs = ys"
  using assms
proof (induction xs arbitrary: ys as bs)
  case Nil
  then show ?case by (cases ys) (auto simp: res_bind_eq_Inr dest: enc_nonempty)
next
  case (Cons x xs)
  from Cons.prems(3) obtain a as' where a: "enc x = Inr a" "map_res enc xs = Inr as'" "as = a # as'"
    by (auto simp: res_bind_eq_Inr)
  then obtain y ys' where ys: "ys = y # ys'" using Cons.prems(4,5) enc_nonempty [OF a(1)] by (cases ys) auto
  with Cons.prems(4) obtain b bs' where b: "enc y = Inr b" "map_res enc ys' = Inr bs'" "bs = b # bs'"
    by (auto simp: res_bind_eq_Inr)
  have "a @ concat as' = b @ concat bs'" using Cons.prems(5) a b by simp
  then have "x = y" "concat as' = concat bs'" using enc_prefix [OF _ _ a(1) b(1)] Cons.prems(1,2) ys by auto
  then show ?case using Cons.IH [OF _ _ a(2) b(2)] Cons.prems(1,2) ys by simp
qed

end

subsection \<open>Encodings of paths and lengths\<close>

lemma utf8_encode_inj: "utf8_encode s = utf8_encode t \<Longrightarrow> s = t"
  by (metis option.inject utf8_decode_encode)

text \<open>A length in a fixed number of bytes, followed by as many bytes.\<close>

lemma sized_prefix:
  assumes "to_bytes (int (length a)) w = Inr x" "to_bytes (int (length b)) w = Inr y" "x @ a @ s = y @ b @ t"
  shows "a = b \<and> s = t"
proof -
  have xy: "x = be_bytes w (int (length a))" "int (length a) < 256 ^ w" "y = be_bytes w (int (length b))" "int (length b) < 256 ^ w"
    using assms(1,2) by (auto simp: to_bytes_def split: if_splits)
  then have "length x = length y" by simp
  then have "x = y" "a @ s = b @ t" using assms(3) append_eq_append_conv by blast+
  moreover have "be_val x = int (length a)" unfolding xy(1) by (rule be.dec_enc_id) (simp_all only: xy(2) of_nat_0_le_iff)
  moreover have "be_val y = int (length b)" unfolding xy(3) by (rule be.dec_enc_id) (simp_all only: xy(4) of_nat_0_le_iff)
  ultimately have "length a = length b" by simp
  with \<open>a @ s = b @ t\<close> show ?thesis by simp
qed

definition valid_path :: "path \<Rightarrow> bool" where
  "valid_path p \<longleftrightarrow> p \<noteq> [] \<and> (\<forall>c \<in> set p. valid_part c)"

lemma as_posix_inj: "valid_path p \<Longrightarrow> valid_path q \<Longrightarrow> as_posix p = as_posix q \<Longrightarrow> p = q"
  using parse_as_posix(1) unfolding valid_path_def by metis

interpretation files: framed file_frame "\<lambda>f. valid_path (fst f)"
proof
  fix f g :: "path \<times> bytes" and a b s t
  assume v: "valid_path (fst f)" "valid_path (fst g)" and e: "file_frame f = Inr a" "file_frame g = Inr b" and eq: "a @ s = b @ t"
  obtain x y where a: "a = x @ utf8_encode (as_posix (fst f)) @ y @ snd f" "to_bytes (int (length (utf8_encode (as_posix (fst f))))) 4 = Inr x"
    "to_bytes (int (length (snd f))) 8 = Inr y" using e(1) by (auto simp: file_frame_def res_bind_eq_Inr split_beta Let_def)
  obtain x' y' where b: "b = x' @ utf8_encode (as_posix (fst g)) @ y' @ snd g" "to_bytes (int (length (utf8_encode (as_posix (fst g))))) 4 = Inr x'"
    "to_bytes (int (length (snd g))) 8 = Inr y'" using e(2) by (auto simp: file_frame_def res_bind_eq_Inr split_beta Let_def)
  have "utf8_encode (as_posix (fst f)) = utf8_encode (as_posix (fst g)) \<and> y @ snd f @ s = y' @ snd g @ t"
    using sized_prefix [OF a(2) b(2)] eq a(1) b(1) by simp
  with sized_prefix [OF a(3) b(3)] utf8_encode_inj as_posix_inj [OF v] show "f = g \<and> s = t" by (metis prod_eqI)
next
  fix f :: "path \<times> bytes" and a assume "file_frame f = Inr a"
  then show "a \<noteq> []" by (auto simp: file_frame_def res_bind_eq_Inr split_beta Let_def to_bytes_def split: if_splits dest: arg_cong [of _ "[]" length])
qed

subsection \<open>The source digest\<close>

definition tree_ok :: "(path \<times> bytes) list \<Rightarrow> bool" where
  "tree_ok files \<longleftrightarrow> wf_dict files \<and> (\<forall>f \<in> set files. valid_path (fst f))"

definition included_files :: "path \<Rightarrow> (path \<times> bytes) list \<Rightarrow> (path \<times> bytes) set" where
  "included_files r files = {f \<in> set files. included r (fst f)}"

lemma sort_by_path_cong:
  assumes "wf_dict xs" "wf_dict ys" "set xs = set ys"
  shows "sort_key fst xs = sort_key fst ys"
proof (rule sort_key_inj_key_eq)
  show "mset xs = mset (sort_key fst ys)" using assms by (simp add: distinct_map flip: set_eq_iff_mset_eq_distinct)
  show "inj_on fst (set xs)" using assms(1) by (simp add: distinct_map)
qed simp

lemma source_stream_eq_iff:
  assumes ok: "tree_ok files" "tree_ok files'"
    and s: "source_stream r files = Inr s" "source_stream r' files' = Inr s'"
  shows "s = s' \<longleftrightarrow> included_files r files = included_files r' files'"
proof -
  define xs ys where "xs = filter (\<lambda>f. included r (fst f)) files" and "ys = filter (\<lambda>f. included r' (fst f)) files'"
  have wf: "wf_dict xs" "wf_dict ys" "\<forall>x \<in> set xs. valid_path (fst x)" "\<forall>y \<in> set ys. valid_path (fst y)"
    using ok by (auto simp: xs_def ys_def tree_ok_def distinct_map_filter)
  have sets: "set xs = included_files r files" "set ys = included_files r' files'"
    by (auto simp: xs_def ys_def included_files_def)
  obtain as where a: "map_res file_frame (sort_key fst xs) = Inr as" "s = concat as"
    using s(1) by (cases "map_res file_frame (sort_key fst xs)") (auto simp: source_stream_def xs_def)
  obtain bs where b: "map_res file_frame (sort_key fst ys) = Inr bs" "s' = concat bs"
    using s(2) by (cases "map_res file_frame (sort_key fst ys)") (auto simp: source_stream_def ys_def)
  show ?thesis
  proof
    assume "s = s'"
    then have "sort_key fst xs = sort_key fst ys" using files.concat_inj [OF _ _ a(1) b(1)] wf(3,4) a(2) b(2) by simp
    then show "included_files r files = included_files r' files'" using sets set_sort by metis
  next
    assume "included_files r files = included_files r' files'"
    then show "s = s'" using sort_by_path_cong [OF wf(1,2)] sets a b by simp
  qed
qed

text \<open>
  C37. The source digest identifies the sources: for two trees whose digests can be computed, and as
  long as the hash does not collide on the two streams, the digests are equal exactly when the same
  files (paths and contents) are included; in particular neither the order in which the directory
  walk finds the files nor a shift of bytes between paths and contents matters.
\<close>

theorem source_digest_identifies_sources:
  assumes "tree_ok files" "tree_ok files'"
    and "source_digest sha r files = Inr d" "source_digest sha r' files' = Inr d'"
    and "\<forall>s s'. source_stream r files = Inr s \<and> source_stream r' files' = Inr s' \<and> sha s = sha s' \<longrightarrow> s = s'"
  shows "d = d' \<longleftrightarrow> included_files r files = included_files r' files'"
proof -
  obtain s s' where s: "source_stream r files = Inr s" "source_stream r' files' = Inr s'" "d = sha s" "d' = sha s'"
    using assms(3,4) by (cases "source_stream r files"; cases "source_stream r' files'") (auto simp: source_digest_def)
  with assms(5) have "d = d' \<longleftrightarrow> s = s'" by auto
  then show ?thesis using source_stream_eq_iff [OF assms(1,2) s(1,2)] by simp
qed

text \<open>Below a directory with an excluded name the digest covers nothing.\<close>

lemma excluded_root_hides_sources:
  assumes "set r \<inter> set excluded_parts \<noteq> {}"
  shows "source_digest sha r files = Inr (sha [])"
proof -
  have "filter (\<lambda>f. included r (fst f)) files = []" using assms by (auto simp: included_def filter_empty_conv)
  then show ?thesis by (simp add: source_digest_def source_stream_def)
qed

subsection \<open>Components\<close>

lemma rust_components_sorted:
  assumes "rust_components lockfile = Inr cs"
  shows "sorted (map component_key cs) \<and> (\<forall>c \<in> set cs. \<exists>d n v. c = JObj d \<and> map_of d ''name'' = Some (JStr n) \<and> map_of d ''version'' = Some (JStr v))"
proof -
  obtain items comps where c: "map_res component_of items = Inr comps" "cs = sort_key component_key comps"
    using assms by (auto simp: rust_components_def res_bind_eq_Inr split: sum.splits exn.splits)
  have "\<exists>d n v. c = JObj d \<and> map_of d ''name'' = Some (JStr n) \<and> map_of d ''version'' = Some (JStr v)" if m: "c \<in> set comps" for c
  proof -
    obtain i where "component_of i = Inr c"
      using c(1) m unfolding map_res_eq_Inr list_all2_conv_all_nth in_set_conv_nth by metis
    then show ?thesis by (auto simp: component_of_def str_field_def split: json.splits if_splits)
  qed
  with c(2) show ?thesis by simp
qed

text \<open>A comment after code passes the policy check of Python files.\<close>

lemma trailing_comment_not_found: "\<not> comment_in ''.py'' ''x = 3  # OrderSent''" "comment_in ''.py'' ''  # OrderSent''"
  by (simp_all add: comment_in_def is_space_def)

lemma add_paths_all: "set (add_paths ps sys) = set ps \<union> set sys" "distinct sys \<Longrightarrow> distinct (add_paths ps sys)"
  by (induction ps arbitrary: sys) auto

lemma add_paths_idem: "add_paths ps (add_paths ps sys) = add_paths ps sys"
proof -
  have "set ps \<subseteq> set xs \<Longrightarrow> add_paths ps xs = xs" for xs by (induction ps arbitrary: xs) auto
  then show ?thesis by (simp add: add_paths_all)
qed

subsection \<open>Evidence inspection\<close>

text \<open>Reading the file of a relative path below a directory with the given files.\<close>

definition read_below :: "(path, bytes) dict \<Rightarrow> string \<Rightarrow> exn + bytes" where
  "read_below files s = (case map_of files (parse_path s) of Some d \<Rightarrow> Inr d | None \<Rightarrow> Inl (OSError ''no such file''))"

definition same_evidence :: "(bytes \<Rightarrow> string) \<Rightarrow> (path, bytes) dict \<Rightarrow> path \<times> bytes \<Rightarrow> bool" where
  "same_evidence sha rt = (\<lambda>(p, d). \<exists>d'. map_of rt p = Some d' \<and> sha d' = sha d \<and> length d' = length d)"

lemma recovery_check_manifest:
  assumes "p \<noteq> []" "\<forall>c \<in> set p. valid_part c" "map_of files p = Some d" "has_key rt p"
  shows "recovery_check sha (read_below files) (read_below rt) (read_entry sha (p, d)) = Inr (as_posix p, same_evidence sha rt (p, d))"
proof -
  note pp = parse_as_posix [OF assms(1,2)]
  obtain d' where d': "map_of rt p = Some d'" using assms(4) by auto
  then have s: "same_evidence sha rt (p, d) \<longleftrightarrow> sha d' = sha d \<and> length d' = length d" by (simp add: same_evidence_def)
  have "path_text (as_posix p) = as_posix p" using pp(1,2) by (simp add: path_text_def)
  with pp(1) d' assms(3) show ?thesis unfolding s
    by (auto simp: recovery_check_def read_entry_items read_below_def json_eq_def)
qed

lemma recovery_checks_distinct:
  assumes "\<forall>i \<in> set items. check (entry i) = Inr (key i, ok i)" "distinct (map key items)" "set (map key items) \<inter> fst ` set d = {}"
  shows "recovery_checks check (map entry items) d = Inr (d @ map (\<lambda>i. (key i, ok i)) items)"
  using assms
proof (induction items arbitrary: d)
  case (Cons i items)
  have "AList.update (key i) (ok i) d = d @ [(key i, ok i)]"
    using Cons.prems(3) by (intro update_new_key) auto
  moreover have "recovery_checks check (map entry items) (d @ [(key i, ok i)]) = Inr ((d @ [(key i, ok i)]) @ map (\<lambda>i. (key i, ok i)) items)"
    using Cons.prems by (intro Cons.IH) auto
  ultimately show ?case using Cons.prems(1) by simp
qed simp

lemma inspect_backup:
  assumes "backup_ok files" and "inspect_portfolio snap = Inr (limits, checks)" and "\<forall>p \<in> fst ` set files. has_key rt p"
  shows "raised (inspect json_loads_bytes sha (Inr snap) (Inr (backup (manifest_dumps frep) sha rname files)) (read_below files) (read_below rt))
     \<longleftrightarrow> \<not> (\<forall>f \<in> set files. same_evidence sha rt f)"
proof -
  have ok: "wf_dict files" "\<forall>p \<in> fst ` set files. p \<noteq> [] \<and> (\<forall>c \<in> set p. valid_part c)" using assms(1) by (simp_all add: backup_ok_def)
  have rc: "recovery_check sha (read_below files) (read_below rt) (read_entry sha f) = Inr (as_posix (fst f), same_evidence sha rt f)"
    if "f \<in> set files" for f
    using recovery_check_manifest [of "fst f" files "snd f" rt sha] ok assms(3) that by force
  have "inj_on as_posix (fst ` set files)"
    by (rule inj_on_inverseI [where g = parse_path]) (use ok(2) parse_as_posix(1) in blast)
  then have dis: "distinct (map (\<lambda>f. as_posix (fst f)) files)"
    using ok(1) by (auto simp: distinct_map comp_inj_on_iff comp_def dest: comp_inj_on)
  have "recovery_checks (recovery_check sha (read_below files) (read_below rt)) (map (read_entry sha) files) []
      = Inr (map (\<lambda>f. (as_posix (fst f), same_evidence sha rt f)) files)"
    using recovery_checks_distinct [where d = "[]", OF _ dis] rc by simp
  then show ?thesis
    using assms(2) restored_names [OF assms(1), of "manifest_dumps frep" sha rname]
    by (simp add: inspect_def read_member_def manifest_survives read_manifest_items)
qed


end
