(* ===== verification/Collect.thy ===== *)
theory Collect
  imports Backup "HOL-Library.Sublist" "HOL-Library.List_Lexorder" "HOL-Library.Char_ord"
begin

section \<open>Collecting the files of a backup\<close>

text \<open>
  The first half of \<open>scripts/operations/backup_restore.py\<close>: \<open>relative_path\<close>, \<open>ensure_within_root\<close>,
  \<open>collect\<close> and \<open>backup\<close> on a file system with symbolic links. Absolute paths are the lists of their
  parts below \<open>/\<close>. The file system maps the canonical path of every entry to its node; it has no bind
  mounts, so that \<open>os.path.samefile\<close> compares canonical paths, and every entry may be read. \<open>walk\<close> is
  the kernel's path resolution with its limit of 40 links and \<open>realpath\<close> the one of the library, which
  keeps parts that do not exist (it too stops following links after 40).
\<close>

subsection \<open>File system\<close>

datatype node = FileNode bytes | DirNode | LinkNode bool path | OtherNode

type_synonym fs = "(path, node) dict"

text \<open>A link holds whether its target is absolute, and the parts of the target.\<close>

fun walk :: "fs \<Rightarrow> nat \<Rightarrow> path \<Rightarrow> path \<Rightarrow> path option" where
  "walk fs n base [] = Some base"
| "walk fs n base (c # rest) =
     (if c = ''..'' then walk fs n (butlast base) rest
      else case map_of fs (base @ [c]) of
          None \<Rightarrow> None
        | Some DirNode \<Rightarrow> walk fs n (base @ [c]) rest
        | Some (LinkNode absolute target) \<Rightarrow>
            (case n of 0 \<Rightarrow> None | Suc n \<Rightarrow> walk fs n (if absolute then [] else base) (target @ rest))
        | Some _ \<Rightarrow> if rest = [] then Some (base @ [c]) else None)"

fun real_walk :: "fs \<Rightarrow> nat \<Rightarrow> path \<Rightarrow> path \<Rightarrow> path" where
  "real_walk fs n base [] = base"
| "real_walk fs n base (c # rest) =
     (if c = ''..'' then real_walk fs n (butlast base) rest
      else case map_of fs (base @ [c]) of
          Some (LinkNode absolute target) \<Rightarrow>
            (case n of 0 \<Rightarrow> base @ c # rest | Suc n \<Rightarrow> real_walk fs n (if absolute then [] else base) (target @ rest))
        | _ \<Rightarrow> real_walk fs n (base @ [c]) rest)"

definition lookup :: "fs \<Rightarrow> path \<Rightarrow> path option" where
  "lookup fs p = walk fs 40 [] p"

definition realpath :: "fs \<Rightarrow> path \<Rightarrow> path" where
  "realpath fs p = real_walk fs 40 [] p"

definition exists_at :: "fs \<Rightarrow> path \<Rightarrow> bool" where
  "exists_at fs p \<longleftrightarrow> lookup fs p \<noteq> None"

definition read_file :: "fs \<Rightarrow> path \<Rightarrow> exn + bytes" where
  "read_file fs p =
     (case lookup fs p of
        Some q \<Rightarrow> (case map_of fs q of Some (FileNode d) \<Rightarrow> Inr d | _ \<Rightarrow> Inl (OSError ''not a regular file''))
      | None \<Rightarrow> Inl (OSError ''no such file''))"

definition is_file_at :: "fs \<Rightarrow> path \<Rightarrow> bool" where
  "is_file_at fs p \<longleftrightarrow> \<not> raised (read_file fs p)"

definition is_symlink_at :: "fs \<Rightarrow> path \<Rightarrow> bool" where
  "is_symlink_at fs p \<longleftrightarrow> p \<noteq> [] \<and>
     (case lookup fs (butlast p) of
        Some d \<Rightarrow> (case map_of fs (d @ [last p]) of Some (LinkNode _ _) \<Rightarrow> True | _ \<Rightarrow> False)
      | None \<Rightarrow> False)"

definition samefile :: "fs \<Rightarrow> path \<Rightarrow> path \<Rightarrow> exn + bool" where
  "samefile fs p q =
     (case (lookup fs p, lookup fs q) of
        (Some a, Some b) \<Rightarrow> Inr (a = b)
      | _ \<Rightarrow> Inl (OSError ''no such file''))"

text \<open>\<open>rglob\<close>: all entries below the directory; it does not descend into linked directories.\<close>

definition rglob :: "fs \<Rightarrow> path \<Rightarrow> path list" where
  "rglob fs p =
     (case lookup fs p of
        Some d \<Rightarrow> map (\<lambda>q. p @ drop (length d) q) (filter (strict_prefix d) (map fst fs))
      | None \<Rightarrow> [])"

subsection \<open>Paths relative to the root\<close>

definition path_str :: "path \<Rightarrow> string" where
  "path_str p = ''/'' @ py_join ''/'' p"

definition abspath :: "path \<Rightarrow> path" where
  "abspath p = foldl (\<lambda>acc c. if c = ''..'' then butlast acc else acc @ [c]) [] p"

definition relpath :: "path \<Rightarrow> path \<Rightarrow> path" where
  "relpath p start =
     (let i = length (longest_common_prefix p start)
      in replicate (length start - i) ''..'' @ drop i p)"

text \<open>The \<open>as_posix\<close> of the result is taken where the name is written.\<close>

definition relative_path :: "fs \<Rightarrow> path \<Rightarrow> path \<Rightarrow> exn + path" where
  "relative_path fs r p =
     (let relative = (if prefix r p then drop (length r) p
                      else relpath (realpath fs (abspath p)) (realpath fs (abspath r)))
      in if take 1 relative = [''..''] then Inl (BackupError (''outside_root:'' @ path_str p)) else Inr relative)"

text \<open>The loop of \<open>ensure_within_root\<close>: up from \<open>current\<close> until the root or \<open>/\<close> is met.\<close>

partial_function (option) climb :: "(path \<Rightarrow> exn + bool) \<Rightarrow> path \<Rightarrow> (exn + bool) option" where
  "climb same current =
     (case same current of
        Inl e \<Rightarrow> Some (Inl e)
      | Inr found \<Rightarrow>
          if found then Some (Inr True)
          else if butlast current = current then Some (Inr False)
          else climb same (butlast current))"

definition ensure_within_root :: "fs \<Rightarrow> path \<Rightarrow> path \<Rightarrow> (exn + unit) option" where
  "ensure_within_root fs r p =
     (case climb (\<lambda>current. samefile fs current (realpath fs r)) (realpath fs p) of
        None \<Rightarrow> None
      | Some (Inr True) \<Rightarrow> Some (Inr ())
      | Some _ \<Rightarrow> Some (Inl (BackupError (''outside_root:'' @ path_str p))))"

subsection \<open>Collect and backup\<close>

definition default_paths :: "string list" where
  "default_paths = [''config'', ''interfaces'', ''infra'', ''docs/production/readiness_matrix.json'']"

text \<open>The files a requested entry adds, once it has passed the checks.\<close>

definition files_of :: "fs \<Rightarrow> path \<Rightarrow> path list" where
  "files_of fs candidate =
     (if is_file_at fs candidate then [candidate]
      else filter (\<lambda>p. is_file_at fs p \<and> \<not> is_symlink_at fs p) (rglob fs candidate))"

fun collect_loop :: "fs \<Rightarrow> path \<Rightarrow> string list \<Rightarrow> path list \<Rightarrow> (exn + path list) option" where
  "collect_loop fs r [] files = Some (Inr files)"
| "collect_loop fs r (value # rest) files =
     (case safe_relative value of
        Inl e \<Rightarrow> Some (Inl e)
      | Inr relative \<Rightarrow>
          let candidate = r @ relative
          in if \<not> exists_at fs candidate then Some (Inl (BackupError (''missing_path:'' @ value)))
             else case ensure_within_root fs r candidate of
                 None \<Rightarrow> None
               | Some (Inl e) \<Rightarrow> Some (Inl e)
               | Some (Inr _) \<Rightarrow>
                   if is_symlink_at fs candidate then Some (Inl (BackupError (''unsupported_source:'' @ value)))
                   else collect_loop fs r rest (List.union files (files_of fs candidate)))"

definition collect :: "fs \<Rightarrow> path \<Rightarrow> string list \<Rightarrow> (exn + path list) option" where
  "collect fs r requested =
     map_option (map_sum id (\<lambda>files. sort (remdups files)))
       (collect_loop fs r (if requested = [] then default_paths else requested) [])"

definition collected_files :: "fs \<Rightarrow> path \<Rightarrow> path list \<Rightarrow> exn + (path \<times> bytes) list" where
  "collected_files fs r files =
     map_res (\<lambda>p. res_bind (relative_path fs r p) (\<lambda>relative.
                  res_bind (read_file fs p) (\<lambda>data. Inr (relative, data)))) files"

definition root_name :: "path \<Rightarrow> string" where
  "root_name r = (if r = [] then [] else last r)"

text \<open>
  The whole of \<open>backup\<close>: the archive replaces the earlier one at the output path only once it is
  complete.
\<close>

definition backup_run :: "(json \<Rightarrow> bytes) \<Rightarrow> (bytes \<Rightarrow> string) \<Rightarrow> fs \<Rightarrow> path \<Rightarrow> string list \<Rightarrow> member list option
    \<Rightarrow> (member list option, unit) outcome option" where
  "backup_run dumps sha fs r requested earlier =
     (case collect fs r requested of
        None \<Rightarrow> None
      | Some collected \<Rightarrow>
          Some (case res_bind collected (collected_files fs r) of
                  Inl e \<Rightarrow> (Inl e, earlier)
                | Inr files \<Rightarrow> (Inr (), Some (backup dumps sha (root_name r) files))))"

end
