(* ===== verification/Collect_Props.thy ===== *)
theory Collect_Props
  imports Collect Backup_Props
begin

section \<open>Correctness of the collection of backup files\<close>

text \<open>
  Collecting always ends, takes exactly the regular files below the requested entries and none that
  lies outside the root, whatever symbolic links the tree holds; and the archive made of them restores
  to the same relative paths and contents.
\<close>

subsection \<open>File systems\<close>

text \<open>Every entry lies in a directory and its name is a proper one; \<open>/\<close> is a directory without an entry.\<close>

definition is_dir :: "fs \<Rightarrow> path \<Rightarrow> bool" where
  "is_dir fs q \<longleftrightarrow> q = [] \<or> map_of fs q = Some DirNode"

definition wf_fs :: "fs \<Rightarrow> bool" where
  "wf_fs fs \<longleftrightarrow> wf_dict fs
     \<and> (\<forall>q \<in> fst ` set fs. q \<noteq> [] \<and> (\<forall>c \<in> set q. valid_part c) \<and> (\<forall>i < length q. is_dir fs (take i q)))"

text \<open>Canonical paths: \<open>/\<close> and the entries that are no links.\<close>

definition on_disk :: "fs \<Rightarrow> path \<Rightarrow> bool" where
  "on_disk fs q \<longleftrightarrow> q = [] \<or> (\<exists>nd. map_of fs q = Some nd \<and> (\<forall>b t. nd \<noteq> LinkNode b t))"

lemma wf_fsD:
  assumes "wf_fs fs" "map_of fs q = Some nd"
  shows "q \<noteq> []" "c \<in> set q \<Longrightarrow> valid_part c" "i < length q \<Longrightarrow> is_dir fs (take i q)"
  using assms map_of_SomeD [OF assms(2)] by (force simp: wf_fs_def)+

lemma is_dir_on_disk: "is_dir fs q \<Longrightarrow> on_disk fs q"
  by (auto simp: is_dir_def on_disk_def)

lemma is_dir_prefix:
  assumes "wf_fs fs" "on_disk fs (p @ s)" "s \<noteq> []"
  shows "is_dir fs p"
proof -
  obtain nd where nd: "map_of fs (p @ s) = Some nd" using assms(2,3) by (auto simp: on_disk_def)
  have "length p < length (p @ s)" using assms(3) by simp
  from wf_fsD(3) [OF assms(1) nd this] show ?thesis by simp
qed

lemma on_disk_part: "wf_fs fs \<Longrightarrow> on_disk fs q \<Longrightarrow> c \<in> set q \<Longrightarrow> valid_part c"
  using wf_fsD(2) by (fastforce simp: on_disk_def)

lemma is_dir_butlast: "wf_fs fs \<Longrightarrow> is_dir fs q \<Longrightarrow> is_dir fs (butlast q)"
  using is_dir_prefix [of fs "butlast q" "[last q]"] is_dir_on_disk [of fs q] by (cases "q = []") (auto simp: is_dir_def)

lemma is_dir_step: "map_of fs (base @ [c]) = Some DirNode \<Longrightarrow> is_dir fs (base @ [c])"
  by (simp add: is_dir_def)

lemma walk_on_disk: "walk fs n base p = Some q \<Longrightarrow> wf_fs fs \<Longrightarrow> is_dir fs base \<Longrightarrow> on_disk fs q"
proof (induction fs n base p rule: walk.induct)
  case (2 fs n base c rest)
  have nil: "is_dir fs []" by (simp add: is_dir_def)
  show ?case
    using "2.prems" "2.IH" nil is_dir_butlast [OF "2.prems"(2,3)] is_dir_step [of fs base c]
    by (auto simp: on_disk_def split: if_splits option.splits node.splits nat.splits)
qed (simp add: is_dir_on_disk)

lemma walk_below:
  assumes "wf_fs fs" "on_disk fs (base @ s)"
  shows "walk fs n base s = Some (base @ s)"
  using assms(2)
proof (induction s arbitrary: base)
  case (Cons c s)
  have c: "c \<noteq> ''..''" using on_disk_part [OF assms(1) Cons.prems, of c] by (auto simp: valid_part_def)
  show ?case
  proof (cases "s = []")
    case True
    then show ?thesis using Cons.prems c by (auto simp: on_disk_def split: node.splits)
  next
    case False
    then have "map_of fs (base @ [c]) = Some DirNode"
      using is_dir_prefix [OF assms(1), of "base @ [c]" s] Cons.prems by (simp add: is_dir_def)
    then show ?thesis using Cons.IH [of "base @ [c]"] Cons.prems c by simp
  qed
qed simp

lemma walk_append:
  "walk fs n base p = Some q \<Longrightarrow> wf_fs fs \<Longrightarrow> on_disk fs (q @ s) \<Longrightarrow> walk fs n base (p @ s) = Some (q @ s)"
proof (induction fs n base p rule: walk.induct)
  case (1 fs n base)
  then show ?case by (simp add: walk_below)
next
  case (2 fs n base c rest)
  have leaf: "s = []" if nd: "map_of fs q = Some nd" "nd \<noteq> DirNode" for nd
  proof (rule ccontr)
    assume "s \<noteq> []"
    with is_dir_prefix [OF "2.prems"(2,3)] have "is_dir fs q" by blast
    then show False using nd wf_fsD(1) [OF "2.prems"(2) nd(1)] by (simp add: is_dir_def)
  qed
  show ?case using "2.IH" "2.prems" leaf
    by (auto split: if_splits option.splits node.splits nat.splits)
qed

lemma walk_realpath: "walk fs n base p = Some q \<Longrightarrow> real_walk fs n base p = q"
  by (induction fs n base p rule: walk.induct) (auto split: if_splits option.splits node.splits nat.splits)

lemmas lookup_append = walk_append [where base = "[]" and n = 40, folded lookup_def]
lemmas lookup_realpath = walk_realpath [where base = "[]" and n = 40, folded lookup_def realpath_def]

lemma lookup_on_disk: "wf_fs fs \<Longrightarrow> lookup fs p = Some q \<Longrightarrow> on_disk fs q"
  by (auto simp: lookup_def is_dir_def intro: walk_on_disk)

lemma lookup_canonical: "wf_fs fs \<Longrightarrow> on_disk fs q \<Longrightarrow> lookup fs q = Some q"
  using walk_below [of fs "[]" q 40] by (simp add: lookup_def)

subsection \<open>Staying within the root\<close>

lemma climb_returns: "\<exists>result. climb same p = Some result"
  by (induction p rule: rev_induct; subst climb.simps) (auto split: sum.splits)

lemma climb_exact:
  "(\<And>i. i \<le> length p \<Longrightarrow> same (take i p) = Inr (take i p = r)) \<Longrightarrow> climb same p = Some (Inr (prefix r p))"
proof (induction p rule: rev_induct)
  case Nil
  then show ?case by (subst climb.simps) auto
next
  case (snoc c p)
  have "same (take i p) = Inr (take i p = r)" if "i \<le> length p" for i
    using snoc.prems [of i] that by simp
  then have "climb same p = Some (Inr (prefix r p))" by (rule snoc.IH)
  moreover have "same (p @ [c]) = Inr (p @ [c] = r)" using snoc.prems [of "length p + 1"] by simp
  ultimately show ?case by (subst climb.simps) auto
qed

lemma on_disk_take: "wf_fs fs \<Longrightarrow> on_disk fs q \<Longrightarrow> on_disk fs (take i q)"
  using is_dir_prefix [of fs "take i q" "drop i q"] is_dir_on_disk [of fs "take i q"] by (cases "drop i q = []") auto

lemma ensure_within_root_exact:
  assumes "wf_fs fs" "lookup fs r = Some rq" "lookup fs p = Some q"
  shows "ensure_within_root fs r p
     = Some (if prefix rq q then Inr () else Inl (BackupError (''outside_root:'' @ path_str p)))"
proof -
  have disk: "on_disk fs rq" "on_disk fs q" using assms lookup_on_disk by blast+
  then have "samefile fs (take i q) rq = Inr (take i q = rq)" for i
    by (simp add: samefile_def lookup_canonical on_disk_take assms(1))
  then have "climb (\<lambda>current. samefile fs current rq) q = Some (Inr (prefix rq q))" by (intro climb_exact)
  then show ?thesis by (simp add: ensure_within_root_def lookup_realpath [OF assms(2)] lookup_realpath [OF assms(3)])
qed

lemma ensure_within_root_returns: "\<exists>result. ensure_within_root fs r p = Some result"
proof -
  from climb_returns obtain x where "climb (\<lambda>current. samefile fs current (realpath fs r)) (realpath fs p) = Some x" by blast
  then show ?thesis by (simp add: ensure_within_root_def split: sum.split bool.split)
qed

lemma collect_loop_returns: "\<exists>result. collect_loop fs r values files = Some result"
proof (induction "values" arbitrary: files)
  case (Cons v vs)
  show ?case
  proof (cases "safe_relative v")
    case (Inr relative)
    from ensure_within_root_returns obtain x where "ensure_within_root fs r (r @ relative) = Some x" by blast
    then show ?thesis using Cons.IH Inr by (cases x) (auto simp: Let_def)
  qed simp
qed simp

subsection \<open>What is collected\<close>

lemma is_file_at_lookup:
  "lookup fs p = Some q \<Longrightarrow> is_file_at fs p \<longleftrightarrow> (\<exists>d. map_of fs q = Some (FileNode d))"
  by (auto simp: is_file_at_def read_file_def split: option.splits node.splits)

lemma entry_below:
  assumes "wf_fs fs" "lookup fs p = Some d" "map_of fs (d @ s) = Some nd" "s \<noteq> []"
  shows "is_symlink_at fs (p @ s) \<longleftrightarrow> (\<exists>b t. nd = LinkNode b t)"
    and "(\<forall>b t. nd \<noteq> LinkNode b t) \<Longrightarrow> lookup fs (p @ s) = Some (d @ s)"
proof -
  have "is_dir fs (take (length (d @ butlast s)) (d @ s))"
    by (rule wf_fsD(3) [OF assms(1,3)]) (use assms(4) in simp)
  then have "is_dir fs (d @ butlast s)" using assms(4) by (simp add: butlast_conv_take)
  then have l: "lookup fs (p @ butlast s) = Some (d @ butlast s)"
    using lookup_append [OF assms(2,1)] is_dir_on_disk by blast
  show "is_symlink_at fs (p @ s) \<longleftrightarrow> (\<exists>b t. nd = LinkNode b t)"
    using assms(3,4) l by (auto simp: is_symlink_at_def butlast_append split: node.splits)
  show "(\<forall>b t. nd \<noteq> LinkNode b t) \<Longrightarrow> lookup fs (p @ s) = Some (d @ s)"
    using lookup_append [OF assms(2,1), of s] assms(3) by (auto simp: on_disk_def)
qed

lemma file_is_leaf:
  assumes "wf_fs fs" "map_of fs d = Some (FileNode x)" "map_of fs (d @ s) = Some nd"
  shows "s = []"
proof (rule ccontr)
  assume "s \<noteq> []"
  then have "is_dir fs (take (length d) (d @ s))" by (intro wf_fsD(3) [OF assms(1,3)]) simp
  then show False using assms wf_fsD(1) [OF assms(1,2)] by (simp add: is_dir_def)
qed

lemma files_of_exact:
  assumes "wf_fs fs" "lookup fs p = Some d"
  shows "set (files_of fs p) = {p @ s | s x. map_of fs (d @ s) = Some (FileNode x)}"
proof (cases "is_file_at fs p")
  case True
  then obtain x where x: "map_of fs d = Some (FileNode x)" using is_file_at_lookup [OF assms(2)] by blast
  then have "s = []" if "map_of fs (d @ s) = Some (FileNode y)" for s y using file_is_leaf [OF assms(1)] that by blast
  then show ?thesis using True x by (auto simp: files_of_def)
next
  case False
  then have nofile: "map_of fs d \<noteq> Some (FileNode x)" for x using is_file_at_lookup [OF assms(2)] by blast
  have glob: "set (rglob fs p) = {p @ s | s nd. s \<noteq> [] \<and> map_of fs (d @ s) = Some nd}"
  proof -
    have wf: "wf_dict fs" using assms(1) by (simp add: wf_fs_def)
    have "q \<in> fst ` set fs \<longleftrightarrow> (\<exists>nd. map_of fs q = Some nd)" for q using wf by force
    then have "set (rglob fs p) = {p @ drop (length d) q | q. (\<exists>nd. map_of fs q = Some nd) \<and> strict_prefix d q}"
      using assms(2) by (auto simp: rglob_def)
    also have "\<dots> = {p @ s | s nd. s \<noteq> [] \<and> map_of fs (d @ s) = Some nd}"
      by (force simp: strict_prefix_def prefix_def)
    finally show ?thesis .
  qed
  have kept: "is_file_at fs (p @ s) \<and> \<not> is_symlink_at fs (p @ s) \<longleftrightarrow> (\<exists>x. nd = FileNode x)"
    if "s \<noteq> []" "map_of fs (d @ s) = Some nd" for s nd
    using entry_below [OF assms that(2,1)] is_file_at_lookup [of fs "p @ s" "d @ s"] that(2) by (cases nd) auto
  have "set (files_of fs p) = {q \<in> set (rglob fs p). is_file_at fs q \<and> \<not> is_symlink_at fs q}"
    using False by (simp add: files_of_def)
  also have "\<dots> = {p @ s | s x. s \<noteq> [] \<and> map_of fs (d @ s) = Some (FileNode x)}"
    unfolding glob using kept by blast
  also have "\<dots> = {p @ s | s x. map_of fs (d @ s) = Some (FileNode x)}"
    using nofile by (metis append_Nil2)
  finally show ?thesis .
qed

text \<open>
  What a requested entry stands for: accepted when its path is relative without \<open>..\<close>, exists, is no
  link and resolves to a place below the root; it then adds the regular files at and below that place,
  named as they were requested.
\<close>

definition accepted :: "fs \<Rightarrow> path \<Rightarrow> string \<Rightarrow> bool" where
  "accepted fs r value \<longleftrightarrow>
     (\<exists>relative d. safe_relative value = Inr relative \<and> lookup fs (r @ relative) = Some d \<and> prefix r d
        \<and> \<not> is_symlink_at fs (r @ relative))"

definition files_under :: "fs \<Rightarrow> path \<Rightarrow> string \<Rightarrow> path set" where
  "files_under fs r value =
     {r @ relative @ s | relative d s x. safe_relative value = Inr relative \<and> lookup fs (r @ relative) = Some d
        \<and> map_of fs (d @ s) = Some (FileNode x)}"

lemma collect_loop_accepted:
  assumes "wf_fs fs" "lookup fs r = Some r" "\<forall>value \<in> set values. accepted fs r value"
  obtains out where "collect_loop fs r values files = Some (Inr out)"
    "set out = set files \<union> (\<Union>value \<in> set values. files_under fs r value)"
  using assms(3)
proof (induction "values" arbitrary: files thesis)
  case (Cons v vs)
  obtain relative d where v: "safe_relative v = Inr relative" "lookup fs (r @ relative) = Some d" "prefix r d"
      "\<not> is_symlink_at fs (r @ relative)" using Cons.prems(2) by (auto simp: accepted_def)
  obtain out where out: "collect_loop fs r vs (List.union files (files_of fs (r @ relative))) = Some (Inr out)"
      "set out = set (List.union files (files_of fs (r @ relative))) \<union> (\<Union>value \<in> set vs. files_under fs r value)"
    using Cons.IH Cons.prems(2) by (metis list.set_intros(2))
  have "files_under fs r v = set (files_of fs (r @ relative))"
    unfolding files_of_exact [OF assms(1) v(2)] using v(1,2) by (auto simp: files_under_def)
  then have "set out = set files \<union> (\<Union>value \<in> set (v # vs). files_under fs r value)" using out(2) by auto
  moreover have "collect_loop fs r (v # vs) files = Some (Inr out)"
    using v(1,2,3,4) ensure_within_root_exact [OF assms(1,2) v(2)] out(1) by (simp add: exists_at_def)
  ultimately show thesis using Cons.prems(1) by blast
qed simp

lemma collect_loop_refused:
  assumes "wf_fs fs" "lookup fs r = Some r" "value \<in> set values" "\<not> accepted fs r value"
  shows "\<exists>e. collect_loop fs r values files = Some (Inl e)"
  using assms(3)
proof (induction "values" arbitrary: files)
  case (Cons v vs)
  show ?case
  proof (cases "accepted fs r v")
    case True
    then have "value \<in> set vs" using Cons.prems assms(4) by auto
    moreover obtain relative d where "safe_relative v = Inr relative" "lookup fs (r @ relative) = Some d" "prefix r d"
      "\<not> is_symlink_at fs (r @ relative)" using True by (auto simp: accepted_def)
    ultimately show ?thesis
      using ensure_within_root_exact [OF assms(1,2), of "r @ relative" d] Cons.IH by (simp add: exists_at_def)
  next
    case False
    then show ?thesis
      using ensure_within_root_exact [OF assms(1,2)]
      by (auto simp: accepted_def exists_at_def Let_def split: sum.splits option.splits if_splits)
  qed
qed simp

lemma files_under_inside:
  assumes "wf_fs fs" "lookup fs r = Some r" "accepted fs r value" "p \<in> files_under fs r value"
  obtains relative q x where "p = r @ relative" "\<forall>c \<in> set relative. valid_part c" "lookup fs p = Some q"
    "prefix r q" "map_of fs q = Some (FileNode x)"
proof -
  obtain rel d s x where p: "p = r @ rel @ s" "safe_relative value = Inr rel" "lookup fs (r @ rel) = Some d"
      "map_of fs (d @ s) = Some (FileNode x)" using assms(4) by (auto simp: files_under_def)
  have "prefix r d" using assms(3) p(2,3) by (auto simp: accepted_def)
  have "on_disk fs (d @ s)" using p(4) by (auto simp: on_disk_def)
  then have "lookup fs p = Some (d @ s)" using lookup_append [OF p(3) assms(1)] p(1) by simp
  moreover have "\<forall>c \<in> set (rel @ s). valid_part c"
    using safe_relative_parts [OF p(2)] wf_fsD(2) [OF assms(1) p(4)] by auto
  moreover have "prefix r (d @ s)" using \<open>prefix r d\<close> by simp
  ultimately show thesis using that [of "rel @ s" "d @ s" x] p(1,4) by simp
qed

lemma relative_path_below: "\<forall>c \<in> set relative. valid_part c \<Longrightarrow> relative_path fs r (r @ relative) = Inr relative"
  by (cases relative) (auto simp: relative_path_def valid_part_def)

text \<open>
  A file at or below the root: its name relative to the root has proper parts only, and with all links
  resolved it is a regular file whose canonical path lies below the root.
\<close>

definition inside_root :: "fs \<Rightarrow> path \<Rightarrow> path \<Rightarrow> bool" where
  "inside_root fs r p \<longleftrightarrow>
     (\<exists>relative q x. p = r @ relative \<and> (\<forall>c \<in> set relative. valid_part c)
        \<and> lookup fs p = Some q \<and> prefix r q \<and> map_of fs q = Some (FileNode x))"

lemma collect_accepted:
  assumes "wf_fs fs" "lookup fs r = Some r" "requested \<noteq> []" "\<forall>value \<in> set requested. accepted fs r value"
  shows "\<exists>files. collect fs r requested = Some (Inr files) \<and> sorted files \<and> distinct files
     \<and> set files = (\<Union>value \<in> set requested. files_under fs r value)
     \<and> (\<forall>p \<in> set files. inside_root fs r p)"
proof -
  from collect_loop_accepted [OF assms(1,2,4)] obtain out where
    out: "collect_loop fs r requested [] = Some (Inr out)" "set out = set [] \<union> (\<Union>value \<in> set requested. files_under fs r value)"
    by blast
  have "inside_root fs r p" if p: "p \<in> set out" for p
  proof -
    from p out(2) assms(4) obtain v where "accepted fs r v" "p \<in> files_under fs r v" by auto
    from files_under_inside [OF assms(1,2) this] show ?thesis unfolding inside_root_def by metis
  qed
  with out assms(3) show ?thesis by (auto simp: collect_def)
qed

lemma inside_root_relative: "inside_root fs r p \<Longrightarrow> relative_path fs r p = Inr (drop (length r) p)"
  using relative_path_below by (auto simp: inside_root_def)

lemma collect_refused:
  assumes "wf_fs fs" "lookup fs r = Some r" "requested \<noteq> []" "\<not> (\<forall>value \<in> set requested. accepted fs r value)"
  shows "\<exists>e. collect fs r requested = Some (Inl e)"
proof -
  obtain v where "v \<in> set requested" "\<not> accepted fs r v" using assms(4) by blast
  from collect_loop_refused [OF assms(1,2) this] obtain e where "collect_loop fs r requested [] = Some (Inl e)" by blast
  with assms(3) show ?thesis by (simp add: collect_def)
qed

subsection \<open>Properties\<close>


text \<open>
  C22. On a well-formed file system and below a canonical root, \<open>collect\<close> succeeds exactly when every
  requested path is relative without \<open>..\<close>, exists, is no symbolic link and resolves to a place inside
  the root. The result is then, sorted and without repetition, exactly the regular files at and below
  the requested entries, and each of them lies inside the root once all links are resolved and has a
  relative name without a component that would leave a directory.
\<close>

theorem collected_files_inside_root:
  assumes "wf_fs fs" and "lookup fs r = Some r" and "requested \<noteq> []"
  shows "if \<forall>value \<in> set requested. accepted fs r value
     then \<exists>files. collect fs r requested = Some (Inr files) \<and> sorted files \<and> distinct files
       \<and> set files = (\<Union>value \<in> set requested. files_under fs r value)
       \<and> (\<forall>p \<in> set files. inside_root fs r p \<and> relative_path fs r p = Inr (drop (length r) p))
     else \<exists>e. collect fs r requested = Some (Inl e)"
proof (cases "\<forall>value \<in> set requested. accepted fs r value")
  case True
  from collect_accepted [OF assms this] obtain files where
    files: "collect fs r requested = Some (Inr files)" "sorted files" "distinct files"
      "set files = (\<Union>value \<in> set requested. files_under fs r value)" "\<forall>p \<in> set files. inside_root fs r p" by blast
  then have "\<forall>p \<in> set files. inside_root fs r p \<and> relative_path fs r p = Inr (drop (length r) p)"
    using inside_root_relative by blast
  with files(1-4) show ?thesis unfolding if_P [OF True] by (intro exI [of _ files] conjI)
next
  case False
  from collect_refused [OF assms this] show ?thesis unfolding if_not_P [OF False] .
qed

subsection \<open>From the file system to the restored tree\<close>

definition backup_content :: "fs \<Rightarrow> path \<Rightarrow> path list \<Rightarrow> (path \<times> bytes) list" where
  "backup_content fs r files = map (\<lambda>p. (drop (length r) p, case read_file fs p of Inr d \<Rightarrow> d | Inl _ \<Rightarrow> [])) files"

lemma collected_facts:
  assumes "wf_fs fs" "lookup fs r = Some r" "requested \<noteq> []" "collect fs r requested = Some (Inr files)"
  shows "distinct files" and "\<forall>p \<in> set files. inside_root fs r p"
proof -
  have "\<forall>value \<in> set requested. accepted fs r value"
    using collect_refused [OF assms(1-3)] assms(4) by fastforce
  from collect_accepted [OF assms(1-3) this] assms(4)
  show "distinct files" and "\<forall>p \<in> set files. inside_root fs r p" by simp_all
qed

lemma collected_files_content:
  assumes "wf_fs fs" "lookup fs r = Some r" "requested \<noteq> []" "collect fs r requested = Some (Inr files)"
  shows "collected_files fs r files = Inr (backup_content fs r files)"
  unfolding collected_files_def backup_content_def
proof (rule map_res_total)
  fix p assume "p \<in> set files"
  then have "inside_root fs r p" using collected_facts(2) [OF assms] by blast
  moreover from this obtain q x where "lookup fs p = Some q" "map_of fs q = Some (FileNode x)" by (auto simp: inside_root_def)
  ultimately show "res_bind (relative_path fs r p) (\<lambda>relative. res_bind (read_file fs p) (\<lambda>data. Inr (relative, data)))
    = Inr (drop (length r) p, case read_file fs p of Inr d \<Rightarrow> d | Inl _ \<Rightarrow> [])"
    by (simp add: inside_root_relative read_file_def)
qed

lemma walk_through_file:
  "walk fs n base p = Some q \<Longrightarrow> wf_fs fs \<Longrightarrow> is_dir fs base \<Longrightarrow> map_of fs q = Some (FileNode x) \<Longrightarrow> s \<noteq> []
     \<Longrightarrow> walk fs n base (p @ s) = None"
proof (induction fs n base p rule: walk.induct)
  case (1 fs n base)
  then show ?case using wf_fsD(1) [OF "1.prems"(2,4)] by (simp add: is_dir_def)
next
  case (2 fs n base c rest)
  have nil: "is_dir fs []" by (simp add: is_dir_def)
  show ?case
    using "2.prems" "2.IH" nil is_dir_butlast [OF "2.prems"(2,3)] is_dir_step [of fs base c]
    by (auto split: if_splits option.splits node.splits nat.splits)
qed

lemma collected_antichain:
  assumes "wf_fs fs" "lookup fs r = Some r" "requested \<noteq> []" "collect fs r requested = Some (Inr files)"
    and "p \<in> set files" "q \<in> set files" "strict_prefix p q"
  shows False
proof -
  obtain s where s: "q = p @ s" "s \<noteq> []" using assms(7) by (auto simp: strict_prefix_def prefix_def)
  have "inside_root fs r p" "inside_root fs r q" using collected_facts(2) [OF assms(1-4)] assms(5,6) by blast+
  then obtain pq x where pq: "lookup fs p = Some pq" "map_of fs pq = Some (FileNode x)" "lookup fs q \<noteq> None"
    by (auto simp: inside_root_def)
  have "lookup fs (p @ s) = None"
    using walk_through_file [OF pq(1) [unfolded lookup_def] assms(1) _ pq(2) s(2)] by (simp add: lookup_def is_dir_def)
  then show False using pq(3) s(1) by simp
qed

text \<open>Names the two scripts use themselves: the top-level manifest and the temporary names of restore.\<close>

definition no_reserved_names :: "path set \<Rightarrow> bool" where
  "no_reserved_names P \<longleftrightarrow> (\<forall>p \<in> P. p \<noteq> [] \<and> hd p \<noteq> ''manifest.json'') \<and> (\<forall>p \<in> P. \<forall>q \<in> P. \<not> prefix (temporary_target p) q)"

lemma in_ancestors: "p \<in> set (ancestors q) \<longleftrightarrow> strict_prefix p q"
proof
  assume "strict_prefix p q"
  then obtain s where "q = p @ s" "s \<noteq> []" by (auto simp: strict_prefix_def prefix_def)
  then show "p \<in> set (ancestors q)" unfolding ancestors_def set_map by (intro image_eqI [of _ _ "length p"]) auto
qed (auto simp: ancestors_def strict_prefix_def take_is_prefix)

lemma no_reserved_names_antichain:
  assumes chain: "\<And>p q. p \<in> P \<Longrightarrow> q \<in> P \<Longrightarrow> p \<notin> set (ancestors q)" and names: "no_reserved_names P"
  shows "antichain (insert [''manifest.json''] P)" and "antichain (P \<union> temporary_targets P)"
    and "P \<inter> temporary_targets P = {}" and "[''manifest.json''] \<notin> P"
proof -
  have ne: "p \<noteq> []" "\<not> prefix [''manifest.json''] p" if "p \<in> P" for p
    using names that by (auto simp: no_reserved_names_def prefix_def)
  have temp: "\<not> prefix (temporary_target p) q" if "p \<in> P" "q \<in> P" for p q
    using names that by (simp add: no_reserved_names_def)
  show "antichain (insert [''manifest.json''] P)"
    using chain ne unfolding antichain_def in_ancestors by (auto simp: strict_prefix_def prefix_Cons)
  have low: "x \<notin> set (ancestors q)" if "x \<in> P \<union> temporary_targets P" "q \<in> P" for x q
    using that chain temp unfolding temporary_targets_def by (auto simp: in_ancestors strict_prefix_def)
  have "\<exists>q \<in> P. ancestors y = ancestors q" if y: "y \<in> P \<union> temporary_targets P" for y
  proof (cases "y \<in> P")
    case False
    with y have "y \<in> temporary_target ` P" by (simp add: temporary_targets_def)
    then obtain q where q: "q \<in> P" "y = temporary_target q" by (rule imageE)
    then show ?thesis using ancestors_temporary [OF ne(1) [OF q(1)]] by blast
  qed blast
  then show "antichain (P \<union> temporary_targets P)" unfolding antichain_def using low by metis
  show "P \<inter> temporary_targets P = {}" using temp by (force simp: temporary_targets_def)
  show "[''manifest.json''] \<notin> P" using ne(2) by blast
qed

lemma backup_ok_collected:
  assumes "wf_fs fs" "lookup fs r = Some r" "requested \<noteq> []" "collect fs r requested = Some (Inr files)"
    and names: "no_reserved_names (drop (length r) ` set files)"
  shows "backup_ok (backup_content fs r files)"
proof -
  let ?P = "drop (length r) ` set files"
  note facts = collected_facts [OF assms(1-4)]
  have P: "fst ` set (backup_content fs r files) = ?P" by (force simp: backup_content_def)
  have keys: "map fst (backup_content fs r files) = map (drop (length r)) files" by (simp add: backup_content_def)
  have below: "r @ drop (length r) p = p" "\<forall>c \<in> set (drop (length r) p). valid_part c" if "p \<in> set files" for p
    using facts(2) that by (auto simp: inside_root_def)
  have "inj_on (drop (length r)) (set files)" by (rule inj_on_inverseI [where g = "\<lambda>s. r @ s"]) (rule below(1))
  then have wf: "wf_dict (backup_content fs r files)" using facts(1) by (simp only: keys distinct_map)
  have chain: "p \<notin> set (ancestors q)" if "p \<in> ?P" "q \<in> ?P" for p q
  proof
    assume "p \<in> set (ancestors q)"
    then have "strict_prefix (r @ p) (r @ q)" by (simp add: in_ancestors strict_prefix_def)
    moreover have "r @ p \<in> set files" "r @ q \<in> set files" using that below(1) by auto
    ultimately show False using collected_antichain [OF assms(1-4)] by blast
  qed
  have "\<forall>p \<in> ?P. p \<noteq> [] \<and> (\<forall>c \<in> set p. valid_part c)"
    using below(2) names unfolding no_reserved_names_def by blast
  then show ?thesis
    unfolding backup_ok_def P using wf no_reserved_names_antichain [OF chain names] by (intro conjI)
qed

text \<open>
  C21. From the file system to the restored tree: when \<open>collect\<close> succeeds below a canonical directory,
  and the collected names avoid those the two scripts reserve, the backup succeeds, restoring its
  archive (the manifest as JSON text) into a tree with room for the files succeeds, and afterwards every collected file is at its path relative to the root with the content it had, and no other file
  of the destination has changed except the temporary names.
\<close>

theorem backup_end_to_end:
  assumes "wf_fs fs" and "lookup fs r = Some r" and "requested \<noteq> []" and "collect fs r requested = Some (Inr files)"
    and "no_reserved_names (drop (length r) ` set files)"
    and "room_for (drop (length r) ` set files \<union> temporary_targets (drop (length r) ` set files)) t"
  shows "\<exists>archive t'. backup_run (manifest_dumps frep) sha fs r requested earlier = Some (Inr (), Some archive)
     \<and> restore rep json_loads_bytes sha archive t = (Inr (), t')
     \<and> (\<forall>p \<in> set files. \<exists>d. read_file fs p = Inr d \<and> map_of (tr_files t') (drop (length r) p) = Some d)
     \<and> (\<forall>q. q \<notin> drop (length r) ` set files \<longrightarrow> q \<notin> temporary_targets (drop (length r) ` set files) \<longrightarrow>
          map_of (tr_files t') q = map_of (tr_files t) q)"
proof -
  let ?fl = "backup_content fs r files"
  have P: "fst ` set ?fl = drop (length r) ` set files" by (force simp: backup_content_def)
  note ok = backup_ok_collected [OF assms(1-5)]
  have run: "backup_run (manifest_dumps frep) sha fs r requested earlier = Some (Inr (), Some (backup (manifest_dumps frep) sha (root_name r) ?fl))"
    by (simp add: backup_run_def assms(4) collected_files_content [OF assms(1-4)])
  from restore_of_backup [where loads = json_loads_bytes and dumps = "manifest_dumps frep", OF ok manifest_survives assms(6) [folded P], of rep]
  obtain t' where t': "restore rep json_loads_bytes sha (backup (manifest_dumps frep) sha (root_name r) ?fl) t = (Inr (), t')"
    "\<And>q. map_of (tr_files t') q = (case map_of ?fl q of Some d \<Rightarrow> Some d
          | None \<Rightarrow> if q \<in> temporary_targets (fst ` set ?fl) then None else map_of (tr_files t) q)" by blast
  have "\<exists>d. read_file fs p = Inr d \<and> map_of (tr_files t') (drop (length r) p) = Some d" if p: "p \<in> set files" for p
  proof -
    have "inside_root fs r p" using collected_facts(2) [OF assms(1-4)] p by blast
    then obtain d where d: "read_file fs p = Inr d" by (auto simp: inside_root_def read_file_def)
    then have "(drop (length r) p, d) \<in> set ?fl" using p by (force simp: backup_content_def)
    then have "map_of ?fl (drop (length r) p) = Some d" using ok by (simp add: backup_ok_def)
    then show ?thesis using d by (simp add: t'(2))
  qed
  moreover have "map_of (tr_files t') q = map_of (tr_files t) q"
    if "q \<notin> drop (length r) ` set files" "q \<notin> temporary_targets (drop (length r) ` set files)" for q
  proof -
    have "map_of ?fl q = None" using that(1) by (simp add: map_of_eq_None_iff P)
    then show ?thesis using that(2) by (simp add: t'(2) P)
  qed
  ultimately show ?thesis using run t'(1) by blast
qed

end
