(* ===== verification/Pipeline_Props.thy ===== *)
theory Pipeline_Props
  imports Monitoring_Props Provenance
begin

section \<open>From the books and the gates to the monitoring page\<close>

text \<open>
  The operational pipeline: \<open>portfolio_snapshot.py\<close> and \<open>health_report.py\<close> write files that
  \<open>prometheus_exporter.py\<close> renders and \<open>inspect_evidence.py\<close> checks. The theorem follows the numbers from
  the portfolio model and the readiness gates to the scraped page.
\<close>

definition snapshot_fields :: "snapshot \<Rightarrow> (string \<times> int) list" where
  "snapshot_fields sn =
     [(''net_position'', sn_net_position sn), (''gross_position'', sn_gross_position sn),
      (''gross_notional_ticks'', sn_gross_notional_ticks sn), (''realized_pnl_ticks'', sn_realized_pnl_ticks sn),
      (''unrealized_pnl_ticks'', sn_unrealized_pnl_ticks sn), (''loss_ticks'', sn_loss_ticks sn)]"

lemma snapshot_json_fields:
  "\<exists>p. snapshot_json sn = JObj p
     \<and> (\<forall>(name, field) \<in> set portfolio_metrics. map_of p field = Some (JInt (the (map_of (snapshot_fields sn) field))))"
  by (simp add: snapshot_json_def portfolio_metrics_def snapshot_fields_def)

lemma build_report_fields:
  assumes "build_report rep readiness present = Inr h"
  obtains failures blockers status p where "h = JObj p" "report_lists rep readiness = Inr (failures, blockers)"
    "jget readiness ''status'' (JStr ''unknown'') = Inr status"
    "map_of p ''local_status'' = Some (JStr (if failures = [] \<and> present then ''healthy'' else ''degraded''))"
    "map_of p ''production_status'' = Some (JStr (py_str rep status))"
    "map_of p ''external_blocker_count'' = Some (JInt (int (length blockers)))"
    "map_of p ''recovery_artifact_present'' = Some (JBool present)"
  using assms by (auto simp: build_report_def res_bind_eq_Inr split: if_splits)

text \<open>
  The monitoring page tells the truth about books and gates: for every input the snapshot script
  accepts and every readiness file the health report accepts, the exporter renders the two files, and
  scraping the page reads back the net and gross position, the notional and the profit and loss of the
  portfolio after the input's fills, the number of blocking gates, and 1 exactly when no local gate
  fails and the recovery artifact is present, the status is production-ready, and the artifact is present.
\<close>

theorem monitoring_page_shows_books_and_gates:
  assumes "build_snapshot d = Inr sn" and "build_report rep readiness present = Inr h"
  shows "\<exists>body failures blockers status. render_metrics h (Some (snapshot_json sn)) None = Inr body
     \<and> report_lists rep readiness = Inr (failures, blockers) \<and> jget readiness ''status'' (JStr ''unknown'') = Inr status
     \<and> scrape ''ito_portfolio_net_position'' body = Some (sn_net_position sn)
     \<and> scrape ''ito_portfolio_gross_position'' body = Some (sn_gross_position sn)
     \<and> scrape ''ito_portfolio_gross_notional_ticks'' body = Some (sn_gross_notional_ticks sn)
     \<and> scrape ''ito_portfolio_realized_pnl_ticks'' body = Some (sn_realized_pnl_ticks sn)
     \<and> scrape ''ito_portfolio_unrealized_pnl_ticks'' body = Some (sn_unrealized_pnl_ticks sn)
     \<and> scrape ''ito_portfolio_loss_ticks'' body = Some (sn_loss_ticks sn)
     \<and> scrape ''ito_external_blocker_count'' body = Some (int (length blockers))
     \<and> scrape ''ito_local_validation_pass'' body = Some (of_bool (failures = [] \<and> present))
     \<and> scrape ''ito_production_readiness'' body = Some (of_bool (py_str rep status = ''production_ready''))
     \<and> scrape ''ito_recovery_artifact_present'' body = Some (of_bool present)"
proof -
  from snapshot_json_fields obtain p where p: "snapshot_json sn = JObj p"
    "\<forall>(name, field) \<in> set portfolio_metrics. map_of p field = Some (JInt (the (map_of (snapshot_fields sn) field)))" by blast
  obtain failures blockers status q where h: "h = JObj q" "report_lists rep readiness = Inr (failures, blockers)"
    "jget readiness ''status'' (JStr ''unknown'') = Inr status"
    "map_of q ''local_status'' = Some (JStr (if failures = [] \<and> present then ''healthy'' else ''degraded''))"
    "map_of q ''production_status'' = Some (JStr (py_str rep status))"
    "map_of q ''external_blocker_count'' = Some (JInt (int (length blockers)))"
    "map_of q ''recovery_artifact_present'' = Some (JBool present)" by (rule build_report_fields [OF assms(2)])
  have "get_default q ''external_blocker_count'' (JInt 0) = JInt (int (length blockers))" "0 \<le> int (length blockers)"
    using h(6) by (simp_all add: get_default_def)
  from scraped_metrics_match_snapshots [OF p(2) this] obtain body where
    body: "render_metrics (JObj q) (Some (JObj p)) None = Inr body"
      "\<forall>(name, field) \<in> set portfolio_metrics. scrape name body = Some (the (map_of (snapshot_fields sn) field))"
      "scrape ''ito_external_blocker_count'' body = Some (int (length blockers))"
      "scrape ''ito_local_validation_pass'' body = Some (of_bool (map_of q ''local_status'' = Some (JStr ''healthy'')))"
      "scrape ''ito_production_readiness'' body = Some (of_bool (map_of q ''production_status'' = Some (JStr ''production_ready'')))"
      "scrape ''ito_recovery_artifact_present'' body = Some (of_bool (map_of q ''recovery_artifact_present'' = Some (JBool True)))"
    by blast
  show ?thesis using h body
    by (intro exI [of _ body] exI [of _ failures] exI [of _ blockers] exI [of _ status])
      (simp add: p(1) portfolio_metrics_def snapshot_fields_def)
qed

text \<open>The evidence inspector accepts a snapshot exactly when its six numbers are the expected ones and no limit is breached.\<close>

definition no_breach :: "limits_breached \<Rightarrow> bool" where
  "no_breach b \<longleftrightarrow> \<not> net_position_breached b \<and> \<not> gross_position_breached b \<and> \<not> gross_notional_breached b
     \<and> \<not> concentration_breached b \<and> \<not> loss_breached b \<and> expected_shortfall_breached b \<noteq> Some True \<and> parametric_var_breached b \<noteq> Some True"

lemma breached_json_truthy: "(\<exists>v \<in> set (map snd (breached_json b)). truthy v) \<longleftrightarrow> \<not> no_breach b"
  by (cases "expected_shortfall_breached b"; cases "parametric_var_breached b") (auto simp: breached_json_def no_breach_def)

lemma inspect_portfolio_snapshot:
  "\<not> raised (inspect_portfolio (snapshot_json sn)) \<longleftrightarrow> snapshot_fields sn = expected_pnl \<and> no_breach (sn_limits_breached sn)"
proof -
  have "dict_values (JObj (breached_json b)) = Inr (map snd (breached_json b))" for b by (simp add: dict_values_def)
  then show ?thesis
    using breached_json_truthy [of "sn_limits_breached sn"]
    by (auto simp: inspect_portfolio_def snapshot_json_def expected_pnl_def snapshot_fields_def get_default_def json_eq_def jitem_def)
qed

end
