(* ===== verification/Script_Witnesses.thy ===== *)
theory Script_Witnesses
  imports Benchmark_Props Provenance_Props Collect_Props Pipeline_Props
begin

section \<open>Concrete runs of the theorems on scripts\<close>

text \<open>
  Each theorem with a hypothesis, applied to a concrete input. The digest of the length of a content
  and constant serializations stand in for the code outside the repository, a generator that always
  draws zero for the random numbers.
\<close>

subsection \<open>Benchmarks\<close>

definition zero_rng :: "unit rng" where
  "zero_rng = \<lparr>rng_gauss = (\<lambda>_ _ g. (0, g)), rng_random = (\<lambda>g. (0, g)), rng_uniform = (\<lambda>_ _ g. (0, g))\<rparr>"

lemma zero_rng_ok: "uniform_ok zero_rng"
  by (simp add: uniform_ok_def zero_rng_def)

theorem latency_statistics_sound_witness:
  "percentile [3, 1, 2] (fl (1 / 2)) \<le> percentile [3, 1, 2] (fl (95 / 100)) \<and> percentile_sound [3, 1, 2] (fl (99 / 100)) (percentile [3, 1, 2] (fl (99 / 100)))"
  using latency_statistics_sound [of "[3, 1, 2]"] by (auto simp: stats_def)

theorem benchmark_timeline_witness:
  "map sm_send_ns (all_samples zero_rng 1 2 1000 25000 0 [''a'', ''b''] ()) = [0, 1000, 2000, 3000]"
  using benchmark_timeline [OF zero_rng_ok _ _ refl, of 1 2 1000 25000 0 "[''a'', ''b'']" "()"] by (simp add: upto.simps)

definition w_suite :: suite_args where
  "w_suite = \<lparr>su_branches = 1, su_messages_per_branch = 1, su_interval_ns = 1000, su_base_latency_ns = 25000,
     su_jitter_levels_ns = ''0,10'', su_venue_adapters = ''a,b'', su_seed = 7\<rparr>"

lemma w_suite_levels: "jitter_levels_of (su_jitter_levels_ns w_suite) = Inr [0, 10]" "comma_list (su_venue_adapters w_suite) = [''a'', ''b'']"
  by code_simp+

theorem suite_report_renders_witness:
  "\<exists>doc plotted txt. suite_main zero_rng (\<lambda>_. ()) w_suite (\<lambda>_. None) 0 = Inr doc
     \<and> render_suite (\<lambda>_. []) doc = Inr (plotted, txt) \<and> length txt = 24"
proof -
  obtain doc where d: "suite_main zero_rng (\<lambda>_. ()) w_suite (\<lambda>_. None) 0 = Inr doc"
    unfolding suite_main_def w_suite_levels by (simp add: w_suite_def run_suite_def run_scenario_def run_exchange_def Let_def)
  from suite_report_renders [OF this, where rep = "\<lambda>_. []"] show ?thesis using d by (auto simp: w_suite_levels)
qed

definition w_bench :: bench_args where
  "w_bench = \<lparr>ba_branches = 2, ba_messages_per_branch = 1, ba_interval_ns = 1000, ba_base_latency_ns = 25000,
     ba_jitter_ns = 0, ba_venue_adapters = ''a,b'', ba_seed = 7\<rparr>"

lemma w_bench_venues: "comma_list (ba_venue_adapters w_bench) = [''a'', ''b'']"
  by code_simp

theorem benchmark_report_renders_witness:
  "\<exists>doc b v bb vb txt. benchmark_main zero_rng (\<lambda>_. ()) w_bench 0 (Some (0, ''ok'')) = Inr doc
     \<and> jitem doc ''messages'' = Inr (JInt 4) \<and> counted b = counted v \<and> render_report (\<lambda>_. []) doc = Inr ([bb, vb], txt)"
proof -
  obtain doc where d: "benchmark_main zero_rng (\<lambda>_. ()) w_bench 0 (Some (0, ''ok'')) = Inr doc"
    unfolding benchmark_main_def w_bench_venues by (simp add: w_bench_def run_exchange_def Let_def)
  from benchmark_report_renders [OF this, where rep = "\<lambda>_. []"] show ?thesis
    unfolding w_bench_venues using d by (auto simp: w_bench_def)
qed

subsection \<open>Provenance and evidence\<close>

definition w_sha256 :: "bytes \<Rightarrow> string" where
  "w_sha256 d = map (\<lambda>w. char_of (unat w)) d"

lemma w_sha256_inj: "w_sha256 s = w_sha256 s' \<Longrightarrow> s = s'"
proof -
  have "inj (\<lambda>w :: byte. char_of (unat w) :: char)"
  proof (rule injI)
    fix v w :: byte
    assume "(char_of (unat v) :: char) = char_of (unat w)"
    then have "unat v mod 256 = unat w mod 256" by (simp add: take_bit_eq_mod flip: of_char_eq_iff)
    moreover have "unat x < 2 ^ 8" for x :: byte using unsigned_less [of x, where ?'a = nat] by simp
    ultimately have "unat v = unat w" by simp
    then show "v = w" by (rule unsigned_word_eqI)
  qed
  then have "inj (map (\<lambda>w :: byte. char_of (unat w) :: char))" by (rule inj_mapI)
  then show "w_sha256 s = w_sha256 s' \<Longrightarrow> s = s'" unfolding w_sha256_def by (rule injD)
qed

definition w_tree :: "(path \<times> bytes) list" where
  "w_tree = [([''b.rs''], [2]), ([''a'', ''m.py''], [1, 0])]"

lemma w_tree_ok: "tree_ok w_tree" "tree_ok (rev w_tree)" "tree_ok [([''b.rs''], [2])]"
  by (simp_all add: w_tree_def tree_ok_def valid_path_def valid_part_def)

lemma w_tree_digest:
  "\<not> isl (source_digest w_sha256 [''repo''] w_tree)" "\<not> isl (source_digest w_sha256 [''repo''] (rev w_tree))"
  "\<not> isl (source_digest w_sha256 [''repo''] [([''b.rs''], [2])])"
  by code_simp+

theorem source_digest_identifies_sources_witness:
  "source_digest w_sha256 [''repo''] w_tree = source_digest w_sha256 [''repo''] (rev w_tree)
   \<and> source_digest w_sha256 [''repo''] w_tree \<noteq> source_digest w_sha256 [''repo''] [([''b.rs''], [2])]"
proof -
  obtain d1 d2 d3 where d: "source_digest w_sha256 [''repo''] w_tree = Inr d1"
    "source_digest w_sha256 [''repo''] (rev w_tree) = Inr d2" "source_digest w_sha256 [''repo''] [([''b.rs''], [2])] = Inr d3"
    using w_tree_digest by (metis sum.collapse(2))
  have "d1 = d2" using source_digest_identifies_sources [OF w_tree_ok(1,2) d(1,2)] w_sha256_inj
    by (auto simp: included_files_def)
  moreover have "([''a'', ''m.py''], [1, 0]) \<in> included_files [''repo''] w_tree"
    "([''a'', ''m.py''], [1, 0]) \<notin> included_files [''repo''] [([''b.rs''], [2])]"
    by (simp_all add: included_files_def w_tree_def included_def excluded_parts_def)
  then have "d1 \<noteq> d3" using source_digest_identifies_sources [OF w_tree_ok(1,3) d(1,3)] w_sha256_inj by auto
  ultimately show ?thesis using d by simp
qed

definition w_files :: "(path \<times> bytes) list" where
  "w_files = [([''conf'', ''a''], [1, 2]), ([''b''], [3])]"

lemma w_files_ok: "backup_ok w_files" "room_for (fst ` set w_files \<union> temporary_targets (fst ` set w_files)) empty_tree"
  by (simp_all add: backup_ok_def w_files_def valid_part_def antichain_def ancestors_def temporary_targets_def
      temporary_target_def room_for_def empty_tree_def atLeastLessThanSuc)

definition w_snapshot :: json where
  "w_snapshot = JObj (map (\<lambda>(k, n). (k, JInt n)) expected_pnl @ [(''limits_breached'', JObj [(''net_position'', JBool False)])])"

lemma w_snapshot_ok: "\<exists>checks. inspect_portfolio w_snapshot = Inr (JObj [(''net_position'', JBool False)], checks)"
  by (simp add: inspect_portfolio_def w_snapshot_def expected_pnl_def jget_def get_default_def jitem_def dict_values_def json_eq_def)


subsection \<open>Backup\<close>

text \<open>A root with one file and a link that leads out of it.\<close>

definition w_fs :: fs where
  "w_fs = [([''etc''], DirNode), ([''etc'', ''key''], FileNode [9]), ([''r''], DirNode), ([''r'', ''config''], DirNode),
     ([''r'', ''config'', ''a''], FileNode [1, 2]), ([''r'', ''config'', ''up''], LinkNode False [''..'', ''..'', ''etc''])]"

lemma w_fs_ok: "wf_fs w_fs" "lookup w_fs [''r''] = Some [''r'']"
  by (auto simp: wf_fs_def w_fs_def valid_part_def is_dir_def less_Suc_eq) code_simp

lemma w_fs_accepted: "accepted w_fs [''r''] ''config''" "\<not> accepted w_fs [''r''] ''config/up''"
proof -
  have s: "safe_relative ''config'' = Inr [''config'']" "safe_relative ''config/up'' = Inr [''config'', ''up'']"
    "lookup w_fs [''r'', ''config''] = Some [''r'', ''config'']" "lookup w_fs [''r'', ''config'', ''up''] = Some [''etc'']"
    "\<not> is_symlink_at w_fs [''r'', ''config'']" by code_simp+
  then show "accepted w_fs [''r''] ''config''" "\<not> accepted w_fs [''r''] ''config/up''" by (simp_all add: accepted_def)
qed

theorem collected_files_inside_root_witness:
  "(\<exists>files. collect w_fs [''r''] [''config''] = Some (Inr files) \<and> [''r'', ''config'', ''a''] \<in> set files \<and> sorted files \<and> distinct files)
   \<and> (\<exists>e. collect w_fs [''r''] [''config/up''] = Some (Inl e))"
proof -
  have "[''r'', ''config'', ''a''] \<in> files_under w_fs [''r''] ''config''"
  proof -
    have "safe_relative ''config'' = Inr [''config'']" "lookup w_fs ([''r''] @ [''config'']) = Some [''r'', ''config'']"
      "map_of w_fs ([''r'', ''config''] @ [''a'']) = Some (FileNode [1, 2])" by code_simp+
    then show ?thesis unfolding files_under_def by force
  qed
  then show ?thesis
    using collected_files_inside_root [OF w_fs_ok, of "[''config'']"] collected_files_inside_root [OF w_fs_ok, of "[''config/up'']"] w_fs_accepted
    by auto
qed

lemma w_fs_collect: "collect w_fs [''r''] [''config''] = Some (Inr [[''r'', ''config'', ''a'']])"
proof -
  have "ensure_within_root w_fs [''r''] [''r'', ''config''] = Some (Inr ())"
    using ensure_within_root_exact [OF w_fs_ok, of "[''r'', ''config'']" "[''r'', ''config'']"] by (simp add: lookup_def w_fs_def)
  moreover have "safe_relative ''config'' = Inr [''config'']" "exists_at w_fs [''r'', ''config'']"
    "\<not> is_symlink_at w_fs [''r'', ''config'']" "files_of w_fs [''r'', ''config''] = [[''r'', ''config'', ''a'']]" by code_simp+
  ultimately show ?thesis by (simp add: collect_def List.union_def)
qed

theorem backup_end_to_end_witness:
  "\<exists>archive t'. backup_run (manifest_dumps (\<lambda>_. [])) w_sha256 w_fs [''r''] [''config''] None = Some (Inr (), Some archive)
     \<and> restore (\<lambda>_. []) json_loads_bytes w_sha256 archive empty_tree = (Inr (), t')
     \<and> map_of (tr_files t') [''config'', ''a''] = Some [1, 2]"
proof -
  have "read_file w_fs [''r'', ''config'', ''a''] = Inr [1, 2]" by code_simp
  moreover have "no_reserved_names {[''config'', ''a'']}" "room_for {[''config'', ''a''], temporary_target [''config'', ''a'']} empty_tree"
    by (simp_all add: no_reserved_names_def temporary_target_def room_for_def empty_tree_def ancestors_def atLeastLessThanSuc)
  ultimately show ?thesis
    using backup_end_to_end [where sha = w_sha256 and frep = "\<lambda>_. []" and rep = "\<lambda>_. []" and t = empty_tree and earlier = None,
        OF w_fs_ok _ w_fs_collect]
    by (simp add: temporary_targets_def insert_commute) metis
qed

subsection \<open>Monitoring\<close>

definition w_fills :: "json list" where
  "w_fills = [JObj [(''instrument_id'', JInt 7), (''side'', JInt 1), (''quantity'', JInt 2), (''price_ticks'', JInt 4)]]"

definition w_trades :: "(string, json) dict" where
  "w_trades = [(''limits'', JObj (map (\<lambda>n. (n, JInt 10)) limit_names)), (''fills'', JArr w_fills), (''marks'', JObj [(''7'', JInt 5)])]"

definition w_book :: portfolio where
  "w_book = \<lparr>pf_limits = limits_of [10, 10, 10, 10, 10], pf_specs = [], pf_locates = [], pf_factor_model = None, pf_positions = [(7, empty_position\<lparr>pos_quantity := 2, pos_average_price_ticks := 4, pos_last_price_ticks := 4\<rparr>)]\<rparr>"

lemma w_fills_applied: "res_bind (portfolio_init (limits_of [10, 10, 10, 10, 10]) [] [] None) (apply_fills w_fills) = Inr w_book"
  by code_simp

lemma w_book_marked:
  "map_sum id (\<lambda>sn. (sn_net_position sn, sn_unrealized_pnl_ticks sn)) (snapshot w_book [(7, PriceTicks 5)] ''last'' None None) = Inr (2, 2)"
  by code_simp

lemma w_trades_snapshot: "\<exists>sn. build_snapshot w_trades = Inr sn \<and> sn_net_position sn = 2 \<and> sn_unrealized_pnl_ticks sn = 2"
proof -
  have "map_res (jitem_int (JObj (map (\<lambda>n. (n, JInt 10)) limit_names))) limit_names = Inr [10, 10, 10, 10, 10]"
    "read_marks [(''7'', JInt 5)] [] = Inr [(7, PriceTicks 5)]" by code_simp+
  moreover have "build_snapshot w_trades
    = res_bind (map_res (jitem_int (JObj (map (\<lambda>n. (n, JInt 10)) limit_names))) limit_names) (\<lambda>ns.
      res_bind (res_bind (portfolio_init (limits_of ns) [] [] None) (apply_fills w_fills)) (\<lambda>s.
      res_bind (read_marks [(''7'', JInt 5)] []) (\<lambda>marks. snapshot s marks ''last'' None None)))"
    by (simp add: build_snapshot_def w_trades_def get_default_def res_bind_assoc)
  ultimately have "build_snapshot w_trades = snapshot w_book [(7, PriceTicks 5)] ''last'' None None"
    by (simp add: w_fills_applied)
  then show ?thesis using w_book_marked by (cases "snapshot w_book [(7, PriceTicks 5)] ''last'' None None") simp_all
qed

definition w_readiness :: json where
  "w_readiness = JObj [(''gates'', JArr [JObj [(''id'', JStr ''GATE-EXT-001''), (''implemented'', JBool False)]])]"

theorem monitoring_page_shows_books_and_gates_witness:
  "\<exists>sn h body. build_snapshot w_trades = Inr sn \<and> build_report (\<lambda>_. []) w_readiness True = Inr h
     \<and> render_metrics h (Some (snapshot_json sn)) None = Inr body \<and> scrape ''ito_portfolio_net_position'' body = Some 2
     \<and> scrape ''ito_external_blocker_count'' body = Some 1 \<and> scrape ''ito_local_validation_pass'' body = Some 1"
proof -
  obtain sn where sn: "build_snapshot w_trades = Inr sn" "sn_net_position sn = 2" using w_trades_snapshot by blast
  have lists: "report_lists (\<lambda>_. []) w_readiness = Inr ([], [''GATE-EXT-001''])" by code_simp
  then obtain h where h: "build_report (\<lambda>_. []) w_readiness True = Inr h"
    by (simp add: build_report_def) (simp add: w_readiness_def)
  from monitoring_page_shows_books_and_gates [OF sn(1) h] show ?thesis using sn h lists by auto
qed

end
