(* ===== verification/Exit_Codes.thy ===== *)
theory Exit_Codes
  imports Monitoring_Props Gate_Sim_Props Routing_Props
begin

section \<open>Exit statuses of the gating scripts\<close>

text \<open>
  The \<open>main\<close> functions whose exit status or output decides what an operator or a pipeline does next:
  \<open>readiness_check.py\<close>, \<open>production_gate_simulations.py\<close>, \<open>reconcile_uncertain_orders.py\<close> and the
  one-shot mode of \<open>prometheus_exporter.py\<close>. Each returns the document it prints and its status.
\<close>

definition readiness_main :: "exn + json \<Rightarrow> exn + json \<times> int" where
  "readiness_main matrix_source =
     res_bind matrix_source (\<lambda>matrix.
     res_bind (evaluate matrix) (\<lambda>doc.
     res_bind (jitem doc ''status'') (\<lambda>status.
       Inr (doc, if json_eq status (JStr ''production_ready'') then 0 else 1))))"

definition gates_main :: "exn + json \<Rightarrow> exn + json \<times> int" where
  "gates_main outcome =
     res_bind outcome (\<lambda>doc.
     res_bind (jitem doc ''status'') (\<lambda>status. Inr (doc, if json_eq status (JStr ''passed'') then 0 else 1)))"

definition uncertain_main :: "(string \<Rightarrow> exn + json) \<Rightarrow> string \<Rightarrow> string option \<Rightarrow> string \<Rightarrow> bool \<Rightarrow> int \<Rightarrow> exn + json \<times> int" where
  "uncertain_main loads journal_path journal venue_id auto_resolve now =
     (let doc = reconcile_orders loads journal_path journal venue_id auto_resolve now
      in res_bind (jitem doc ''status'') (\<lambda>status. Inr (doc, if json_eq status (JStr ''reconciled'') then 0 else 1)))"

definition exporter_main :: "exn + json \<Rightarrow> (exn + json) option \<Rightarrow> (exn + json) option \<Rightarrow> exn + string" where
  "exporter_main health_source portfolio_source audit_source =
     res_bind (load_snapshot health_source) (\<lambda>health.
     res_bind (load_optional portfolio_source) (\<lambda>portfolio.
     res_bind (load_optional audit_source) (\<lambda>audit. render_metrics health portfolio audit)))"

subsection \<open>What the statuses say\<close>

text \<open>The readiness check succeeds exactly when no gate is open.\<close>

lemma readiness_exit:
  assumes "map_of m ''gates'' = Some (JArr gs)" and "\<forall>g \<in> set gs. gate_ok g"
  shows "\<exists>doc. readiness_main (Inr (JObj m)) = Inr (doc, if \<exists>g \<in> set gs. open_gate g then 1 else 0)"
proof -
  obtain ss e where "evaluate (JObj m) = Inr (JObj e)" "map_of e ''blockers'' = Some (JArr ss)" "map_of e ''gates'' = None"
    "map_of e ''status'' = Some (JStr (if filter open_gate gs = [] then ''production_ready'' else ''not_production_ready''))"
    "list_all2 (\<lambda>g s. blocker_summary g = Inr s) (filter open_gate gs) ss" by (rule evaluate_gates [OF assms])
  then show ?thesis by (auto simp: readiness_main_def jitem_def json_eq_def filter_empty_conv)
qed

text \<open>The gate simulations succeed exactly when the evidence of the hardware package is complete and the two keys differ.\<close>

lemma gates_exit:
  assumes "\<And>t. length (sha t) = 64"
  shows "\<exists>doc. gates_main (run_gates sha key_digest hmac dumps k1 k2 package gate binding)
     = Inr (doc, if key_digest k1 \<noteq> key_digest k2
          \<and> (\<forall>token \<in> set hardware_tokens. occurs_in token package \<or> occurs_in token gate) then 0 else 1)"
proof -
  obtain r where "run_gates sha key_digest hmac dumps k1 k2 package gate binding = Inr r"
    "jitem r ''status'' = Inr (JStr (if key_digest k1 \<noteq> key_digest k2
          \<and> (\<forall>token \<in> set hardware_tokens. occurs_in token package \<or> occurs_in token gate) then ''passed'' else ''failed''))"
    using gates_pass_iff [of sha key_digest hmac dumps k1 k2 package gate binding, OF assms] by blast
  then show ?thesis by (simp add: gates_main_def json_eq_def)
qed

text \<open>The reconciliation of uncertain orders succeeds whenever there is a journal, also with orders left uncertain.\<close>

lemma uncertain_exit_ignores_orders:
  "\<exists>doc. uncertain_main loads path journal venue auto_resolve now = Inr (doc, if journal = None then 1 else 0)"
  by (cases journal) (simp_all add: uncertain_main_def reconcile_orders_def jitem_def json_eq_def split_beta Let_def)

text \<open>The one-shot exporter prints the body the server would answer with, and fails where the server answers 503.\<close>

lemma exporter_main_as_served:
  "exporter_get ''/metrics'' h p a
   = (case exporter_main h p a of
        Inl (ExporterError m) \<Rightarrow> Inr (empty_response 503)
      | Inl e \<Rightarrow> Inl e
      | Inr body \<Rightarrow> Inr \<lparr>rs_status = 200, rs_headers = [(''Content-Type'', ''text/plain; version=0.0.4''),
          (''Content-Length'', str_of_int (int (utf8_size body)))], rs_body = body\<rparr>)"
  by (simp add: exporter_get_def exporter_main_def)

end
