(* ===== verification/Scripts.thy ===== *)
theory Scripts
  imports Exit_Codes Reconcile Config Provenance
begin

section \<open>The command-line scripts on a directory tree\<close>

text \<open>
  The \<open>main\<close> functions of the operational scripts, on the directory tree they read and write. A script
  is run with its parsed arguments, and returns what it prints and its exit status, or the exception
  that ends it, and the tree it leaves. Texts are written as UTF-8 and read back from it; a document is
  the text \<open>json.dumps\<close> gives and is read by the parser of theory \<open>Json_Text\<close>. Reading a text file
  translates its line endings, except that \<open>read_json\<close> leaves this out: between JSON tokens every
  line ending is white space, and inside a string none is allowed. Printed text stands for both standard streams. Parameters: \<open>frep\<close> the text of
  a float, \<open>rep\<close> the text of floats and containers in \<open>str\<close>, \<open>sha\<close> the hexadecimal SHA-256.
\<close>

type_synonym script = "tree \<Rightarrow> (tree, string \<times> int) outcome"

subsection \<open>Files\<close>

definition decoded :: "path \<Rightarrow> tree \<Rightarrow> exn + string" where
  "decoded p t =
     (case map_of (tr_files t) p of
        None \<Rightarrow> Inl (OSError (if p \<in> set (tr_dirs t) then ''is a directory'' else ''no such file''))
      | Some data \<Rightarrow> (case utf8_decode data of None \<Rightarrow> Inl (UnicodeError ''utf-8'') | Some s \<Rightarrow> Inr s))"

fun universal_newlines :: "string \<Rightarrow> string" where
  "universal_newlines [] = []"
| "universal_newlines (c # s) =
     (if c = CHR 0x0D \<and> s \<noteq> [] \<and> hd s = CHR 0x0A then CHR 0x0A # universal_newlines (tl s)
      else (if c = CHR 0x0D then CHR 0x0A else c) # universal_newlines s)"

definition read_text :: "path \<Rightarrow> tree \<Rightarrow> exn + string" where
  "read_text p t = map_sum id universal_newlines (decoded p t)"

definition read_json :: "path \<Rightarrow> tree \<Rightarrow> exn + json" where
  "read_json p t = res_bind (decoded p t) json_loads"

definition is_file :: "path \<Rightarrow> tree \<Rightarrow> bool" where
  "is_file p t \<longleftrightarrow> has_key (tr_files t) p"

text \<open>\<open>write_text\<close> into a directory that is there, and after \<open>parent.mkdir(parents=True, exist_ok=True)\<close>.\<close>

definition write_text :: "path \<Rightarrow> string \<Rightarrow> tree \<Rightarrow> (tree, unit) outcome" where
  "write_text p s t =
     (if butlast p \<notin> set (tr_dirs t) then (Inl (OSError ''no such file''), t)
      else case write_bytes p (utf8_encode s) t of Inl e \<Rightarrow> (Inl e, t) | Inr t \<Rightarrow> (Inr (), t))"

definition write_output :: "path \<Rightarrow> string \<Rightarrow> tree \<Rightarrow> (tree, unit) outcome" where
  "write_output p s t = (case make_parents p t of Inl e \<Rightarrow> (Inl e, t) | Inr t \<Rightarrow> write_text p s t)"

text \<open>A step that may raise before anything is written, and what follows an operation on the tree.\<close>

definition after :: "exn + 'a \<Rightarrow> ('a \<Rightarrow> tree \<Rightarrow> (tree, 'b) outcome) \<Rightarrow> tree \<Rightarrow> (tree, 'b) outcome" where
  "after r k t = (case r of Inl e \<Rightarrow> (Inl e, t) | Inr a \<Rightarrow> k a t)"

definition and_then :: "(tree, 'a) outcome \<Rightarrow> ('a \<Rightarrow> tree \<Rightarrow> (tree, 'b) outcome) \<Rightarrow> (tree, 'b) outcome" where
  "and_then o1 k = (case o1 of (Inl e, t) \<Rightarrow> (Inl e, t) | (Inr a, t) \<Rightarrow> k a t)"

text \<open>The end of the reporting scripts: the optional file, then the same text on the standard output.\<close>

definition report :: "(path \<Rightarrow> string \<Rightarrow> tree \<Rightarrow> (tree, unit) outcome) \<Rightarrow> path option \<Rightarrow> string \<Rightarrow> int \<Rightarrow> script" where
  "report put out rendered status t =
     (case out of
        None \<Rightarrow> (Inr (rendered, status), t)
      | Some p \<Rightarrow> and_then (put p rendered t) (\<lambda>_ t. (Inr (rendered, status), t)))"

text \<open>\<open>json.dumps(value, indent=2, sort_keys=True) + "\n"\<close>, and \<open>print(json.dumps(value, sort_keys=True))\<close>.\<close>

definition document :: "(rat \<Rightarrow> string) \<Rightarrow> json \<Rightarrow> string" where
  "document frep v = json_dumps frep indent_style v @ newline"

definition one_line :: "(rat \<Rightarrow> string) \<Rightarrow> json \<Rightarrow> string" where
  "one_line frep v = json_dumps frep plain_style v @ newline"

subsection \<open>portfolio\_snapshot.py\<close>

definition load_input :: "path \<Rightarrow> tree \<Rightarrow> exn + (string, json) dict" where
  "load_input p t = res_bind (read_json p t) (\<lambda>v. case v of JObj d \<Rightarrow> Inr d | _ \<Rightarrow> Inl (ValueError ''input_invalid''))"

definition snapshot_script :: "(rat \<Rightarrow> string) \<Rightarrow> path \<Rightarrow> path option \<Rightarrow> script" where
  "snapshot_script frep input out t =
     after (res_bind (load_input input t) build_snapshot)
       (\<lambda>sn. report write_output out (document frep (snapshot_json sn)) 0) t"

subsection \<open>readiness\_check.py\<close>

definition readiness_script :: "(rat \<Rightarrow> string) \<Rightarrow> path \<Rightarrow> path option \<Rightarrow> script" where
  "readiness_script frep matrix out t =
     after (readiness_main (read_json matrix t)) (\<lambda>(doc, status). report write_text out (document frep doc) status) t"

subsection \<open>health\_report.py\<close>

definition load_json :: "path \<Rightarrow> tree \<Rightarrow> exn + json" where
  "load_json p t =
     (case read_json p t of
        Inl (OSError m) \<Rightarrow> Inl (HealthError (''invalid_json:'' @ as_posix p @ '':'' @ m))
      | Inl (JSONDecodeError m) \<Rightarrow> Inl (HealthError (''invalid_json:'' @ as_posix p @ '':'' @ m))
      | r \<Rightarrow> r)"

definition write_prometheus_file :: "json \<Rightarrow> path \<Rightarrow> tree \<Rightarrow> (tree, unit) outcome" where
  "write_prometheus_file health p t =
     (case make_parents p t of
        Inl e \<Rightarrow> (Inl e, t)
      | Inr t \<Rightarrow> after (write_prometheus health) (write_text p) t)"

definition health_script :: "(json \<Rightarrow> string) \<Rightarrow> (rat \<Rightarrow> string) \<Rightarrow> path \<Rightarrow> path \<Rightarrow> path \<Rightarrow> path \<Rightarrow> script" where
  "health_script rep frep readiness recovery out prometheus t =
     after (res_bind (load_json readiness t) (\<lambda>r. build_report rep r (is_file recovery t))) (\<lambda>health t.
       and_then (write_output out (document frep health) t) (\<lambda>_ t.
       and_then (write_prometheus_file health prometheus t) (\<lambda>_ t.
         (Inr (one_line frep health, 0), t)))) t"

text \<open>\<open>raise SystemExit(str(error))\<close> for the exceptions the script names.\<close>

definition exit_with :: "(exn \<Rightarrow> string option) \<Rightarrow> script \<Rightarrow> script" where
  "exit_with handler run t =
     (case run t of
        (Inl e, t) \<Rightarrow> (Inl (case handler e of Some m \<Rightarrow> SystemExit m | None \<Rightarrow> e), t)
      | r \<Rightarrow> r)"

definition health_command :: "(json \<Rightarrow> string) \<Rightarrow> (rat \<Rightarrow> string) \<Rightarrow> path \<Rightarrow> path \<Rightarrow> path \<Rightarrow> path \<Rightarrow> script" where
  "health_command rep frep readiness recovery out prometheus =
     exit_with (\<lambda>e. case e of HealthError m \<Rightarrow> Some m | _ \<Rightarrow> None) (health_script rep frep readiness recovery out prometheus)"

subsection \<open>prometheus\_exporter.py\<close>

text \<open>A path that was given and is a file is read, otherwise there is no snapshot.\<close>

definition optional_json :: "path option \<Rightarrow> tree \<Rightarrow> (exn + json) option" where
  "optional_json source t =
     (case source of None \<Rightarrow> None | Some p \<Rightarrow> if is_file p t then Some (read_json p t) else None)"

definition exporter_script :: "path \<Rightarrow> path option \<Rightarrow> path option \<Rightarrow> path option \<Rightarrow> script" where
  "exporter_script health portfolio audit out t =
     after (exporter_main (read_json health t) (optional_json portfolio t) (optional_json audit t))
       (\<lambda>body. report write_output out body 0) t"

subsection \<open>reconcile.py, failover\_drill.py, venue\_status.py and route\_recommendation.py\<close>

text \<open>
  The records of one side are iterated and indexed before those of the other; a dict or a string is
  iterated too, and \<open>None\<close> or a number raises.
\<close>

definition reconcile_script :: "(rat \<Rightarrow> string) \<Rightarrow> path \<Rightarrow> path \<Rightarrow> path option \<Rightarrow> script" where
  "reconcile_script frep local_path venue_path out t =
     after (res_bind (read_json local_path t) (\<lambda>local_value.
            res_bind (read_json venue_path t) (\<lambda>venue_value.
            res_bind (iter_items local_value) (\<lambda>local_records.
            res_bind (index_records local_records ''local'') (\<lambda>_.
            res_bind (iter_items venue_value) (\<lambda>venue_records. reconcile_result local_records venue_records))))))
       (\<lambda>doc. report write_text out (document frep doc) 0) t"

text \<open>The fields of the lease are read before the findings are iterated.\<close>

definition failover_script :: "(json \<Rightarrow> string) \<Rightarrow> (rat \<Rightarrow> string) \<Rightarrow> path \<Rightarrow> path \<Rightarrow> tree \<Rightarrow> exn + string \<times> int" where
  "failover_script rep frep lease_path findings_path t =
     res_bind (read_json lease_path t) (\<lambda>lease.
     res_bind (read_json findings_path t) (\<lambda>doc.
     res_bind (jitem doc ''findings'') (\<lambda>findings_value.
     res_bind (drill rep lease []) (\<lambda>_.
     res_bind (iter_items findings_value) (\<lambda>findings.
     res_bind (drill rep lease findings) (\<lambda>result. Inr (document frep result, 0)))))))"

text \<open>The value that was read is reported unchanged under \<open>venues\<close>.\<close>

definition venue_status_script :: "(rat \<Rightarrow> string) \<Rightarrow> path \<Rightarrow> path option \<Rightarrow> script" where
  "venue_status_script frep input out t =
     after (res_bind (read_json input t) (\<lambda>sessions.
            res_bind (iter_items sessions) (\<lambda>items.
            res_bind (aggregate items) (\<lambda>doc.
              Inr (case doc of JObj d \<Rightarrow> JObj (AList.update ''venues'' sessions d) | _ \<Rightarrow> doc)))))
       (\<lambda>doc. report write_text out (document frep doc) 0) t"

definition route_script :: "(json \<Rightarrow> string) \<Rightarrow> (rat \<Rightarrow> string) \<Rightarrow> path \<Rightarrow> path \<Rightarrow> int \<Rightarrow> bool \<Rightarrow> tree \<Rightarrow> exn + string \<times> int" where
  "route_script rep frep routes_path sessions_path quantity live t =
     res_bind (read_json routes_path t) (\<lambda>route_data.
     res_bind (read_json sessions_path t) (\<lambda>session_data.
     res_bind (jitem route_data ''routes'') (\<lambda>routes_value.
     res_bind
       (if quantity \<le> 0 then Inr []
        else res_bind (iter_items session_data) (\<lambda>sessions.
             res_bind (session_states rep sessions []) (\<lambda>_.
             res_bind (iter_items routes_value) (\<lambda>routes. recommend rep routes sessions quantity live))))
       (\<lambda>selected. Inr (document frep (JArr selected), 0)))))"

subsection \<open>verify\_release\_binding.py, key\_rotation\_drill.py and generate\_sbom.py\<close>

text \<open>The chunks a file is hashed in, and the digest: hashing chunk by chunk hashes their concatenation.\<close>

function read_chunks :: "nat \<Rightarrow> bytes \<Rightarrow> bytes list" where
  "read_chunks n data = (if n = 0 \<or> data = [] then [] else take n data # read_chunks n (drop n data))"
  by pat_completeness auto
termination by (relation "measure (\<lambda>(n, data). length data)") auto

declare read_chunks.simps [simp del]

definition file_digest :: "(bytes \<Rightarrow> string) \<Rightarrow> bytes \<Rightarrow> string" where
  "file_digest sha data = sha (concat (read_chunks (1024 * 1024) data))"

definition binding_script :: "(bytes \<Rightarrow> string) \<Rightarrow> path \<Rightarrow> path \<Rightarrow> path \<Rightarrow> path \<Rightarrow> script" where
  "binding_script sha binding policy rtl schema t =
     after (verify_binding (file_digest sha) (read_json binding t)
         (map_of (tr_files t) policy) (map_of (tr_files t) rtl) (map_of (tr_files t) schema))
       (\<lambda>_ t. (Inr (''release_binding_verified'' @ newline, 0), t)) t"

definition binding_command :: "(bytes \<Rightarrow> string) \<Rightarrow> path \<Rightarrow> path \<Rightarrow> path \<Rightarrow> path \<Rightarrow> script" where
  "binding_command sha binding policy rtl schema =
     exit_with (\<lambda>e. case e of BindingError m \<Rightarrow> Some m | _ \<Rightarrow> None) (binding_script sha binding policy rtl schema)"

text \<open>The two keys \<open>secrets.token_bytes\<close> draws are arguments.\<close>

definition rotation_script :: "(bytes \<Rightarrow> string) \<Rightarrow> (rat \<Rightarrow> string) \<Rightarrow> bytes \<Rightarrow> bytes \<Rightarrow> path \<Rightarrow> script" where
  "rotation_script sha frep first_key second_key out t =
     after (rotation_drill sha first_key second_key) (\<lambda>doc t.
       and_then (write_output out (document frep doc) t) (\<lambda>_ t. (Inr (one_line frep doc, 0), t))) t"

definition rotation_command :: "(bytes \<Rightarrow> string) \<Rightarrow> (rat \<Rightarrow> string) \<Rightarrow> bytes \<Rightarrow> bytes \<Rightarrow> path \<Rightarrow> script" where
  "rotation_command sha frep first_key second_key out =
     exit_with (\<lambda>e. case e of RotationError m \<Rightarrow> Some m | _ \<Rightarrow> None) (rotation_script sha frep first_key second_key out)"

text \<open>The tree is the root of the sources, whose own path is \<open>root_parts\<close>; \<open>toml\<close> stands for \<open>tomllib.loads\<close>.\<close>

definition lock_path :: path where
  "lock_path = [''rust'', ''Cargo.lock'']"

definition sbom_script :: "(string \<Rightarrow> exn + json) \<Rightarrow> (bytes \<Rightarrow> string) \<Rightarrow> (rat \<Rightarrow> string) \<Rightarrow> path \<Rightarrow> path \<Rightarrow> script" where
  "sbom_script toml sha frep root_parts out t =
     after (build_document sha root_parts (tr_files t)
         (if is_file lock_path t then Some (res_bind (read_text lock_path t) toml) else None))
       (\<lambda>doc t. and_then (write_output out (document frep doc) t) (\<lambda>_ t. (Inr (''provenance_generated'' @ newline, 0), t))) t"

definition sbom_command :: "(string \<Rightarrow> exn + json) \<Rightarrow> (bytes \<Rightarrow> string) \<Rightarrow> (rat \<Rightarrow> string) \<Rightarrow> path \<Rightarrow> path \<Rightarrow> script" where
  "sbom_command toml sha frep root_parts out =
     exit_with (\<lambda>e. case e of ProvenanceError m \<Rightarrow> Some m | _ \<Rightarrow> None) (sbom_script toml sha frep root_parts out)"

subsection \<open>generate\_risk\_interface.py\<close>

text \<open>\<open>path.with_suffix(path.suffix + ".tmp")\<close>.\<close>

definition temporary_name :: "path \<Rightarrow> path" where
  "temporary_name p = butlast p @ [last p @ ''.tmp'']"

definition atomic_write :: "path \<Rightarrow> string \<Rightarrow> tree \<Rightarrow> (tree, unit) outcome" where
  "atomic_write p content t =
     and_then (write_text (temporary_name p) content t) (\<lambda>_ t.
       case replace_file (temporary_name p) p (utf8_encode content) t of Inl e \<Rightarrow> (Inl e, t) | Inr t \<Rightarrow> (Inr (), t))"

definition register_map_path :: path where
  "register_map_path = [''interfaces'', ''register_maps'', ''risk_gate.json'']"

definition rust_path :: path where
  "rust_path = [''rust'', ''risk_service'', ''src'', ''generated.rs'']"

definition package_path :: path where
  "package_path = [''rtl'', ''common'', ''generated'', ''risk_frame_pkg.sv'']"

definition layout_path :: path where
  "layout_path = [''interfaces'', ''generated'', ''risk_frame_layout.json'']"

definition interface_script :: "(json \<Rightarrow> string) \<Rightarrow> (rat \<Rightarrow> string) \<Rightarrow> script" where
  "interface_script rep frep t =
     after (res_bind (read_json register_map_path t) (generate_interface rep)) (\<lambda>(rust, sv, layout) t.
       and_then (atomic_write rust_path rust t) (\<lambda>_ t.
       and_then (atomic_write package_path sv t) (\<lambda>_ t.
       and_then (atomic_write layout_path (document frep layout) t) (\<lambda>_ t.
         (Inr (''risk_interface_generated'' @ newline, 0), t))))) t"

subsection \<open>production\_gate\_simulations.py\<close>

definition gate_rtl_path :: path where
  "gate_rtl_path = [''rtl'', ''risk_gate'', ''pre_trade_gate.sv'']"

definition binding_path :: path where
  "binding_path = [''build'', ''release'', ''binding.json'']"

text \<open>The hardware evidence is read after the first three simulations, the binding if there is one.\<close>

definition gates_run :: "(string \<Rightarrow> string) \<Rightarrow> (bytes \<Rightarrow> string) \<Rightarrow> (bytes \<Rightarrow> string \<Rightarrow> string) \<Rightarrow> (json \<Rightarrow> string)
    \<Rightarrow> bytes \<Rightarrow> bytes \<Rightarrow> tree \<Rightarrow> exn + json" where
  "gates_run sha key_digest hmac dumps k1 k2 t =
     res_bind (simulate_security key_digest hmac k1 k2) (\<lambda>_.
     res_bind simulate_venue (\<lambda>_.
     res_bind simulate_shadow_session (\<lambda>_.
     res_bind (read_text package_path t) (\<lambda>package.
     res_bind (read_text gate_rtl_path t) (\<lambda>gate.
     res_bind (if is_file binding_path t then map_sum id Some (read_text binding_path t) else Inr None) (\<lambda>binding.
       run_gates sha key_digest hmac dumps k1 k2 package gate binding))))))"

definition gates_script :: "(string \<Rightarrow> string) \<Rightarrow> (bytes \<Rightarrow> string) \<Rightarrow> (bytes \<Rightarrow> string \<Rightarrow> string) \<Rightarrow> (json \<Rightarrow> string)
    \<Rightarrow> bytes \<Rightarrow> bytes \<Rightarrow> (rat \<Rightarrow> string) \<Rightarrow> path \<Rightarrow> script" where
  "gates_script sha key_digest hmac dumps k1 k2 frep out t =
     after (gates_main (gates_run sha key_digest hmac dumps k1 k2 t)) (\<lambda>(doc, status) t.
       and_then (write_output out (document frep doc) t) (\<lambda>_ t. (Inr (one_line frep doc, status), t))) t"

definition gates_command :: "(string \<Rightarrow> string) \<Rightarrow> (bytes \<Rightarrow> string) \<Rightarrow> (bytes \<Rightarrow> string \<Rightarrow> string) \<Rightarrow> (json \<Rightarrow> string)
    \<Rightarrow> bytes \<Rightarrow> bytes \<Rightarrow> (rat \<Rightarrow> string) \<Rightarrow> path \<Rightarrow> script" where
  "gates_command sha key_digest hmac dumps k1 k2 frep out =
     exit_with (\<lambda>e. case e of SimulationError m \<Rightarrow> Some m | _ \<Rightarrow> None) (gates_script sha key_digest hmac dumps k1 k2 frep out)"

subsection \<open>health.py, replay.py and check\_hardware\_response.py\<close>

text \<open>These take one path; \<open>argv\<close> is the list of the arguments with the program in front.\<close>

definition one_argument :: "string \<Rightarrow> path list \<Rightarrow> (path \<Rightarrow> exn + string \<times> int) \<Rightarrow> exn + string \<times> int" where
  "one_argument usage argv run =
     (case argv of [_, p] \<Rightarrow> run p | _ \<Rightarrow> Inr (''usage: '' @ usage @ newline, 2))"

definition branch_health_script :: "(json \<Rightarrow> string) \<Rightarrow> (rat \<Rightarrow> string) \<Rightarrow> path list \<Rightarrow> tree \<Rightarrow> exn + string \<times> int" where
  "branch_health_script rep frep argv t =
     one_argument ''python3 health.py <snapshot.json>'' argv (\<lambda>p.
       res_bind (read_json p t) (\<lambda>snapshot.
       res_bind (health_main rep snapshot) (\<lambda>(doc, status). Inr (one_line frep doc, status))))"

definition replay_script :: "(json \<Rightarrow> string) \<Rightarrow> (rat \<Rightarrow> string) \<Rightarrow> path list \<Rightarrow> tree \<Rightarrow> exn + string \<times> int" where
  "replay_script rep frep argv t =
     one_argument ''python3 replay.py <journal.jsonl>'' argv (\<lambda>p.
       res_bind (read_text p t) (\<lambda>journal.
       res_bind (load_events rep json_loads journal) (\<lambda>events.
         case replay_result events of (doc, status) \<Rightarrow> Inr (one_line frep doc, status))))"

definition hardware_script :: "(json \<Rightarrow> string) \<Rightarrow> path list \<Rightarrow> tree \<Rightarrow> exn + string \<times> int" where
  "hardware_script rep argv t =
     one_argument ''check_hardware_response.py <response.json>'' argv (\<lambda>p.
       res_bind (check_hardware_response rep (read_json p t)) (\<lambda>(line, status). Inr (line @ newline, status)))"

end
