(* ===== verification/Scripts_Props.thy ===== *)
theory Scripts_Props
  imports Scripts Pipeline_Props Reconcile_Props Config_Props Provenance_Props
begin

section \<open>Correctness of the scripts\<close>

text \<open>
  A writer changes one file and a reporting script changes only its report: these are the interfaces
  \<open>file_writer\<close> and \<open>reporting_script\<close>, which the scripts' own operations interpret. With them the
  scripts compose through the files they leave, and the properties of the documents become properties
  of what an operator finds on the disk.
\<close>

subsection \<open>Writers\<close>

text \<open>\<open>scratch p\<close> are the temporary names a writer may leave or remove.\<close>

locale file_writer =
  fixes put :: "path \<Rightarrow> string \<Rightarrow> tree \<Rightarrow> (tree, unit) outcome"
    and scratch :: "path \<Rightarrow> path set"
  assumes put_done: "put p s t = (Inr u, t') \<Longrightarrow> q \<notin> scratch p
      \<Longrightarrow> map_of (tr_files t') q = (if q = p then Some (utf8_encode s) else map_of (tr_files t) q)"
    and put_failed: "put p s t = (Inl e, t') \<Longrightarrow> q \<notin> scratch p \<Longrightarrow> map_of (tr_files t') q = map_of (tr_files t) q"
    and put_dirs: "put p s t = (r, t') \<Longrightarrow> set (tr_dirs t) \<subseteq> set (tr_dirs t')"
begin

lemma put_decoded: "put p s t = (Inr u, t') \<Longrightarrow> p \<notin> scratch p \<Longrightarrow> decoded p t' = Inr s"
  by (simp add: decoded_def put_done utf8_decode_encode)

lemma put_frame: "put p s t = (r, t') \<Longrightarrow> q \<notin> scratch p \<Longrightarrow> q \<noteq> p \<Longrightarrow> map_of (tr_files t') q = map_of (tr_files t) q"
  by (cases r) (simp_all add: put_done put_failed)

end

lemma write_text_cases:
  obtains e where "write_text p s t = (Inl e, t)"
  | "write_text p s t = (Inr (), t\<lparr>tr_files := AList.update p (utf8_encode s) (tr_files t)\<rparr>)"
      "butlast p \<in> set (tr_dirs t)" "p \<notin> set (tr_dirs t)"
  by (cases "butlast p \<in> set (tr_dirs t)"; cases "p \<in> set (tr_dirs t)") (simp_all add: write_text_def write_bytes_def)

interpretation plain: file_writer write_text "\<lambda>_. {}"
proof
  fix p s t u e r t' and q :: path
  show "write_text p s t = (Inr u, t') \<Longrightarrow> map_of (tr_files t') q = (if q = p then Some (utf8_encode s) else map_of (tr_files t) q)"
    by (rule write_text_cases [of p s t]) (auto simp: dict_simps)
  show "write_text p s t = (Inl e, t') \<Longrightarrow> map_of (tr_files t') q = map_of (tr_files t) q"
    by (rule write_text_cases [of p s t]) auto
  show "write_text p s t = (r, t') \<Longrightarrow> set (tr_dirs t) \<subseteq> set (tr_dirs t')"
    by (rule write_text_cases [of p s t]) auto
qed

lemma make_parents_files: "make_parents p t = Inr t' \<Longrightarrow> tr_files t' = tr_files t \<and> set (tr_dirs t) \<subseteq> set (tr_dirs t')"
  by (auto simp: make_parents_def split: if_splits)

interpretation made: file_writer write_output "\<lambda>_. {}"
proof
  fix p s t u e r t' and q :: path
  show "write_output p s t = (Inr u, t') \<Longrightarrow> map_of (tr_files t') q = (if q = p then Some (utf8_encode s) else map_of (tr_files t) q)"
    by (auto simp: write_output_def plain.put_done dest: make_parents_files split: sum.splits)
  show "write_output p s t = (Inl e, t') \<Longrightarrow> map_of (tr_files t') q = map_of (tr_files t) q"
    by (auto simp: write_output_def plain.put_failed dest: make_parents_files split: sum.splits)
  show "write_output p s t = (r, t') \<Longrightarrow> set (tr_dirs t) \<subseteq> set (tr_dirs t')"
    by (auto simp: write_output_def dest: make_parents_files dest!: plain.put_dirs split: sum.splits)
qed

lemma replace_file_cases:
  obtains e where "replace_file src dst data t = Inl e"
  | t' where "replace_file src dst data t = Inr t'" "tr_dirs t' = tr_dirs t"
      "\<And>q. map_of (tr_files t') q = (if q = dst then Some data else if q = src then None else map_of (tr_files t) q)"
  by (cases "dst \<in> set (tr_dirs t)") (simp_all add: replace_file_def dict_simps)

interpretation atomic: file_writer atomic_write "\<lambda>p. {temporary_name p}"
proof
  fix p s t u e r t' and q :: path
  show "atomic_write p s t = (Inr u, t') \<Longrightarrow> q \<notin> {temporary_name p}
      \<Longrightarrow> map_of (tr_files t') q = (if q = p then Some (utf8_encode s) else map_of (tr_files t) q)"
    by (rule write_text_cases [of "temporary_name p" s t];
        rule replace_file_cases [of "temporary_name p" p "utf8_encode s" "t\<lparr>tr_files := AList.update (temporary_name p) (utf8_encode s) (tr_files t)\<rparr>"])
      (auto simp: atomic_write_def and_then_def dict_simps)
  show "atomic_write p s t = (Inl e, t') \<Longrightarrow> q \<notin> {temporary_name p} \<Longrightarrow> map_of (tr_files t') q = map_of (tr_files t) q"
    by (rule write_text_cases [of "temporary_name p" s t];
        rule replace_file_cases [of "temporary_name p" p "utf8_encode s" "t\<lparr>tr_files := AList.update (temporary_name p) (utf8_encode s) (tr_files t)\<rparr>"])
      (auto simp: atomic_write_def and_then_def dict_simps)
  show "atomic_write p s t = (r, t') \<Longrightarrow> set (tr_dirs t) \<subseteq> set (tr_dirs t')"
    by (rule write_text_cases [of "temporary_name p" s t];
        rule replace_file_cases [of "temporary_name p" p "utf8_encode s" "t\<lparr>tr_files := AList.update (temporary_name p) (utf8_encode s) (tr_files t)\<rparr>"])
      (auto simp: atomic_write_def and_then_def)
qed

subsection \<open>Reporting scripts\<close>

lemma read_json_same:
  "map_of (tr_files t') q = map_of (tr_files t) q \<Longrightarrow> read_json q t = Inr v \<Longrightarrow> read_json q t' = Inr v"
  by (cases "map_of (tr_files t) q") (simp_all add: read_json_def decoded_def)

lemma written_json:
  "map_of (tr_files t) p = Some (utf8_encode (document frep v)) \<Longrightarrow> doc_ok frep v \<Longrightarrow> read_json p t = Inr (sorted_json v)"
  by (simp add: read_json_def decoded_def utf8_decode_encode document_def json_space_def json_loads_dumps)

locale reporting_script =
  fixes run :: script and out :: "path option"
  assumes reported: "run t = (Inr (s, status), t')
      \<Longrightarrow> map_of (tr_files t') q = (if Some q = out then Some (utf8_encode s) else map_of (tr_files t) q)"
    and refused: "run t = (Inl e, t') \<Longrightarrow> map_of (tr_files t') q = map_of (tr_files t) q"
begin

lemma report_json:
  "run t = (Inr (document frep v, status), t') \<Longrightarrow> out = Some p \<Longrightarrow> doc_ok frep v \<Longrightarrow> read_json p t' = Inr (sorted_json v)"
  by (rule written_json) (simp_all add: reported)

lemma frame: "run t = (r, t') \<Longrightarrow> Some q \<noteq> out \<Longrightarrow> map_of (tr_files t') q = map_of (tr_files t) q"
  by (cases r) (auto simp: reported refused)

lemma json_kept: "run t = (r, t') \<Longrightarrow> Some q \<noteq> out \<Longrightarrow> read_json q t = Inr v \<Longrightarrow> read_json q t' = Inr v"
  by (rule read_json_same [OF frame])

lemma contract:
  "case run t of
     (Inl e, t') \<Rightarrow> \<forall>q. map_of (tr_files t') q = map_of (tr_files t) q
   | (Inr (s, status), t') \<Rightarrow> \<forall>q. map_of (tr_files t') q = (if Some q = out then Some (utf8_encode s) else map_of (tr_files t) q)"
  by (auto simp: reported refused split: prod.split sum.split)

end

text \<open>A writer without temporary names gives a reporting script, and so does a step in front of one.\<close>

locale direct_writer = file_writer put "\<lambda>_. {}" for put

sublocale direct_writer < written: reporting_script "report put out rendered status" out for out rendered status
proof
  fix t s st t' e and q :: path
  show "report put out rendered status t = (Inr (s, st), t')
      \<Longrightarrow> map_of (tr_files t') q = (if Some q = out then Some (utf8_encode s) else map_of (tr_files t) q)"
    by (auto simp: report_def and_then_def put_done split: option.splits prod.splits sum.splits)
  show "report put out rendered status t = (Inl e, t') \<Longrightarrow> map_of (tr_files t') q = map_of (tr_files t) q"
    by (auto simp: report_def and_then_def put_failed split: option.splits prod.splits sum.splits)
qed

interpretation plain: direct_writer write_text ..

interpretation made: direct_writer write_output ..

lemma after_reporting:
  assumes "\<And>a. reporting_script (k a) out"
  shows "reporting_script (\<lambda>t. after (r t) k t) out"
proof
  fix t s st t' e and q :: path
  show "after (r t) k t = (Inr (s, st), t')
      \<Longrightarrow> map_of (tr_files t') q = (if Some q = out then Some (utf8_encode s) else map_of (tr_files t) q)"
    by (cases "r t") (auto simp: after_def reporting_script.reported [OF assms])
  show "after (r t) k t = (Inl e, t') \<Longrightarrow> map_of (tr_files t') q = map_of (tr_files t) q"
    by (cases "r t") (auto simp: after_def reporting_script.refused [OF assms])
qed

interpretation snapshot: reporting_script "snapshot_script frep input out" out for frep input out
  unfolding snapshot_script_def [abs_def] by (intro after_reporting made.written.reporting_script_axioms)

interpretation readiness: reporting_script "readiness_script frep matrix out" out for frep matrix out
  unfolding readiness_script_def [abs_def] split_beta by (intro after_reporting plain.written.reporting_script_axioms)

interpretation reconciling: reporting_script "reconcile_script frep l v out" out for frep l v out
  unfolding reconcile_script_def [abs_def] by (intro after_reporting plain.written.reporting_script_axioms)

interpretation venues: reporting_script "venue_status_script frep input out" out for frep input out
  unfolding venue_status_script_def [abs_def] by (intro after_reporting plain.written.reporting_script_axioms)

interpretation exporter: reporting_script "exporter_script health portfolio audit out" out for health portfolio audit out
  unfolding exporter_script_def [abs_def] by (intro after_reporting made.written.reporting_script_axioms)


subsection \<open>Failover decided from the files\<close>

lemma finding_doc_ok: "doc_ok frep c \<Longrightarrow> doc_ok frep (finding c s d)"
  by (simp add: finding_def)

lemma index_loop_doc_ok:
  "index_loop src rs d fs = Inr (d', fs') \<Longrightarrow> \<forall>f \<in> set fs. doc_ok frep f \<Longrightarrow> f \<in> set fs' \<Longrightarrow> doc_ok frep f"
  by (induction src rs d fs rule: index_loop.induct) (auto simp: finding_doc_ok split: sum.splits if_splits)

lemma compare_doc_ok:
  assumes "compare local venue = Inr fs" "f \<in> set fs"
  shows "doc_ok frep f"
  using assms(1)
proof (cases rule: compare_cases)
  case (1 d lf e vf found)
  have "doc_ok frep f" if "f \<in> set found"
  proof -
    from 1(3) that obtain cid where "local_finding d e cid = Inr f"
      by (induction rule: list_all2_induct) auto
    then show ?thesis by (auto simp: local_finding_def res_bind_eq_Inr finding_doc_ok split: option.splits)
  qed
  then show ?thesis
    using assms(2) index_loop_doc_ok [OF 1(1) [unfolded index_records_def]] index_loop_doc_ok [OF 1(2) [unfolded index_records_def]]
    by (auto simp: 1(4) missing_local_def finding_doc_ok)
qed

lemma drill_result:
  assumes "jget lease ''owner_id'' (JStr []) = Inr owner" "jget_int lease ''epoch'' 0 = Inr epoch"
    "jget_int lease ''expires_at_ns'' 0 = Inr expires" "jget_int lease ''now_ns'' 0 = Inr now"
    and "any_res (\<lambda>item. res_bind (jget item ''state'' JNull) (\<lambda>s. Inr (\<not> json_eq s (JStr ''matched'')))) fs = Inr ambiguous"
  obtains result where "drill rep lease fs = Inr result"
    "jitem result ''promoted'' = Inr (JBool (py_str rep owner \<noteq> [] \<and> 0 < epoch \<and> now < expires \<and> \<not> ambiguous))"
    "jitem result ''action'' = Inr (JStr (if py_str rep owner \<noteq> [] \<and> 0 < epoch \<and> now < expires \<and> \<not> ambiguous
        then ''promote_standby'' else ''hold_and_escalate''))"
  using assms unfolding drill_def by (auto simp: Let_def jitem_def not_le)

text \<open>The findings that are read back are ambiguous exactly when the ones that were written are.\<close>

lemma any_res_map: "any_res f (map g xs) = any_res (\<lambda>x. f (g x)) xs"
  by (induction xs) (simp_all cong: if_cong)

lemma any_res_cong: "(\<And>x. x \<in> set xs \<Longrightarrow> f x = g x) \<Longrightarrow> any_res f xs = any_res g xs"
  by (induction xs) (simp_all cong: if_cong)

lemma ambiguous_read_back:
  assumes "compare local venue = Inr fs"
  shows "any_res (\<lambda>item. res_bind (jget item ''state'' JNull) (\<lambda>s. Inr (\<not> json_eq s (JStr ''matched'')))) (map sorted_json fs)
     = Inr (\<not> reconciled local venue)"
proof -
  have "res_bind (jget (sorted_json f) ''state'' JNull) (\<lambda>s. Inr (\<not> json_eq s (JStr ''matched'')))
      = res_bind (jget f ''state'' JNull) (\<lambda>s. Inr (\<not> json_eq s (JStr ''matched'')))" if f: "f \<in> set fs" for f
    using jget_sorted [where x = JNull and k = "''state''", OF compare_doc_ok [OF assms f, where frep = "\<lambda>_. []"]] compare_findings [OF assms f] by auto
  then show ?thesis
    unfolding any_res_map ambiguous_findings(2) [OF assms, symmetric] by (rule any_res_cong)
qed

text \<open>
  C20. Failover from the files: the reconciliation script writes its findings, and the failover drill that
  reads this file and a lease prints a decision that promotes the standby exactly when the lease names
  an owner with a positive epoch that has not expired and the two files of orders are reconciled. Both
  scripts return, whenever the comparison does, the fields of the lease are numbers and the findings
  file can be written.
\<close>

theorem failover_decided_from_files:
  assumes "read_json local_path t = Inr (JArr local)" and "read_json venue_path t = Inr (JArr venue)"
    and "compare local venue = Inr fs" and "read_json lease_path t = Inr lease"
    and "jget lease ''owner_id'' (JStr []) = Inr owner" and "jget_int lease ''epoch'' 0 = Inr epoch"
    and "jget_int lease ''expires_at_ns'' 0 = Inr expires" and "jget_int lease ''now_ns'' 0 = Inr now"
    and "butlast findings_path \<in> set (tr_dirs t)" and "findings_path \<notin> set (tr_dirs t)" and "findings_path \<noteq> lease_path"
  shows "\<exists>printed t' result promoted.
       reconcile_script frep local_path venue_path (Some findings_path) t = (Inr (printed, 0), t')
     \<and> failover_script rep frep lease_path findings_path t' = Inr (document frep result, 0)
     \<and> (promoted \<longleftrightarrow> py_str rep owner \<noteq> [] \<and> 0 < epoch \<and> now < expires \<and> reconciled local venue)
     \<and> jitem result ''promoted'' = Inr (JBool promoted)
     \<and> jitem result ''action'' = Inr (JStr (if promoted then ''promote_standby'' else ''hold_and_escalate''))"
proof -
  define doc where "doc = JObj [(''findings'', JArr fs), (''ambiguous'', JBool (\<not> reconciled local venue))]"
  define t' where "t' = t\<lparr>tr_files := AList.update findings_path (utf8_encode (document frep doc)) (tr_files t)\<rparr>"
  obtain i where "index_records local ''local'' = Inr i"
    using assms(3) by (auto simp: compare_def res_bind_eq_Inr)
  then have run: "reconcile_script frep local_path venue_path (Some findings_path) t = (Inr (document frep doc, 0), t')"
    using assms(1-3,9,10) ambiguous_findings(1) [OF assms(3)]
    by (simp add: reconcile_script_def reconcile_result_def after_def report_def and_then_def write_text_def write_bytes_def t'_def doc_def)
  have ok: "doc_ok frep doc" using compare_doc_ok [OF assms(3)] by (simp add: doc_def items_ok_iff)
  have findings: "read_json findings_path t' = Inr (sorted_json doc)" by (rule reconciling.report_json [OF run refl ok])
  have lease: "read_json lease_path t' = Inr lease" using reconciling.json_kept [OF run _ assms(4)] assms(11) by simp
  have arr: "jitem (sorted_json doc) ''findings'' = Inr (JArr (map sorted_json fs))"
    unfolding jitem_sorted [OF ok] by (simp add: doc_def jitem_def sorted_items_map)
  obtain r0 where "drill rep lease [] = Inr r0" by (rule drill_result [OF assms(5-8), of "[]" False rep]) simp_all
  moreover obtain result where "drill rep lease (map sorted_json fs) = Inr result"
    "jitem result ''promoted'' = Inr (JBool (py_str rep owner \<noteq> [] \<and> 0 < epoch \<and> now < expires \<and> reconciled local venue))"
    "jitem result ''action'' = Inr (JStr (if py_str rep owner \<noteq> [] \<and> 0 < epoch \<and> now < expires \<and> reconciled local venue
        then ''promote_standby'' else ''hold_and_escalate''))"
    using drill_result [OF assms(5-8) ambiguous_read_back [OF assms(3)], of rep] by auto
  ultimately show ?thesis
    using run by (intro exI [of _ "document frep doc"] exI [of _ t'] exI [of _ result] exI) (auto simp: failover_script_def lease findings arr)
qed

subsection \<open>The monitoring pipeline\<close>

lemma write_text_ok:
  assumes "room_for P t" "antichain P" "p \<in> P" "butlast p \<in> set (tr_dirs t)"
  obtains t' where "write_text p s t = (Inr (), t')" "room_for P t'" "tr_dirs t' = tr_dirs t"
proof -
  let ?t = "t\<lparr>tr_files := AList.update p (utf8_encode s) (tr_files t)\<rparr>"
  have "write_text p s t = (Inr (), ?t)" using assms(4) write_bytes_ok [OF assms(1,3)] by (simp add: write_text_def)
  moreover have "room_for P ?t" by (rule room_for_update [OF assms(1-3)]) (simp_all add: update_conv')
  ultimately show thesis using that by simp
qed

lemma parents_made:
  assumes "room_for P t" "antichain P" "p \<in> P" "p \<noteq> []"
  obtains t1 where "make_parents p t = Inr t1" "room_for P t1" "butlast p \<in> set (tr_dirs t1)" "set (tr_dirs t) \<subseteq> set (tr_dirs t1)"
    "tr_files t1 = tr_files t"
proof -
  have "butlast p \<in> set (ancestors p)"
    using assms(4) by (auto simp: ancestors_def butlast_conv_take intro!: image_eqI [of _ _ "length p - 1"])
  then show thesis using that [OF make_parents_ok [OF assms(1-3)]] by simp
qed

lemma write_output_ok:
  assumes "room_for P t" "antichain P" "p \<in> P" "p \<noteq> []"
  obtains t' where "write_output p s t = (Inr (), t')" "room_for P t'" "set (tr_dirs t) \<subseteq> set (tr_dirs t')"
proof (rule parents_made [OF assms])
  fix t1
  assume t1: "make_parents p t = Inr t1" "room_for P t1" "butlast p \<in> set (tr_dirs t1)" "set (tr_dirs t) \<subseteq> set (tr_dirs t1)"
    "tr_files t1 = tr_files t"
  obtain t' where "write_text p s t1 = (Inr (), t')" "room_for P t'" "tr_dirs t' = tr_dirs t1"
    by (rule write_text_ok [OF t1(2) assms(2,3) t1(3)])
  then show thesis using that t1 by (simp add: write_output_def)
qed

text \<open>The documents of the pipeline survive being written and read.\<close>

lemma doc_ok_jget: "doc_ok frep v \<Longrightarrow> jget v k d = Inr w \<Longrightarrow> doc_ok frep d \<Longrightarrow> doc_ok frep w"
  by (cases v) (auto simp: jget_def get_default_def members_ok_iff split: option.splits dest!: map_of_SomeD)

lemma doc_ok_jget_null: "jget v k JNull = Inr w \<Longrightarrow> doc_ok frep v \<Longrightarrow> doc_ok frep w"
  using doc_ok_jget [where d = JNull] by simp

lemma doc_ok_iter: "doc_ok frep v \<Longrightarrow> iter_items v = Inr xs \<Longrightarrow> x \<in> set xs \<Longrightarrow> doc_ok frep x"
  by (cases v) (auto simp: items_ok_iff)

lemma filter_res_subset: "filter_res f xs = Inr ys \<Longrightarrow> set ys \<subseteq> set xs"
  by (induction xs arbitrary: ys) (auto simp: res_bind_eq_Inr split: if_splits)

lemma blocker_summary_doc_ok: "blocker_summary g = Inr s \<Longrightarrow> doc_ok frep g \<Longrightarrow> doc_ok frep s"
  by (auto simp: blocker_summary_def res_bind_eq_Inr intro: doc_ok_jget_null)

lemma summaries_doc_ok:
  "list_all2 (\<lambda>g s. blocker_summary g = Inr s) gs ss \<Longrightarrow> \<forall>g \<in> set gs. doc_ok frep g \<Longrightarrow> \<forall>s \<in> set ss. doc_ok frep s"
  by (induction rule: list_all2_induct) (auto dest: blocker_summary_doc_ok)

lemma evaluate_doc_ok:
  assumes "evaluate v = Inr e" "doc_ok frep v"
  shows "doc_ok frep e"
proof -
  from assms(1) obtain gates items blockers system summaries status i j k where e:
    "jget v ''gates'' (JArr []) = Inr gates" "iter_items gates = Inr items"
    "filter_res (\<lambda>gate. map_sum id Not (implemented_flag gate)) items = Inr blockers"
    "jget v ''system'' (JStr ''Ito'') = Inr system" "map_res blocker_summary blockers = Inr summaries"
    "e = JObj [(''system'', system), (''status'', JStr status), (''implemented_count'', JInt i), (''gate_count'', JInt j),
          (''blocker_count'', JInt k), (''blockers'', JArr summaries)]"
    unfolding evaluate_def res_bind_eq_Inr by (metis sum.inject(2))
  have "\<forall>g \<in> set blockers. doc_ok frep g"
    using filter_res_subset [OF e(3)] doc_ok_iter [OF doc_ok_jget [OF assms(2) e(1)] e(2)] by auto
  with e(5) have "\<forall>s \<in> set summaries. doc_ok frep s" by (simp add: map_res_eq_Inr summaries_doc_ok)
  then show ?thesis using doc_ok_jget [OF assms(2) e(4)] by (simp add: e(6) items_ok_iff)
qed

lemma build_report_doc_ok: "build_report rep v present = Inr h \<Longrightarrow> doc_ok frep h"
  by (auto simp: build_report_def res_bind_eq_Inr items_ok_iff split: if_splits)

lemma gate_field_sorted: "doc_ok frep g \<Longrightarrow> gate_field (sorted_json g) k = sorted_json (gate_field g k)"
  by (cases g) (auto simp: gate_field_def get_default_def map_of_sorted_dict split: option.splits)

lemma sorted_summary:
  assumes "gate_ok g" "blocker_summary g = Inr s" "doc_ok frep s"
  shows "is_dict (sorted_json s)" "gate_field (sorted_json s) ''id'' = JStr (gate_id g)"
proof -
  obtain d where "blocker_summary g = Inr (JObj d)" "gate_field (JObj d) ''id'' = gate_field g ''id''"
    by (rule blocker_summary_id [OF assms(1)])
  then have "s = JObj d" "gate_field s ''id'' = JStr (gate_id g)"
    using assms(1,2) by (auto simp: gate_ok_def gate_id_def)
  then show "is_dict (sorted_json s)" "gate_field (sorted_json s) ''id'' = JStr (gate_id g)"
    using gate_field_sorted [OF assms(3), of "''id''"] by simp_all
qed

lemma summaries_sorted:
  "list_all2 (\<lambda>g s. blocker_summary g = Inr s) gs ss \<Longrightarrow> \<forall>g \<in> set gs. gate_ok g \<Longrightarrow> \<forall>s \<in> set ss. doc_ok frep s
   \<Longrightarrow> list_all2 (\<lambda>g s. is_dict s \<and> gate_field s ''id'' = JStr (gate_id g)) gs (map sorted_json ss)"
proof (induction rule: list_all2_induct)
  case (Cons g gs s ss)
  then show ?case using sorted_summary [of g s frep] by simp
qed simp

lemma report_lists_ids:
  assumes "map_of e ''gates'' = None" "map_of e ''blockers'' = Some (JArr ss)"
    and "list_all2 (\<lambda>g s. is_dict s \<and> gate_field s ''id'' = JStr (gate_id g)) gs ss"
  shows "report_lists rep (JObj e) = Inr (filter (\<lambda>i. i \<in> set local_ids) (map gate_id gs), map gate_id gs)"
proof -
  have "filter is_dict ss = ss \<and> map (\<lambda>s. py_str rep (gate_field s ''id'')) ss = map gate_id gs"
    using assms(3) by (induction rule: list_all2_induct) auto
  then show ?thesis using assms(1,2) by (simp add: report_lists_def gate_field_JObj get_default_def Let_def)
qed

lemma report_lists_evaluation:
  assumes "map_of m ''gates'' = Some (JArr gs)" "\<forall>g \<in> set gs. gate_ok g" "doc_ok frep (JObj m)" "evaluate (JObj m) = Inr e"
  shows "report_lists rep (sorted_json e)
     = Inr (filter (\<lambda>i. i \<in> set local_ids) (map gate_id (filter open_gate gs)), map gate_id (filter open_gate gs))"
proof (rule evaluate_gates [OF assms(1,2)])
  fix ss d
  assume d: "evaluate (JObj m) = Inr (JObj d)" "map_of d ''blockers'' = Some (JArr ss)" "map_of d ''gates'' = None"
    "list_all2 (\<lambda>g s. blocker_summary g = Inr s) (filter open_gate gs) ss"
  have e: "e = JObj d" using assms(4) d(1) by simp
  have ok: "doc_ok frep (JObj d)" by (rule evaluate_doc_ok [OF d(1) assms(3)])
  then have "\<forall>s \<in> set ss. doc_ok frep s" using d(2) by (auto simp: members_ok_iff items_ok_iff dest!: map_of_SomeD)
  with d(4) assms(2) have ids: "list_all2 (\<lambda>g s. is_dict s \<and> gate_field s ''id'' = JStr (gate_id g)) (filter open_gate gs) (map sorted_json ss)"
    by (intro summaries_sorted) auto
  have "map_of (sort_key fst (sorted_members d)) ''gates'' = None"
    "map_of (sort_key fst (sorted_members d)) ''blockers'' = Some (JArr (map sorted_json ss))"
    using ok d(2,3) by (simp_all add: map_of_sorted_dict sorted_items_map)
  then show ?thesis unfolding e sorted_json.simps by (rule report_lists_ids [OF _ _ ids])
qed

text \<open>Each script returns when its output can be written.\<close>

lemma snapshot_runs:
  assumes "load_input input t = Inr d" "build_snapshot d = Inr sn" "room_for P t" "antichain P" "p \<in> P" "p \<noteq> []"
  obtains t' where "snapshot_script frep input (Some p) t = (Inr (document frep (snapshot_json sn), 0), t')"
    "room_for P t'" "set (tr_dirs t) \<subseteq> set (tr_dirs t')"
  by (rule write_output_ok [OF assms(3-6), of "document frep (snapshot_json sn)"])
    (use assms(1,2) that in \<open>auto simp: snapshot_script_def after_def report_def and_then_def\<close>)

lemma readiness_runs:
  assumes "readiness_main (read_json matrix t) = Inr (doc, status)"
    "room_for P t" "antichain P" "p \<in> P" "butlast p \<in> set (tr_dirs t)"
  obtains t' where "readiness_script frep matrix (Some p) t = (Inr (document frep doc, status), t')"
    "room_for P t'" "tr_dirs t' = tr_dirs t"
  by (rule write_text_ok [OF assms(2-5), of "document frep doc"])
    (use assms(1) that in \<open>auto simp: readiness_script_def after_def report_def and_then_def\<close>)

lemma exporter_runs:
  assumes "exporter_main (read_json health t) (optional_json portfolio t) (optional_json audit t) = Inr body"
    "room_for P t" "antichain P" "p \<in> P" "p \<noteq> []"
  obtains t' where "exporter_script health portfolio audit (Some p) t = (Inr (body, 0), t')"
  by (rule write_output_ok [OF assms(2-5), of body])
    (use assms(1) that in \<open>auto simp: exporter_script_def after_def report_def and_then_def\<close>)

lemma write_prometheus_total: "build_report rep v present = Inr h \<Longrightarrow> \<exists>s. write_prometheus h = Inr s"
  by (erule build_report_fields) (simp add: write_prometheus_def jitem_def)

lemma health_runs:
  assumes "read_json readiness t = Inr r" "build_report rep r (is_file recovery t) = Inr h"
    "room_for P t" "antichain P" "p \<in> P" "p \<noteq> []" "q \<in> P" "q \<noteq> []"
  obtains t' where "health_command rep frep readiness recovery p q t = (Inr (one_line frep h, 0), t')" "room_for P t'"
    "p \<noteq> q \<Longrightarrow> map_of (tr_files t') p = Some (utf8_encode (document frep h))"
    "\<And>x. x \<notin> {p, q} \<Longrightarrow> map_of (tr_files t') x = map_of (tr_files t) x"
proof -
  obtain page where page: "write_prometheus h = Inr page" using write_prometheus_total [OF assms(2)] by blast
  obtain t1 where t1: "write_output p (document frep h) t = (Inr (), t1)" "room_for P t1"
    by (rule write_output_ok [OF assms(3-6)])
  obtain t2 where t2: "make_parents q t1 = Inr t2" "room_for P t2" "butlast q \<in> set (tr_dirs t2)" "tr_files t2 = tr_files t1"
    by (rule parents_made [OF t1(2) assms(4,7,8)])
  obtain t3 where t3: "write_text q page t2 = (Inr (), t3)" "room_for P t3"
    by (rule write_text_ok [OF t2(2) assms(4,7) t2(3)])
  have "health_command rep frep readiness recovery p q t = (Inr (one_line frep h, 0), t3)"
    using assms(1,2) t1(1) t2(1) t3(1) page
    by (simp add: health_command_def exit_with_def health_script_def load_json_def after_def and_then_def write_prometheus_file_def)
  moreover have "map_of (tr_files t3) x = (if x = q then Some (utf8_encode page) else if x = p then Some (utf8_encode (document frep h))
      else map_of (tr_files t) x)" for x
    using plain.put_done [OF t3(1), of x] made.put_done [OF t1(1), of x] t2(4) by simp
  ultimately show thesis using that [of t3] t3(2) by simp
qed

text \<open>What the exporter reads from the two files it is given.\<close>

lemma rendered_from_files:
  assumes "read_json hp t = Inr (sorted_json h)" "read_json sp t = Inr (sorted_json (snapshot_json sn))"
    and "build_report rep readiness present = Inr h" "report_lists rep readiness = Inr (failures, blockers)"
    and "jget readiness ''status'' (JStr ''unknown'') = Inr (JStr status)" "doc_ok frep (snapshot_json sn)"
  obtains body where "exporter_main (read_json hp t) (optional_json (Some sp) t) (optional_json None t) = Inr body"
     "scrape ''ito_portfolio_net_position'' body = Some (sn_net_position sn)"
     "scrape ''ito_portfolio_gross_position'' body = Some (sn_gross_position sn)"
     "scrape ''ito_portfolio_gross_notional_ticks'' body = Some (sn_gross_notional_ticks sn)"
     "scrape ''ito_portfolio_realized_pnl_ticks'' body = Some (sn_realized_pnl_ticks sn)"
     "scrape ''ito_portfolio_unrealized_pnl_ticks'' body = Some (sn_unrealized_pnl_ticks sn)"
     "scrape ''ito_portfolio_loss_ticks'' body = Some (sn_loss_ticks sn)"
     "scrape ''ito_external_blocker_count'' body = Some (int (length blockers))"
     "scrape ''ito_local_validation_pass'' body = Some (of_bool (failures = [] \<and> present))"
     "scrape ''ito_production_readiness'' body = Some (of_bool (status = ''production_ready''))"
     "scrape ''ito_recovery_artifact_present'' body = Some (of_bool present)"
proof -
  from snapshot_json_fields obtain p where p: "snapshot_json sn = JObj p"
    "\<forall>(name, field) \<in> set portfolio_metrics. map_of p field = Some (JInt (the (map_of (snapshot_fields sn) field)))" by blast
  obtain q where h: "h = JObj q"
    "map_of q ''local_status'' = Some (JStr (if failures = [] \<and> present then ''healthy'' else ''degraded''))"
    "map_of q ''production_status'' = Some (JStr status)" "map_of q ''external_blocker_count'' = Some (JInt (int (length blockers)))"
    "map_of q ''recovery_artifact_present'' = Some (JBool present)"
    by (rule build_report_fields [OF assms(3)]) (use assms(4,5) in auto)
  let ?p = "sort_key fst (sorted_members p)" and ?q = "sort_key fst (sorted_members q)"
  have wf: "wf_dict p" "wf_dict q" using assms(6) build_report_doc_ok [OF assms(3), of frep] by (simp_all add: p(1) h(1))
  have fields: "\<forall>(name, field) \<in> set portfolio_metrics. map_of ?p field = Some (JInt (the (map_of (snapshot_fields sn) field)))"
    using p(2) by (auto simp: map_of_sorted_dict [OF wf(1)])
  have "get_default ?q ''external_blocker_count'' (JInt 0) = JInt (int (length blockers))" "0 \<le> int (length blockers)"
    by (simp_all add: get_default_def map_of_sorted_dict [OF wf(2)] h(4))
  from scraped_metrics_match_snapshots [OF fields this] obtain body where body: "render_metrics (JObj ?q) (Some (JObj ?p)) None = Inr body"
    "\<forall>(name, field) \<in> set portfolio_metrics. scrape name body = Some (the (map_of (snapshot_fields sn) field))"
    "scrape ''ito_external_blocker_count'' body = Some (int (length blockers))"
    "scrape ''ito_local_validation_pass'' body = Some (of_bool (map_of ?q ''local_status'' = Some (JStr ''healthy'')))"
    "scrape ''ito_production_readiness'' body = Some (of_bool (map_of ?q ''production_status'' = Some (JStr ''production_ready'')))"
    "scrape ''ito_recovery_artifact_present'' body = Some (of_bool (map_of ?q ''recovery_artifact_present'' = Some (JBool True)))"
    by blast
  have there: "is_file sp t" using assms(2) by (cases "map_of (tr_files t) sp") (simp_all add: is_file_def read_json_def decoded_def)
  have "exporter_main (read_json hp t) (optional_json (Some sp) t) (optional_json None t) = Inr body"
    using body(1) by (simp add: exporter_main_def optional_json_def load_optional_def load_snapshot_def assms(1,2) there p(1) h(1))
  then show thesis
    using that body(2-6) by (simp add: map_of_sorted_dict [OF wf(2)] h(2-5) portfolio_metrics_def snapshot_fields_def)
qed

text \<open>The matrix and its evaluation as the health report reads it back.\<close>

lemma evaluation_read_back:
  assumes "map_of m ''gates'' = Some (JArr gs)" "\<forall>g \<in> set gs. gate_ok g" "doc_ok frep (JObj m)"
  obtains e where "readiness_main (Inr (JObj m)) = Inr (e, if \<exists>g \<in> set gs. open_gate g then 1 else 0)" "doc_ok frep e"
    "report_lists rep (sorted_json e)
       = Inr (filter (\<lambda>i. i \<in> set local_ids) (map gate_id (filter open_gate gs)), map gate_id (filter open_gate gs))"
    "jget (sorted_json e) ''status'' (JStr ''unknown'')
       = Inr (JStr (if \<exists>g \<in> set gs. open_gate g then ''not_production_ready'' else ''production_ready''))"
    "is_dict e"
proof (rule evaluate_gates [OF assms(1,2)])
  fix ss d
  assume d: "evaluate (JObj m) = Inr (JObj d)"
    "map_of d ''status'' = Some (JStr (if filter open_gate gs = [] then ''production_ready'' else ''not_production_ready''))"
  have ok: "doc_ok frep (JObj d)" by (rule evaluate_doc_ok [OF d(1) assms(3)])
  have "readiness_main (Inr (JObj m)) = Inr (JObj d, if \<exists>g \<in> set gs. open_gate g then 1 else 0)"
    using d by (auto simp: readiness_main_def jitem_def filter_empty_conv)
  moreover have "jget (sorted_json (JObj d)) ''status'' (JStr ''unknown'')
       = Inr (JStr (if \<exists>g \<in> set gs. open_gate g then ''not_production_ready'' else ''production_ready''))"
    using d(2) ok by (auto simp: jget_def get_default_def map_of_sorted_dict filter_empty_conv)
  ultimately show thesis using that report_lists_evaluation [OF assms d(1), of rep] ok by simp
qed

lemma gates_reported:
  assumes "read_json matrix t = Inr (JObj m)" "map_of m ''gates'' = Some (JArr gs)" "\<forall>g \<in> set gs. gate_ok g" "doc_ok frep (JObj m)"
    and "antichain P" "room_for P t" "{evaluation, health, gauges} \<subseteq> P" "distinct [evaluation, health, gauges]" "[] \<notin> P"
    and "butlast evaluation \<in> set (tr_dirs t)" "recovery \<noteq> evaluation"
  obtains p2 t2 p3 t3 h e where
    "readiness_script frep matrix (Some evaluation) t = (Inr (p2, if \<exists>g \<in> set gs. open_gate g then 1 else 0), t2)"
    "health_command rep frep evaluation recovery health gauges t2 = (Inr (p3, 0), t3)" "room_for P t3"
    "read_json health t3 = Inr (sorted_json h)" "build_report rep e (is_file recovery t) = Inr h"
    "report_lists rep e
       = Inr (filter (\<lambda>i. i \<in> set local_ids) (map gate_id (filter open_gate gs)), map gate_id (filter open_gate gs))"
    "jget e ''status'' (JStr ''unknown'')
       = Inr (JStr (if \<exists>g \<in> set gs. open_gate g then ''not_production_ready'' else ''production_ready''))"
    "\<forall>q. q \<notin> {evaluation, health, gauges} \<longrightarrow> map_of (tr_files t3) q = map_of (tr_files t) q"
proof -
  have P: "evaluation \<in> P" "health \<in> P" "gauges \<in> P" "health \<noteq> []" "gauges \<noteq> []" using assms(7,9) by auto
  obtain e where e: "readiness_main (Inr (JObj m)) = Inr (e, if \<exists>g \<in> set gs. open_gate g then 1 else 0)" "doc_ok frep e"
    "report_lists rep (sorted_json e)
       = Inr (filter (\<lambda>i. i \<in> set local_ids) (map gate_id (filter open_gate gs)), map gate_id (filter open_gate gs))"
    "jget (sorted_json e) ''status'' (JStr ''unknown'')
       = Inr (JStr (if \<exists>g \<in> set gs. open_gate g then ''not_production_ready'' else ''production_ready''))" "is_dict e"
    by (rule evaluation_read_back [where rep = rep, OF assms(2-4)])
  obtain t2 where t2: "readiness_script frep matrix (Some evaluation) t
      = (Inr (document frep e, if \<exists>g \<in> set gs. open_gate g then 1 else 0), t2)" "room_for P t2"
    by (rule readiness_runs [OF _ assms(6,5) P(1) assms(10), where matrix = matrix]) (use assms(1) e(1) in simp_all)
  have read: "read_json evaluation t2 = Inr (sorted_json e)" by (rule readiness.report_json [OF t2(1) refl e(2)])
  have same: "is_file recovery t2 = is_file recovery t"
    using readiness.frame [OF t2(1), of recovery] assms(11) by (auto simp: is_file_def)
  obtain h where h: "build_report rep (sorted_json e) (is_file recovery t) = Inr h"
    using e(3-5) by (simp add: build_report_def)
  obtain t3 where t3: "health_command rep frep evaluation recovery health gauges t2 = (Inr (one_line frep h, 0), t3)"
    "room_for P t3" "map_of (tr_files t3) health = Some (utf8_encode (document frep h))"
    "\<And>x. x \<notin> {health, gauges} \<Longrightarrow> map_of (tr_files t3) x = map_of (tr_files t2) x"
    by (rule health_runs [OF read h [folded same] t2(2) assms(5) P(2,4,3,5)]) (use assms(8) in auto)
  have "read_json health t3 = Inr (sorted_json h)" by (rule written_json [OF t3(3) build_report_doc_ok [OF h]])
  moreover have "map_of (tr_files t3) q = map_of (tr_files t) q" if "q \<notin> {evaluation, health, gauges}" for q
    using that t3(4) [of q] readiness.frame [OF t2(1), of q] by simp
  ultimately show thesis using that t2(1) t3(1,2) h e(3,4) by blast
qed

text \<open>
  C34. The monitoring pipeline on the disk: the snapshot script writes the books, the readiness check its
  evaluation of the matrix, the health report reads this evaluation, and the exporter reads the report
  and the books. All four return, the readiness check with status 0 exactly when no gate is open, and
  scraping the page the exporter wrote gives the six numbers of the portfolio after the fills of the
  input, the number of open gates, and the flags: no open gate is a local one and the recovery artifact
  is there, no gate is open, and the artifact is there. No file but the five outputs has changed.
\<close>

theorem monitoring_pipeline_on_disk:
  assumes "load_input input t = Inr d" and "build_snapshot d = Inr sn" and "doc_ok frep (snapshot_json sn)"
    and "read_json matrix t = Inr (JObj m)" and "map_of m ''gates'' = Some (JArr gs)" and "\<forall>g \<in> set gs. gate_ok g"
    and "doc_ok frep (JObj m)"
    and "distinct outs" and "outs = [books, evaluation, health, gauges, metrics]" and "[] \<notin> set outs" and "antichain (set outs)"
    and "room_for (set outs) t" and "butlast evaluation \<in> set (tr_dirs t)" and "matrix \<notin> set outs" and "recovery \<notin> set outs"
  shows "\<exists>t1 t2 t3 t4 p1 p2 p3 body.
       snapshot_script frep input (Some books) t = (Inr (p1, 0), t1)
     \<and> readiness_script frep matrix (Some evaluation) t1 = (Inr (p2, if \<exists>g \<in> set gs. open_gate g then 1 else 0), t2)
     \<and> health_command rep frep evaluation recovery health gauges t2 = (Inr (p3, 0), t3)
     \<and> exporter_script health (Some books) None (Some metrics) t3 = (Inr (body, 0), t4)
     \<and> (\<forall>q. q \<notin> set outs \<longrightarrow> map_of (tr_files t4) q = map_of (tr_files t) q)
     \<and> map_of (tr_files t4) metrics = Some (utf8_encode body)
     \<and> scrape ''ito_portfolio_net_position'' body = Some (sn_net_position sn)
     \<and> scrape ''ito_portfolio_gross_position'' body = Some (sn_gross_position sn)
     \<and> scrape ''ito_portfolio_gross_notional_ticks'' body = Some (sn_gross_notional_ticks sn)
     \<and> scrape ''ito_portfolio_realized_pnl_ticks'' body = Some (sn_realized_pnl_ticks sn)
     \<and> scrape ''ito_portfolio_unrealized_pnl_ticks'' body = Some (sn_unrealized_pnl_ticks sn)
     \<and> scrape ''ito_portfolio_loss_ticks'' body = Some (sn_loss_ticks sn)
     \<and> scrape ''ito_external_blocker_count'' body = Some (int (length (filter open_gate gs)))
     \<and> scrape ''ito_local_validation_pass'' body
         = Some (of_bool ((\<forall>g \<in> set gs. open_gate g \<longrightarrow> gate_id g \<notin> set local_ids) \<and> is_file recovery t))
     \<and> scrape ''ito_production_readiness'' body = Some (of_bool (\<forall>g \<in> set gs. \<not> open_gate g))
     \<and> scrape ''ito_recovery_artifact_present'' body = Some (of_bool (is_file recovery t))"
proof -
  note outs = assms(8-10) [unfolded assms(9), simplified]
  have P: "books \<in> set outs" "evaluation \<in> set outs" "health \<in> set outs" "gauges \<in> set outs" "metrics \<in> set outs"
    by (simp_all add: assms(9))
  have N: "books \<noteq> []" "metrics \<noteq> []" using outs by auto
  obtain t1 where t1: "snapshot_script frep input (Some books) t = (Inr (document frep (snapshot_json sn), 0), t1)"
    "room_for (set outs) t1" "set (tr_dirs t) \<subseteq> set (tr_dirs t1)"
    by (rule snapshot_runs [OF assms(1,2,12,11) P(1) N(1)])
  have matrix: "read_json matrix t1 = Inr (JObj m)" using snapshot.json_kept [OF t1(1) _ assms(4)] assms(14) P(1) by auto
  have side: "{evaluation, health, gauges} \<subseteq> set outs" "distinct [evaluation, health, gauges]"
    "butlast evaluation \<in> set (tr_dirs t1)" "recovery \<noteq> evaluation"
    using outs P assms(13,15) t1(3) by auto
  obtain p2 t2 p3 t3 h e where t3:
    "readiness_script frep matrix (Some evaluation) t1 = (Inr (p2, if \<exists>g \<in> set gs. open_gate g then 1 else 0), t2)"
    "health_command rep frep evaluation recovery health gauges t2 = (Inr (p3, 0), t3)" "room_for (set outs) t3"
    "read_json health t3 = Inr (sorted_json h)" "build_report rep e (is_file recovery t1) = Inr h"
    "report_lists rep e
       = Inr (filter (\<lambda>i. i \<in> set local_ids) (map gate_id (filter open_gate gs)), map gate_id (filter open_gate gs))"
    "jget e ''status'' (JStr ''unknown'')
       = Inr (JStr (if \<exists>g \<in> set gs. open_gate g then ''not_production_ready'' else ''production_ready''))"
    "\<forall>q. q \<notin> {evaluation, health, gauges} \<longrightarrow> map_of (tr_files t3) q = map_of (tr_files t1) q"
    by (rule gates_reported [where rep = rep, OF matrix assms(5-7,11) t1(2) side(1,2) assms(10) side(3,4)])
  have same: "is_file recovery t1 = is_file recovery t"
    using snapshot.frame [OF t1(1), of recovery] assms(9,15) by (simp add: is_file_def)
  have "read_json books t1 = Inr (sorted_json (snapshot_json sn))" by (rule snapshot.report_json [OF t1(1) refl assms(3)])
  then have books: "read_json books t3 = Inr (sorted_json (snapshot_json sn))" by (rule read_json_same [OF t3(8) [rule_format], rotated]) (use outs in auto)
  obtain body where body: "exporter_main (read_json health t3) (optional_json (Some books) t3) (optional_json None t3) = Inr body"
     "scrape ''ito_portfolio_net_position'' body = Some (sn_net_position sn)"
     "scrape ''ito_portfolio_gross_position'' body = Some (sn_gross_position sn)"
     "scrape ''ito_portfolio_gross_notional_ticks'' body = Some (sn_gross_notional_ticks sn)"
     "scrape ''ito_portfolio_realized_pnl_ticks'' body = Some (sn_realized_pnl_ticks sn)"
     "scrape ''ito_portfolio_unrealized_pnl_ticks'' body = Some (sn_unrealized_pnl_ticks sn)"
     "scrape ''ito_portfolio_loss_ticks'' body = Some (sn_loss_ticks sn)"
     "scrape ''ito_external_blocker_count'' body = Some (int (length (map gate_id (filter open_gate gs))))"
     "scrape ''ito_local_validation_pass'' body = Some (of_bool (filter (\<lambda>i. i \<in> set local_ids) (map gate_id (filter open_gate gs)) = []
        \<and> is_file recovery t))"
     "scrape ''ito_production_readiness'' body = Some (of_bool
        ((if \<exists>g \<in> set gs. open_gate g then ''not_production_ready'' else ''production_ready'') = ''production_ready''))"
     "scrape ''ito_recovery_artifact_present'' body = Some (of_bool (is_file recovery t))"
    by (rule rendered_from_files [OF t3(4) books t3(5) [unfolded same] t3(6,7) assms(3)])
  obtain t4 where t4: "exporter_script health (Some books) None (Some metrics) t3 = (Inr (body, 0), t4)"
    by (rule exporter_runs [OF body(1) t3(3) assms(11) P(5) N(2)])
  have frame: "map_of (tr_files t4) q = map_of (tr_files t) q" if "q \<notin> set outs" for q
    using that exporter.frame [OF t4, of q] t3(8) [rule_format, of q] snapshot.frame [OF t1(1), of q]
    by (simp add: assms(9))
  have "map_of (tr_files t4) metrics = Some (utf8_encode body)" using exporter.reported [OF t4] by simp
  then show ?thesis
    using t1(1) t3(1,2) t4 frame body(2-11) by (intro exI conjI; (assumption | simp add: filter_empty_conv)?) auto
qed

subsection \<open>Generated interface files\<close>

lemma generated_names_distinct:
  "distinct [rust_path, package_path, layout_path, temporary_name rust_path, temporary_name package_path, temporary_name layout_path]"
  by (simp add: rust_path_def package_path_def layout_path_def temporary_name_def)


subsection \<open>Release binding and digests\<close>

lemma read_chunks_concat: "0 < n \<Longrightarrow> concat (read_chunks n data) = data"
  by (induction n data rule: read_chunks.induct) (subst read_chunks.simps, auto)

lemma file_digest_sha [simp]: "file_digest sha = sha"
  by (rule ext) (simp add: file_digest_def read_chunks_concat)

text \<open>The release check returns 0 exactly when the verification succeeds, and writes nothing.\<close>

lemma binding_command_verifies:
  "binding_command sha binding policy rtl schema t = (r, t') \<Longrightarrow> t' = t
     \<and> (r = Inr (''release_binding_verified'' @ newline, 0) \<longleftrightarrow>
        verify_binding sha (read_json binding t) (map_of (tr_files t) policy) (map_of (tr_files t) rtl) (map_of (tr_files t) schema) = Inr ())"
  by (auto simp: binding_command_def binding_script_def exit_with_def after_def split: sum.splits)

end
