(* ===== verification/Disk_Witnesses.thy ===== *)
theory Disk_Witnesses
  imports Script_Witnesses Scripts_Props
begin

section \<open>Witnesses for the scripts on a directory tree\<close>

text \<open>
  Small trees with the files the scripts read, written the way they write documents, and the
  properties of the scripts at them.
\<close>

subsection \<open>The text of the floats that occur\<close>

definition w_frep :: "rat \<Rightarrow> string" where
  "w_frep x = (if x = 0 then ''0.0'' else if x = 2 then ''2.0'' else ''10.0'')"

lemma w_fl: "fl 0 = 0" "fl 2 = 2" "fl 10 = 10"
  by code_simp+

lemma w_values: "digits_value ''00'' = 0" "digits_value ''20'' = 20" "digits_value ''100'' = 100"
  by code_simp+

lemma w_digits: "is_digit (CHR ''0'')" "is_digit (CHR ''1'')" "is_digit (CHR ''2'')" "\<not> is_digit (CHR ''.'')"
  by code_simp+

lemma w_fraction: "stops rest \<Longrightarrow> fraction_part (''.0'' @ rest) = (''0'', rest)"
  by (cases rest) (simp_all add: fraction_part_def w_digits)

lemma w_number:
  assumes "stops rest"
  shows "parse_number (''0.0'' @ rest) = Some (JFloat (Fin 0), rest)" "parse_number (''2.0'' @ rest) = Some (JFloat (Fin 2), rest)"
    "parse_number (''10.0'' @ rest) = Some (JFloat (Fin 10), rest)"
  using w_fraction [OF assms] no_fraction [OF assms] w_fl w_values
  by (simp_all add: parse_number_def power_of_ten_def w_digits)

lemma w_floats: "float_ok w_frep 0" "float_ok w_frep 2" "float_ok w_frep 10"
  using w_number by (auto simp: float_ok_def number_head_def w_frep_def w_digits)

subsection \<open>The monitoring pipeline\<close>

definition w_sn :: snapshot where
  "w_sn = \<lparr>sn_net_position = 2, sn_gross_position = 2, sn_gross_notional_ticks = 10, sn_realized_pnl_ticks = 0,
     sn_unrealized_pnl_ticks = 2, sn_loss_ticks = - 2, sn_gross_notional_cash = 10, sn_net_notional_cash = 10,
     sn_realized_pnl_cash = 0, sn_unrealized_pnl_cash = 2, sn_total_fees_paid_cash = 0, sn_net_pnl_cash = 2,
     sn_stale_positions = [],
     sn_limits_breached = \<lparr>net_position_breached = False, gross_position_breached = False, gross_notional_breached = False,
       concentration_breached = False, loss_breached = False, expected_shortfall_breached = None, parametric_var_breached = None\<rparr>,
     sn_positions = [(''7'', \<lparr>pos_quantity = 2, pos_average_price_ticks = 4, pos_realized_pnl_ticks = 0, pos_last_price_ticks = 4,
       pos_fees_paid_ticks = 0, pos_fees_paid_cash = 0, pos_realized_pnl_cash = 0, pos_borrowed_quantity = 0\<rparr>)],
     sn_factor_metrics = None\<rparr>"

lemma w_sn_of_book: "snapshot w_book [(7, PriceTicks 5)] ''last'' None None = Inr w_sn"
  by code_simp

lemma w_whole: "whole_json 4 = JInt 4" "whole_json 0 = JInt 0"
  by code_simp+

lemma w_sn_doc_ok: "doc_ok w_frep (snapshot_json w_sn)"
  by (simp add: snapshot_json_def w_sn_def breached_json_def position_json_def w_whole w_floats)

text \<open>The input as it is read from its file: the members of every object sorted.\<close>

definition w_sorted_fills :: "json list" where
  "w_sorted_fills = sorted_items w_fills"

definition w_sorted_limits :: "(string, json) dict" where
  "w_sorted_limits = [(''max_concentration_ticks'', JInt 10), (''max_gross_notional_ticks'', JInt 10), (''max_gross_position'', JInt 10),
     (''max_loss_ticks'', JInt 10), (''max_net_position'', JInt 10)]"

lemma w_input_sorted:
  "sorted_json (JObj w_trades)
   = JObj [(''fills'', JArr w_sorted_fills), (''limits'', JObj w_sorted_limits), (''marks'', JObj [(''7'', JInt 5)])]"
  by code_simp

lemma w_input_snapshot:
  "build_snapshot [(''fills'', JArr w_sorted_fills), (''limits'', JObj w_sorted_limits), (''marks'', JObj [(''7'', JInt 5)])] = Inr w_sn"
proof -
  have "map_res (jitem_int (JObj w_sorted_limits)) limit_names = Inr [10, 10, 10, 10, 10]"
    "read_marks [(''7'', JInt 5)] [] = Inr [(7, PriceTicks 5)]"
    "res_bind (portfolio_init (limits_of [10, 10, 10, 10, 10]) [] [] None) (apply_fills w_sorted_fills) = Inr w_book" by code_simp+
  then show ?thesis using w_sn_of_book by (simp add: build_snapshot_def get_default_def flip: res_bind_assoc)
qed

lemma w_input_doc_ok: "doc_ok w_frep (JObj w_trades)"
  by (simp add: w_trades_def w_fills_def limit_names_def)

definition w_matrix :: "(string, json) dict" where
  "w_matrix = [(''gates'', JArr [JObj [(''id'', JStr ''GATE-EXT-001''), (''implemented'', JBool False)],
     JObj [(''id'', JStr ''GATE-SW-001''), (''implemented'', JBool True)]])]"

definition w_tree :: tree where
  "w_tree = \<lparr>tr_files = [([''in.json''], utf8_encode (document w_frep (JObj w_trades))),
      ([''matrix.json''], utf8_encode (document w_frep (JObj w_matrix))), ([''archive''], [])], tr_dirs = [[]]\<rparr>"

definition w_outs :: "path list" where
  "w_outs = [[''out'', ''books.json''], [''readiness.json''], [''out'', ''health.json''], [''out'', ''health.prom''], [''out'', ''page'']]"

lemma w_ancestors: "ancestors [a] = [[]]" "ancestors [a, b] = [[], [a]]"
  by (simp_all add: ancestors_def upt_conv_Cons)

lemma w_reads:
  "load_input [''in.json''] w_tree
     = Inr [(''fills'', JArr w_sorted_fills), (''limits'', JObj w_sorted_limits), (''marks'', JObj [(''7'', JInt 5)])]"
  "read_json [''matrix.json''] w_tree = Inr (JObj w_matrix)"
proof -
  have "read_json [''in.json''] w_tree = Inr (sorted_json (JObj w_trades))"
    by (rule written_json [OF _ w_input_doc_ok]) (simp add: w_tree_def)
  then show "load_input [''in.json''] w_tree
     = Inr [(''fills'', JArr w_sorted_fills), (''limits'', JObj w_sorted_limits), (''marks'', JObj [(''7'', JInt 5)])]"
    unfolding load_input_def w_input_sorted by simp
  have "read_json [''matrix.json''] w_tree = Inr (sorted_json (JObj w_matrix))"
    by (rule written_json [where frep = w_frep]) (simp_all add: w_tree_def w_matrix_def)
  moreover have "sorted_json (JObj w_matrix) = JObj w_matrix" by code_simp
  ultimately show "read_json [''matrix.json''] w_tree = Inr (JObj w_matrix)" by simp
qed

theorem monitoring_pipeline_on_disk_witness:
  "\<exists>t1 t2 t3 t4 p1 p2 p3 body.
       snapshot_script w_frep [''in.json''] (Some [''out'', ''books.json'']) w_tree = (Inr (p1, 0), t1)
     \<and> readiness_script w_frep [''matrix.json''] (Some [''readiness.json'']) t1 = (Inr (p2, 1), t2)
     \<and> health_command (\<lambda>_. []) w_frep [''readiness.json''] [''archive''] [''out'', ''health.json''] [''out'', ''health.prom''] t2
         = (Inr (p3, 0), t3)
     \<and> exporter_script [''out'', ''health.json''] (Some [''out'', ''books.json'']) None (Some [''out'', ''page'']) t3 = (Inr (body, 0), t4)
     \<and> scrape ''ito_portfolio_net_position'' body = Some 2 \<and> scrape ''ito_portfolio_loss_ticks'' body = Some (- 2)
     \<and> scrape ''ito_external_blocker_count'' body = Some 1 \<and> scrape ''ito_local_validation_pass'' body = Some 1
     \<and> scrape ''ito_production_readiness'' body = Some 0"
proof -
  let ?gs = "[JObj [(''id'', JStr ''GATE-EXT-001''), (''implemented'', JBool False)],
     JObj [(''id'', JStr ''GATE-SW-001''), (''implemented'', JBool True)]]"
  have m: "map_of w_matrix ''gates'' = Some (JArr ?gs)" "doc_ok w_frep (JObj w_matrix)" by (simp_all add: w_matrix_def)
  have g: "\<forall>g \<in> set ?gs. gate_ok g" by (simp add: gate_ok_def gate_field_def get_default_def)
  have o: "filter open_gate ?gs = [?gs ! 0]" "gate_id (?gs ! 0) = ''GATE-EXT-001''" "''GATE-EXT-001'' \<notin> set local_ids"
    by (simp_all add: open_gate_def gate_field_def get_default_def gate_id_def local_ids_def)
  have w: "distinct w_outs" "[] \<notin> set w_outs" "antichain (set w_outs)" "room_for (set w_outs) w_tree"
    "butlast [''readiness.json''] \<in> set (tr_dirs w_tree)" "[''matrix.json''] \<notin> set w_outs" "[''archive''] \<notin> set w_outs" "is_file [''archive''] w_tree"
    by (simp_all add: w_outs_def w_tree_def antichain_def room_for_def w_ancestors is_file_def)
  from monitoring_pipeline_on_disk [where rep = "\<lambda>_. []", OF w_reads(1) w_input_snapshot w_sn_doc_ok w_reads(2) m(1) g m(2) w(1) w_outs_def w(2-7)]
  show ?thesis using o w(8) by (auto simp: w_sn_def open_gate_def gate_field_def get_default_def gate_id_def)
qed

subsection \<open>Reports, failover and generated files\<close>

definition w_status_tree :: tree where
  "w_status_tree = \<lparr>tr_files = [([''sessions.json''], utf8_encode (document w_frep (JArr [])))], tr_dirs = [[]]\<rparr>"

lemma w_sessions_read: "read_json [''sessions.json''] w_status_tree = Inr (JArr [])"
  using written_json [of w_status_tree "[''sessions.json'']" w_frep "JArr []"] by (simp add: w_status_tree_def)

lemma w_status_dirs: "tr_dirs w_status_tree = [[]]"
  by (simp add: w_status_tree_def)


definition w_order :: "int \<Rightarrow> json" where
  "w_order q = JObj [(''client_order_id'', JInt 4), (''executed_quantity'', JInt q)]"

lemma w_order_compare: "compare [w_order 5] [w_order 5] = Inr [finding (JInt 4) ''matched'' ''matched'']"
  by code_simp

lemma w_order_reconciled: "reconciled [w_order 5] [w_order 5]"
  by (simp add: reconciled_def order_id_def agrees_def w_order_def jitem_int_def jitem_def jget_int_def get_default_def)

definition w_lease_doc :: json where
  "w_lease_doc = JObj [(''epoch'', JInt 3), (''expires_at_ns'', JInt 20), (''now_ns'', JInt 10), (''owner_id'', JStr ''a'')]"

definition w_orders_tree :: tree where
  "w_orders_tree = \<lparr>tr_files = [([''local.json''], utf8_encode (document w_frep (JArr [w_order 5]))),
     ([''venue.json''], utf8_encode (document w_frep (JArr [w_order 5]))), ([''lease.json''], utf8_encode (document w_frep w_lease_doc))],
     tr_dirs = [[]]\<rparr>"

lemma w_orders_read:
  "read_json [''local.json''] w_orders_tree = Inr (JArr [w_order 5])"
  "read_json [''venue.json''] w_orders_tree = Inr (JArr [w_order 5])"
  "read_json [''lease.json''] w_orders_tree = Inr w_lease_doc"
proof -
  have "sorted_json (JArr [w_order 5]) = JArr [w_order 5]" "sorted_json w_lease_doc = w_lease_doc" by code_simp+
  moreover have "doc_ok w_frep (JArr [w_order 5])" "doc_ok w_frep w_lease_doc" by (simp_all add: w_order_def w_lease_doc_def)
  ultimately show "read_json [''local.json''] w_orders_tree = Inr (JArr [w_order 5])"
    "read_json [''venue.json''] w_orders_tree = Inr (JArr [w_order 5])" "read_json [''lease.json''] w_orders_tree = Inr w_lease_doc"
    using written_json [of w_orders_tree _ w_frep "JArr [w_order 5]"] written_json [of w_orders_tree _ w_frep w_lease_doc]
    by (simp_all add: w_orders_tree_def)
qed

theorem failover_decided_from_files_witness:
  "\<exists>printed t' result.
       reconcile_script w_frep [''local.json''] [''venue.json''] (Some [''findings.json'']) w_orders_tree = (Inr (printed, 0), t')
     \<and> failover_script (\<lambda>_. []) w_frep [''lease.json''] [''findings.json''] t' = Inr (document w_frep result, 0)
     \<and> jitem result ''action'' = Inr (JStr ''promote_standby'')"
proof -
  have "jget w_lease_doc ''owner_id'' (JStr []) = Inr (JStr ''a'')" "jget_int w_lease_doc ''epoch'' 0 = Inr 3"
    "jget_int w_lease_doc ''expires_at_ns'' 0 = Inr 20" "jget_int w_lease_doc ''now_ns'' 0 = Inr 10"
    by (simp_all add: w_lease_doc_def jget_int_def get_default_def)
  from failover_decided_from_files [where rep = "\<lambda>_. []" and frep = w_frep and findings_path = "[''findings.json'']",
      OF w_orders_read(1,2) w_order_compare w_orders_read(3) this]
  show ?thesis using w_order_reconciled by (auto simp: w_orders_tree_def)
qed

definition w_registers :: json where
  "w_registers = JObj [(''frame_bits'', JInt 16), (''frame_bytes'', JInt 2), (''register_map_version'', JInt 1), (''registers'', JArr
     [JObj [(''bytes'', JInt 2), (''name'', JStr ''limit''), (''offset'', JInt 0)]])]"

definition w_source_tree :: tree where
  "w_source_tree = \<lparr>tr_files = [(register_map_path, utf8_encode (document w_frep w_registers))],
     tr_dirs = [butlast rust_path, butlast package_path, butlast layout_path]\<rparr>"

lemma w_registers_read: "read_json register_map_path w_source_tree = Inr w_registers"
proof -
  have "sorted_json w_registers = w_registers" by code_simp
  then show ?thesis using written_json [of w_source_tree register_map_path w_frep w_registers] by (simp add: w_source_tree_def w_registers_def)
qed

lemma atomic_write_ok:
  assumes "butlast (temporary_name p) \<in> set (tr_dirs t)" "temporary_name p \<notin> set (tr_dirs t)" "p \<notin> set (tr_dirs t)"
  obtains t' where "atomic_write p s t = (Inr (), t')" "tr_dirs t' = tr_dirs t"
  using assms by (simp add: atomic_write_def and_then_def write_text_def write_bytes_def replace_file_def)


end
