(* ===== verification/Spec2Isabelle.thy ===== *)
theory Spec2Isabelle
  imports Portfolio_Witnesses Backtest_Witnesses Itch_Witnesses Infra_Witnesses Gate_Sim_Props Ops_Witnesses Script_Witnesses Disk_Witnesses
begin

text \<open>
  A verification library for the Python part of Ito, an infrastructure for multi-venue trading with
  risk controls. The program is a set of libraries under \<open>src/python\<close> and \<open>src/interfaces\<close> and of
  operational scripts under \<open>src/scripts\<close>. Orders pass the pre-trade checks of the portfolio, are
  simulated by the backtest engines against market data that the feed handler decodes, and are sent
  through gateways and sessions; leases, checkpoints and an event journal make the process
  restartable; keys are kept by a key store and two HSM simulators; scripts reconcile, drill, back
  up, lint, deploy, monitor, benchmark, record provenance and gate releases.

  \<^bold>\<open>Method.\<close> Every operation is a function on explicit state, one definition per function or
  method and one recursive function per loop. A method that mutates an object and can raise returns
  a result of type \<open>exn + 'a\<close> together with the state it leaves, also when it raises. Dictionaries
  are association lists in insertion order (\<open>Prelude\<close>), Python integers are \<open>int\<close>, floats are
  the rationals they denote with IEEE double rounding written out at every operation (\<open>Py_Float\<close>;
  overflow to infinity, NaN and signed zero are outside that model), bytes are 8-bit words
  (\<open>Py_Bytes\<close>), strings are lists of characters (\<open>Py_Str\<close>), and values read from JSON are a
  datatype with Python's dynamically typed operations on it (\<open>Py_Json\<close>). Nearly all loops
  are over finite data and nearly all functions total. The exceptions: the climb of
  \<open>ensure_within_root\<close> is a partial function with an option result, and a theorem shows that it always
  returns; following symbolic links stops after 40 of them, as the kernel does; the JSON parser has
  one more unit of fuel than its text has characters, which the round trip of \<open>Json_Text_Props\<close> shows
  to be enough for every text the scripts write.

  \<^bold>\<open>Parameters.\<close> What is not code of the repository is an argument: \<open>dumps\<close> and \<open>loads\<close> for the
  json module in the stores and journals (the scripts and backups use the model of \<open>Json_Text\<close>), \<open>frep\<close>
  for the text of a float, \<open>toml\<close> for the TOML parser, \<open>sha\<close>, \<open>digest\<close> and \<open>hmac\<close> for hashlib and hmac, \<open>rep\<close> for the text of floats
  and containers, \<open>burn\<close> for what SQLite does with the row number of a failed insert, \<open>code\<close> for
  the exit codes of commands, a record of draws for the random generator. Clock readings, random
  bytes and file contents are arguments too.

  \<^bold>\<open>Theories.\<close>

  \<^item> \<open>Prelude\<close>: exceptions, dictionaries (locale \<open>dictionary\<close>, interpreted on association lists),
    and the locales \<open>history_machine\<close> and \<open>step_machine\<close> that lift what one operation keeps to
    whole runs; nearly every invariant below is an interpretation of one of them.
  \<^item> \<open>Json_Text\<close>: \<open>json.dumps\<close> with sorted keys in the three styles the code uses, \<open>json.loads\<close> and
    UTF-8 as functions on characters and bytes; \<open>Json_Text_Props\<close>: every document whose floats read
    back is read back with its members sorted.
  \<^item> \<open>Factor_Model\<close>, \<open>Portfolio\<close> model \<open>python/portfolio/portfolio.py\<close>; \<open>Portfolio_Props\<close>: approved orders
    fill within the limits, gated trading never breaches, shorts need permission and locates, the
    average price stays in the traded range; \<open>Portfolio_Pnl\<close>: fills conserve equity, snapshots raise
    exactly for missing marks, and risk figures are ordered.
  \<^item> \<open>Backtest\<close> models \<open>python/backtest/engine.py\<close>; \<open>Backtest_Props\<close> (locale \<open>fill_ledger\<close>,
    interpreted on both engines) and \<open>Microstructure_Props\<close>: bounded position, price priority,
    limit prices, conservation of size, independence of the order in which feeds are merged.
  \<^item> \<open>Itch\<close> models \<open>python/connectivity/itch_handler.py\<close>; \<open>Itch_Props\<close>: round trips of messages and
    packets, behaviour on arbitrary bytes; \<open>Tracker_Props\<close>: the incremental ladders refine the
    aggregate of the live orders, capture files round-trip.
  \<^item> \<open>Venue\<close> models \<open>interfaces/venue\<close> and the session of
    \<open>scripts/operations/production_gate_simulations.py\<close>; \<open>Venue_Props\<close> (locale \<open>validated_feed\<close>):
    orders are accepted once, feeds hand out what was validated, replies are numbered, orders only
    move forward.
  \<^item> \<open>Recovery\<close> models \<open>interfaces/recovery\<close> and \<open>python/operations/durable_store.py\<close>;
    \<open>Recovery_Props\<close> (locale \<open>fenced_leases\<close>): tokens, exclusion and take-over;
    \<open>Event_Store_Props\<close>: no event is lost, recovery verifies, snapshots and checkpoints round-trip;
    \<open>Journal_Props\<close>: what the store hands out is accepted by the replay validator.
  \<^item> \<open>Custody\<close> models \<open>interfaces/custody/key_store.py\<close>, \<open>python/operations/hsm_simulator.py\<close> and the
    dual-control HSM of the gate simulations; \<open>Custody_Props\<close>, \<open>Hsm_Props\<close>: key versions,
    signatures that stay valid, dual control, and the operations that can only raise.
  \<^item> \<open>Reconcile\<close> models \<open>python/reconciliation/reconcile.py\<close>, \<open>python/operations/failover_drill.py\<close> and
    \<open>python/replay/replay.py\<close>; \<open>Reconcile_Props\<close>: when local and venue state are reconciled, when a
    standby is promoted, which journals are accepted.
  \<^item> \<open>Routing\<close> models \<open>python/operations/venue_status.py\<close>, \<open>python/connectivity/route_recommendation.py\<close>
    and \<open>python/ops_tools/reconcile_uncertain_orders.py\<close>; \<open>Routing_Props\<close>: exactly the eligible
    routes in order, exactly the unacknowledged orders.
  \<^item> \<open>Monitoring\<close> models the readiness check, the health report and snapshot and both metrics
    exporters; \<open>Monitoring_Props\<close>: what a scraper reads, what the exporter answers, agreement of the
    reports.
  \<^item> \<open>Backup\<close> and \<open>Collect\<close> model \<open>scripts/operations/backup_restore.py\<close>: archive and restore on trees, and
    the collection of files on a file system with symbolic links; \<open>Backup_Props\<close>: archives restore,
    and a restore writes only verified content; \<open>Collect_Props\<close>: a backup always ends, takes exactly
    the files below the requested entries and inside the root, and restores to what it was taken from.
  \<^item> \<open>Config\<close> models releases, FPGA evidence, release bindings, the key-rotation drill and
    \<open>scripts/generate_risk_interface.py\<close>; \<open>Config_Props\<close>: registers never overlap, bindings and
    deployments are accepted exactly when valid.
  \<^item> \<open>Deploy\<close> models \<open>python/connectivity/config_linter.py\<close>, \<open>scripts/deploy_ito.py\<close> and
    \<open>scripts/operations/portfolio_snapshot.py\<close>; \<open>Deploy_Props\<close>: profiles are accepted exactly when
    safe, nothing is started unless asked; \<open>Pipeline_Props\<close> composes the snapshot script, the health
    report, the exporter and the evidence inspector: a scraped page shows the books and the gates.
  \<^item> \<open>Gate_Sim\<close> models the six simulations of \<open>scripts/operations/production_gate_simulations.py\<close> over
    the session and HSM models; \<open>Gate_Sim_Props\<close>: what decides their status; \<open>Exit_Codes\<close>: the exit
    statuses of the readiness check, the gate simulations and the order reconciliation.
  \<^item> \<open>Benchmark\<close> models \<open>scripts/benchmark_multibranch.py\<close> and \<open>scripts/run_benchmark_suite.py\<close>,
    \<open>Benchmark_Report\<close> the two renderers; \<open>Benchmark_Props\<close>: the statistics are sound in spite of
    float rounding, the timeline has no gaps, and every document the scripts write renders.
  \<^item> \<open>Provenance\<close> models \<open>scripts/operations/generate_sbom.py\<close>, \<open>inspect_evidence.py\<close>,
    \<open>scripts/check_no_comments.py\<close>, \<open>scripts/check_hardware_response.py\<close> and \<open>sitecustomize.py\<close>;
    \<open>Provenance_Props\<close> (locale \<open>framed\<close>, interpreted on the frames of the source digest): the digest
    identifies the sources, and the evidence inspection accepts exactly the faithful restorations.
  \<^item> \<open>Scripts\<close> models the \<open>main\<close> functions of the operational scripts on a directory tree: which files
    they read, the texts they write and print, their exit statuses and the exceptions they turn into
    messages. \<open>Scripts_Props\<close> (locales \<open>file_writer\<close>, interpreted on the three ways of writing a file, and
    \<open>reporting_script\<close>, interpreted on the five scripts with an optional report): the scripts change
    only their reports, generated files are never torn, the failover drill decides on what the
    reconciliation wrote, and the monitoring pipeline shows the books and the gates on its page.
  \<^item> \<open>Portfolio_Witnesses\<close>, \<open>Backtest_Witnesses\<close>, \<open>Itch_Witnesses\<close>, \<open>Infra_Witnesses\<close>,
    \<open>Ops_Witnesses\<close>, \<open>Script_Witnesses\<close> and \<open>Disk_Witnesses\<close> apply the theorems that have hypotheses to concrete inputs.

  \<^bold>\<open>Not modelled.\<close> Package glue (re-exports), argument parsing (scripts get their arguments parsed),
  the files of the scripts \<open>Scripts\<close> leaves out (benchmarks, deployment, linter and evidence inspection
  take their inputs as values), the text of operating-system errors, characters beyond the first 256
  code points, starting subprocesses (their exit codes and outputs are
  arguments), the plotting library's drawing, HTTP serving, SQLite durability, compression,
  permissions and hard links of backups, and the C++, Rust, OCaml and SystemVerilog parts.
\<close>

end
